(* ===== verification/Prelude.thy ===== *)
theory Prelude
  imports "HOL-Library.Multiset"
begin

text \<open>
  What the components share: collections of proof rules and the JavaScript
  idioms the modelled code is written in. An object used as a table
  (\<open>Record<string, T>\<close>) is an association list in insertion order; a
  \<open>Map\<close> that is only read is a function to \<open>option\<close>.
\<close>

named_theorems wf_intros \<open>well-formedness of a component's state, kept by its operations\<close>
named_theorems frame_simps \<open>the parts of a state an operation leaves alone\<close>

section \<open>Objects as tables\<close>

type_synonym 'v obj = "(string \<times> 'v) list"

fun obj_get :: "'v obj \<Rightarrow> string \<Rightarrow> 'v option" where
  "obj_get [] k = None"
| "obj_get ((k', v) # m) k = (if k = k' then Some v else obj_get m k)"

text \<open>An assignment to a key that is there keeps its place; a new key goes last.\<close>

fun obj_set :: "'v obj \<Rightarrow> string \<Rightarrow> 'v \<Rightarrow> 'v obj" where
  "obj_set [] k v = [(k, v)]"
| "obj_set ((k', v') # m) k v = (if k = k' then (k', v) # m else (k', v') # obj_set m k v)"

definition obj_del :: "'v obj \<Rightarrow> string \<Rightarrow> 'v obj" where
  "obj_del m k = filter (\<lambda>kv. fst kv \<noteq> k) m"

lemma obj_get_set [simp]: "obj_get (obj_set m k v) k' = (if k' = k then Some v else obj_get m k')"
  by (induction m k v rule: obj_set.induct) auto

lemma obj_get_del [simp]: "obj_get (obj_del m k) k' = (if k' = k then None else obj_get m k')"
  by (induction m) (auto simp: obj_del_def)

lemma obj_get_None: "obj_get m k = None \<longleftrightarrow> k \<notin> fst ` set m"
  by (induction m k rule: obj_get.induct) auto

lemma obj_keys_set: "fst ` set (obj_set m k v) = insert k (fst ` set m)"
  by (induction m k v rule: obj_set.induct) auto

lemma obj_distinct_set: "distinct (map fst m) \<Longrightarrow> distinct (map fst (obj_set m k v))"
proof (induction m k v rule: obj_set.induct)
  case (2 k' v' m k v)
  then show ?case using obj_keys_set [of m k v] by (auto simp: image_iff)
qed simp

lemma obj_set_same: "obj_get m k = Some v \<Longrightarrow> obj_set m k v = m"
  by (induction m k v rule: obj_set.induct) (auto split: if_splits)

section \<open>Lists\<close>

text \<open>\<open>xs.findIndex(p)\<close>, with \<open>None\<close> for -1.\<close>

fun find_index :: "('a \<Rightarrow> bool) \<Rightarrow> 'a list \<Rightarrow> nat option" where
  "find_index p [] = None"
| "find_index p (x # xs) = (if p x then Some 0 else map_option Suc (find_index p xs))"

text \<open>\<open>xs[i]\<close>: undefined past the end.\<close>

definition nth_opt :: "'a list \<Rightarrow> nat \<Rightarrow> 'a option" where
  "nth_opt xs i = (if i < length xs then Some (xs ! i) else None)"

text \<open>\<open>xs.slice(-n)\<close> for a positive \<open>n\<close>: the last \<open>n\<close>.\<close>

definition take_last :: "nat \<Rightarrow> 'a list \<Rightarrow> 'a list" where
  "take_last n xs = drop (length xs - n) xs"

text \<open>\<open>[...new Set(xs)]\<close>: each value once, where it first stands.\<close>

fun uniq :: "'a list \<Rightarrow> 'a list" where
  "uniq [] = []"
| "uniq (x # xs) = x # filter (\<lambda>y. y \<noteq> x) (uniq xs)"

text \<open>The first element that satisfies \<open>p\<close>, changed by \<open>f\<close> in its place.\<close>

fun update_first :: "('a \<Rightarrow> bool) \<Rightarrow> ('a \<Rightarrow> 'a) \<Rightarrow> 'a list \<Rightarrow> 'a list" where
  "update_first p f [] = []"
| "update_first p f (x # xs) = (if p x then f x # xs else x # update_first p f xs)"

text \<open>The first element that satisfies \<open>p\<close>, taken out.\<close>

fun remove_first :: "('a \<Rightarrow> bool) \<Rightarrow> 'a list \<Rightarrow> 'a list" where
  "remove_first p [] = []"
| "remove_first p (x # xs) = (if p x then xs else x # remove_first p xs)"

lemma find_index_Some:
  "find_index p xs = Some i \<Longrightarrow> i < length xs \<and> p (xs ! i) \<and> List.find p xs = Some (xs ! i)"
  by (induction xs arbitrary: i) (auto split: if_splits)

lemma find_index_None: "find_index p xs = None \<longleftrightarrow> (\<forall>x \<in> set xs. \<not> p x)"
  by (induction xs) auto

lemma nth_opt_in: "i < length xs \<Longrightarrow> \<exists>x. nth_opt xs i = Some x \<and> x \<in> set xs"
  by (simp add: nth_opt_def)

lemma nth_opt_mem: "nth_opt xs i = Some x \<Longrightarrow> x \<in> set xs"
  by (auto simp: nth_opt_def split: if_splits)

lemma find_SomeD: "List.find p xs = Some x \<Longrightarrow> x \<in> set xs \<and> p x"
  by (induction xs) (auto split: if_splits)

lemma find_None: "List.find p xs = None \<longleftrightarrow> (\<forall>x \<in> set xs. \<not> p x)"
  by (induction xs) auto

lemma take_last_set: "set (take_last n xs) \<subseteq> set xs"
  by (simp add: take_last_def set_drop_subset)

lemma length_take_last [simp]: "length (take_last n xs) = min n (length xs)"
  by (auto simp: take_last_def)

lemma set_uniq [simp]: "set (uniq xs) = set xs"
  by (induction xs) auto

lemma distinct_uniq [simp]: "distinct (uniq xs)"
  by (induction xs) auto

lemma uniq_id: "distinct xs \<Longrightarrow> uniq xs = xs"
  by (induction xs) (auto simp: filter_id_conv)

lemma map_update_first_same:
  "(\<And>x. g (f x) = g x) \<Longrightarrow> map g (update_first p f xs) = map g xs"
  by (induction xs) auto

lemma map_remove_first_distinct:
  "distinct (map g xs) \<Longrightarrow> distinct (map g (remove_first p xs))"
proof (induction xs)
  case (Cons x xs)
  have "set (remove_first p xs) \<subseteq> set xs" for xs by (induction xs) auto
  with Cons show ?case by auto
qed simp

lemma set_remove_first: "set (remove_first p xs) \<subseteq> set xs"
  by (induction xs) auto

lemma set_update_first:
  "x \<in> set (update_first p f xs) \<Longrightarrow> x \<in> set xs \<or> (\<exists>y \<in> set xs. p y \<and> x = f y)"
  by (induction xs) (auto split: if_splits)

lemma remove_first_key:
  "distinct (map g xs) \<Longrightarrow> x \<in> set (remove_first (\<lambda>y. g y = k) xs) \<longleftrightarrow> x \<in> set xs \<and> g x \<noteq> k"
  by (induction xs) (auto simp: image_iff)

lemma find_update_first:
  assumes "\<And>x. p x \<Longrightarrow> p (f x)"
  shows "List.find p (update_first p f xs) = map_option f (List.find p xs)"
  using assms by (induction xs) auto

lemma distinct_map_filter: "distinct (map g xs) \<Longrightarrow> distinct (map g (filter p xs))"
  by (induction xs) auto

lemma take_append_front: "length (take n (x # xs)) \<le> n"
  by simp

lemma map_filter_Some: "(\<And>x. f (g x) = Some x) \<Longrightarrow> List.map_filter f (map g xs) = xs"
  by (induction xs) (simp_all add: List.map_filter_simps)

lemma map_filter_back: "\<forall>x \<in> set xs. f (g x) = Some x \<Longrightarrow> List.map_filter f (map g xs) = xs"
  by (induction xs) (simp_all add: List.map_filter_simps)

lemma map_filter_all: "(\<And>x y. f x = Some y \<Longrightarrow> P y) \<Longrightarrow> list_all P (List.map_filter f xs)"
  by (induction xs) (auto simp: List.map_filter_simps split: option.split)

lemma list_all_take: "list_all P xs \<Longrightarrow> list_all P (take n xs)"
  by (auto simp: list_all_iff dest: in_set_takeD)

lemma filter_length_bound: "length xs \<le> n \<Longrightarrow> length (filter P xs) \<le> n"
  by (rule le_trans [OF length_filter_le])

lemma filter_neq_id: "x \<notin> set xs \<Longrightarrow> filter (\<lambda>y. y \<noteq> x) xs = xs"
  by (induction xs) auto

lemma uniq_Nil [simp]: "uniq xs = [] \<longleftrightarrow> xs = []"
  by (cases xs) auto

text \<open>\<open>s.startsWith(p)\<close>\<close>

definition starts_with :: "'a list \<Rightarrow> 'a list \<Rightarrow> bool" where
  "starts_with s p = (take (length p) s = p)"

text \<open>\<open>xs.sort(f)\<close>, stable, where \<open>lt x y\<close> is \<open>f(x, y) < 0\<close>.\<close>

fun insert_sorted :: "('a \<Rightarrow> 'a \<Rightarrow> bool) \<Rightarrow> 'a \<Rightarrow> 'a list \<Rightarrow> 'a list" where
  "insert_sorted lt x [] = [x]"
| "insert_sorted lt x (y # ys) = (if lt y x then y # insert_sorted lt x ys else x # y # ys)"

definition js_sort :: "('a \<Rightarrow> 'a \<Rightarrow> bool) \<Rightarrow> 'a list \<Rightarrow> 'a list" where
  "js_sort lt xs = foldr (insert_sorted lt) xs []"

lemma mset_insert_sorted: "mset (insert_sorted lt x ys) = add_mset x (mset ys)"
  by (induction ys) auto

lemma mset_js_sort [simp]: "mset (js_sort lt xs) = mset xs"
  by (induction xs) (simp_all add: js_sort_def mset_insert_sorted)

lemma set_js_sort [simp]: "set (js_sort lt xs) = set xs"
  by (metis mset_js_sort set_mset_mset)

lemma length_js_sort [simp]: "length (js_sort lt xs) = length xs"
  by (metis mset_js_sort size_mset)

text \<open>A sorted list has no element before a smaller one, for an order that is total enough.\<close>

lemma sorted_insert_sorted:
  assumes "\<And>x y z. \<not> lt y x \<Longrightarrow> \<not> lt z y \<Longrightarrow> \<not> lt z x" "\<And>x y. lt x y \<Longrightarrow> \<not> lt y x"
    "sorted_wrt (\<lambda>a b. \<not> lt b a) ys"
  shows "sorted_wrt (\<lambda>a b. \<not> lt b a) (insert_sorted lt x ys)"
  using assms(3)
proof (induction ys)
  case (Cons y ys)
  have s: "set (insert_sorted lt x ys) = insert x (set ys)"
    by (metis mset_insert_sorted set_mset_add_mset_insert set_mset_mset)
  show ?case
  proof (cases "lt y x")
    case True
    with assms(2) Cons show ?thesis by (simp add: s)
  next
    case False
    with Cons.prems have "\<not> lt z x" if "z \<in> set ys" for z
      using that by (intro assms(1) [of y x z]) simp_all
    with False Cons.prems show ?thesis by simp
  qed
qed simp

lemma sorted_js_sort:
  assumes "\<And>x y z. \<not> lt y x \<Longrightarrow> \<not> lt z y \<Longrightarrow> \<not> lt z x" "\<And>x y. lt x y \<Longrightarrow> \<not> lt y x"
  shows "sorted_wrt (\<lambda>a b. \<not> lt b a) (js_sort lt xs)"
proof (induction xs)
  case (Cons x xs)
  have "js_sort lt (x # xs) = insert_sorted lt x (js_sort lt xs)" by (simp add: js_sort_def)
  then show ?case by (simp only:) (rule sorted_insert_sorted [OF assms Cons.IH])
qed (simp add: js_sort_def)

end
