(* ===== verification/Js_Num.thy ===== *)
theory Js_Num
  imports Complex_Main
begin

text \<open>
  JavaScript numbers. A finite number is the rational a binary64 value stands for, and every
  operation rounds its exact result to the nearest such value, ties to even, as IEEE 754
  has it. The first section proves what rounding keeps: order, sign, the integers up to
  \<open>2 ^ 53\<close>, and that a difference of two different values is not rounded away.
  The others define the numbers and their operations with the comparison rules of NaN, and
  numbers as text: \<open>String\<close>, \<open>toFixed\<close> and \<open>Number\<close>.
  Everything computes.
\<close>

section \<open>Rounding to binary64\<close>

function bits :: "int \<Rightarrow> nat" where
  "bits n = (if n \<le> 0 then 0 else Suc (bits (n div 2)))"
  by pat_completeness auto
termination
  by (relation "measure nat") auto

declare bits.simps [simp del]

definition ilog2 :: "rat \<Rightarrow> int" where
  "ilog2 q = (case quotient_of q of (n, d) \<Rightarrow>
     (let k = int (bits n) - int (bits d)
      in if 2 powi k \<le> q then k else k - 1))"

definition ulp_exp :: "rat \<Rightarrow> int" where
  "ulp_exp q = (if q = 0 then - 1074 else max (- 1074) (ilog2 \<bar>q\<bar> - 52))"

definition round_even :: "rat \<Rightarrow> int" where
  "round_even r =
     (let f = \<lfloor>r\<rfloor>; t = 2 * (r - of_int f)
      in if t < 1 then f else if 1 < t then f + 1 else if even f then f else f + 1)"

definition rnd :: "rat \<Rightarrow> rat" where
  "rnd q = of_int (round_even (q / 2 powi (ulp_exp q))) * 2 powi (ulp_exp q)"

lemma bits_bounds: "0 < n \<Longrightarrow> 2 ^ (bits n - 1) \<le> n \<and> n < 2 ^ bits n \<and> 0 < bits n"
proof (induction n rule: bits.induct)
  case (1 n)
  show ?case
  proof (cases "n div 2 \<le> 0")
    case True
    with 1(2) have "n = 1" by auto
    then show ?thesis by (simp add: bits.simps)
  next
    case False
    with 1 have IH: "2 ^ (bits (n div 2) - 1) \<le> n div 2" "n div 2 < 2 ^ bits (n div 2)" "0 < bits (n div 2)"
      by auto
    have b: "bits n = Suc (bits (n div 2))" using 1(2) by (subst bits.simps) simp
    from IH(3) obtain k where k: "bits (n div 2) = Suc k" by (cases "bits (n div 2)") auto
    from IH k show ?thesis by (auto simp: b)
  qed
qed

lemma ilog2_bounds:
  assumes "0 < q"
  shows "2 powi (ilog2 q) \<le> q \<and> q < 2 powi (ilog2 q + 1)"
proof -
  obtain n d where nd: "quotient_of q = (n, d)" by (cases "quotient_of q")
  have d0: "0 < d" using nd by (rule quotient_of_denom_pos)
  have q: "q = of_int n / of_int d" using nd by (rule quotient_of_div)
  have n0: "0 < n" using assms d0 unfolding q by (simp add: zero_less_divide_iff)
  define a where "a = bits n"
  define b where "b = bits d"
  have A: "2 ^ (a - 1) \<le> n" "n < 2 ^ a" "0 < a"
    using bits_bounds [OF n0] by (auto simp: a_def)
  have B: "2 ^ (b - 1) \<le> d" "d < 2 ^ b" "0 < b"
    using bits_bounds [OF d0] by (auto simp: b_def)
  have rat_le: "(2::rat) ^ (a - 1) \<le> of_int n" "of_int n < (2::rat) ^ a"
    "(2::rat) ^ (b - 1) \<le> of_int d" "of_int d < (2::rat) ^ b"
  proof -
    have "of_int (2 ^ (a - 1)) \<le> (of_int n :: rat)" using A(1) by (simp only: of_int_le_iff)
    then show "(2::rat) ^ (a - 1) \<le> of_int n" by simp
    have "(of_int n :: rat) < of_int (2 ^ a)" using A(2) by (simp only: of_int_less_iff)
    then show "of_int n < (2::rat) ^ a" by simp
    have "of_int (2 ^ (b - 1)) \<le> (of_int d :: rat)" using B(1) by (simp only: of_int_le_iff)
    then show "(2::rat) ^ (b - 1) \<le> of_int d" by simp
    have "(of_int d :: rat) < of_int (2 ^ b)" using B(2) by (simp only: of_int_less_iff)
    then show "of_int d < (2::rat) ^ b" by simp
  qed
  have dpos: "(0::rat) < of_int d" using d0 by simp
  have up: "q < 2 powi (int a - int b + 1)"
  proof -
    have "of_int n < (2::rat) ^ a" by fact
    also have "(2::rat) ^ a = 2 powi (int a - int b + 1) * 2 ^ (b - 1)"
      using B(3) by (simp add: power_int_def [symmetric] flip: power_int_add power_int_of_nat)
    also have "\<dots> \<le> 2 powi (int a - int b + 1) * of_int d"
      using rat_le(3) by (intro mult_left_mono) auto
    finally show ?thesis unfolding q using dpos by (simp add: pos_divide_less_eq)
  qed
  have low: "2 powi (int a - int b - 1) \<le> q"
  proof -
    have "2 powi (int a - int b - 1) * of_int d \<le> 2 powi (int a - int b - 1) * (2::rat) ^ b"
      using rat_le(4) by (intro mult_left_mono) auto
    also have "\<dots> = (2::rat) ^ (a - 1)"
      using A(3) by (simp flip: power_int_add power_int_of_nat)
    also have "\<dots> \<le> of_int n" by fact
    finally show ?thesis unfolding q using dpos by (simp add: pos_le_divide_eq)
  qed
  show ?thesis
    using up low by (auto simp: ilog2_def nd a_def [symmetric] b_def [symmetric] Let_def)
qed

lemma p2_less_iff [simp]: "(2::rat) powi a < 2 powi b \<longleftrightarrow> a < b"
  by (metis linorder_neqE linorder_not_less one_le_numeral one_less_numeral_iff order_less_irrefl
      order_less_imp_le power_int_increasing power_int_strict_increasing semiring_norm(76))

lemma p2_le_iff [simp]: "(2::rat) powi a \<le> 2 powi b \<longleftrightarrow> a \<le> b"
  using p2_less_iff [of b a] by linarith

lemma p2_split: "e \<le> k \<Longrightarrow> (2::rat) powi k = of_int (2 ^ nat (k - e)) * 2 powi e"
  by (simp flip: power_int_add power_int_of_nat)

lemma ilog2_unique:
  assumes "2 powi k \<le> q" "q < 2 powi (k + 1)"
  shows "ilog2 q = k"
proof -
  have "0 < (2::rat) powi k" by simp
  with assms(1) have q: "0 < q" by linarith
  note b = ilog2_bounds [OF q]
  have "(2::rat) powi (ilog2 q) < 2 powi (k + 1)" using b assms(2) by linarith
  moreover have "(2::rat) powi k < 2 powi (ilog2 q + 1)" using b assms(1) by linarith
  ultimately show ?thesis by (simp add: p2_less_iff)
qed

lemma ilog2_mono: "0 < p \<Longrightarrow> p \<le> q \<Longrightarrow> ilog2 p \<le> ilog2 q"
proof -
  assume p: "0 < p" and pq: "p \<le> q"
  have "2 powi (ilog2 p) \<le> p" using ilog2_bounds [OF p] by simp
  also have "p < 2 powi (ilog2 q + 1)" using ilog2_bounds [of q] p pq by linarith
  finally have "ilog2 p < ilog2 q + 1" by simp
  then show ?thesis by simp
qed

lemma ulp_exp_ge: "- 1074 \<le> ulp_exp q"
  by (simp add: ulp_exp_def)

lemma ulp_exp_minus [simp]: "ulp_exp (- q) = ulp_exp q"
  by (simp add: ulp_exp_def)

lemma ulp_exp_mono: "0 < p \<Longrightarrow> p \<le> q \<Longrightarrow> ulp_exp p \<le> ulp_exp q"
  using ilog2_mono [of p q] by (auto simp: ulp_exp_def)

lemma below_ulp: "\<bar>q\<bar> < 2 powi (ulp_exp q + 53)"
proof (cases "q = 0")
  case False
  then have "\<bar>q\<bar> < 2 powi (ilog2 \<bar>q\<bar> + 1)" using ilog2_bounds [of "\<bar>q\<bar>"] by simp
  also have "\<dots> \<le> 2 powi (ulp_exp q + 53)"
    using False by (simp add: ulp_exp_def p2_le_iff)
  finally show ?thesis .
qed simp

lemma round_even_of_int [simp]: "round_even (of_int k) = k"
  by (simp add: round_even_def)

lemma round_even_near: "\<bar>of_int (round_even r) - r\<bar> \<le> 1 / 2"
proof -
  have "of_int \<lfloor>r\<rfloor> \<le> r" "r < of_int \<lfloor>r\<rfloor> + 1" by linarith+
  then show ?thesis by (simp add: round_even_def Let_def abs_le_iff)
qed

lemma round_even_mono:
  assumes "p \<le> q"
  shows "round_even p \<le> round_even q"
proof (cases "\<lfloor>p\<rfloor> = \<lfloor>q\<rfloor>")
  case True
  with assms show ?thesis by (auto simp: round_even_def Let_def)
next
  case False
  with assms have "\<lfloor>p\<rfloor> + 1 \<le> \<lfloor>q\<rfloor>" using floor_mono [OF assms] by linarith
  then show ?thesis by (auto simp: round_even_def Let_def)
qed

lemma round_even_minus: "round_even (- r) = - round_even r"
proof (cases "of_int \<lfloor>r\<rfloor> = r")
  case True
  then obtain k where "r = of_int k" by metis
  then show ?thesis by (metis of_int_minus round_even_of_int)
next
  case False
  then have f: "\<lfloor>- r\<rfloor> = - \<lfloor>r\<rfloor> - 1" by linarith
  show ?thesis by (auto simp: round_even_def Let_def f)
qed

lemma rnd_0 [simp]: "rnd 0 = 0"
  using round_even_of_int [of 0] by (simp add: rnd_def)

lemma rnd_minus [simp]: "rnd (- q) = - rnd q"
  using round_even_minus [of "q / 2 powi (ulp_exp q)"] by (simp add: rnd_def)

lemma rnd_fixed:
  assumes "q = of_int m * 2 powi k" "- 1074 \<le> k" "\<bar>m\<bar> \<le> 2 ^ 53"
  shows "rnd q = q"
proof (cases "m = 0")
  case True
  then show ?thesis using assms(1) by simp
next
  case m0: False
  have le: "ulp_exp q \<le> k" if "\<bar>m\<bar> < 2 ^ 53" "q = of_int m * 2 powi k" "- 1074 \<le> k" "m \<noteq> 0" for m k
  proof -
    have q0: "0 < \<bar>q\<bar>" using that by simp
    have "\<bar>q\<bar> = of_int \<bar>m\<bar> * 2 powi k" using that by (simp add: abs_mult)
    also have "\<dots> < 2 ^ 53 * 2 powi k"
    proof (intro mult_strict_right_mono)
      have "(of_int \<bar>m\<bar> :: rat) < of_int (2 ^ 53)" using that(1) by (simp only: of_int_less_iff)
      then show "(of_int \<bar>m\<bar> :: rat) < 2 ^ 53" by simp
    qed simp
    also have "\<dots> = 2 powi (53 + k)" by (simp add: power_int_add)
    finally have "\<bar>q\<bar> < 2 powi (53 + k)" .
    moreover have "2 powi (ilog2 \<bar>q\<bar>) \<le> \<bar>q\<bar>" using ilog2_bounds [OF q0] by simp
    ultimately have "(2::rat) powi (ilog2 \<bar>q\<bar>) < 2 powi (53 + k)" by linarith
    then have "ilog2 \<bar>q\<bar> < 53 + k" by (simp add: p2_less_iff)
    with that(3) show ?thesis by (simp add: ulp_exp_def)
  qed
  have int: "rnd q = q" if "ulp_exp q \<le> k" "q = of_int m * 2 powi k" for m k
  proof -
    define e where "e = ulp_exp q"
    have k: "(2::rat) powi k = 2 powi e * 2 ^ nat (k - e)"
      using that(1) by (simp add: e_def flip: power_int_add power_int_of_nat)
    have "q / 2 powi e = of_int (m * 2 ^ nat (k - e))"
      unfolding that(2) k by simp
    then have "rnd q = of_int (m * 2 ^ nat (k - e)) * 2 powi e"
      unfolding rnd_def e_def [symmetric] by (simp only: round_even_of_int)
    with k that(2) show ?thesis by simp
  qed
  show ?thesis
  proof (cases "\<bar>m\<bar> < 2 ^ 53")
    case True
    from int [OF le [OF True assms(1,2) m0] assms(1)] show ?thesis .
  next
    case False
    with assms(3) have "\<bar>m\<bar> = 2 ^ 53" by linarith
    then have m: "m = sgn m * 2 ^ 53" by (metis mult_sgn_abs)
    have "q = of_int (sgn m) * ((2::rat) ^ 53 * 2 powi k)"
      by (subst assms(1), subst m) (simp only: of_int_mult of_int_power of_int_numeral mult.assoc)
    also have "(2::rat) ^ 53 * 2 powi k = 2 powi (k + 53)" by (simp add: power_int_add)
    finally have q: "q = of_int (sgn m) * 2 powi (k + 53)" .
    have "ulp_exp q \<le> k + 53"
      by (rule le [OF _ q]) (use m0 assms(2) in \<open>auto simp: abs_sgn_eq sgn_if\<close>)
    then show ?thesis using q by (rule int)
  qed
qed

lemma rnd_repr: "\<exists>m k. rnd q = of_int m * 2 powi k \<and> - 1074 \<le> k \<and> \<bar>m\<bar> \<le> 2 ^ 53"
proof -
  define e where "e = ulp_exp q"
  define m where "m = round_even (q / 2 powi e)"
  have "\<bar>q\<bar> < 2 powi (e + 53)" unfolding e_def by (rule below_ulp)
  then have "\<bar>q / 2 powi e\<bar> < 2 ^ 53" by (simp add: power_int_add abs_divide pos_divide_less_eq mult.commute)
  then have "q / 2 powi e \<le> of_int (2 ^ 53)" "of_int (- (2 ^ 53)) \<le> q / 2 powi e"
    unfolding abs_less_iff by simp_all
  from this [THEN round_even_mono] have "\<bar>m\<bar> \<le> 2 ^ 53"
    unfolding round_even_of_int m_def [symmetric] by simp
  moreover have "rnd q = of_int m * 2 powi e" by (simp add: rnd_def m_def e_def)
  moreover have "- 1074 \<le> e" by (simp add: e_def ulp_exp_ge)
  ultimately show ?thesis by blast
qed

lemma rnd_rnd [simp]: "rnd (rnd q) = rnd q"
  using rnd_repr [of q] rnd_fixed by blast

lemma rnd_le_power:
  assumes "0 \<le> q" "q \<le> 2 powi k" "ulp_exp q \<le> k"
  shows "rnd q \<le> 2 powi k"
proof -
  define e where "e = ulp_exp q"
  have k: "(2::rat) powi k = of_int (2 ^ nat (k - e)) * 2 powi e"
    using assms(3) unfolding e_def by (rule p2_split)
  then have "q / 2 powi e \<le> of_int (2 ^ nat (k - e))"
    using assms(2) by (simp add: pos_divide_le_eq)
  from round_even_mono [OF this] have "round_even (q / 2 powi e) \<le> 2 ^ nat (k - e)"
    unfolding round_even_of_int .
  then have "(of_int (round_even (q / 2 powi e)) :: rat) \<le> of_int (2 ^ nat (k - e))"
    by (simp only: of_int_le_iff)
  then show ?thesis
    unfolding k rnd_def e_def [symmetric] by (intro mult_right_mono) auto
qed

lemma rnd_ge_power:
  assumes "2 powi k \<le> q" "ulp_exp q \<le> k"
  shows "2 powi k \<le> rnd q"
proof -
  define e where "e = ulp_exp q"
  have k: "(2::rat) powi k = of_int (2 ^ nat (k - e)) * 2 powi e"
    using assms(2) unfolding e_def by (rule p2_split)
  then have "of_int (2 ^ nat (k - e)) \<le> q / 2 powi e"
    using assms(1) by (simp add: pos_le_divide_eq)
  from round_even_mono [OF this] have "2 ^ nat (k - e) \<le> round_even (q / 2 powi e)"
    unfolding round_even_of_int .
  then have "(of_int (2 ^ nat (k - e)) :: rat) \<le> of_int (round_even (q / 2 powi e))"
    by (simp only: of_int_le_iff)
  then show ?thesis
    unfolding k rnd_def e_def [symmetric] by (intro mult_right_mono) auto
qed

lemma rnd_mono_pos:
  assumes "0 < p" "p \<le> q"
  shows "rnd p \<le> rnd q"
proof (cases "ulp_exp p = ulp_exp q")
  case True
  have "p / 2 powi ulp_exp q \<le> q / 2 powi ulp_exp q" using assms by (simp add: divide_right_mono)
  from round_even_mono [OF this] show ?thesis
    by (simp add: rnd_def True mult_right_mono)
next
  case False
  with ulp_exp_mono [OF assms] have lt: "ulp_exp p < ulp_exp q" by simp
  then have eq: "ulp_exp q = ilog2 q - 52"
    using ulp_exp_ge [of p] assms by (auto simp: ulp_exp_def split: if_splits)
  have "p < 2 powi (ulp_exp p + 53)" using below_ulp [of p] assms by simp
  also have "\<dots> \<le> 2 powi (ilog2 q)" using lt eq by simp
  finally have "rnd p \<le> 2 powi (ilog2 q)"
    using assms lt eq by (intro rnd_le_power) auto
  also have "\<dots> \<le> rnd q"
    using ilog2_bounds [of q] assms eq by (intro rnd_ge_power) auto
  finally show ?thesis .
qed

lemma rnd_nonneg: "0 \<le> q \<Longrightarrow> 0 \<le> rnd q"
proof -
  assume "0 \<le> q"
  then have "of_int 0 \<le> q / 2 powi (ulp_exp q)" by simp
  from round_even_mono [OF this] show ?thesis unfolding round_even_of_int by (simp add: rnd_def)
qed

lemma rnd_mono:
  assumes "p \<le> q"
  shows "rnd p \<le> rnd q"
proof -
  consider "0 < p" | "p \<le> 0" "0 \<le> q" | "q < 0" using assms by linarith
  then show ?thesis
  proof cases
    case 1
    then show ?thesis using rnd_mono_pos assms by simp
  next
    case 2
    then have "0 \<le> rnd (- p)" "0 \<le> rnd q" by (simp_all only: rnd_nonneg neg_0_le_iff_le)
    then show ?thesis by simp
  next
    case 3
    with assms have "rnd (- q) \<le> rnd (- p)" by (intro rnd_mono_pos) auto
    then show ?thesis by simp
  qed
qed

lemma rnd_of_int: "\<bar>m\<bar> \<le> 2 ^ 53 \<Longrightarrow> rnd (of_int m) = of_int m"
  by (rule rnd_fixed [of _ m 0]) auto

lemma fixed_grid:
  assumes "rnd q = q"
  shows "\<exists>m. q = of_int m * 2 powi (- 1074)"
proof -
  obtain m k where "q = of_int m * 2 powi k" "- 1074 \<le> k" using rnd_repr [of q] assms by auto
  then have "q = of_int (m * 2 ^ nat (k - (- 1074))) * 2 powi (- 1074)"
    using p2_split [of "- 1074" k] by (simp only: of_int_mult mult.assoc)
  then show ?thesis by blast
qed

lemma rnd_sub_pos:
  assumes "rnd p = p" "rnd q = q" "p < q"
  shows "0 < rnd (q - p)"
proof -
  obtain a b where ab: "p = of_int a * 2 powi (- 1074)" "q = of_int b * 2 powi (- 1074)"
    using fixed_grid assms by blast
  have "a < b" using assms(3) by (simp add: ab)
  then have "1 \<le> b - a" by simp
  then have "(1::rat) \<le> of_int (b - a)" by linarith
  then have "1 * 2 powi (- 1074) \<le> of_int (b - a) * (2::rat) powi (- 1074)"
    by (intro mult_right_mono) auto
  then have "2 powi (- 1074) \<le> q - p" by (simp add: ab left_diff_distrib)
  from rnd_mono [OF this] have "rnd (2 powi (- 1074)) \<le> rnd (q - p)" .
  moreover have "rnd (2 powi (- 1074)) = 2 powi (- 1074)" by (rule rnd_fixed [of _ 1 "- 1074"]) auto
  moreover have "(0::rat) < 2 powi (- 1074)" by simp
  ultimately show ?thesis by linarith
qed

section \<open>Numbers\<close>

text \<open>
  The values of a JavaScript number: NaN, the infinities and the finite binary64 values,
  each as the rational number it is. Negative zero is not told apart from zero: in the
  modelled code the difference shows only in the sign of a division by it.
\<close>

datatype jsnum = NaN | PInf | NInf | Fin rat

text \<open>The number nearest to a rational: what a literal and the result of an operation are.\<close>

definition num :: "rat \<Rightarrow> jsnum" where
  "num q = (let r = rnd q
            in if 2 ^ 1024 \<le> r then PInf else if r \<le> - (2 ^ 1024) then NInf else Fin r)"

definition inf_of :: "rat \<Rightarrow> jsnum" where
  "inf_of s = (if s = 0 then NaN else if 0 < s then PInf else NInf)"

instantiation jsnum :: "{zero, one, plus, minus, uminus, times, inverse, abs, ord}"
begin

definition zero_jsnum :: jsnum where
  "zero_jsnum = Fin 0"

definition one_jsnum :: jsnum where
  "one_jsnum = Fin 1"

fun uminus_jsnum :: "jsnum \<Rightarrow> jsnum" where
  "uminus_jsnum NaN = NaN"
| "uminus_jsnum PInf = NInf"
| "uminus_jsnum NInf = PInf"
| "uminus_jsnum (Fin a) = Fin (- a)"

fun plus_jsnum :: "jsnum \<Rightarrow> jsnum \<Rightarrow> jsnum" where
  "plus_jsnum NaN y = NaN"
| "plus_jsnum x NaN = NaN"
| "plus_jsnum (Fin a) (Fin b) = num (a + b)"
| "plus_jsnum (Fin a) y = y"
| "plus_jsnum x (Fin b) = x"
| "plus_jsnum PInf PInf = PInf"
| "plus_jsnum NInf NInf = NInf"
| "plus_jsnum x y = NaN"

definition minus_jsnum :: "jsnum \<Rightarrow> jsnum \<Rightarrow> jsnum" where
  "minus_jsnum x y = x + - y"

fun sign_rat :: "jsnum \<Rightarrow> rat" where
  "sign_rat NaN = 0"
| "sign_rat PInf = 1"
| "sign_rat NInf = - 1"
| "sign_rat (Fin a) = sgn a"

fun times_jsnum :: "jsnum \<Rightarrow> jsnum \<Rightarrow> jsnum" where
  "times_jsnum NaN y = NaN"
| "times_jsnum x NaN = NaN"
| "times_jsnum (Fin a) (Fin b) = num (a * b)"
| "times_jsnum x y = inf_of (sign_rat x * sign_rat y)"

fun divide_jsnum :: "jsnum \<Rightarrow> jsnum \<Rightarrow> jsnum" where
  "divide_jsnum NaN y = NaN"
| "divide_jsnum x NaN = NaN"
| "divide_jsnum (Fin a) (Fin b) = (if b = 0 then inf_of (sgn a) else num (a / b))"
| "divide_jsnum (Fin a) y = Fin 0"
| "divide_jsnum x (Fin b) = (if b < 0 then - x else x)"
| "divide_jsnum x y = NaN"

definition inverse_jsnum :: "jsnum \<Rightarrow> jsnum" where
  "inverse_jsnum x = 1 div x"

fun abs_jsnum :: "jsnum \<Rightarrow> jsnum" where
  "abs_jsnum NaN = NaN"
| "abs_jsnum PInf = PInf"
| "abs_jsnum NInf = PInf"
| "abs_jsnum (Fin a) = Fin \<bar>a\<bar>"

fun less_jsnum :: "jsnum \<Rightarrow> jsnum \<Rightarrow> bool" where
  "less_jsnum NaN y = False"
| "less_jsnum x NaN = False"
| "less_jsnum (Fin a) (Fin b) = (a < b)"
| "less_jsnum NInf y = (y \<noteq> NInf)"
| "less_jsnum x PInf = (x \<noteq> PInf)"
| "less_jsnum x y = False"

definition less_eq_jsnum :: "jsnum \<Rightarrow> jsnum \<Rightarrow> bool" where
  "less_eq_jsnum x y = (x < y \<or> (x = y \<and> x \<noteq> NaN))"

instance ..

end

text \<open>The comparison \<open>===\<close>: false whenever NaN takes part.\<close>

definition js_eq :: "jsnum \<Rightarrow> jsnum \<Rightarrow> bool" where
  "js_eq x y = (x = y \<and> x \<noteq> NaN)"

fun is_finite :: "jsnum \<Rightarrow> bool" where
  "is_finite (Fin q) = True"
| "is_finite x = False"

definition math_min :: "jsnum \<Rightarrow> jsnum \<Rightarrow> jsnum" where
  "math_min x y = (if x = NaN \<or> y = NaN then NaN else if y < x then y else x)"

definition math_max :: "jsnum \<Rightarrow> jsnum \<Rightarrow> jsnum" where
  "math_max x y = (if x = NaN \<or> y = NaN then NaN else if x < y then y else x)"

fun math_floor :: "jsnum \<Rightarrow> jsnum" where
  "math_floor (Fin q) = Fin (of_int \<lfloor>q\<rfloor>)"
| "math_floor x = x"

fun math_ceil :: "jsnum \<Rightarrow> jsnum" where
  "math_ceil (Fin q) = Fin (of_int \<lceil>q\<rceil>)"
| "math_ceil x = x"

text \<open>\<open>Math.round\<close> takes a tie upwards.\<close>

fun math_round :: "jsnum \<Rightarrow> jsnum" where
  "math_round (Fin q) = Fin (of_int \<lfloor>q + 1 / 2\<rfloor>)"
| "math_round x = x"

fun math_sign :: "jsnum \<Rightarrow> jsnum" where
  "math_sign NaN = NaN"
| "math_sign x = Fin (sign_rat x)"

section \<open>Numbers as text\<close>

definition digit_char :: "int \<Rightarrow> char" where
  "digit_char d = char_of (48 + d)"

definition is_digit :: "char \<Rightarrow> bool" where
  "is_digit c = (48 \<le> (of_char c :: int) \<and> (of_char c :: int) \<le> 57)"

definition digit_val :: "char \<Rightarrow> int" where
  "digit_val c = of_char c - 48"

text \<open>The decimal digits of a natural number, given as an integer.\<close>

function int_str :: "int \<Rightarrow> string" where
  "int_str n = (if n < 10 then [digit_char n] else int_str (n div 10) @ [digit_char (n mod 10)])"
  by pat_completeness auto
termination
  by (relation "measure nat") auto

declare int_str.simps [simp del]

definition read_int :: "string \<Rightarrow> int" where
  "read_int s = foldl (\<lambda>a c. 10 * a + digit_val c) 0 s"

lemma digit_val_char [simp]: "0 \<le> d \<Longrightarrow> d < 10 \<Longrightarrow> digit_val (digit_char d) = d"
  by (simp add: digit_val_def digit_char_def)

lemma is_digit_char [simp]: "0 \<le> d \<Longrightarrow> d < 10 \<Longrightarrow> is_digit (digit_char d)"
  by (simp add: is_digit_def digit_char_def)

lemma read_int_str: "0 \<le> n \<Longrightarrow> read_int (int_str n) = n"
proof (induction n rule: int_str.induct)
  case (1 n)
  show ?case
  proof (cases "n < 10")
    case True
    with 1(2) show ?thesis by (simp add: int_str.simps [of n] read_int_def)
  next
    case False
    with 1 have "read_int (int_str (n div 10)) = n div 10" by simp
    with False show ?thesis by (simp add: int_str.simps [of n] read_int_def)
  qed
qed

lemma int_str_inj: "0 \<le> m \<Longrightarrow> 0 \<le> n \<Longrightarrow> int_str m = int_str n \<longleftrightarrow> m = n"
  by (metis read_int_str)

lemma int_str_digits: "0 \<le> n \<Longrightarrow> list_all is_digit (int_str n)"
proof (induction n rule: int_str.induct)
  case (1 n)
  then show ?case by (cases "n < 10") (simp_all add: int_str.simps [of n])
qed

text \<open>\<open>x.toFixed(d)\<close> below \<open>10 ^ 21\<close>; larger values print as \<open>String(x)\<close> does.\<close>

definition fixed_digits :: "nat \<Rightarrow> rat \<Rightarrow> string" where
  "fixed_digits d q =
     (let m = int_str \<lfloor>q * 10 ^ d + 1 / 2\<rfloor>;
          p = replicate (Suc d - length m) CHR ''0'' @ m
      in if d = 0 then m
         else take (length p - d) p @ ''.'' @ drop (length p - d) p)"

fun strip_zeros :: "string \<Rightarrow> string" where
  "strip_zeros s = rev (dropWhile (\<lambda>c. c = CHR ''0'') (rev s))"

text \<open>The decimal exponent: the \<open>n\<close> with \<open>10 ^ (n - 1) \<le> q < 10 ^ n\<close>.\<close>

definition dec_exp :: "rat \<Rightarrow> int" where
  "dec_exp q = (if 1 \<le> q then int (length (int_str \<lfloor>q\<rfloor>))
                else let c = \<lceil>1 / q\<rceil> in 1 - int (length (int_str (c - 1))))"

text \<open>
  The shortest digits that read back as the number, and the place of the point after them:
  \<open>k\<close> digits are tried from one up, and seventeen always suffice.
\<close>

definition try_digits :: "rat \<Rightarrow> nat \<Rightarrow> int option" where
  "try_digits q k =
     (let n = dec_exp q; p = 10 powi (n - int k); t = q / p; lo = \<lfloor>t\<rfloor>;
          ok = (\<lambda>s::int. 10 ^ (k - 1) \<le> s \<and> rnd (of_int s * p) = q)
      in if ok lo \<and> (t - of_int lo \<le> of_int (lo + 1) - t \<or> \<not> ok (lo + 1)) then Some lo
         else if ok (lo + 1) then Some (lo + 1) else None)"

definition shortest :: "rat \<Rightarrow> string \<times> int" where
  "shortest q =
     (case List.find (\<lambda>k. try_digits q k \<noteq> None) [1..<18] of
        None \<Rightarrow> ([], 0)
      | Some k \<Rightarrow> (let s = int_str (the (try_digits q k))
                   in (strip_zeros s, dec_exp q + (int (length s) - int k))))"

definition pos_to_string :: "rat \<Rightarrow> string" where
  "pos_to_string q =
     (case shortest q of (s, n) \<Rightarrow>
        (let k = int (length s) in
         if k \<le> n \<and> n \<le> 21 then s @ replicate (nat (n - k)) CHR ''0''
         else if 0 < n \<and> n \<le> 21 then take (nat n) s @ ''.'' @ drop (nat n) s
         else if - 6 < n \<and> n \<le> 0 then ''0.'' @ replicate (nat (- n)) CHR ''0'' @ s
         else (let e = n - 1;
                   es = (if e < 0 then ''-'' else ''+'') @ int_str \<bar>e\<bar>
               in if k = 1 then s @ ''e'' @ es
                  else take 1 s @ ''.'' @ drop 1 s @ ''e'' @ es)))"

fun num_str :: "jsnum \<Rightarrow> string" where
  "num_str NaN = ''NaN''"
| "num_str PInf = ''Infinity''"
| "num_str NInf = ''-Infinity''"
| "num_str (Fin q) = (if q = 0 then ''0'' else if q < 0 then ''-'' @ pos_to_string (- q)
                      else pos_to_string q)"

fun to_fixed :: "nat \<Rightarrow> jsnum \<Rightarrow> string" where
  "to_fixed d (Fin q) =
     (if 10 ^ 21 \<le> \<bar>q\<bar> then num_str (Fin q)
      else if q < 0 then ''-'' @ fixed_digits d (- q) else fixed_digits d q)"
| "to_fixed d x = num_str x"

text \<open>The remainder \<open>a % b\<close>, which is exact.\<close>

fun js_rem :: "jsnum \<Rightarrow> jsnum \<Rightarrow> jsnum" where
  "js_rem (Fin a) (Fin b) =
     (if b = 0 then NaN
      else Fin (a - b * of_int (if 0 \<le> a / b then \<lfloor>a / b\<rfloor> else \<lceil>a / b\<rceil>)))"
| "js_rem (Fin a) PInf = Fin a"
| "js_rem (Fin a) NInf = Fin a"
| "js_rem x y = NaN"

text \<open>White space, as \<open>trim\<close> and \<open>Number\<close> take it off.\<close>

definition is_space :: "char \<Rightarrow> bool" where
  "is_space c = ((of_char c :: nat) \<in> {9, 10, 11, 12, 13, 32, 160})"

definition js_trim :: "string \<Rightarrow> string" where
  "js_trim s = rev (dropWhile is_space (rev (dropWhile is_space s)))"

text \<open>An unsigned decimal: digits, a point and digits, an exponent.\<close>

definition read_exp :: "string \<Rightarrow> int option" where
  "read_exp s =
     (case s of
        [] \<Rightarrow> Some 0
      | c # t \<Rightarrow>
          if c \<noteq> CHR ''e'' \<and> c \<noteq> CHR ''E'' then None
          else (let (neg, ds) = (case t of [] \<Rightarrow> (False, [])
                                 | d # u \<Rightarrow> if d = CHR ''-'' then (True, u)
                                            else if d = CHR ''+'' then (False, u) else (False, t))
                in if ds = [] \<or> \<not> list_all is_digit ds then None
                   else Some (if neg then - read_int ds else read_int ds)))"

definition read_unsigned :: "string \<Rightarrow> jsnum" where
  "read_unsigned s =
     (if s = ''Infinity'' then PInf
      else let i = takeWhile is_digit s; r = dropWhile is_digit s;
               f = (case r of [] \<Rightarrow> [] | c # t \<Rightarrow> if c = CHR ''.'' then takeWhile is_digit t else []);
               e = (case r of [] \<Rightarrow> [] | c # t \<Rightarrow> if c = CHR ''.'' then dropWhile is_digit t else r)
           in if i = [] \<and> f = [] then NaN
              else (case read_exp e of None \<Rightarrow> NaN
                    | Some x \<Rightarrow> num (of_int (read_int (i @ f)) * 10 powi (x - int (length f)))))"

definition radix_val :: "char \<Rightarrow> int" where
  "radix_val c = (let n = (of_char c :: int) in
     if is_digit c then n - 48 else if 97 \<le> n \<and> n \<le> 102 then n - 87
     else if 65 \<le> n \<and> n \<le> 70 then n - 55 else 99)"

definition read_radix :: "int \<Rightarrow> string \<Rightarrow> jsnum" where
  "read_radix b ds =
     (if ds = [] \<or> \<not> list_all (\<lambda>c. radix_val c < b) ds then NaN
      else num (of_int (foldl (\<lambda>a c. b * a + radix_val c) 0 ds)))"

definition to_number :: "string \<Rightarrow> jsnum" where
  "to_number str =
     (case js_trim str of
        [] \<Rightarrow> Fin 0
      | c # t \<Rightarrow>
          if c = CHR ''+'' then read_unsigned t
          else if c = CHR ''-'' then - read_unsigned t
          else if c = CHR ''0'' \<and> t \<noteq> [] \<and> hd t \<in> {CHR ''x'', CHR ''X''} then read_radix 16 (tl t)
          else if c = CHR ''0'' \<and> t \<noteq> [] \<and> hd t \<in> {CHR ''o'', CHR ''O''} then read_radix 8 (tl t)
          else if c = CHR ''0'' \<and> t \<noteq> [] \<and> hd t \<in> {CHR ''b'', CHR ''B''} then read_radix 2 (tl t)
          else read_unsigned (c # t))"

section \<open>Reasoning about numbers\<close>

lemma zero_Fin: "0 = Fin 0" and one_Fin: "1 = Fin 1"
  by (simp_all add: zero_jsnum_def one_jsnum_def)

lemma num_not_NaN [simp]: "num q \<noteq> NaN" "NaN \<noteq> num q"
  by (auto simp: num_def Let_def)

lemma num_minus [simp]: "num (- q) = - num q"
  by (simp add: num_def Let_def)

lemma uminus_uminus [simp]: "- (- x) = (x :: jsnum)"
  by (cases x) auto

lemma NaN_less [simp]: "\<not> x < NaN" "\<not> NaN \<le> x" "\<not> x \<le> NaN"
  by (cases x; simp add: less_eq_jsnum_def)+

lemma Fin_le [simp]: "Fin a \<le> Fin b \<longleftrightarrow> a \<le> b"
  by (auto simp: less_eq_jsnum_def)

lemma Inf_le [simp]:
  "x \<le> PInf \<longleftrightarrow> x \<noteq> NaN" "NInf \<le> x \<longleftrightarrow> x \<noteq> NaN"
  "PInf \<le> x \<longleftrightarrow> x = PInf" "x \<le> NInf \<longleftrightarrow> x = NInf"
  by (cases x; auto simp: less_eq_jsnum_def)+

lemma js_less_irrefl [simp]: "\<not> x < (x :: jsnum)"
  by (cases x) auto

lemma js_le_refl [simp]: "x \<le> x \<longleftrightarrow> x \<noteq> (NaN :: jsnum)"
  by (simp add: less_eq_jsnum_def)

lemma js_less_trans: "x < y \<Longrightarrow> y < z \<Longrightarrow> x < (z :: jsnum)"
  by (cases x; cases y; cases z) auto

lemma js_less_not_NaN: "x < y \<Longrightarrow> x \<noteq> NaN \<and> y \<noteq> (NaN :: jsnum)"
  by (cases x; cases y) auto

lemma js_le_not_NaN: "x \<le> y \<Longrightarrow> x \<noteq> NaN \<and> y \<noteq> (NaN :: jsnum)"
  using js_less_not_NaN by (auto simp: less_eq_jsnum_def)

lemma js_le_less_trans: "x \<le> y \<Longrightarrow> y < z \<Longrightarrow> x < (z :: jsnum)"
  unfolding less_eq_jsnum_def by (auto intro: js_less_trans)

lemma js_less_le_trans: "x < y \<Longrightarrow> y \<le> z \<Longrightarrow> x < (z :: jsnum)"
  unfolding less_eq_jsnum_def by (auto intro: js_less_trans)

lemma js_le_trans: "x \<le> y \<Longrightarrow> y \<le> z \<Longrightarrow> x \<le> (z :: jsnum)"
  unfolding less_eq_jsnum_def by (auto intro: js_less_trans)

lemma js_less_imp_le: "x < y \<Longrightarrow> x \<le> (y :: jsnum)"
  by (simp add: less_eq_jsnum_def)

lemma js_less_asym: "x < y \<Longrightarrow> \<not> y \<le> (x :: jsnum)"
  by (cases x; cases y) (auto simp: less_eq_jsnum_def)

lemma js_le_antisym: "x \<le> y \<Longrightarrow> y \<le> x \<Longrightarrow> x = (y :: jsnum)"
  by (cases x; cases y) (auto simp: less_eq_jsnum_def)

lemma js_not_less: "x \<noteq> NaN \<Longrightarrow> y \<noteq> NaN \<Longrightarrow> \<not> x < y \<longleftrightarrow> y \<le> (x :: jsnum)"
  by (cases x; cases y) (auto simp: less_eq_jsnum_def)

lemma js_not_le: "x \<noteq> NaN \<Longrightarrow> y \<noteq> NaN \<Longrightarrow> \<not> x \<le> y \<longleftrightarrow> y < (x :: jsnum)"
  by (cases x; cases y) (auto simp: less_eq_jsnum_def)

lemma js_add_commute: "x + y = y + (x :: jsnum)"
  by (cases x; cases y) (auto simp: add.commute)

lemma js_mult_commute: "x * y = y * (x :: jsnum)"
  by (cases x; cases y) (auto simp: mult.commute)

lemma js_minus_add: "- (x + y) = - x + - (y :: jsnum)"
proof (cases x; cases y)
  fix a b assume "x = Fin a" "y = Fin b"
  then show ?thesis using num_minus [of "a + b"] by simp
qed auto

lemma js_minus_mult_left: "(- x) * y = - (x * y :: jsnum)"
  by (cases x; cases y) (auto simp: inf_of_def sgn_if)

lemma js_diff_minus: "- (x - y) = y - (x :: jsnum)"
  by (simp add: minus_jsnum_def js_minus_add js_add_commute)

lemma num_of_int: "\<bar>m\<bar> \<le> 2 ^ 53 \<Longrightarrow> num (of_int m) = Fin (of_int m)"
proof -
  assume m: "\<bar>m\<bar> \<le> 2 ^ 53"
  have "\<bar>of_int m :: rat\<bar> \<le> 2 ^ 53"
    using m by (metis of_int_abs of_int_le_iff of_int_numeral of_int_power)
  then have "\<bar>of_int m :: rat\<bar> < 2 ^ 1024" by (rule le_less_trans) simp
  then show ?thesis
    by (auto simp: num_def rnd_of_int [OF m] abs_less_iff Let_def)
qed

lemma num_mono: "p \<le> q \<Longrightarrow> num p \<le> num q"
  using rnd_mono [of p q] by (auto simp: num_def Let_def less_eq_jsnum_def)

text \<open>Code equations that spare the evaluation of the powers of two that are out of reach.\<close>

lemma rnd_code [code]:
  "rnd q = (if q = 0 then 0 else of_int (round_even (q / 2 powi (ulp_exp q))) * 2 powi (ulp_exp q))"
  by (metis rnd_0 rnd_def)

lemma num_code [code]:
  "num q = (if \<bar>q\<bar> \<le> 1000000000000000 then Fin (rnd q)
            else let r = rnd q in if 2 ^ 1024 \<le> r then PInf else if r \<le> - (2 ^ 1024) then NInf else Fin r)"
proof (cases "\<bar>q\<bar> \<le> 1000000000000000")
  case True
  then have "- of_int 1000000000000000 \<le> q" "q \<le> of_int 1000000000000000" by simp_all
  from this [THEN rnd_mono] have b: "- 1000000000000000 \<le> rnd q" "rnd q \<le> 1000000000000000"
    using rnd_of_int [of 1000000000000000] by simp_all
  have "(1000000000000000 :: rat) < 2 ^ 50" by simp
  also have "(2 :: rat) ^ 50 \<le> 2 ^ 1024" by (rule power_increasing) simp_all
  finally have "(1000000000000000 :: rat) < 2 ^ 1024" .
  with b have "\<not> 2 ^ 1024 \<le> rnd q" "\<not> rnd q \<le> - (2 ^ 1024)" by linarith+
  with True show ?thesis by (simp add: num_def)
qed (simp add: num_def)

lemma num_0 [simp]: "num 0 = 0"
  by (simp add: num_def zero_Fin)

lemma num_nonneg: "0 \<le> q \<Longrightarrow> 0 \<le> num q"
  using num_mono [of 0 q] by simp

lemma num_numeral [simp]:
  "numeral w \<le> (2 ^ 53 :: int) \<Longrightarrow> num (numeral w) = Fin (numeral w)"
  "numeral w \<le> (2 ^ 53 :: int) \<Longrightarrow> num (- numeral w) = Fin (- numeral w)"
  "num 1 = Fin 1" "num (- 1) = Fin (- 1)"
  using num_of_int [of "numeral w"] num_of_int [of "- numeral w"] num_of_int [of 1] num_of_int [of "- 1"]
  by simp_all

text \<open>A positive literal of moderate size is a positive finite number.\<close>

lemma num_moderate:
  assumes "2 powi k \<le> q" "- 1074 \<le> k" "q \<le> 2 ^ 53"
  obtains r where "num q = Fin r" "0 < r" "r \<le> 2 ^ 53"
proof -
  have "rnd (2 powi k) = 2 powi k" using assms(2) by (intro rnd_fixed [of _ 1 k]) auto
  then have lo: "2 powi k \<le> rnd q" using rnd_mono [OF assms(1)] by simp
  have "rnd (2 ^ 53) = 2 ^ 53" using rnd_of_int [of "2 ^ 53"] by simp
  then have hi: "rnd q \<le> 2 ^ 53" using rnd_mono [OF assms(3)] by simp
  have pos: "0 < rnd q" using lo by (rule less_le_trans [rotated]) simp
  have "(2::rat) ^ 53 < 2 ^ 1024" by simp
  with hi have "rnd q < 2 ^ 1024" by linarith
  with pos have "num q = Fin (rnd q)" by (simp add: num_def Let_def)
  then show ?thesis using pos hi by (rule that)
qed

text \<open>The values a program can hold: the finite ones are binary64.\<close>

fun canonical :: "jsnum \<Rightarrow> bool" where
  "canonical (Fin q) = (rnd q = q \<and> \<bar>q\<bar> < 2 ^ 1024)"
| "canonical x = True"

lemma canonical_num [simp]: "canonical (num q)"
  by (auto simp: num_def Let_def abs_less_iff)

lemma canonical_fixed: "canonical (Fin q) \<Longrightarrow> num q = Fin q"
  by (auto simp: num_def Let_def abs_less_iff)

text \<open>A whole number with the tolerance \<open>1e-9\<close> on it stays within a quarter above.\<close>

lemma quarter: "\<bar>4 * n + 1\<bar> \<le> 2 ^ 53 \<Longrightarrow> num (of_int n + 1 / 4) = Fin (of_int n + 1 / 4)"
proof -
  assume n: "\<bar>4 * n + 1\<bar> \<le> 2 ^ 53"
  have "rnd (of_int n + 1 / 4) = of_int n + 1 / 4"
    by (rule rnd_fixed [of _ "4 * n + 1" "- 2"]) (use n in \<open>simp_all add: power_int_minus field_simps\<close>)
  moreover have "\<bar>of_int n + 1 / 4 :: rat\<bar> < 2 ^ 1024"
  proof -
    have "\<bar>of_int (4 * n + 1) :: rat\<bar> \<le> 2 ^ 53"
      using n by (metis of_int_abs of_int_le_iff of_int_numeral of_int_power)
    then have "\<bar>of_int n + 1 / 4 :: rat\<bar> \<le> 2 ^ 53" by (simp add: abs_le_iff)
    then show ?thesis by (rule le_less_trans) simp
  qed
  ultimately show ?thesis by (intro canonical_fixed) simp
qed

lemma whole_tolerance:
  assumes "\<bar>n\<bar> \<le> 2 ^ 50"
  obtains q where "Fin (of_int n) + num (1 / 10 ^ 9) = Fin q" "of_int n \<le> q" "q \<le> of_int n + 1 / 4"
proof -
  have "num 0 \<le> num (1 / 10 ^ 9)" "num (1 / 10 ^ 9) \<le> num (of_int 0 + 1 / 4)" by (intro num_mono; simp)+
  then obtain r where r: "num (1 / 10 ^ 9) = Fin r" "0 \<le> r" "r \<le> 1 / 4"
    using quarter [of 0] by (cases "num (1 / 10 ^ 9)") (auto simp: zero_Fin)
  have b: "\<bar>n\<bar> \<le> 2 ^ 53" "\<bar>4 * n + 1\<bar> \<le> 2 ^ 53" using assms by simp_all
  have "num (of_int n) \<le> num (of_int n + r)" "num (of_int n + r) \<le> num (of_int n + 1 / 4)"
    using r by (intro num_mono; simp)+
  then have "Fin (of_int n) \<le> num (of_int n + r)" "num (of_int n + r) \<le> Fin (of_int n + 1 / 4)"
    using num_of_int [OF b(1)] quarter [OF b(2)] by simp_all
  then obtain q where "num (of_int n + r) = Fin q" "of_int n \<le> q" "q \<le> of_int n + 1 / 4"
    by (cases "num (of_int n + r)") auto
  with r(1) show thesis by (intro that [of q]) simp_all
qed

lemma floor_tolerance: "\<bar>n\<bar> \<le> 2 ^ 50 \<Longrightarrow> math_floor (Fin (of_int n) + num (1 / 10 ^ 9)) = Fin (of_int n)"
proof -
  assume "\<bar>n\<bar> \<le> 2 ^ 50"
  then obtain q where q: "Fin (of_int n) + num (1 / 10 ^ 9) = Fin q" "of_int n \<le> q" "q \<le> of_int n + 1 / 4"
    by (rule whole_tolerance)
  then have "\<lfloor>q\<rfloor> = n" by (intro floor_unique) linarith+
  with q(1) show ?thesis by (simp del: plus_jsnum.simps)
qed

lemma round_tolerance: "\<bar>n\<bar> \<le> 2 ^ 50 \<Longrightarrow> math_round (Fin (of_int n) + num (1 / 10 ^ 9)) = Fin (of_int n)"
proof -
  assume "\<bar>n\<bar> \<le> 2 ^ 50"
  then obtain q where q: "Fin (of_int n) + num (1 / 10 ^ 9) = Fin q" "of_int n \<le> q" "q \<le> of_int n + 1 / 4"
    by (rule whole_tolerance)
  then have "\<lfloor>q + 1 / 2\<rfloor> = n" by (intro floor_unique) linarith+
  with q(1) show ?thesis by (simp del: plus_jsnum.simps)
qed

lemma canonical_add: "canonical x \<Longrightarrow> canonical y \<Longrightarrow> canonical (x + y)"
  by (cases x; cases y) auto

lemma canonical_uminus: "canonical x \<Longrightarrow> canonical (- x)"
  by (cases x) auto

lemma canonical_diff: "canonical x \<Longrightarrow> canonical y \<Longrightarrow> canonical (x - y)"
  by (simp add: minus_jsnum_def canonical_add canonical_uminus)

lemma canonical_mult: "canonical x \<Longrightarrow> canonical y \<Longrightarrow> canonical (x * y)"
  by (cases x; cases y) (auto simp: inf_of_def)

lemma js_diff_self: "is_finite x \<Longrightarrow> x - x = 0"
  by (cases x) (simp_all add: minus_jsnum_def)

lemma js_add_nonneg: "0 \<le> x \<Longrightarrow> 0 \<le> y \<Longrightarrow> 0 \<le> x + (y :: jsnum)"
  using num_nonneg by (cases x; cases y) (simp_all add: zero_Fin)

lemma js_diff_nonneg: "y \<le> x \<Longrightarrow> is_finite y \<Longrightarrow> 0 \<le> x - (y :: jsnum)"
  using num_nonneg by (cases x; cases y) (simp_all add: zero_Fin minus_jsnum_def)

lemma js_diff_pos:
  assumes "canonical x" "canonical y" "y < x" "is_finite x" "is_finite y"
  shows "0 < x - (y :: jsnum)"
proof -
  obtain a b where ab: "x = Fin a" "y = Fin b" using assms(4,5) by (cases x; cases y) auto
  then have "rnd b = b" "rnd a = a" "b < a" using assms by auto
  then have "0 < rnd (a - b)" by (rule rnd_sub_pos)
  then show ?thesis by (auto simp: ab minus_jsnum_def num_def Let_def zero_Fin)
qed

lemma math_min_not_NaN: "math_min x y \<noteq> NaN \<longleftrightarrow> x \<noteq> NaN \<and> y \<noteq> NaN"
  by (simp add: math_min_def)

lemma math_max_not_NaN: "math_max x y \<noteq> NaN \<longleftrightarrow> x \<noteq> NaN \<and> y \<noteq> NaN"
  by (simp add: math_max_def)

lemma math_min_le: "x \<noteq> NaN \<Longrightarrow> y \<noteq> NaN \<Longrightarrow> math_min x y \<le> x \<and> math_min x y \<le> y"
  by (auto simp: math_min_def js_less_imp_le js_not_less)

lemma math_max_ge: "x \<noteq> NaN \<Longrightarrow> y \<noteq> NaN \<Longrightarrow> x \<le> math_max x y \<and> y \<le> math_max x y"
  by (auto simp: math_max_def js_less_imp_le js_not_less)

lemma math_min_cases: "x \<noteq> NaN \<Longrightarrow> y \<noteq> NaN \<Longrightarrow> math_min x y = x \<or> math_min x y = y"
  by (auto simp: math_min_def)

lemma math_max_cases: "x \<noteq> NaN \<Longrightarrow> y \<noteq> NaN \<Longrightarrow> math_max x y = x \<or> math_max x y = y"
  by (auto simp: math_max_def)

text \<open>A text of digits is read as the number they spell.\<close>

lemma digit_not_space: "is_digit c \<Longrightarrow> \<not> is_space c"
proof -
  assume d: "is_digit c"
  have "(of_char c :: int) = int (of_char c)" by (simp add: of_nat_of_char)
  with d have "48 \<le> (of_char c :: nat)" "(of_char c :: nat) \<le> 57" by (auto simp: is_digit_def)
  then show ?thesis by (auto simp: is_space_def)
qed

lemma dropWhile_none: "list_all P xs \<Longrightarrow> (\<And>x. P x \<Longrightarrow> \<not> Q x) \<Longrightarrow> dropWhile Q xs = xs"
  by (cases xs) auto

lemma digits_trim: "list_all is_digit s \<Longrightarrow> js_trim s = s"
proof -
  assume a: "list_all is_digit s"
  then have "list_all is_digit (rev s)" by (simp add: list_all_iff)
  with a show ?thesis by (simp add: js_trim_def dropWhile_none [OF _ digit_not_space])
qed

lemma digits_number: "s \<noteq> [] \<Longrightarrow> list_all is_digit s \<Longrightarrow> to_number s = num (of_int (read_int s))"
proof -
  assume a: "s \<noteq> []" "list_all is_digit s"
  have tw: "takeWhile is_digit s = s" "dropWhile is_digit s = []"
    using a(2) by (simp_all add: takeWhile_eq_all_conv list_all_iff)
  have "s \<noteq> ''Infinity''" using a(2) by (auto simp: is_digit_def)
  then have u: "read_unsigned s = num (of_int (read_int s))"
    unfolding read_unsigned_def tw Let_def using a(1) by (simp add: read_exp_def)
  obtain c t where s: "s = c # t" using a(1) by (cases s) auto
  have c: "is_digit c" "t \<noteq> [] \<longrightarrow> is_digit (hd t)" using a(2) s by (auto simp: list_all_iff)
  then have "c \<noteq> CHR ''+''" "c \<noteq> CHR ''-''"
    "t \<noteq> [] \<longrightarrow> hd t \<notin> {CHR ''x'', CHR ''X'', CHR ''o'', CHR ''O'', CHR ''b'', CHR ''B''}"
    by (auto simp: is_digit_def)
  then show ?thesis using u digits_trim [OF a(2)] unfolding to_number_def s by auto
qed

end
