(* ===== verification/Domain.thy ===== *)
theory Domain
  imports Js_Num
begin

text \<open>
  The domain types the modelled parts share, from
  \<^verbatim>\<open>packages/core/src/generated/domain.ts\<close>: a \<open>Decimal\<close> is its
  string, an optional field an option, a string union a datatype, an object a record whose
  fields carry a prefix for the type (\<open>m_\<close> for \<open>Market\<close> and so on).
\<close>

type_synonym decimal = string

datatype venue = Hyperliquid | Aster | Bybit | Binance | Blofin

datatype side = Buy | Sell

datatype position_side = Long | Short

datatype margin_mode = Cross | Isolated

datatype time_in_force = Gtc | Ioc | PostOnly

datatype order_type = MarketOrder | LimitOrder | TriggerOrder | TwapOrder

datatype order_status = Pending | Open | Filled | Cancelled | Rejected

datatype order_category =
  Regular | Conditional | TakeProfitExit | StopLossExit | TrailingStopExit | MmrClose

datatype price_source = LastPrice | MarkPrice | IndexPrice

datatype fill_effect =
  OpenLong | CloseLong | OpenShort | CloseShort | LongToShort | ShortToLong | OtherEffect

datatype market_category = Innovation | Stock | Etf | Commodity | Forex

record market =
  m_venue :: venue
  m_id :: string
  m_symbol :: string
  m_base :: string
  m_quote :: string
  m_tickSize :: decimal
  m_sizeStep :: decimal
  m_minSize :: decimal
  m_maxLeverage :: jsnum
  m_listedBy :: "string option"
  m_category :: "market_category option"
  m_listedAt :: "jsnum option"

datatype order_kind =
    MarketKind jsnum                                 \<comment> \<open>maxSlippageBps\<close>
  | LimitKind decimal "time_in_force option"         \<comment> \<open>price, timeInForce\<close>
  | TriggerKind decimal "decimal option"             \<comment> \<open>triggerPrice, limitPrice\<close>
  | TwapKind jsnum bool                              \<comment> \<open>minutes, randomize\<close>

record order_request =
  r_market :: string
  r_side :: side
  r_size :: decimal
  r_reduceOnly :: bool
  r_collateral :: "decimal option"
  r_clientId :: "string option"
  r_takeProfit :: "decimal option"
  r_stopLoss :: "decimal option"
  r_kind :: order_kind

record order =
  o_venue :: venue
  o_id :: string
  o_clientId :: "string option"
  o_market :: string
  o_side :: side
  o_type :: order_type
  o_size :: decimal
  o_filledSize :: decimal
  o_price :: "decimal option"
  o_triggerPrice :: "decimal option"
  o_reduceOnly :: bool
  o_status :: order_status
  o_createdAt :: jsnum
  o_category :: order_category
  o_triggerBy :: "price_source option"
  o_takeProfit :: "decimal option"
  o_stopLoss :: "decimal option"

record fill_record =
  f_venue :: venue
  f_id :: string
  f_orderId :: string
  f_market :: string
  f_side :: side
  f_effect :: fill_effect
  f_price :: decimal
  f_size :: decimal
  f_closedPnl :: decimal
  f_fee :: decimal
  f_feeAsset :: string
  f_taker :: bool
  f_time :: jsnum

record closed_trade =
  c_venue :: venue
  c_market :: string
  c_side :: position_side
  c_size :: decimal
  c_entryPrice :: decimal
  c_exitPrice :: decimal
  c_closedPnl :: decimal
  c_entryValue :: decimal
  c_leverage :: "decimal option"
  c_time :: jsnum
  c_openedAt :: "jsnum option"

record funding_payment =
  fp_venue :: venue
  fp_market :: string
  fp_amount :: decimal
  fp_positionSize :: decimal
  fp_rate :: decimal
  fp_time :: jsnum

record position =
  p_venue :: venue
  p_market :: string
  p_side :: position_side
  p_size :: decimal
  p_entryPrice :: decimal
  p_markPrice :: decimal
  p_liquidationPrice :: "decimal option"
  p_unrealizedPnl :: decimal
  p_margin :: decimal
  p_realizedPnl :: "decimal option"
  p_takeProfit :: "decimal option"
  p_stopLoss :: "decimal option"
  p_trailingStop :: "decimal option"
  p_leverage :: "decimal option"
  p_marginMode :: "margin_mode option"

record account_snapshot =
  a_venue :: venue
  a_address :: string
  a_equity :: decimal
  a_availableMargin :: decimal
  a_realizedPnl :: "decimal option"
  a_positions :: "position list"
  a_openOrders :: "order list"
  a_time :: jsnum

datatype exit_change = KeepExit | RemoveExit | SetExit decimal

record order_amend =
  oa_price :: "decimal option"
  oa_size :: "decimal option"
  oa_takeProfit :: exit_change
  oa_stopLoss :: exit_change

record position_protection =
  pr_takeProfit :: exit_change
  pr_stopLoss :: exit_change
  pr_trailingStop :: exit_change
  pr_trailingActivation :: "decimal option"

record trade_settings =
  ts_marginMode :: margin_mode
  ts_marginModeAccountWide :: bool
  ts_leverage :: "decimal"
  ts_maxLeverage :: "decimal"

record market_summary =
  s_market :: string
  s_markPrice :: decimal
  s_prevDayPrice :: decimal
  s_dayVolume :: decimal
  s_openInterest :: decimal
  s_fundingRate :: decimal
  s_fundingIntervalSecs :: jsnum

text \<open>A field read with \<open>Number\<close> only where it is set and not empty (\<open>x ? Number(x) : undefined\<close>).\<close>

definition truthy_number :: "string option \<Rightarrow> jsnum option" where
  "truthy_number s = (case s of None \<Rightarrow> None | Some t \<Rightarrow> if t = [] then None else Some (to_number t))"

end
