(* ===== verification/Paper.thy ===== *)
theory Paper
  imports Prelude Domain
begin

text \<open>
  Paper trading, \<^verbatim>\<open>apps/desktop/src/lib/paper.ts\<close>: a simulated account whose
  orders fill against a venue's live prices. The state is one record; each exported function
  is one definition of the same name, returning the new state. The source clones the state
  it is given and mutates the clone; here each mutation is a record update, in the source's
  order. A position object is known by its market: the engine keeps at most one position
  per market (\<open>Paper_Props\<close> proves it), so changing \<open>p\<close> and changing the first
  position in \<open>p\<close>'s market are the same. Numbers are binary64 (\<open>Js_Num\<close>).
\<close>

section \<open>Constants and data\<close>

definition PAPER_VENUES :: "venue list" where
  "PAPER_VENUES = [Hyperliquid, Aster]"

definition isPaperVenue :: "venue \<Rightarrow> bool" where
  "isPaperVenue v = (v \<in> set PAPER_VENUES)"

definition PAPER_START :: jsnum where
  "PAPER_START = Fin 10000"

definition PAPER_ADD_MAX :: jsnum where
  "PAPER_ADD_MAX = Fin 100000"

definition PAPER_MOVE_MIN :: jsnum where
  "PAPER_MOVE_MIN = Fin 1"

definition KEEP :: nat where
  "KEEP = 500"

definition MARK_SPREAD :: jsnum where
  "MARK_SPREAD = num (2 / 10000)"

text \<open>The slack of the sz and margin comparisons: \<open>1e-12\<close> and \<open>1e-9\<close>.\<close>

definition eps12 :: jsnum where
  "eps12 = num (1 / 10 ^ 12)"

definition eps9 :: jsnum where
  "eps9 = num (1 / 10 ^ 9)"

record quote =
  q_mark :: jsnum
  q_bid :: "jsnum option"
  q_ask :: "jsnum option"
  q_fundingRate :: "jsnum option"
  q_fundingIntervalSecs :: "jsnum option"

type_synonym quotes = "string \<Rightarrow> quote option"

type_synonym markets = "string \<Rightarrow> market option"

record paper_position =
  pp_market :: string
  pp_side :: position_side
  pp_size :: jsnum
  pp_entry :: jsnum
  pp_leverage :: jsnum
  pp_marginMode :: margin_mode
  pp_realized :: jsnum
  pp_openFees :: jsnum
  pp_openedAt :: jsnum
  pp_takeProfit :: "jsnum option"
  pp_stopLoss :: "jsnum option"
  pp_trailing :: "jsnum option"
  pp_trailingBest :: "jsnum option"
  pp_trailingFrom :: "jsnum option"

datatype paper_order_type = PaperLimit | PaperTrigger

record paper_order =
  po_id :: string
  po_market :: string
  po_side :: side
  po_type :: paper_order_type
  po_size :: jsnum
  po_price :: "jsnum option"
  po_triggerPrice :: "jsnum option"
  po_triggerAbove :: "bool option"
  po_reduceOnly :: bool
  po_postOnly :: bool
  po_createdAt :: jsnum
  po_takeProfit :: "jsnum option"
  po_stopLoss :: "jsnum option"

record market_settings =
  st_leverage :: jsnum
  st_marginMode :: margin_mode

record paper_state =
  ps_venue :: venue
  ps_cash :: jsnum
  ps_start :: jsnum
  ps_positions :: "paper_position list"
  ps_orders :: "paper_order list"
  ps_fills :: "fill_record list"
  ps_closed :: "closed_trade list"
  ps_history :: "order list"
  ps_funding :: "funding_payment list"
  ps_settings :: "market_settings obj"
  ps_nextId :: int
  ps_fundedAt :: "jsnum obj"

record fees =
  fee_taker :: jsnum
  fee_maker :: jsnum

datatype paper_error =
    ErrNoPrice | ErrSize | ErrMinSize | ErrMargin | ErrReduceOnly | ErrPostOnly | ErrNotFound
  | ErrPrice | ErrHasPosition | ErrAmount | ErrTooMuch | ErrUnsupported

text \<open>\<open>PaperResult\<close>: the state after, and the error where there is one.\<close>

type_synonym paper_result = "paper_state \<times> paper_error option"

definition newPaperState :: "venue \<Rightarrow> jsnum \<Rightarrow> paper_state" where
  "newPaperState v start =
     \<lparr>ps_venue = v, ps_cash = start, ps_start = start, ps_positions = [], ps_orders = [],
      ps_fills = [], ps_closed = [], ps_history = [], ps_funding = [], ps_settings = [],
      ps_nextId = 1, ps_fundedAt = []\<rparr>"

text \<open>\<open>s.replace(/\.?0+$/, "")\<close>: the zeros at the end, and a point left bare by them.\<close>

definition strip_fraction :: "string \<Rightarrow> string" where
  "strip_fraction s =
     (let t = strip_zeros s
      in if t \<noteq> s \<and> t \<noteq> [] \<and> last t = CHR ''.'' then butlast t else t)"

definition dec :: "jsnum \<Rightarrow> decimal" where
  "dec n = (if \<not> is_finite n then ''0''
            else let s = strip_fraction (to_fixed 10 n) in if s = ''-0'' then ''0'' else s)"

definition dirOf :: "position_side \<Rightarrow> jsnum" where
  "dirOf s = (case s of Long \<Rightarrow> Fin 1 | Short \<Rightarrow> Fin (- 1))"

definition keep :: "'a list \<Rightarrow> 'a list" where
  "keep xs = take KEEP xs"

definition toStep :: "jsnum \<Rightarrow> jsnum \<Rightarrow> jsnum" where
  "toStep sz step =
     (if \<not> 0 < step then sz else math_floor (sz / step + eps9) * step)"

definition settingsFor :: "paper_state \<Rightarrow> market \<Rightarrow> market_settings" where
  "settingsFor state mk =
     (case obj_get (ps_settings state) (m_id mk) of
        Some s \<Rightarrow> s
      | None \<Rightarrow> \<lparr>st_leverage = math_min (Fin 10) (m_maxLeverage mk), st_marginMode = Cross\<rparr>)"

definition maintenance :: "jsnum \<Rightarrow> jsnum" where
  "maintenance maxLeverage = Fin (1 / 2) / math_max 1 maxLeverage"

definition markOf :: "quotes \<Rightarrow> string \<Rightarrow> jsnum \<Rightarrow> jsnum" where
  "markOf quotes mk fallback = (case quotes mk of Some q \<Rightarrow> q_mark q | None \<Rightarrow> fallback)"

section \<open>Valuing the account\<close>

record account_totals =
  t_upnl :: jsnum
  t_margin :: jsnum
  t_held :: jsnum
  t_equity :: jsnum
  t_available :: jsnum

definition position_upnl :: "quotes \<Rightarrow> paper_position \<Rightarrow> jsnum" where
  "position_upnl quotes p =
     (markOf quotes (pp_market p) (pp_entry p) - pp_entry p) * pp_size p * dirOf (pp_side p)"

definition position_margin :: "quotes \<Rightarrow> paper_position \<Rightarrow> jsnum" where
  "position_margin quotes p =
     pp_size p * markOf quotes (pp_market p) (pp_entry p) / pp_leverage p"

definition order_held :: "paper_state \<Rightarrow> quotes \<Rightarrow> paper_order \<Rightarrow> jsnum" where
  "order_held state quotes ord =
     (let price = (case po_price ord of Some x \<Rightarrow> x
                   | None \<Rightarrow> (case po_triggerPrice ord of Some x \<Rightarrow> x
                             | None \<Rightarrow> markOf quotes (po_market ord) 0));
          lev = (case obj_get (ps_settings state) (po_market ord) of
                   Some s \<Rightarrow> st_leverage s | None \<Rightarrow> Fin 10)
      in po_size ord * price / lev)"

definition totals :: "paper_state \<Rightarrow> quotes \<Rightarrow> account_totals" where
  "totals state quotes =
     (let upnl = foldl (\<lambda>a p. a + position_upnl quotes p) 0 (ps_positions state);
          margin = foldl (\<lambda>a p. a + position_margin quotes p) 0 (ps_positions state);
          held = foldl (\<lambda>a ord. if po_reduceOnly ord then a else a + order_held state quotes ord)
                   0 (ps_orders state);
          equity = ps_cash state + upnl
      in \<lparr>t_upnl = upnl, t_margin = margin, t_held = held, t_equity = equity,
          t_available = math_max 0 (equity - margin - held)\<rparr>)"

definition liquidationPrice ::
    "paper_state \<Rightarrow> paper_position \<Rightarrow> quotes \<Rightarrow> jsnum \<Rightarrow> jsnum option" where
  "liquidationPrice state p quotes maxLeverage =
     (let mmr = maintenance maxLeverage; dir = dirOf (pp_side p)
      in if pp_marginMode p = Isolated
         then (let price = pp_entry p * (1 - dir / pp_leverage p) / (1 - dir * mmr)
               in if 0 < price then Some price else None)
         else (let equity = t_equity (totals state quotes);
                   mark = markOf quotes (pp_market p) (pp_entry p);
                   others = foldl (\<lambda>sum oth. sum + pp_size oth * markOf quotes (pp_market oth) (pp_entry oth) * mmr)
                              0 (filter (\<lambda>oth. pp_market oth \<noteq> pp_market p) (ps_positions state));
                   liq = (others - equity + dir * pp_size p * mark) / (dir * pp_size p - pp_size p * mmr)
               in if 0 < liq \<and> is_finite liq then Some liq else None))"

definition takerPrice :: "quote \<Rightarrow> side \<Rightarrow> jsnum" where
  "takerPrice quote sd =
     (case sd of
        Buy \<Rightarrow> (case q_ask quote of Some a \<Rightarrow> a | None \<Rightarrow> q_mark quote * (1 + MARK_SPREAD))
      | Sell \<Rightarrow> (case q_bid quote of Some b \<Rightarrow> b | None \<Rightarrow> q_mark quote * (1 - MARK_SPREAD)))"

section \<open>History\<close>

definition toOrder :: "venue \<Rightarrow> paper_order \<Rightarrow> order_status \<Rightarrow> jsnum \<Rightarrow> order" where
  "toOrder v ord status filled =
     \<lparr>o_venue = v, o_id = po_id ord, o_clientId = None, o_market = po_market ord,
      o_side = po_side ord,
      o_type = (if po_type ord = PaperTrigger then TriggerOrder
                else if status = Filled \<and> po_price ord = None then MarketOrder else LimitOrder),
      o_size = dec (po_size ord), o_filledSize = dec filled,
      o_price = map_option dec (po_price ord),
      o_triggerPrice = map_option dec (po_triggerPrice ord),
      o_reduceOnly = po_reduceOnly ord, o_status = status, o_createdAt = po_createdAt ord,
      o_category = (if po_type ord = PaperTrigger then Conditional else Regular),
      o_triggerBy = (if po_type ord = PaperTrigger then Some MarkPrice else None),
      o_takeProfit = map_option dec (po_takeProfit ord),
      o_stopLoss = map_option dec (po_stopLoss ord)\<rparr>"

definition pushHistory :: "paper_state \<Rightarrow> paper_order \<Rightarrow> order_status \<Rightarrow> jsnum \<Rightarrow> paper_state" where
  "pushHistory state ord status filled =
     state\<lparr>ps_history := keep (toOrder (ps_venue state) ord status filled # ps_history state)\<rparr>"

section \<open>Filling an order\<close>

text \<open>The position a fill opens where there was none, or on the far side of one it closed.\<close>

definition opened_position ::
    "paper_state \<Rightarrow> paper_order \<Rightarrow> market \<Rightarrow> jsnum \<Rightarrow> jsnum \<Rightarrow> jsnum \<Rightarrow> jsnum \<Rightarrow> paper_position" where
  "opened_position state ord mk price fee now sz =
     \<lparr>pp_market = m_id mk, pp_side = (if po_side ord = Buy then Long else Short), pp_size = sz,
      pp_entry = price, pp_leverage = st_leverage (settingsFor state mk),
      pp_marginMode = st_marginMode (settingsFor state mk), pp_realized = - fee,
      pp_openFees = fee, pp_openedAt = now, pp_takeProfit = po_takeProfit ord,
      pp_stopLoss = po_stopLoss ord, pp_trailing = None, pp_trailingBest = None,
      pp_trailingFrom = None\<rparr>"

definition added_position :: "jsnum \<Rightarrow> jsnum \<Rightarrow> jsnum \<Rightarrow> paper_position \<Rightarrow> paper_position" where
  "added_position price fee sz p =
     (let total = pp_size p + sz
      in p\<lparr>pp_entry := (pp_entry p * pp_size p + price * sz) / total, pp_size := total,
           pp_openFees := pp_openFees p + fee, pp_realized := pp_realized p - fee\<rparr>)"

definition closed_record ::
    "venue \<Rightarrow> market \<Rightarrow> paper_position \<Rightarrow> jsnum \<Rightarrow> jsnum \<Rightarrow> jsnum \<Rightarrow> jsnum \<Rightarrow> closed_trade" where
  "closed_record v mk p closing price pnl now =
     \<lparr>c_venue = v, c_market = m_id mk, c_side = pp_side p, c_size = dec closing,
      c_entryPrice = dec (pp_entry p), c_exitPrice = dec price, c_closedPnl = dec pnl,
      c_entryValue = dec (pp_entry p * closing), c_leverage = Some (dec (pp_leverage p)),
      c_time = now, c_openedAt = Some (pp_openedAt p)\<rparr>"

text \<open>Closing some or all of a position; any rest opens the other way. With the P\&L of the part closed.\<close>

definition close_position ::
    "paper_state \<Rightarrow> paper_order \<Rightarrow> market \<Rightarrow> paper_position \<Rightarrow> jsnum \<Rightarrow> jsnum \<Rightarrow> jsnum \<Rightarrow> jsnum
      \<Rightarrow> paper_state \<times> fill_effect \<times> jsnum" where
  "close_position state ord mk p price fee now sz =
     (let closing = math_min sz (pp_size p);
          closedPnl = (price - pp_entry p) * closing * dirOf (pp_side p);
          share = closing / pp_size p;
          entryFees = pp_openFees p * share;
          closeFee = fee * (closing / sz);
          rest = sz - closing;
          effect = (if eps12 < rest then (if pp_side p = Long then LongToShort else ShortToLong)
                    else (if pp_side p = Long then CloseLong else CloseShort));
          st1 = state\<lparr>ps_cash := ps_cash state + closedPnl,
                      ps_closed := keep (closed_record (ps_venue state) mk p closing price
                                           (closedPnl - entryFees - closeFee) now # ps_closed state)\<rparr>;
          st2 = (if pp_size p - eps12 \<le> closing
                 then st1\<lparr>ps_positions :=
                            remove_first (\<lambda>x. pp_market x = m_id mk) (ps_positions st1) @
                            (if eps12 < rest
                             then [opened_position state ord mk price (fee - closeFee) now rest] else []),
                          ps_orders := filter (\<lambda>x. \<not> (po_market x = m_id mk \<and> po_reduceOnly x)) (ps_orders st1)\<rparr>
                 else st1\<lparr>ps_positions :=
                            update_first (\<lambda>x. pp_market x = m_id mk)
                              (\<lambda>x. x\<lparr>pp_size := pp_size x - closing, pp_openFees := pp_openFees x - entryFees,
                                     pp_realized := pp_realized x + (closedPnl - closeFee)\<rparr>)
                              (ps_positions st1)\<rparr>)
      in (st2, effect, closedPnl))"

definition fill ::
    "paper_state \<Rightarrow> paper_order \<Rightarrow> market \<Rightarrow> jsnum \<Rightarrow> bool \<Rightarrow> fees \<Rightarrow> jsnum \<Rightarrow> jsnum \<Rightarrow> paper_state" where
  "fill state0 ord mk price taker fees now sz =
     (let fee = sz * price * (if taker then fee_taker fees else fee_maker fees);
          state = state0\<lparr>ps_cash := ps_cash state0 - fee\<rparr>;
          buy = (po_side ord = Buy);
          (st, effect, closedPnl) =
            (case List.find (\<lambda>x. pp_market x = m_id mk) (ps_positions state) of
               None \<Rightarrow> (state\<lparr>ps_positions := ps_positions state @
                                 [opened_position state ord mk price fee now sz]\<rparr>,
                        if buy then OpenLong else OpenShort, 0)
             | Some p \<Rightarrow>
                 if (pp_side p = Long) = buy
                 then (state\<lparr>ps_positions := update_first (\<lambda>x. pp_market x = m_id mk)
                                               (added_position price fee sz) (ps_positions state)\<rparr>,
                       if buy then OpenLong else OpenShort, 0)
                 else close_position state ord mk p price fee now sz)
      in st\<lparr>ps_nextId := ps_nextId st + 1,
            ps_fills := keep (\<lparr>f_venue = ps_venue st, f_id = po_id ord @ ''-'' @ int_str (ps_nextId st),
                               f_orderId = po_id ord, f_market = m_id mk, f_side = po_side ord,
                               f_effect = effect, f_price = dec price, f_size = dec sz,
                               f_closedPnl = dec closedPnl, f_fee = dec fee, f_feeAsset = m_quote mk,
                               f_taker = taker, f_time = now\<rparr> # ps_fills st)\<rparr>)"

text \<open>The order an exit or a liquidation closes a whole position with.\<close>

definition exit_side :: "position_side \<Rightarrow> side" where
  "exit_side s = (case s of Long \<Rightarrow> Sell | Short \<Rightarrow> Buy)"

definition exit_order :: "int \<Rightarrow> paper_position \<Rightarrow> jsnum \<Rightarrow> paper_order" where
  "exit_order n p now =
     \<lparr>po_id = ''paper-'' @ int_str n, po_market = pp_market p, po_side = exit_side (pp_side p),
      po_type = PaperTrigger, po_size = pp_size p, po_price = None, po_triggerPrice = None,
      po_triggerAbove = None, po_reduceOnly = True, po_postOnly = False, po_createdAt = now,
      po_takeProfit = None, po_stopLoss = None\<rparr>"

definition closeAt ::
    "paper_state \<Rightarrow> paper_position \<Rightarrow> market \<Rightarrow> jsnum \<Rightarrow> fees \<Rightarrow> jsnum \<Rightarrow> paper_state" where
  "closeAt state p mk price fees now =
     (let ord = exit_order (ps_nextId state) p now;
          st = fill (state\<lparr>ps_nextId := ps_nextId state + 1\<rparr>) ord mk price True fees now (po_size ord)
      in pushHistory st ord Filled (po_size ord))"

section \<open>Placing an order\<close>

text \<open>Whether a trade on this side closes the position.\<close>

definition closing_side :: "paper_position \<Rightarrow> side \<Rightarrow> bool" where
  "closing_side p sd = (case pp_side p of Long \<Rightarrow> sd = Sell | Short \<Rightarrow> sd = Buy)"

definition new_order :: "int \<Rightarrow> order_request \<Rightarrow> market \<Rightarrow> jsnum \<Rightarrow> jsnum \<Rightarrow> paper_order" where
  "new_order n req mk sz now =
     \<lparr>po_id = ''paper-'' @ int_str n, po_market = m_id mk, po_side = r_side req,
      po_type = (case r_kind req of TriggerKind _ _ \<Rightarrow> PaperTrigger | _ \<Rightarrow> PaperLimit),
      po_size = sz, po_price = None, po_triggerPrice = None, po_triggerAbove = None,
      po_reduceOnly = r_reduceOnly req,
      po_postOnly = (case r_kind req of LimitKind _ tif \<Rightarrow> tif = Some PostOnly | _ \<Rightarrow> False),
      po_createdAt = now, po_takeProfit = truthy_number (r_takeProfit req),
      po_stopLoss = truthy_number (r_stopLoss req)\<rparr>"

text \<open>The price an order's opening part is margined at.\<close>

definition request_price :: "order_request \<Rightarrow> quote \<Rightarrow> jsnum" where
  "request_price req quote =
     (case r_kind req of
        LimitKind price _ \<Rightarrow> to_number price
      | TriggerKind trig limitPrice \<Rightarrow> to_number (case limitPrice of Some l \<Rightarrow> l | None \<Rightarrow> trig)
      | _ \<Rightarrow> takerPrice quote (r_side req))"

text \<open>Opening sz needs margin: the part that does not close what is open.\<close>

definition margin_needed ::
    "paper_state \<Rightarrow> order_request \<Rightarrow> market \<Rightarrow> quote \<Rightarrow> fees \<Rightarrow> jsnum \<Rightarrow> jsnum" where
  "margin_needed state req mk quote fees opening =
     (let price = request_price req quote; lev = st_leverage (settingsFor state mk)
      in opening * price / lev + opening * price * fee_taker fees)"

definition closes_part :: "paper_position option \<Rightarrow> side \<Rightarrow> jsnum \<Rightarrow> jsnum" where
  "closes_part pos sd sz =
     (case pos of Some p \<Rightarrow> if closing_side p sd then math_min sz (pp_size p) else 0 | None \<Rightarrow> 0)"

text \<open>The last part: a market order or a limit that crosses fills at once, the rest waits.\<close>

definition execute_order ::
    "paper_state \<Rightarrow> paper_state \<Rightarrow> order_request \<Rightarrow> paper_order \<Rightarrow> market \<Rightarrow> quote \<Rightarrow> fees \<Rightarrow> jsnum
      \<Rightarrow> paper_result" where
  "execute_order current state req ord mk quote fees now =
     (case r_kind req of
        MarketKind maxSlippageBps \<Rightarrow>
          (let price = takerPrice quote (r_side req);
               bound = q_mark quote * (maxSlippageBps / Fin 10000)
           in if bound + eps12 < \<bar>price - q_mark quote\<bar>
              then (pushHistory state ord Cancelled 0, Some ErrPrice)
              else (pushHistory (fill state ord mk price True fees now (po_size ord)) ord Filled (po_size ord), None))
      | LimitKind priceText tif \<Rightarrow>
          (let price = to_number priceText; ord' = ord\<lparr>po_price := Some price\<rparr>;
               crosses = (case r_side req of Buy \<Rightarrow> takerPrice quote Buy \<le> price
                                           | Sell \<Rightarrow> price \<le> takerPrice quote Sell)
           in if \<not> 0 < price then (current, Some ErrPrice)
              else if crosses \<and> po_postOnly ord' then (pushHistory state ord' Rejected 0, Some ErrPostOnly)
              else if crosses
              then (pushHistory (fill state ord' mk (takerPrice quote (r_side req)) True fees now (po_size ord'))
                      ord' Filled (po_size ord'), None)
              else if tif = Some Ioc then (pushHistory state ord' Cancelled 0, None)
              else (state\<lparr>ps_orders := ord' # ps_orders state\<rparr>, None))
      | TriggerKind trigText limitPrice \<Rightarrow>
          (let trigger = to_number trigText;
               ord' = ord\<lparr>po_triggerPrice := Some trigger, po_triggerAbove := Some (q_mark quote < trigger),
                          po_price := truthy_number limitPrice\<rparr>
           in if \<not> 0 < trigger then (current, Some ErrPrice)
              else (state\<lparr>ps_orders := ord' # ps_orders state\<rparr>, None))
      | TwapKind _ _ \<Rightarrow> (current, Some ErrUnsupported))"

definition placeOrder ::
    "paper_state \<Rightarrow> order_request \<Rightarrow> market \<Rightarrow> quotes \<Rightarrow> fees \<Rightarrow> jsnum \<Rightarrow> paper_result" where
  "placeOrder current req mk quotes fees now =
     (if (case r_kind req of TwapKind _ _ \<Rightarrow> True | _ \<Rightarrow> False) then (current, Some ErrUnsupported)
      else case quotes (m_id mk) of None \<Rightarrow> (current, Some ErrNoPrice) | Some quote \<Rightarrow>
      if \<not> 0 < q_mark quote then (current, Some ErrNoPrice)
      else let asked = toStep (to_number (r_size req)) (to_number (m_sizeStep mk)) in
      if \<not> 0 < asked then (current, Some ErrSize)
      else if asked < to_number (m_minSize mk) - eps12 then (current, Some ErrMinSize)
      else let pos = List.find (\<lambda>p. pp_market p = m_id mk) (ps_positions current) in
      if r_reduceOnly req \<and> (case pos of Some p \<Rightarrow> \<not> closing_side p (r_side req) | None \<Rightarrow> True)
      then (current, Some ErrReduceOnly)
      else let sz = (if r_reduceOnly req then (case pos of Some p \<Rightarrow> math_min asked (pp_size p) | None \<Rightarrow> asked)
                       else asked);
               ord = new_order (ps_nextId current) req mk sz now;
               state = current\<lparr>ps_nextId := ps_nextId current + 1\<rparr>;
               opening = sz - closes_part pos (r_side req) sz in
      if 0 < opening \<and> t_available (totals state quotes) + eps9 < margin_needed state req mk quote fees opening
      then (current, Some ErrMargin)
      else execute_order current state req ord mk quote fees now)"

end
