(* ===== verification/Paper_Tick.thy ===== *)
theory Paper_Tick
  imports Paper
begin

text \<open>
  Paper trading over time, \<^verbatim>\<open>apps/desktop/src/lib/paper.ts\<close>: \<open>tick\<close> (resting
  orders, exits, funding, liquidation), the account's other operations, and the snapshot the
  panels read. \<open>tick\<close> walks a copy of the order list and then a copy of the position
  list; each turn is a step of a fold over the state and the \<open>changed\<close> flag.
\<close>

section \<open>Resting orders\<close>

definition sizeFor :: "paper_state \<Rightarrow> paper_order \<Rightarrow> jsnum" where
  "sizeFor state ord =
     (if \<not> po_reduceOnly ord then po_size ord
      else case List.find (\<lambda>x. pp_market x = po_market ord) (ps_positions state) of
             Some p \<Rightarrow> if closing_side p (po_side ord) then math_min (po_size ord) (pp_size p) else 0
           | None \<Rightarrow> 0)"

definition without_order :: "string \<Rightarrow> paper_state \<Rightarrow> paper_state" where
  "without_order i state = state\<lparr>ps_orders := filter (\<lambda>x. po_id x \<noteq> i) (ps_orders state)\<rparr>"

text \<open>Fills what an order still has to fill, or cancels it when that is nothing.\<close>

definition fill_or_cancel ::
    "paper_state \<Rightarrow> paper_order \<Rightarrow> market \<Rightarrow> jsnum \<Rightarrow> bool \<Rightarrow> fees \<Rightarrow> jsnum \<Rightarrow> paper_state" where
  "fill_or_cancel state ord mk price taker fees now =
     (let sz = sizeFor state ord
      in if sz \<le> 0 then pushHistory state ord Cancelled 0
         else pushHistory (fill state ord mk price taker fees now sz) ord Filled sz)"

definition trigger_hit :: "paper_order \<Rightarrow> quote \<Rightarrow> bool" where
  "trigger_hit ord quote =
     (let trigger = (case po_triggerPrice ord of Some t \<Rightarrow> t | None \<Rightarrow> 0)
      in if po_triggerAbove ord = Some True then trigger \<le> q_mark quote else q_mark quote \<le> trigger)"

definition limit_price :: "paper_order \<Rightarrow> jsnum" where
  "limit_price ord = (case po_price ord of Some p \<Rightarrow> p | None \<Rightarrow> 0)"

definition limit_reached :: "paper_order \<Rightarrow> quote \<Rightarrow> bool" where
  "limit_reached ord quote =
     (case po_side ord of
        Buy \<Rightarrow> (case q_ask quote of Some a \<Rightarrow> a | None \<Rightarrow> q_mark quote) \<le> limit_price ord
      | Sell \<Rightarrow> limit_price ord \<le> (case q_bid quote of Some b \<Rightarrow> b | None \<Rightarrow> q_mark quote))"

definition tick_order ::
    "quotes \<Rightarrow> markets \<Rightarrow> fees \<Rightarrow> jsnum \<Rightarrow> paper_order \<Rightarrow> paper_state \<times> bool \<Rightarrow> paper_state \<times> bool" where
  "tick_order quotes mks fees now ord sc =
     (case (quotes (po_market ord), mks (po_market ord)) of
        (Some quote, Some mk) \<Rightarrow>
          (let st = without_order (po_id ord) (fst sc)
           in case po_type ord of
                PaperTrigger \<Rightarrow>
                  if \<not> trigger_hit ord quote then sc
                  else if po_price ord \<noteq> None
                  then (st\<lparr>ps_orders := ord\<lparr>po_type := PaperLimit, po_triggerPrice := None\<rparr> # ps_orders st\<rparr>, True)
                  else (fill_or_cancel st ord mk (takerPrice quote (po_side ord)) True fees now, True)
              | PaperLimit \<Rightarrow>
                  if \<not> limit_reached ord quote then sc
                  else (fill_or_cancel st ord mk (limit_price ord) False fees now, True))
      | _ \<Rightarrow> sc)"

definition tick_orders ::
    "quotes \<Rightarrow> markets \<Rightarrow> fees \<Rightarrow> jsnum \<Rightarrow> paper_order list \<Rightarrow> paper_state \<times> bool \<Rightarrow> paper_state \<times> bool" where
  "tick_orders quotes mks fees now ords sc = fold (tick_order quotes mks fees now) ords sc"

section \<open>Open positions\<close>

definition funding_interval :: "quote \<Rightarrow> jsnum" where
  "funding_interval quote =
     (case q_fundingIntervalSecs quote of Some s \<Rightarrow> s | None \<Rightarrow> Fin 3600) * Fin 1000"

definition funding_due :: "jsnum obj \<Rightarrow> paper_position \<Rightarrow> quote \<Rightarrow> jsnum \<Rightarrow> bool" where
  "funding_due fundedAt p quote now =
     (let interval = funding_interval quote;
          paid = (case obj_get fundedAt (pp_market p) of Some t \<Rightarrow> t | None \<Rightarrow> pp_openedAt p)
      in q_fundingRate quote \<noteq> None \<and> math_floor (paid / interval) < math_floor (now / interval))"

text \<open>A change of the position object \<open>p\<close>: the account's first position in its market.\<close>

definition set_position :: "paper_position \<Rightarrow> paper_state \<Rightarrow> paper_state" where
  "set_position p state =
     state\<lparr>ps_positions := update_first (\<lambda>x. pp_market x = pp_market p) (\<lambda>_. p) (ps_positions state)\<rparr>"

text \<open>Funding, once per interval: longs pay a positive rate, shorts receive it.\<close>

definition funding_amount :: "paper_position \<Rightarrow> quote \<Rightarrow> jsnum" where
  "funding_amount p quote =
     - dirOf (pp_side p) * pp_size p * q_mark quote * (case q_fundingRate quote of Some r \<Rightarrow> r | None \<Rightarrow> 0)"

definition pay_funding ::
    "paper_state \<Rightarrow> paper_position \<Rightarrow> quote \<Rightarrow> jsnum \<Rightarrow> paper_state \<times> paper_position \<times> bool" where
  "pay_funding state p quote now =
     (if funding_due (ps_fundedAt state) p quote now
      then (let amount = funding_amount p quote
            in (state\<lparr>ps_cash := ps_cash state + amount,
                      ps_fundedAt := obj_set (ps_fundedAt state) (pp_market p) now,
                      ps_funding := keep (\<lparr>fp_venue = ps_venue state, fp_market = pp_market p,
                                           fp_amount = dec amount,
                                           fp_positionSize = dec (pp_size p * dirOf (pp_side p)),
                                           fp_rate = dec (case q_fundingRate quote of Some r \<Rightarrow> r | None \<Rightarrow> 0),
                                           fp_time = now\<rparr> # ps_funding state)\<rparr>,
                p\<lparr>pp_realized := pp_realized p + amount\<rparr>, True))
      else if obj_get (ps_fundedAt state) (pp_market p) = None
      then (state\<lparr>ps_fundedAt := obj_set (ps_fundedAt state) (pp_market p) now\<rparr>, p, False)
      else (state, p, False))"

text \<open>\<open>a !== b\<close> on numbers that may be undefined.\<close>

definition opt_differs :: "jsnum option \<Rightarrow> jsnum option \<Rightarrow> bool" where
  "opt_differs a b =
     (case (a, b) of (None, None) \<Rightarrow> False | (Some x, Some y) \<Rightarrow> \<not> js_eq x y | _ \<Rightarrow> True)"

text \<open>A trailing stop follows the best price once it is active.\<close>

definition trail_active :: "paper_position \<Rightarrow> jsnum \<Rightarrow> bool" where
  "trail_active p mark =
     (case pp_trailingFrom p of None \<Rightarrow> True
      | Some from \<Rightarrow> if pp_side p = Long then from \<le> mark else mark \<le> from)"

definition trail_best :: "paper_position \<Rightarrow> jsnum \<Rightarrow> jsnum" where
  "trail_best p mark =
     (case pp_trailingBest p of None \<Rightarrow> mark
      | Some best \<Rightarrow> if pp_side p = Long then math_max best mark else math_min best mark)"

definition follow_trail :: "paper_position \<Rightarrow> jsnum \<Rightarrow> paper_position \<times> bool" where
  "follow_trail p mark =
     (if pp_trailing p \<noteq> None \<and> trail_active p mark
      then (p\<lparr>pp_trailingFrom := None, pp_trailingBest := Some (trail_best p mark)\<rparr>,
            opt_differs (Some (trail_best p mark)) (pp_trailingBest p) \<or> pp_trailingFrom p \<noteq> None)
      else (p, False))"

definition trail_hit :: "paper_position \<Rightarrow> jsnum \<Rightarrow> bool" where
  "trail_hit p mark =
     (case (pp_trailing p, pp_trailingBest p) of
        (Some t, Some best) \<Rightarrow> if pp_side p = Long then mark \<le> best - t else best + t \<le> mark
      | _ \<Rightarrow> False)"

text \<open>The price a position is closed at, and no price while it stays open.\<close>

definition exit_price :: "paper_state \<Rightarrow> paper_position \<Rightarrow> quote \<Rightarrow> quotes \<Rightarrow> market \<Rightarrow> jsnum option" where
  "exit_price state p quote quotes mk =
     (let mark = q_mark quote; long = (pp_side p = Long);
          out = takerPrice quote (exit_side (pp_side p));
          liq = liquidationPrice state p quotes (m_maxLeverage mk)
      in if (case liq of Some l \<Rightarrow> (if long then mark \<le> l else l \<le> mark) | None \<Rightarrow> False) then liq
         else if (case pp_stopLoss p of Some s \<Rightarrow> (if long then mark \<le> s else s \<le> mark) | None \<Rightarrow> False)
         then Some out
         else if (case pp_takeProfit p of Some t \<Rightarrow> (if long then t \<le> mark else mark \<le> t) | None \<Rightarrow> False)
         then Some out
         else if trail_hit p mark then Some out
         else None)"

definition tick_position ::
    "quotes \<Rightarrow> markets \<Rightarrow> fees \<Rightarrow> jsnum \<Rightarrow> paper_position \<Rightarrow> paper_state \<times> bool \<Rightarrow> paper_state \<times> bool" where
  "tick_position quotes mks fees now p0 sc =
     (case (quotes (pp_market p0), mks (pp_market p0)) of
        (Some quote, Some mk) \<Rightarrow>
          (let (st1, p1, paid) = pay_funding (fst sc) p0 quote now;
               (p, moved) = follow_trail p1 (q_mark quote);
               st = set_position p st1
           in case exit_price st p quote quotes mk of
                Some price \<Rightarrow> (closeAt st p mk price fees now, True)
              | None \<Rightarrow> (st, snd sc \<or> paid \<or> moved))
      | _ \<Rightarrow> sc)"

definition tick_positions ::
    "quotes \<Rightarrow> markets \<Rightarrow> fees \<Rightarrow> jsnum \<Rightarrow> paper_position list \<Rightarrow> paper_state \<times> bool \<Rightarrow> paper_state \<times> bool" where
  "tick_positions quotes mks fees now ps sc = fold (tick_position quotes mks fees now) ps sc"

text \<open>The state after a tick, and whether it is a new object (the caller saves only then).\<close>

definition tick_run :: "paper_state \<Rightarrow> quotes \<Rightarrow> markets \<Rightarrow> fees \<Rightarrow> jsnum \<Rightarrow> paper_state \<times> bool" where
  "tick_run current quotes mks fees now =
     (let sc = tick_orders quotes mks fees now (ps_orders current) (current, False);
          (state, changed) = tick_positions quotes mks fees now (ps_positions (fst sc)) sc
      in if changed \<or> ps_fundedAt state \<noteq> ps_fundedAt current then (state, True) else (current, False))"

definition tick :: "paper_state \<Rightarrow> quotes \<Rightarrow> markets \<Rightarrow> fees \<Rightarrow> jsnum \<Rightarrow> paper_state" where
  "tick current quotes mks fees now = fst (tick_run current quotes mks fees now)"

section \<open>The account's other operations\<close>

definition close_if_quoted ::
    "quotes \<Rightarrow> markets \<Rightarrow> fees \<Rightarrow> jsnum \<Rightarrow> paper_position \<Rightarrow> paper_state \<Rightarrow> paper_state" where
  "close_if_quoted quotes mks fees now p state =
     (case (quotes (pp_market p), mks (pp_market p)) of
        (Some quote, Some mk) \<Rightarrow>
          closeAt state p mk (takerPrice quote (exit_side (pp_side p))) fees now
      | _ \<Rightarrow> state)"

definition closeAll :: "paper_state \<Rightarrow> quotes \<Rightarrow> markets \<Rightarrow> fees \<Rightarrow> jsnum \<Rightarrow> paper_state" where
  "closeAll current quotes mks fees now =
     (if ps_positions current = [] \<and> ps_orders current = [] then current
      else let st = fold (\<lambda>ord s. pushHistory s ord Cancelled 0) (ps_orders current) current;
               st' = st\<lparr>ps_orders := []\<rparr>
           in fold (close_if_quoted quotes mks fees now) (ps_positions st') st')"

definition withdrawable :: "paper_state \<Rightarrow> quotes \<Rightarrow> jsnum" where
  "withdrawable state quotes =
     math_max 0 (math_min (t_available (totals state quotes)) (ps_cash state))"

definition adjustFunds :: "paper_state \<Rightarrow> jsnum \<Rightarrow> quotes \<Rightarrow> paper_result" where
  "adjustFunds current amount quotes =
     (let sz = \<bar>amount\<bar>
      in if \<not> is_finite amount \<or> sz < PAPER_MOVE_MIN then (current, Some ErrAmount)
         else if 0 < amount \<and> PAPER_ADD_MAX < amount then (current, Some ErrAmount)
         else if amount < 0 \<and> withdrawable current quotes + eps9 < sz then (current, Some ErrTooMuch)
         else (current\<lparr>ps_cash := ps_cash current + amount, ps_start := ps_start current + amount\<rparr>, None))"

definition cancelOrder :: "paper_state \<Rightarrow> string \<Rightarrow> paper_result" where
  "cancelOrder current i =
     (case List.find (\<lambda>x. po_id x = i) (ps_orders current) of
        None \<Rightarrow> (current, Some ErrNotFound)
      | Some ord \<Rightarrow> (pushHistory (without_order i current) ord Cancelled 0, None))"

definition applyExit :: "jsnum option \<Rightarrow> exit_change \<Rightarrow> jsnum option" where
  "applyExit was change =
     (case change of KeepExit \<Rightarrow> was | RemoveExit \<Rightarrow> None | SetExit price \<Rightarrow> Some (to_number price))"

text \<open>The order after an amendment, or the first problem with it.\<close>

definition amended_price :: "paper_order \<Rightarrow> order_amend \<Rightarrow> paper_error + paper_order" where
  "amended_price ord change =
     (case oa_price change of
        None \<Rightarrow> Inr ord
      | Some t \<Rightarrow> (let price = to_number t
                   in if \<not> 0 < price then Inl ErrPrice
                      else Inr (if po_type ord = PaperTrigger then ord\<lparr>po_triggerPrice := Some price\<rparr>
                                else ord\<lparr>po_price := Some price\<rparr>)))"

definition amended_size :: "paper_order \<Rightarrow> order_amend \<Rightarrow> market \<Rightarrow> paper_error + paper_order" where
  "amended_size ord change mk =
     (case oa_size change of
        None \<Rightarrow> Inr ord
      | Some t \<Rightarrow> (let sz = toStep (to_number t) (to_number (m_sizeStep mk))
                   in if \<not> 0 < sz then Inl ErrSize else Inr (ord\<lparr>po_size := sz\<rparr>)))"

definition amended :: "paper_order \<Rightarrow> order_amend \<Rightarrow> market \<Rightarrow> paper_error + paper_order" where
  "amended ord change mk =
     (case amended_price ord change of
        Inl e \<Rightarrow> Inl e
      | Inr ord1 \<Rightarrow>
          (case amended_size ord1 change mk of
             Inl e \<Rightarrow> Inl e
           | Inr ord2 \<Rightarrow> Inr (ord2\<lparr>po_takeProfit := applyExit (po_takeProfit ord2) (oa_takeProfit change),
                                   po_stopLoss := applyExit (po_stopLoss ord2) (oa_stopLoss change)\<rparr>)))"

definition amendOrder :: "paper_state \<Rightarrow> string \<Rightarrow> order_amend \<Rightarrow> market \<Rightarrow> paper_result" where
  "amendOrder current i change mk =
     (case List.find (\<lambda>x. po_id x = i) (ps_orders current) of
        None \<Rightarrow> (current, Some ErrNotFound)
      | Some ord \<Rightarrow>
          (case amended ord change mk of
             Inl e \<Rightarrow> (current, Some e)
           | Inr ord' \<Rightarrow>
               (current\<lparr>ps_orders := update_first (\<lambda>x. po_id x = i) (\<lambda>_. ord') (ps_orders current)\<rparr>, None)))"

definition protected :: "paper_position \<Rightarrow> position_protection \<Rightarrow> paper_position" where
  "protected p0 protection =
     (let p = p0\<lparr>pp_takeProfit := applyExit (pp_takeProfit p0) (pr_takeProfit protection),
                 pp_stopLoss := applyExit (pp_stopLoss p0) (pr_stopLoss protection)\<rparr>;
          trailing = applyExit (pp_trailing p) (pr_trailingStop protection)
      in if opt_differs trailing (pp_trailing p)
         then p\<lparr>pp_trailing := trailing, pp_trailingBest := None,
                pp_trailingFrom := (if trailing \<noteq> None then truthy_number (pr_trailingActivation protection)
                                    else None)\<rparr>
         else p)"

definition protectPosition :: "paper_state \<Rightarrow> string \<Rightarrow> position_protection \<Rightarrow> paper_result" where
  "protectPosition current marketId protection =
     (case List.find (\<lambda>x. pp_market x = marketId) (ps_positions current) of
        None \<Rightarrow> (current, Some ErrNotFound)
      | Some p \<Rightarrow> (set_position (protected p protection) current, None))"

definition setLeverage :: "paper_state \<Rightarrow> market \<Rightarrow> jsnum \<Rightarrow> paper_state" where
  "setLeverage current mk leverage =
     (let lev = math_max 1 (math_min (m_maxLeverage mk) (math_round leverage))
      in current\<lparr>ps_settings := obj_set (ps_settings current) (m_id mk)
                                  ((settingsFor current mk)\<lparr>st_leverage := lev\<rparr>),
                 ps_positions := update_first (\<lambda>x. pp_market x = m_id mk) (\<lambda>x. x\<lparr>pp_leverage := lev\<rparr>)
                                   (ps_positions current)\<rparr>)"

definition setMarginMode :: "paper_state \<Rightarrow> market \<Rightarrow> margin_mode \<Rightarrow> paper_result" where
  "setMarginMode current mk mode =
     (if list_ex (\<lambda>p. pp_market p = m_id mk) (ps_positions current) then (current, Some ErrHasPosition)
      else (current\<lparr>ps_settings := obj_set (ps_settings current) (m_id mk)
                                     ((settingsFor current mk)\<lparr>st_marginMode := mode\<rparr>)\<rparr>, None))"

definition tradeSettings :: "paper_state \<Rightarrow> market \<Rightarrow> trade_settings" where
  "tradeSettings state mk =
     (let s = settingsFor state mk
      in \<lparr>ts_marginMode = st_marginMode s, ts_marginModeAccountWide = False,
          ts_leverage = num_str (st_leverage s), ts_maxLeverage = num_str (m_maxLeverage mk)\<rparr>)"

section \<open>The snapshot\<close>

definition position_view :: "paper_state \<Rightarrow> quotes \<Rightarrow> markets \<Rightarrow> paper_position \<Rightarrow> position" where
  "position_view state quotes mks p =
     (let mark = markOf quotes (pp_market p) (pp_entry p);
          liq = (case mks (pp_market p) of
                   Some mk \<Rightarrow> liquidationPrice state p quotes (m_maxLeverage mk) | None \<Rightarrow> None)
      in \<lparr>p_venue = ps_venue state, p_market = pp_market p, p_side = pp_side p, p_size = dec (pp_size p),
          p_entryPrice = dec (pp_entry p), p_markPrice = dec mark,
          p_liquidationPrice = map_option dec liq,
          p_unrealizedPnl = dec (position_upnl quotes p), p_margin = dec (position_margin quotes p),
          p_realizedPnl = Some (dec (pp_realized p)), p_takeProfit = map_option dec (pp_takeProfit p),
          p_stopLoss = map_option dec (pp_stopLoss p), p_trailingStop = map_option dec (pp_trailing p),
          p_leverage = Some (dec (pp_leverage p)), p_marginMode = Some (pp_marginMode p)\<rparr>)"

definition snapshot :: "paper_state \<Rightarrow> quotes \<Rightarrow> markets \<Rightarrow> jsnum \<Rightarrow> account_snapshot" where
  "snapshot state quotes mks now =
     (let t = totals state quotes
      in \<lparr>a_venue = ps_venue state, a_address = ''paper'', a_equity = dec (t_equity t),
          a_availableMargin = dec (t_available t),
          a_realizedPnl = Some (dec (ps_cash state - ps_start state)),
          a_positions = map (position_view state quotes mks) (ps_positions state),
          a_openOrders = map (\<lambda>ord. toOrder (ps_venue state) ord Open 0) (ps_orders state),
          a_time = now\<rparr>)"

end
