(* ===== verification/Interfaces.thy ===== *)
theory Interfaces
  imports Prelude
begin

text \<open>
  The contracts the components share, as locales. \<open>machine\<close>: a state moved by events,
  with an invariant every event keeps. \<open>bounded_log\<close>: a newest-first list that keeps a
  fixed number of entries. \<open>persisted\<close>: a state saved and read back through a reader
  that trusts nothing it reads. Each component's theory interprets them on its own definitions.
\<close>

locale machine =
  fixes step :: "'e \<Rightarrow> 's \<Rightarrow> 's"
    and start :: "'s \<Rightarrow> bool"
    and inv :: "'s \<Rightarrow> bool"
  assumes start_inv: "start s \<Longrightarrow> inv s"
    and step_inv: "inv s \<Longrightarrow> inv (step e s)"
begin

lemma run_inv: "inv s \<Longrightarrow> inv (fold step es s)"
  by (induction es arbitrary: s) (auto intro: step_inv)

lemma reachable_inv: "start s \<Longrightarrow> inv (fold step es s)"
  by (intro run_inv start_inv)

lemma run_invariant_part:
  assumes "\<And>s. inv s \<Longrightarrow> Q s" "start s"
  shows "Q (fold step es s)"
  using assms reachable_inv by blast

lemma run_kept:
  assumes "\<And>e s. inv s \<Longrightarrow> f (step e s) = f s" "inv s"
  shows "f (fold step es s) = f s"
  using assms(2) by (induction es arbitrary: s) (simp_all add: assms(1) step_inv)

end

locale bounded_log =
  fixes push :: "'a \<Rightarrow> 'a list \<Rightarrow> 'a list"
    and cap :: nat
  assumes push_def': "push x xs = take cap (x # xs)"
    and cap_pos: "0 < cap"
begin

lemma push_length: "length (push x xs) \<le> cap"
  by (simp add: push_def')

lemma push_newest: "push x xs \<noteq> [] \<and> hd (push x xs) = x"
  using cap_pos by (cases cap) (simp_all add: push_def')

lemma push_keeps: "length xs < cap \<Longrightarrow> push x xs = x # xs"
  by (simp add: push_def')

lemma push_set: "set (push x xs) \<subseteq> insert x (set xs)"
  unfolding push_def' by (metis list.set(2) set_take_subset)

lemma push_distinct: "distinct (map f xs) \<Longrightarrow> f x \<notin> f ` set xs \<Longrightarrow> distinct (map f (push x xs))"
  unfolding push_def' by (metis distinct.simps(2) distinct_take list.set_map list.simps(9) take_map)

lemma pushes_length: "xs \<noteq> [] \<Longrightarrow> length (fold push xs ys) \<le> cap"
proof (induction xs arbitrary: ys)
  case (Cons x xs)
  then show ?case using push_length [of x ys] by (cases xs) simp_all
qed simp

lemma pushes_newest_first:
  "length xs \<le> cap \<Longrightarrow> fold push xs [] = rev xs"
proof (induction xs rule: rev_induct)
  case (snoc x xs)
  then show ?case by (simp add: push_keeps)
qed simp

end

locale persisted =
  fixes save :: "'s \<Rightarrow> 'j"
    and load :: "'j \<Rightarrow> 's"
    and ok :: "'s \<Rightarrow> bool"
  assumes load_ok: "ok (load j)"
    and load_save: "ok s \<Longrightarrow> load (save s) = s"
begin

lemma reload: "load (save (load j)) = load j"
  by (rule load_save) (rule load_ok)

lemma save_inj: "ok s \<Longrightarrow> ok t \<Longrightarrow> save s = save t \<Longrightarrow> s = t"
  by (metis load_save)

lemma ok_iff: "ok s \<longleftrightarrow> (\<exists>j. load j = s)"
  by (metis load_ok load_save)

end

end
