(* ===== verification/Paper_Props.thy ===== *)
theory Paper_Props
  imports Paper_Tick Interfaces
begin

text \<open>
  What the paper engine keeps and does. The invariant: one position per market, one order
  per id, every id one the engine gave out, every list within its bound.
\<close>

section \<open>The invariant\<close>

definition own_id :: "int \<Rightarrow> string \<Rightarrow> bool" where
  "own_id n i = (\<exists>k. 0 \<le> k \<and> k < n \<and> i = ''paper-'' @ int_str k)"

definition orders_ok :: "int \<Rightarrow> paper_order list \<Rightarrow> bool" where
  "orders_ok n ords = (distinct (map po_id ords) \<and> (\<forall>x \<in> set ords. own_id n (po_id x)))"

definition paper_inv :: "paper_state \<Rightarrow> bool" where
  "paper_inv s =
     (distinct (map pp_market (ps_positions s)) \<and> 0 \<le> ps_nextId s \<and>
      orders_ok (ps_nextId s) (ps_orders s) \<and>
      length (ps_fills s) \<le> KEEP \<and> length (ps_closed s) \<le> KEEP \<and>
      length (ps_history s) \<le> KEEP \<and> length (ps_funding s) \<le> KEEP)"

lemma length_keep [simp]: "length (keep xs) \<le> KEEP"
  by (simp add: keep_def)

interpretation paper_log: bounded_log "\<lambda>x xs. keep (x # xs)" KEEP
  by unfold_locales (simp_all add: keep_def KEEP_def)

lemma own_id_mono: "own_id n i \<Longrightarrow> n \<le> m \<Longrightarrow> own_id m i"
  by (force simp: own_id_def)

lemma fresh_id: "0 \<le> n \<Longrightarrow> orders_ok n ords \<Longrightarrow> ''paper-'' @ int_str n \<notin> po_id ` set ords"
  by (auto simp: orders_ok_def own_id_def int_str_inj)

lemma orders_ok_mono: "orders_ok n ords \<Longrightarrow> n \<le> m \<Longrightarrow> orders_ok m ords"
  using own_id_mono by (auto simp: orders_ok_def)

lemma orders_ok_filter: "orders_ok n ords \<Longrightarrow> orders_ok n (filter p ords)"
  by (auto simp: orders_ok_def distinct_map_filter)

lemma orders_ok_Cons:
  "orders_ok n (x # ords) \<longleftrightarrow> po_id x \<notin> po_id ` set ords \<and> own_id n (po_id x) \<and> orders_ok n ords"
  by (auto simp: orders_ok_def)

lemma orders_ok_place:
  "0 \<le> n \<Longrightarrow> orders_ok n ords \<Longrightarrow> po_id x = ''paper-'' @ int_str n \<Longrightarrow> orders_ok (n + 1) (x # ords)"
  using fresh_id [of n ords] orders_ok_mono [of n ords "n + 1"]
  by (auto simp: orders_ok_Cons own_id_def)

section \<open>What a fill changes and keeps\<close>

lemma find_market_None:
  "List.find (\<lambda>x. pp_market x = k) ps = None \<longleftrightarrow> k \<notin> pp_market ` set ps"
  by (auto simp: find_None)

lemma close_position_frame [frame_simps]:
  assumes "close_position state ord mk p price fee now sz = (st, e, c)"
  shows "ps_nextId st = ps_nextId state" "ps_history st = ps_history state"
    "ps_fills st = ps_fills state" "ps_funding st = ps_funding state"
    "ps_venue st = ps_venue state" "ps_start st = ps_start state"
    "ps_settings st = ps_settings state" "ps_fundedAt st = ps_fundedAt state"
  using assms by (auto simp: close_position_def Let_def split: if_splits)

lemma filter_all: "\<exists>q. xs = filter q xs"
  by (rule exI [of _ "\<lambda>_. True"]) simp

lemma close_position_orders:
  assumes "close_position state ord mk p price fee now sz = (st, e, c)"
  shows "\<exists>q. ps_orders st = filter q (ps_orders state)"
  using assms filter_all by (auto simp: close_position_def Let_def split: if_splits)

lemma close_position_closed_length:
  assumes "close_position state ord mk p price fee now sz = (st, e, c)"
  shows "length (ps_closed st) \<le> KEEP"
  using assms by (auto simp: close_position_def Let_def split: if_splits)

lemma set_markets_remove_first:
  "distinct (map pp_market ps) \<Longrightarrow> k \<notin> pp_market ` set (remove_first (\<lambda>x. pp_market x = k) ps)"
  using remove_first_key [of pp_market ps _ k] by auto

lemma close_position_distinct:
  assumes "close_position state ord mk p price fee now sz = (st, e, c)"
    and d: "distinct (map pp_market (ps_positions state))"
  shows "distinct (map pp_market (ps_positions st))"
proof -
  let ?r = "remove_first (\<lambda>x. pp_market x = m_id mk) (ps_positions state)"
  have "distinct (map pp_market ?r)" "m_id mk \<notin> pp_market ` set ?r"
    using d by (simp_all add: map_remove_first_distinct set_markets_remove_first)
  then have "distinct (map pp_market (?r @ [opened_position s ord mk price f now x]))" for s f x
    by (simp add: opened_position_def)
  with assms \<open>distinct (map pp_market ?r)\<close> show ?thesis
    by (auto simp: close_position_def Let_def map_update_first_same split: if_splits)
qed

text \<open>A fill, seen through the three ways it can go.\<close>

lemma fill_cases [consumes 0, case_names opens adds closes]:
  fixes state :: paper_state
  obtains (opens) "List.find (\<lambda>x. pp_market x = m_id mk) (ps_positions state) = None"
  | (adds) p where "List.find (\<lambda>x. pp_market x = m_id mk) (ps_positions state) = Some p"
      "(pp_side p = Long) = (po_side ord = Buy)"
  | (closes) p where "List.find (\<lambda>x. pp_market x = m_id mk) (ps_positions state) = Some p"
      "(pp_side p = Long) \<noteq> (po_side ord = Buy)"
  by (cases "List.find (\<lambda>x. pp_market x = m_id mk) (ps_positions state)") auto

lemma fill_frame [frame_simps]:
  "ps_nextId (fill state ord mk price taker fees now sz) = ps_nextId state + 1"
  "ps_history (fill state ord mk price taker fees now sz) = ps_history state"
  "ps_funding (fill state ord mk price taker fees now sz) = ps_funding state"
  "ps_venue (fill state ord mk price taker fees now sz) = ps_venue state"
  "ps_start (fill state ord mk price taker fees now sz) = ps_start state"
  "ps_settings (fill state ord mk price taker fees now sz) = ps_settings state"
  "ps_fundedAt (fill state ord mk price taker fees now sz) = ps_fundedAt state"
  unfolding fill_def Let_def
  by (simp_all add: close_position_frame split: option.split prod.split)

lemma fill_orders:
  "\<exists>q. ps_orders (fill state ord mk price taker fees now sz) = filter q (ps_orders state)"
  using filter_all by (auto simp: fill_def Let_def split: option.splits prod.splits dest!: close_position_orders)

lemma fill_lengths:
  "length (ps_fills (fill state ord mk price taker fees now sz)) \<le> KEEP"
  "length (ps_closed state) \<le> KEEP \<Longrightarrow> length (ps_closed (fill state ord mk price taker fees now sz)) \<le> KEEP"
  by (auto simp: fill_def Let_def split: option.splits prod.splits dest!: close_position_closed_length)

lemma fill_distinct:
  assumes "distinct (map pp_market (ps_positions state))"
  shows "distinct (map pp_market (ps_positions (fill state ord mk price taker fees now sz)))"
proof (cases rule: fill_cases [where state = state and mk = mk and ord = ord])
  case opens
  then have "m_id mk \<notin> pp_market ` set (ps_positions state)" by (simp add: find_market_None)
  with opens assms show ?thesis by (auto simp: fill_def Let_def opened_position_def)
next
  case (adds p)
  with assms show ?thesis
    by (simp add: fill_def Let_def map_update_first_same added_position_def)
next
  case (closes p)
  obtain st e c where cp: "close_position (state\<lparr>ps_cash := ps_cash state -
      sz * price * (if taker then fee_taker fees else fee_maker fees)\<rparr>) ord mk p price
      (sz * price * (if taker then fee_taker fees else fee_maker fees)) now sz = (st, e, c)"
    by (metis prod_cases3)
  from close_position_distinct [OF this] assms have "distinct (map pp_market (ps_positions st))" by simp
  with closes cp show ?thesis by (auto simp: fill_def Let_def)
qed

lemma fill_inv [wf_intros]:
  assumes "paper_inv state"
  shows "paper_inv (fill state ord mk price taker fees now sz)"
proof -
  obtain q where q: "ps_orders (fill state ord mk price taker fees now sz) = filter q (ps_orders state)"
    using fill_orders by blast
  have "orders_ok (ps_nextId state + 1) (filter q (ps_orders state))"
    using assms orders_ok_mono [of "ps_nextId state" "filter q (ps_orders state)" "ps_nextId state + 1"]
    by (simp add: paper_inv_def orders_ok_filter)
  with q assms show ?thesis
    by (simp add: paper_inv_def fill_frame fill_lengths fill_distinct)
qed

lemma pushHistory_inv [wf_intros]: "paper_inv state \<Longrightarrow> paper_inv (pushHistory state ord status filled)"
  by (simp add: paper_inv_def pushHistory_def)

lemma bump_inv [wf_intros]: "paper_inv state \<Longrightarrow> paper_inv (state\<lparr>ps_nextId := ps_nextId state + 1\<rparr>)"
  by (auto simp: paper_inv_def intro: orders_ok_mono)

lemma closeAt_inv [wf_intros]: "paper_inv state \<Longrightarrow> paper_inv (closeAt state p mk price fees now)"
  by (auto simp: closeAt_def Let_def intro!: wf_intros)

lemma without_order_inv [wf_intros]: "paper_inv state \<Longrightarrow> paper_inv (without_order i state)"
  by (simp add: paper_inv_def without_order_def orders_ok_filter)

lemma set_position_inv [wf_intros]: "paper_inv state \<Longrightarrow> paper_inv (set_position p state)"
proof -
  have "map pp_market (update_first (\<lambda>x. pp_market x = pp_market p) (\<lambda>_. p) ps) = map pp_market ps" for ps
    by (induction ps) auto
  then show "paper_inv state \<Longrightarrow> ?thesis" by (simp add: paper_inv_def set_position_def)
qed

lemma fill_or_cancel_inv [wf_intros]:
  "paper_inv state \<Longrightarrow> paper_inv (fill_or_cancel state ord mk price taker fees now)"
  by (auto simp: fill_or_cancel_def Let_def intro!: wf_intros)

section \<open>Every operation keeps the invariant\<close>

lemma add_order_inv:
  "paper_inv state \<Longrightarrow> po_id ord = ''paper-'' @ int_str (ps_nextId state) \<Longrightarrow>
   paper_inv (state\<lparr>ps_nextId := ps_nextId state + 1, ps_orders := ord # ps_orders state\<rparr>)"
  by (simp add: paper_inv_def orders_ok_place)

lemma execute_order_inv:
  assumes "paper_inv current" "po_id ord = ''paper-'' @ int_str (ps_nextId current)"
  shows "paper_inv (fst (execute_order current (current\<lparr>ps_nextId := ps_nextId current + 1\<rparr>) req ord mk quote fees now))"
proof -
  have b: "paper_inv (current\<lparr>ps_nextId := ps_nextId current + 1\<rparr>)" using assms(1) by (rule bump_inv)
  have a: "paper_inv (current\<lparr>ps_nextId := ps_nextId current + 1, ps_orders := ord' # ps_orders current\<rparr>)"
    if "po_id ord' = po_id ord" for ord'
    using add_order_inv [of current ord'] assms that by simp
  show ?thesis
    unfolding execute_order_def Let_def using assms(1) a
    by (auto split: order_kind.split intro!: wf_intros)
qed

lemma placeOrder_inv [wf_intros]: "paper_inv current \<Longrightarrow> paper_inv (fst (placeOrder current req mk quotes fees now))"
  by (auto simp: placeOrder_def Let_def new_order_def split: option.split intro!: execute_order_inv)

lemma tick_order_inv:
  assumes "paper_inv (fst sc)" "own_id (ps_nextId (fst sc)) (po_id ord)"
  shows "paper_inv (fst (tick_order quotes mks fees now ord sc))"
proof -
  have w: "paper_inv (without_order (po_id ord) (fst sc))" using assms(1) by (rule without_order_inv)
  have "paper_inv (without_order (po_id ord) (fst sc)\<lparr>ps_orders :=
          ord\<lparr>po_type := PaperLimit, po_triggerPrice := None\<rparr> # ps_orders (without_order (po_id ord) (fst sc))\<rparr>)"
    using w assms(2) by (auto simp: paper_inv_def orders_ok_Cons without_order_def)
  with assms w show ?thesis
    by (auto simp: tick_order_def Let_def split: option.split paper_order_type.split intro!: wf_intros)
qed

lemma tick_order_nextId: "ps_nextId (fst sc) \<le> ps_nextId (fst (tick_order quotes mks fees now ord sc))"
  by (auto simp: tick_order_def Let_def fill_or_cancel_def pushHistory_def without_order_def fill_frame
      split: option.split paper_order_type.split)

lemma tick_orders_inv:
  assumes "paper_inv (fst sc)" "\<forall>x \<in> set ords. own_id (ps_nextId (fst sc)) (po_id x)"
  shows "paper_inv (fst (tick_orders quotes mks fees now ords sc))"
  using assms unfolding tick_orders_def
proof (induction ords arbitrary: sc)
  case (Cons x ords)
  then have "paper_inv (fst (tick_order quotes mks fees now x sc))" by (simp add: tick_order_inv)
  moreover have "\<forall>y \<in> set ords. own_id (ps_nextId (fst (tick_order quotes mks fees now x sc))) (po_id y)"
    using Cons.prems(2) tick_order_nextId own_id_mono by (meson list.set_intros(2))
  ultimately show ?case using Cons.IH by simp
qed simp

lemma pay_funding_inv:
  "paper_inv state \<Longrightarrow> pay_funding state p quote now = (st, p', b) \<Longrightarrow> paper_inv st"
  by (auto simp: pay_funding_def paper_inv_def Let_def split: if_splits)

lemma tick_position_inv:
  assumes "paper_inv (fst sc)"
  shows "paper_inv (fst (tick_position quotes mks fees now p sc))"
proof -
  have "paper_inv st" if "pay_funding (fst sc) p quote now = (st, p', b)" for quote st p' b
    using pay_funding_inv [OF assms that] .
  with assms show ?thesis
    by (auto simp: tick_position_def Let_def split: option.split prod.split intro!: closeAt_inv set_position_inv)
qed

lemma tick_positions_inv:
  "paper_inv (fst sc) \<Longrightarrow> paper_inv (fst (tick_positions quotes mks fees now ps sc))"
  unfolding tick_positions_def by (induction ps arbitrary: sc) (simp_all add: tick_position_inv)

lemma tick_inv [wf_intros]:
  assumes "paper_inv current"
  shows "paper_inv (tick current quotes mks fees now)"
proof -
  have "paper_inv (fst (tick_orders quotes mks fees now (ps_orders current) (current, False)))"
    using assms by (intro tick_orders_inv) (auto simp: paper_inv_def orders_ok_def)
  note p = tick_positions_inv [OF this, of quotes mks fees now]
  show ?thesis
    using assms p [of "ps_positions (fst (tick_orders quotes mks fees now (ps_orders current) (current, False)))"]
    by (auto simp: tick_def tick_run_def Let_def split: prod.split)
qed

lemma close_if_quoted_inv: "paper_inv s \<Longrightarrow> paper_inv (close_if_quoted quotes mks fees now p s)"
  by (auto simp: close_if_quoted_def split: option.split intro!: wf_intros)

lemma fold_inv: "(\<And>x s. P s \<Longrightarrow> P (f x s)) \<Longrightarrow> P s \<Longrightarrow> P (fold f xs s)"
  by (induction xs arbitrary: s) auto

lemma closeAll_inv [wf_intros]: "paper_inv current \<Longrightarrow> paper_inv (closeAll current quotes mks fees now)"
proof -
  assume inv: "paper_inv current"
  have "paper_inv (fold (\<lambda>ord s. pushHistory s ord Cancelled 0) (ps_orders current) current)"
    by (rule fold_inv [where P = paper_inv]) (auto intro: inv pushHistory_inv)
  then have "paper_inv ((fold (\<lambda>ord s. pushHistory s ord Cancelled 0) (ps_orders current) current)\<lparr>ps_orders := []\<rparr>)"
    by (simp add: paper_inv_def orders_ok_def)
  then show ?thesis using inv
    by (auto simp: closeAll_def Let_def intro!: fold_inv [where P = paper_inv] close_if_quoted_inv)
qed

lemma adjustFunds_inv [wf_intros]: "paper_inv current \<Longrightarrow> paper_inv (fst (adjustFunds current amount quotes))"
  by (simp add: adjustFunds_def Let_def paper_inv_def)

lemma cancelOrder_inv [wf_intros]: "paper_inv current \<Longrightarrow> paper_inv (fst (cancelOrder current i))"
  by (auto simp: cancelOrder_def split: option.split intro!: wf_intros)

lemma amended_id: "amended ord change mk = Inr ord' \<Longrightarrow> po_id ord' = po_id ord"
  by (auto simp: amended_def amended_price_def amended_size_def Let_def split: sum.splits option.splits if_splits)

lemma update_first_id:
  "po_id ord' = i \<Longrightarrow> map po_id (update_first (\<lambda>x. po_id x = i) (\<lambda>_. ord') ords) = map po_id ords"
  by (induction ords) auto

lemma amendOrder_inv [wf_intros]:
  assumes "paper_inv current"
  shows "paper_inv (fst (amendOrder current i change mk))"
proof -
  have "orders_ok n (update_first (\<lambda>x. po_id x = i) (\<lambda>_. ord') ords)"
    if "orders_ok n ords" "po_id ord' = i" for n ord' ords
  proof -
    have ids: "map po_id (update_first (\<lambda>x. po_id x = i) (\<lambda>_. ord') ords) = map po_id ords"
      using that(2) by (rule update_first_id)
    then have "po_id ` set (update_first (\<lambda>x. po_id x = i) (\<lambda>_. ord') ords) = po_id ` set ords"
      by (metis list.set_map)
    then have "\<forall>x \<in> set (update_first (\<lambda>x. po_id x = i) (\<lambda>_. ord') ords). own_id n (po_id x)"
      using that(1) unfolding orders_ok_def by (metis (no_types, lifting) imageE imageI)
    with ids that(1) show ?thesis by (simp add: orders_ok_def)
  qed
  with assms show ?thesis
    by (auto simp: amendOrder_def paper_inv_def split: option.split sum.split dest!: amended_id find_SomeD)
qed

lemma protectPosition_inv [wf_intros]: "paper_inv current \<Longrightarrow> paper_inv (fst (protectPosition current k protection))"
  by (auto simp: protectPosition_def split: option.split intro!: wf_intros)

lemma setLeverage_inv [wf_intros]: "paper_inv current \<Longrightarrow> paper_inv (setLeverage current mk leverage)"
  by (simp add: setLeverage_def Let_def paper_inv_def map_update_first_same)

lemma setMarginMode_inv [wf_intros]: "paper_inv current \<Longrightarrow> paper_inv (fst (setMarginMode current mk mode))"
  by (simp add: setMarginMode_def paper_inv_def)

end
