(* ===== verification/Paper_Sizes.thy ===== *)
theory Paper_Sizes
  imports Paper_Props
begin

text \<open>
  Sizes: every open position and every resting order has a positive size, which is a binary64
  value. Rounding cannot break this: a partial close leaves a difference of two different
  values, and that is never rounded to zero.
\<close>

definition size_ok :: "jsnum \<Rightarrow> bool" where
  "size_ok x = (0 < x \<and> canonical x)"

definition sizes_ok :: "paper_state \<Rightarrow> bool" where
  "sizes_ok s = ((\<forall>p \<in> set (ps_positions s). size_ok (pp_size p)) \<and>
                 (\<forall>x \<in> set (ps_orders s). size_ok (po_size x)))"

lemma eps12_Fin: obtains e where "eps12 = Fin e" "0 < e" "e \<le> 2 ^ 53"
proof (rule num_moderate [of "- 40" "1 / 10 ^ 12"])
  fix r assume "num (1 / 10 ^ 12) = Fin r" "0 < r" "r \<le> 2 ^ 53"
  then show thesis by (intro that) (simp_all add: eps12_def)
qed (simp_all add: power_int_minus)

lemma eps12_pos: "0 < eps12"
proof -
  obtain e where e: "eps12 = Fin e" "0 < e" by (rule eps12_Fin)
  have "0 < Fin e" using e(2) by (simp add: zero_Fin)
  then show ?thesis unfolding e(1) .
qed

lemma eps12_canonical: "canonical eps12"
  by (simp add: eps12_def)

lemma size_ok_min: "size_ok x \<Longrightarrow> size_ok y \<Longrightarrow> size_ok (math_min x y)"
  by (auto simp: size_ok_def math_min_def)

lemma size_ok_not_NaN: "size_ok x \<Longrightarrow> x \<noteq> NaN"
  by (auto simp: size_ok_def)

lemma js_add_zero: "canonical x \<Longrightarrow> x + 0 = x" "canonical x \<Longrightarrow> 0 + x = x"
  by (cases x; simp add: zero_Fin canonical_fixed)+

lemma js_add_pos: "0 < x \<Longrightarrow> 0 < y \<Longrightarrow> canonical x \<Longrightarrow> canonical y \<Longrightarrow> 0 < x + (y :: jsnum)"
proof (cases x; cases y)
  fix a b assume ab: "x = Fin a" "y = Fin b" and pos: "0 < x" "0 < y" and c: "canonical x" "canonical y"
  then have "num a \<le> num (a + b)" by (intro num_mono) (simp add: zero_Fin)
  with ab pos c show ?thesis by (simp add: canonical_fixed js_less_le_trans)
qed (auto simp: zero_Fin)

lemma size_ok_add: "size_ok x \<Longrightarrow> size_ok y \<Longrightarrow> size_ok (x + y)"
  by (simp add: size_ok_def js_add_pos canonical_add)

text \<open>Taking the slack off a positive size never makes it larger.\<close>

lemma minus_eps_le: "size_ok x \<Longrightarrow> x - eps12 \<le> x"
proof (cases x)
  case (Fin a)
  assume ok: "size_ok x"
  obtain e where e: "eps12 = Fin e" "0 < e" by (rule eps12_Fin)
  have "num (a - e) \<le> num a" using e by (intro num_mono) simp
  with ok Fin show ?thesis by (simp add: size_ok_def minus_jsnum_def canonical_fixed e(1))
next
  case PInf
  obtain e where e: "eps12 = Fin e" "0 < e" by (rule eps12_Fin)
  have "PInf - Fin e \<le> PInf" by (simp add: minus_jsnum_def)
  then show ?thesis unfolding PInf e(1) .
qed (auto simp: size_ok_def zero_Fin)

lemma size_ok_partial:
  assumes "size_ok x" "size_ok y" "\<not> x - eps12 \<le> math_min y x"
  shows "math_min y x = y \<and> y < x \<and> size_ok (x - y)"
proof -
  have n: "x \<noteq> NaN" "y \<noteq> NaN" using assms by (auto dest: size_ok_not_NaN)
  have "math_min y x \<noteq> x" using assms(1,3) minus_eps_le by metis
  then have yx: "math_min y x = y" "y < x \<or> y = x" using n
    by (auto simp: math_min_def less_eq_jsnum_def js_not_less split: if_splits)
  with \<open>math_min y x \<noteq> x\<close> have lt: "y < x" by auto
  have "0 < x - y"
  proof (cases "is_finite x \<and> is_finite y")
    case True
    then show ?thesis using assms lt by (simp add: js_diff_pos size_ok_def)
  next
    case False
    with lt n show ?thesis by (cases x; cases y) (auto simp: minus_jsnum_def zero_Fin size_ok_def)
  qed
  with yx(1) lt assms show ?thesis by (simp add: size_ok_def canonical_diff)
qed

section \<open>Fills\<close>

lemma close_position_positions:
  assumes "close_position state ord mk p price fee now sz = (st, e, c)"
  shows "ps_positions st =
    (let closing = math_min sz (pp_size p); rest = sz - closing;
         pnl = (price - pp_entry p) * closing * dirOf (pp_side p)
     in if pp_size p - eps12 \<le> closing
        then remove_first (\<lambda>x. pp_market x = m_id mk) (ps_positions state) @
             (if eps12 < rest then [opened_position state ord mk price (fee - fee * (closing / sz)) now rest] else [])
        else update_first (\<lambda>x. pp_market x = m_id mk)
               (\<lambda>x. x\<lparr>pp_size := pp_size x - closing,
                      pp_openFees := pp_openFees x - pp_openFees p * (closing / pp_size p),
                      pp_realized := pp_realized x + (pnl - fee * (closing / sz))\<rparr>)
               (ps_positions state))"
  using assms by (auto simp: close_position_def Let_def opened_position_def settingsFor_def split: if_splits)

lemma close_position_orders_subset:
  "close_position state ord mk p price fee now sz = (st, e, c) \<Longrightarrow> set (ps_orders st) \<subseteq> set (ps_orders state)"
  by (auto dest: close_position_orders)

lemma remove_first_ball: "\<forall>x \<in> set xs. P x \<Longrightarrow> \<forall>x \<in> set (remove_first q xs). P x"
  using set_remove_first by fast

lemma close_position_sizes:
  assumes cp: "close_position state ord mk p price fee now sz = (st, e, c)"
    and p: "List.find (\<lambda>x. pp_market x = m_id mk) (ps_positions state) = Some p"
    and ok: "sizes_ok state" "size_ok sz"
  shows "sizes_ok st"
proof -
  have pok: "size_ok (pp_size p)" using find_SomeD [OF p] ok by (auto simp: sizes_ok_def)
  let ?rest = "sz - math_min sz (pp_size p)"
  have rest: "size_ok ?rest" if "eps12 < ?rest"
    using js_less_trans [OF eps12_pos that] size_ok_min [OF ok(2) pok] ok(2)
    by (simp add: size_ok_def canonical_diff)
  have "\<forall>x \<in> set (ps_positions st). size_ok (pp_size x)"
  proof (cases "pp_size p - eps12 \<le> math_min sz (pp_size p)")
    case True
    have "\<forall>x \<in> set (remove_first (\<lambda>x. pp_market x = m_id mk) (ps_positions state)). size_ok (pp_size x)"
      using ok(1) by (intro remove_first_ball) (simp add: sizes_ok_def)
    moreover have "pp_size (opened_position state ord mk price f now ?rest) = ?rest" for f
      by (simp add: opened_position_def)
    ultimately show ?thesis
      using True rest by (auto simp: close_position_positions [OF cp] Let_def)
  next
    case False
    then have part: "size_ok (pp_size p - math_min sz (pp_size p))"
      using size_ok_partial [OF pok ok(2)] by simp
    have "\<forall>x \<in> set (update_first (\<lambda>x. pp_market x = m_id mk)
         (\<lambda>x. x\<lparr>pp_size := pp_size x - math_min sz (pp_size p), pp_openFees := f x, pp_realized := g x\<rparr>) ps).
         size_ok (pp_size x)" if
      "List.find (\<lambda>x. pp_market x = m_id mk) ps = Some p" "\<forall>y \<in> set ps. size_ok (pp_size y)" for f g ps
      using that part by (induction ps) (auto split: if_splits)
    with False p ok(1) show ?thesis
      by (simp add: close_position_positions [OF cp] Let_def sizes_ok_def)
  qed
  with ok(1) close_position_orders_subset [OF cp] show ?thesis by (auto simp: sizes_ok_def)
qed

lemma fill_sizes:
  assumes ok: "sizes_ok state" "size_ok sz"
  shows "sizes_ok (fill state ord mk price taker fees now sz)"
proof (cases rule: fill_cases [where state = state and mk = mk and ord = ord])
  case opens
  with ok show ?thesis by (auto simp: fill_def Let_def sizes_ok_def opened_position_def)
next
  case (adds p)
  have "size_ok (pp_size x)" if "x \<in> set (update_first (\<lambda>x. pp_market x = m_id mk) (added_position price fee sz) ps)"
      "\<forall>y \<in> set ps. size_ok (pp_size y)" for x ps fee
    using set_update_first [OF that(1)] that(2) size_ok_add ok(2)
    by (auto simp: added_position_def Let_def)
  with adds ok show ?thesis by (auto simp: fill_def Let_def sizes_ok_def)
next
  case (closes p)
  let ?fee = "sz * price * (if taker then fee_taker fees else fee_maker fees)"
  obtain st e c where cp: "close_position (state\<lparr>ps_cash := ps_cash state - ?fee\<rparr>) ord mk p price ?fee now sz = (st, e, c)"
    by (metis prod_cases3)
  have "sizes_ok st"
  proof (rule close_position_sizes [OF cp])
    show "List.find (\<lambda>x. pp_market x = m_id mk) (ps_positions (state\<lparr>ps_cash := ps_cash state - ?fee\<rparr>)) = Some p"
      using closes(1) by simp
    show "sizes_ok (state\<lparr>ps_cash := ps_cash state - ?fee\<rparr>)" using ok(1) by (simp add: sizes_ok_def)
  qed (rule ok(2))
  with closes cp show ?thesis by (simp add: fill_def Let_def sizes_ok_def)
qed

lemma pushHistory_sizes [simp]: "sizes_ok (pushHistory state ord status filled) = sizes_ok state"
  by (simp add: sizes_ok_def pushHistory_def)

lemma bump_sizes [simp]: "sizes_ok (state\<lparr>ps_nextId := n\<rparr>) = sizes_ok state"
  by (simp add: sizes_ok_def)

lemma closeAt_sizes: "sizes_ok state \<Longrightarrow> size_ok (pp_size p) \<Longrightarrow> sizes_ok (closeAt state p mk price fees now)"
  by (simp add: closeAt_def Let_def exit_order_def fill_sizes)

lemma without_order_sizes: "sizes_ok state \<Longrightarrow> sizes_ok (without_order i state)"
  by (simp add: sizes_ok_def without_order_def)

lemma sizeFor_ok:
  assumes "sizes_ok state" "size_ok (po_size ord)" "\<not> sizeFor state ord \<le> 0"
  shows "size_ok (sizeFor state ord)"
proof -
  have "size_ok (pp_size p)" if "List.find (\<lambda>x. pp_market x = po_market ord) (ps_positions state) = Some p" for p
    using find_SomeD [OF that] assms(1) by (auto simp: sizes_ok_def)
  with assms(2,3) show ?thesis
    by (auto simp: sizeFor_def zero_Fin intro: size_ok_min split: option.splits if_splits)
qed

lemma fill_or_cancel_sizes:
  "sizes_ok state \<Longrightarrow> size_ok (po_size ord) \<Longrightarrow> sizes_ok (fill_or_cancel state ord mk price taker fees now)"
  by (simp add: fill_or_cancel_def Let_def fill_sizes sizeFor_ok)

section \<open>Every operation\<close>

lemma canonical_times [simp]: "canonical (x * y)"
  by (cases x; cases y) (auto simp: inf_of_def)

lemma canonical_read_unsigned [simp]: "canonical (read_unsigned s)"
  by (auto simp: read_unsigned_def Let_def split: option.split)

lemma canonical_to_number [simp]: "canonical (to_number s)"
  by (auto simp: to_number_def read_radix_def canonical_uminus split: list.split)

lemma toStep_ok: "0 < toStep (to_number s) step \<Longrightarrow> size_ok (toStep (to_number s) step)"
  by (auto simp: toStep_def size_ok_def split: if_splits)

lemma execute_order_sizes:
  assumes "sizes_ok current" "sizes_ok state" "size_ok (po_size ord)"
  shows "sizes_ok (fst (execute_order current state req ord mk quote fees now))"
proof -
  have "sizes_ok (state\<lparr>ps_orders := ord' # ps_orders state\<rparr>)" if "po_size ord' = po_size ord" for ord'
    using assms(2,3) that by (simp add: sizes_ok_def)
  with assms show ?thesis
    by (auto simp: execute_order_def Let_def fill_sizes split: order_kind.split)
qed

lemma placeOrder_sizes:
  assumes ok: "sizes_ok current"
  shows "sizes_ok (fst (placeOrder current req mk quotes fees now))"
proof -
  have p: "size_ok (pp_size p)"
    if "List.find (\<lambda>p. pp_market p = m_id mk) (ps_positions current) = Some p" for p
    using find_SomeD [OF that] ok by (auto simp: sizes_ok_def)
  show ?thesis
    using ok p toStep_ok [of "r_size req" "to_number (m_sizeStep mk)"]
    by (auto simp: placeOrder_def Let_def new_order_def split: option.split
        intro!: execute_order_sizes size_ok_min)
qed

lemma tick_order_sizes:
  "sizes_ok (fst sc) \<Longrightarrow> size_ok (po_size ord) \<Longrightarrow> sizes_ok (fst (tick_order quotes mks fees now ord sc))"
proof -
  assume ok: "sizes_ok (fst sc)" "size_ok (po_size ord)"
  have w: "sizes_ok (without_order (po_id ord) (fst sc))" using ok(1) by (rule without_order_sizes)
  then have "sizes_ok (without_order (po_id ord) (fst sc)\<lparr>ps_orders :=
      ord\<lparr>po_type := PaperLimit, po_triggerPrice := None\<rparr> # ps_orders (without_order (po_id ord) (fst sc))\<rparr>)"
    using ok(2) by (simp add: sizes_ok_def)
  with w ok show ?thesis
    by (auto simp: tick_order_def Let_def fill_or_cancel_sizes split: option.split paper_order_type.split)
qed

lemma tick_orders_sizes:
  "sizes_ok (fst sc) \<Longrightarrow> \<forall>x \<in> set ords. size_ok (po_size x) \<Longrightarrow>
   sizes_ok (fst (tick_orders quotes mks fees now ords sc))"
  unfolding tick_orders_def by (induction ords arbitrary: sc) (simp_all add: tick_order_sizes)

lemma pay_funding_parts:
  assumes "pay_funding state p quote now = (st, p', b)"
  shows "ps_positions st = ps_positions state" "ps_orders st = ps_orders state" "pp_size p' = pp_size p"
    "pp_market p' = pp_market p" "pp_side p' = pp_side p"
  using assms by (auto simp: pay_funding_def Let_def split: if_splits)

lemma follow_trail_parts:
  assumes "follow_trail p mark = (p', b)"
  shows "pp_size p' = pp_size p" "pp_market p' = pp_market p" "pp_side p' = pp_side p"
  using assms by (auto simp: follow_trail_def split: if_splits)

lemma set_position_sizes: "sizes_ok state \<Longrightarrow> size_ok (pp_size p) \<Longrightarrow> sizes_ok (set_position p state)"
  by (auto simp: sizes_ok_def set_position_def dest!: set_update_first)

lemma tick_position_sizes:
  assumes "sizes_ok (fst sc)" "size_ok (pp_size p)"
  shows "sizes_ok (fst (tick_position quotes mks fees now p sc))"
proof (cases "quotes (pp_market p)"; cases "mks (pp_market p)")
  fix quote mk assume q: "quotes (pp_market p) = Some quote" "mks (pp_market p) = Some mk"
  obtain st1 p1 b where f: "pay_funding (fst sc) p quote now = (st1, p1, b)" by (metis prod_cases3)
  obtain p2 b2 where t: "follow_trail p1 (q_mark quote) = (p2, b2)" by (metis surj_pair)
  have sz: "size_ok (pp_size p2)" using pay_funding_parts [OF f] follow_trail_parts [OF t] assms(2) by simp
  have "sizes_ok st1" using pay_funding_parts [OF f] assms(1) by (simp add: sizes_ok_def)
  then have "sizes_ok (set_position p2 st1)" using sz by (rule set_position_sizes)
  with q f t sz show ?thesis by (simp add: tick_position_def Let_def closeAt_sizes split: option.split)
qed (use assms in \<open>simp_all add: tick_position_def\<close>)

lemma tick_positions_sizes:
  "sizes_ok (fst sc) \<Longrightarrow> \<forall>x \<in> set ps. size_ok (pp_size x) \<Longrightarrow>
   sizes_ok (fst (tick_positions quotes mks fees now ps sc))"
  unfolding tick_positions_def by (induction ps arbitrary: sc) (simp_all add: tick_position_sizes)

lemma tick_sizes: "sizes_ok current \<Longrightarrow> sizes_ok (tick current quotes mks fees now)"
proof -
  assume ok: "sizes_ok current"
  let ?sc = "tick_orders quotes mks fees now (ps_orders current) (current, False)"
  have sc: "sizes_ok (fst ?sc)" using ok by (intro tick_orders_sizes) (simp_all add: sizes_ok_def)
  then have "sizes_ok (fst (tick_positions quotes mks fees now (ps_positions (fst ?sc)) ?sc))"
    by (intro tick_positions_sizes) (simp_all add: sizes_ok_def)
  with ok show ?thesis by (auto simp: tick_def tick_run_def Let_def split: prod.split)
qed

lemma closeAll_sizes: "sizes_ok current \<Longrightarrow> sizes_ok (closeAll current quotes mks fees now)"
proof -
  assume ok: "sizes_ok current"
  let ?st = "(fold (\<lambda>ord s. pushHistory s ord Cancelled 0) (ps_orders current) current)\<lparr>ps_orders := []\<rparr>"
  have "sizes_ok (fold (\<lambda>ord s. pushHistory s ord Cancelled 0) (ps_orders current) current)"
    by (rule fold_inv [where P = sizes_ok]) (simp_all add: ok)
  then have st: "sizes_ok ?st" by (simp add: sizes_ok_def)
  have "sizes_ok s \<Longrightarrow> \<forall>p \<in> set ps. size_ok (pp_size p) \<Longrightarrow>
      sizes_ok (fold (close_if_quoted quotes mks fees now) ps s)" for ps s
    by (induction ps arbitrary: s) (simp_all add: close_if_quoted_def closeAt_sizes split: option.split)
  from this [OF st] st ok show ?thesis
    by (simp add: closeAll_def Let_def sizes_ok_def)
qed

lemma amended_size_ok: "amended ord change mk = Inr ord' \<Longrightarrow> size_ok (po_size ord) \<Longrightarrow> size_ok (po_size ord')"
  by (auto simp: amended_def amended_price_def amended_size_def Let_def toStep_ok
      split: sum.splits option.splits if_splits)

lemma amendOrder_sizes: "sizes_ok current \<Longrightarrow> sizes_ok (fst (amendOrder current i change mk))"
  by (auto simp: amendOrder_def sizes_ok_def split: option.split sum.split
      dest!: set_update_first dest: amended_size_ok find_SomeD)

lemma protectPosition_sizes: "sizes_ok current \<Longrightarrow> sizes_ok (fst (protectPosition current k protection))"
proof -
  have "pp_size (protected p protection) = pp_size p" for p by (simp add: protected_def Let_def)
  then show "sizes_ok current \<Longrightarrow> ?thesis"
    by (auto simp: protectPosition_def sizes_ok_def intro!: set_position_sizes [unfolded sizes_ok_def]
        split: option.split dest!: find_SomeD)
qed

lemma setLeverage_sizes: "sizes_ok current \<Longrightarrow> sizes_ok (setLeverage current mk leverage)"
  by (auto simp: setLeverage_def Let_def sizes_ok_def dest!: set_update_first)

lemma other_sizes:
  "sizes_ok current \<Longrightarrow> sizes_ok (fst (cancelOrder current i))"
  "sizes_ok current \<Longrightarrow> sizes_ok (fst (setMarginMode current mk mode))"
  "sizes_ok current \<Longrightarrow> sizes_ok (fst (adjustFunds current amount quotes))"
  "sizes_ok (newPaperState v amount)"
  by (auto simp: cancelOrder_def setMarginMode_def adjustFunds_def Let_def newPaperState_def sizes_ok_def
      without_order_def pushHistory_def split: option.split)

lemmas op_sizes = placeOrder_sizes tick_sizes closeAll_sizes amendOrder_sizes protectPosition_sizes
  setLeverage_sizes other_sizes

end
