(* ===== verification/Paper_Samples.thy ===== *)
theory Paper_Samples
  imports Paper_Sizes
begin

text \<open>
  A concrete account: one market, one quote, one long position of 2 at 100 with a stop at 90. The witnesses
  of the paper theories apply their theorems to it.
\<close>

definition btc :: market where
  "btc = \<lparr>m_venue = Hyperliquid, m_id = ''BTC'', m_symbol = ''BTC'', m_base = ''BTC'', m_quote = ''USDC'',
     m_tickSize = ''1'', m_sizeStep = ''0'', m_minSize = ''0'', m_maxLeverage = Fin 2,
     m_listedBy = None, m_category = None, m_listedAt = None\<rparr>"

definition btc_quote :: quote where
  "btc_quote = \<lparr>q_mark = Fin 100, q_bid = Some (Fin 100), q_ask = Some (Fin 100), q_fundingRate = Some (Fin (1 / 4)),
     q_fundingIntervalSecs = Some (Fin 1)\<rparr>"

definition btc_quotes :: quotes where
  "btc_quotes k = (if k = ''BTC'' then Some btc_quote else None)"

definition btc_markets :: markets where
  "btc_markets k = (if k = ''BTC'' then Some btc else None)"

definition no_fees :: fees where
  "no_fees = \<lparr>fee_taker = 0, fee_maker = 0\<rparr>"

definition btc_long :: paper_position where
  "btc_long = \<lparr>pp_market = ''BTC'', pp_side = Long, pp_size = Fin 2, pp_entry = Fin 100, pp_leverage = Fin 2,
     pp_marginMode = Cross, pp_realized = 0, pp_openFees = 0, pp_openedAt = Fin 1000, pp_takeProfit = None,
     pp_stopLoss = Some (Fin 90), pp_trailing = None, pp_trailingBest = None, pp_trailingFrom = None\<rparr>"

definition btc_rest :: paper_order where
  "btc_rest = \<lparr>po_id = ''paper-1'', po_market = ''BTC'', po_side = Buy, po_type = PaperLimit, po_size = Fin 1,
     po_price = Some (Fin 90), po_triggerPrice = None, po_triggerAbove = None, po_reduceOnly = False,
     po_postOnly = False, po_createdAt = Fin 1, po_takeProfit = None, po_stopLoss = None\<rparr>"

definition btc_account :: paper_state where
  "btc_account = (newPaperState Hyperliquid PAPER_START)
     \<lparr>ps_positions := [btc_long], ps_orders := [btc_rest], ps_nextId := 2\<rparr>"

definition btc_request :: "side \<Rightarrow> bool \<Rightarrow> order_kind \<Rightarrow> order_request" where
  "btc_request sd ro kind = \<lparr>r_market = ''BTC'', r_side = sd, r_size = ''1'', r_reduceOnly = ro,
     r_collateral = None, r_clientId = None, r_takeProfit = None, r_stopLoss = None, r_kind = kind\<rparr>"

named_theorems sample_simps \<open>the sample account unfolded\<close>

lemma sample_numbers [sample_simps]:
  "to_number ''0'' = Fin 0" "to_number ''1'' = Fin 1" "to_number ''90'' = Fin 90" "to_number ''200'' = Fin 200"
  by (simp_all add: to_number_def js_trim_def is_space_def read_unsigned_def is_digit_def read_exp_def
      read_int_def digit_val_def zero_Fin)

lemma sample_eps [sample_simps]: "\<not> Fin 100 + eps12 < Fin 0" "\<not> Fin 1 < Fin 0 + - eps12"
proof -
  have e: "0 \<le> eps12" by (rule js_less_imp_le [OF eps12_pos])
  then have "0 \<le> Fin 100 + eps12" by (intro js_add_nonneg) (simp_all add: zero_Fin)
  then show "\<not> Fin 100 + eps12 < Fin 0" using js_less_asym by (auto simp: zero_Fin)
  obtain r where r: "eps12 = Fin r" "0 < r" by (rule eps12_Fin)
  have "num (- r) \<le> num 0" by (rule num_mono) (use r in simp)
  then have "Fin 0 + - eps12 \<le> Fin 0" by (simp add: r(1) zero_Fin)
  then show "\<not> Fin 1 < Fin 0 + - eps12"
    using js_less_le_trans [of "Fin 1" "Fin 0 + - eps12" "Fin 0"] by auto
qed

lemmas [sample_simps] = btc_def btc_quote_def btc_quotes_def btc_markets_def no_fees_def btc_long_def
  btc_rest_def btc_account_def btc_request_def newPaperState_def PAPER_START_def

lemma sample_canonical [sample_simps]: "canonical (Fin 1)" "canonical (Fin 2)"
  using canonical_num [of 1] canonical_num [of 2] by simp_all

lemma sample_chars: "int_str 1 = ''1''"
  by code_simp

lemma btc_account_inv: "paper_inv btc_account" and btc_account_sizes: "sizes_ok btc_account"
proof -
  have "own_id 2 ''paper-1''"
    unfolding own_id_def by (rule exI [of _ 1]) (simp add: sample_chars)
  then show "paper_inv btc_account" by (simp add: sample_simps paper_inv_def orders_ok_def)
qed (simp add: sample_simps sizes_ok_def size_ok_def zero_Fin del: canonical.simps)

lemma sample_fin [sample_simps]:
  "(0 < Fin a) = (0 < a)" "(Fin a < 0) = (a < 0)" "(Fin a \<le> 0) = (a \<le> 0)" "(0 \<le> Fin a) = (0 \<le> a)"
  by (simp_all add: zero_Fin)

lemmas place_eval = sample_simps zero_Fin placeOrder_def Let_def toStep_def closing_side_def math_min_def
  closes_part_def execute_order_def takerPrice_def minus_jsnum_def new_order_def

lemma sample_halves [sample_simps]: "num (1 / 2) = Fin (1 / 2)" "num (1 / 4) = Fin (1 / 4)" "num (3 / 2) = Fin (3 / 2)"
  by code_simp+

lemma num_negative: "0 \<le> q \<Longrightarrow> \<not> Fin 0 < - num q"
  using num_mono [of "- q" 0] js_less_asym by (auto simp: zero_Fin)

lemmas exit_eval = sample_simps exit_price_def liquidationPrice_def totals_def position_upnl_def markOf_def
  maintenance_def math_max_def minus_jsnum_def dirOf_def num_negative trail_hit_def Let_def zero_Fin one_Fin

lemmas tick_eval = exit_eval tick_def tick_run_def tick_orders_def tick_order_def tick_positions_def
  tick_position_def trigger_hit_def limit_reached_def limit_price_def pay_funding_def funding_due_def
  funding_interval_def funding_amount_def follow_trail_def set_position_def trail_active_def

end
