(* ===== verification/Paper_Net.thy ===== *)
theory Paper_Net
  imports Paper_Samples
begin

text \<open>
  The abstract view of an account: one signed number per market, positive for a long. A fill
  adds its signed size to the number of its own market and leaves the others alone; the
  detailed position list, with its separate cases for opening, adding, closing in part,
  closing and turning round, implements exactly that, up to the engine's tolerance of
  \<open>1e-12\<close> for a position that is as good as closed.
\<close>

definition net_of :: "paper_position \<Rightarrow> jsnum" where
  "net_of p = (case pp_side p of Long \<Rightarrow> pp_size p | Short \<Rightarrow> - pp_size p)"

definition net :: "paper_state \<Rightarrow> string \<Rightarrow> jsnum" where
  "net s k = (case List.find (\<lambda>x. pp_market x = k) (ps_positions s) of None \<Rightarrow> 0 | Some p \<Rightarrow> net_of p)"

definition signed :: "side \<Rightarrow> jsnum \<Rightarrow> jsnum" where
  "signed sd sz = (case sd of Buy \<Rightarrow> sz | Sell \<Rightarrow> - sz)"

text \<open>One fill on the signed number \<open>n\<close>: addition, but a close to within the tolerance is flat.\<close>

definition net_after :: "jsnum \<Rightarrow> jsnum \<Rightarrow> jsnum" where
  "net_after n d =
     (if (n < 0 \<and> 0 < d \<or> 0 < n \<and> d < 0) \<and> \<bar>n\<bar> - eps12 \<le> \<bar>d\<bar> \<and> \<not> eps12 < \<bar>d\<bar> - \<bar>n\<bar>
      then 0 else n + d)"

lemma abs_pos [simp]: "0 < x \<Longrightarrow> \<bar>x\<bar> = x" "0 < x \<Longrightarrow> \<bar>- x\<bar> = (x :: jsnum)"
  by (cases x; simp add: zero_Fin)+

lemma neg_less_zero [simp]: "0 < x \<Longrightarrow> - x < (0 :: jsnum)" "0 < x \<Longrightarrow> \<not> x < (0 :: jsnum)"
  "0 < x \<Longrightarrow> \<not> 0 < (- x :: jsnum)"
  by (cases x; simp add: zero_Fin)+

lemma find_remove_first:
  "distinct (map g xs) \<Longrightarrow> List.find (\<lambda>x. g x = k) (remove_first (\<lambda>x. g x = k) xs) = None"
  by (auto simp: find_None remove_first_key)

lemma find_remove_first_other:
  "k' \<noteq> k \<Longrightarrow> List.find (\<lambda>x. g x = k') (remove_first (\<lambda>x. g x = k) xs) = List.find (\<lambda>x. g x = k') xs"
  by (induction xs) auto

lemma find_append: "List.find p (xs @ ys) = (case List.find p xs of None \<Rightarrow> List.find p ys | Some x \<Rightarrow> Some x)"
  by (induction xs) auto

lemma find_update_key:
  assumes "\<And>x. g (f x) = g x"
  shows "List.find (\<lambda>x. g x = k') (update_first (\<lambda>x. g x = k) f xs) =
    (if k' = k then map_option f (List.find (\<lambda>x. g x = k) xs) else List.find (\<lambda>x. g x = k') xs)"
  using assms by (induction xs) auto

section \<open>The position a fill leaves behind\<close>

definition pos_in :: "string \<Rightarrow> paper_state \<Rightarrow> paper_position option" where
  "pos_in k s = List.find (\<lambda>x. pp_market x = k) (ps_positions s)"

lemma net_pos: "net s k = (case pos_in k s of None \<Rightarrow> 0 | Some p \<Rightarrow> net_of p)"
  by (simp add: net_def pos_in_def)

lemma fill_other_market:
  "k \<noteq> m_id mk \<Longrightarrow> pos_in k (fill s ord mk price taker fees now sz) = pos_in k s"
proof (cases rule: fill_cases [where state = s and mk = mk and ord = ord])
  case opens
  assume "k \<noteq> m_id mk"
  with opens show ?thesis
    by (simp add: fill_def Let_def pos_in_def find_append opened_position_def split: option.split)
next
  case (adds p)
  assume "k \<noteq> m_id mk"
  with adds show ?thesis
    by (simp add: fill_def Let_def pos_in_def find_update_key added_position_def)
next
  case (closes p)
  assume k: "k \<noteq> m_id mk"
  let ?fee = "sz * price * (if taker then fee_taker fees else fee_maker fees)"
  obtain st e c where cp: "close_position (s\<lparr>ps_cash := ps_cash s - ?fee\<rparr>) ord mk p price ?fee now sz = (st, e, c)"
    by (metis prod_cases3)
  have "List.find (\<lambda>x. pp_market x = k) (ps_positions st) = List.find (\<lambda>x. pp_market x = k) (ps_positions s)"
    using k by (simp add: close_position_positions [OF cp] Let_def find_append find_update_key
        find_remove_first_other opened_position_def split: option.split)
  with closes cp show ?thesis by (simp add: fill_def Let_def pos_in_def)
qed

lemma fill_opens:
  "pos_in (m_id mk) s = None \<Longrightarrow>
   pos_in (m_id mk) (fill s ord mk price taker fees now sz) =
     Some (opened_position s ord mk price (sz * price * (if taker then fee_taker fees else fee_maker fees)) now sz)"
  by (simp add: fill_def Let_def pos_in_def find_append opened_position_def settingsFor_def)

lemma fill_adds:
  "pos_in (m_id mk) s = Some p \<Longrightarrow> (pp_side p = Long) = (po_side ord = Buy) \<Longrightarrow>
   pos_in (m_id mk) (fill s ord mk price taker fees now sz) =
     Some (added_position price (sz * price * (if taker then fee_taker fees else fee_maker fees)) sz p)"
  by (simp add: fill_def Let_def pos_in_def find_update_key added_position_def)

lemma fill_closes:
  fixes s :: paper_state
  assumes "pos_in (m_id mk) s = Some p" "(pp_side p = Long) \<noteq> (po_side ord = Buy)"
    and "distinct (map pp_market (ps_positions s))"
  shows "map_option (\<lambda>x. (pp_side x, pp_size x, pp_entry x)) (pos_in (m_id mk) (fill s ord mk price taker fees now sz)) =
    (let closing = math_min sz (pp_size p)
     in if pp_size p - eps12 \<le> closing
        then (if eps12 < sz - closing
              then Some (if po_side ord = Buy then Long else Short, sz - closing, price) else None)
        else Some (pp_side p, pp_size p - closing, pp_entry p))"
proof -
  let ?fee = "sz * price * (if taker then fee_taker fees else fee_maker fees)"
  obtain st e c where cp: "close_position (s\<lparr>ps_cash := ps_cash s - ?fee\<rparr>) ord mk p price ?fee now sz = (st, e, c)"
    by (metis prod_cases3)
  have "pos_in (m_id mk) (fill s ord mk price taker fees now sz) =
      List.find (\<lambda>x. pp_market x = m_id mk) (ps_positions st)"
    using assms cp by (simp add: fill_def Let_def pos_in_def)
  with assms show ?thesis
    by (simp add: close_position_positions [OF cp] Let_def find_append find_update_key find_remove_first
        opened_position_def pos_in_def)
qed

section \<open>Refinement\<close>

lemma js_diff_posD: "0 < S - P \<Longrightarrow> P < (S :: jsnum)"
proof (cases S; cases P)
  fix a b assume ab: "S = Fin a" "P = Fin b" and pos: "0 < S - P"
  have "num (a - b) \<le> 0" if "a \<le> b" using num_mono [of "a - b" 0] that by simp
  with ab pos js_less_asym show ?thesis by (auto simp: minus_jsnum_def not_le [symmetric])
qed (auto simp: minus_jsnum_def zero_Fin)

lemma closing_net:
  assumes P: "size_ok P" and S: "size_ok S"
  defines "c \<equiv> math_min S P"
  shows "(if P - eps12 \<le> c then (if eps12 < S - c then - (S - c) else 0) else P - c) = net_after P (- S)"
proof (cases "P - eps12 \<le> c")
  case False
  then have cS: "c = S" "S < P" using size_ok_partial [OF P S] by (auto simp: c_def)
  with False P S show ?thesis by (simp add: net_after_def size_ok_def minus_jsnum_def)
next
  case True
  have cS: "c \<le> S" using P S math_min_le by (auto simp: c_def dest: size_ok_not_NaN)
  then have near: "P - eps12 \<le> S" using True js_le_trans by blast
  show ?thesis
  proof (cases "eps12 < S - c")
    case far: True
    have "c = P"
    proof (rule ccontr)
      assume "c \<noteq> P"
      then have "c = S" using P S math_min_cases unfolding c_def by (metis size_ok_not_NaN)
      with far have "eps12 < S - S" by simp
      moreover have "S - S = 0 \<or> S - S = NaN" by (cases S) (simp_all add: minus_jsnum_def)
      ultimately show False using js_less_asym [OF eps12_pos] by (auto dest: js_less_imp_le)
    qed
    with True far near P S show ?thesis
      by (simp add: net_after_def size_ok_def js_diff_minus) (simp add: minus_jsnum_def)
  next
    case flat: False
    have "\<not> eps12 < S - P"
    proof
      assume less: "eps12 < S - P"
      then have "P < S" using js_less_trans [OF eps12_pos] js_diff_posD by blast
      then have "c = P" by (auto simp: c_def math_min_def dest: js_less_not_NaN)
      with less flat show False by simp
    qed
    with True flat near P S show ?thesis by (simp add: net_after_def size_ok_def)
  qed
qed

lemma net_after_mirror: "net_after (- n) d = - net_after n (- d)"
proof -
  have [simp]: "- x < 0 \<longleftrightarrow> 0 < x" "0 < - x \<longleftrightarrow> x < 0" "\<bar>- x\<bar> = \<bar>x\<bar>" for x :: jsnum
    by (cases x; simp add: zero_Fin)+
  have [simp]: "- 0 = (0 :: jsnum)" by (simp add: zero_Fin)
  show ?thesis by (auto simp: net_after_def js_minus_add)
qed

lemma fill_net:
  assumes inv: "paper_inv s" "sizes_ok s" and sz: "size_ok sz"
  shows "net (fill s ord mk price taker fees now sz) k =
    (if k = m_id mk then net_after (net s k) (signed (po_side ord) sz) else net s k)"
proof (cases "k = m_id mk")
  case False
  then show ?thesis by (simp add: net_pos fill_other_market)
next
  case k: True
  have d: "distinct (map pp_market (ps_positions s))" using inv(1) by (simp add: paper_inv_def)
  show ?thesis
  proof (cases "pos_in (m_id mk) s")
    case None
    with k sz show ?thesis
      by (cases "po_side ord") (simp_all add: net_pos fill_opens net_of_def opened_position_def
          net_after_def signed_def js_add_zero canonical_uminus size_ok_def)
  next
    case (Some p)
    have P: "size_ok (pp_size p)"
      using Some find_SomeD inv(2) by (fastforce simp: pos_in_def sizes_ok_def)
    show ?thesis
    proof (cases "(pp_side p = Long) = (po_side ord = Buy)")
      case True
      with Some k P sz show ?thesis
        by (cases "pp_side p"; cases "po_side ord") (simp_all add: net_pos fill_adds net_of_def
            added_position_def Let_def net_after_def signed_def js_minus_add size_ok_def)
    next
      case False
      note fc = fill_closes [OF Some False d, of price taker fees now sz]
      have flat: "net (fill s ord mk price taker fees now sz) k =
        (if pp_size p - eps12 \<le> math_min sz (pp_size p)
         then (if eps12 < sz - math_min sz (pp_size p)
               then signed (po_side ord) (sz - math_min sz (pp_size p)) else 0)
         else (case pp_side p of Long \<Rightarrow> pp_size p - math_min sz (pp_size p)
               | Short \<Rightarrow> - (pp_size p - math_min sz (pp_size p))))"
        using fc k by (cases "pos_in (m_id mk) (fill s ord mk price taker fees now sz)"; cases "po_side ord")
          (auto simp: net_pos net_of_def signed_def Let_def split: if_splits position_side.split)
      show ?thesis
      proof (cases "pp_side p")
        case Long
        with False have "po_side ord = Sell" by (cases "po_side ord") auto
        with flat Long Some k closing_net [OF P sz] show ?thesis
          by (auto simp: net_pos net_of_def signed_def split: if_splits)
      next
        case Short
        with False have "po_side ord = Buy" by (cases "po_side ord") auto
        let ?c = "math_min sz (pp_size p)"
        have "net (fill s ord mk price taker fees now sz) k =
          - (if pp_size p - eps12 \<le> ?c then (if eps12 < sz - ?c then - (sz - ?c) else 0) else pp_size p - ?c)"
          using flat Short \<open>po_side ord = Buy\<close> by (simp add: signed_def) (simp add: zero_Fin)
        also have "\<dots> = net_after (- pp_size p) sz"
          unfolding closing_net [OF P sz] net_after_mirror by simp
        finally show ?thesis using Some k Short \<open>po_side ord = Buy\<close>
          by (simp add: net_pos net_of_def signed_def)
      qed
    qed
  qed
qed

text \<open>C2: Fills refine signed addition: in a well-formed account, a fill of a positive size changes
  the signed position of its market to the sum of the two (flat when within the tolerance
  of flat), whichever of the engine's cases it goes through.\<close>

theorem fill_refines_signed_addition:
  assumes inv: "paper_inv s" "sizes_ok s" and sz: "size_ok sz"
  shows "net (fill s ord mk price taker fees now sz) k =
    (if k = m_id mk then net_after (net s k) (signed (po_side ord) sz) else net s k)"
  by (rule fill_net [OF assms])

lemma fill_refines_signed_addition_witness:
  "net btc_account ''BTC'' = Fin 2 \<and>
   net (fill btc_account btc_rest btc (Fin 100) True no_fees (Fin 5) (Fin 1)) ''BTC'' = Fin 3"
proof -
  have n: "net btc_account ''BTC'' = Fin 2" by (simp add: sample_simps net_def net_of_def)
  have "size_ok (Fin 1)" by (simp add: size_ok_def sample_simps del: canonical.simps)
  from fill_refines_signed_addition [OF btc_account_inv btc_account_sizes this, of btc_rest btc "Fin 100" True
      no_fees "Fin 5" "''BTC''"] n
  show ?thesis by (simp add: btc_rest_def btc_def net_after_def signed_def zero_Fin)
qed

end
