(* ===== verification/Paper_Account.thy ===== *)
theory Paper_Account
  imports Paper_Net "HOL-Library.Multiset"
begin

text \<open>
  The paper account as the page drives it (\<^verbatim>\<open>apps/desktop/src/hooks/usePaper.ts\<close>):
  the operations it applies to the stored account, as events of a machine, and what holds
  of the operations one by one.
\<close>

section \<open>The events\<close>

datatype paper_event =
    PlaceEvent order_request market quotes fees jsnum
  | CancelEvent string
  | AmendEvent string order_amend market
  | ProtectEvent string position_protection
  | LeverageEvent market jsnum
  | MarginModeEvent market margin_mode
  | FundsEvent jsnum quotes
  | TickEvent quotes markets fees jsnum
  | ResetEvent
  | CloseAllEvent quotes markets fees jsnum

fun paper_step :: "paper_event \<Rightarrow> paper_state \<Rightarrow> paper_state" where
  "paper_step (PlaceEvent req mk quotes fees now) s = fst (placeOrder s req mk quotes fees now)"
| "paper_step (CancelEvent i) s = fst (cancelOrder s i)"
| "paper_step (AmendEvent i change mk) s = fst (amendOrder s i change mk)"
| "paper_step (ProtectEvent k protection) s = fst (protectPosition s k protection)"
| "paper_step (LeverageEvent mk leverage) s = setLeverage s mk leverage"
| "paper_step (MarginModeEvent mk mode) s = fst (setMarginMode s mk mode)"
| "paper_step (FundsEvent amount quotes) s = fst (adjustFunds s amount quotes)"
| "paper_step (TickEvent quotes mks fees now) s = tick s quotes mks fees now"
| "paper_step ResetEvent s = newPaperState (ps_venue s) PAPER_START"
| "paper_step (CloseAllEvent quotes mks fees now) s = closeAll s quotes mks fees now"

definition paper_start :: "paper_state \<Rightarrow> bool" where
  "paper_start s = (\<exists>v amount. s = newPaperState v amount)"

lemma newPaperState_inv [wf_intros]: "paper_inv (newPaperState v amount)"
  by (simp add: paper_inv_def newPaperState_def orders_ok_def)

definition paper_ok :: "paper_state \<Rightarrow> bool" where
  "paper_ok s = (paper_inv s \<and> sizes_ok s)"

interpretation paper: machine paper_step paper_start paper_ok
proof
  fix s assume "paper_start s"
  then show "paper_ok s" by (auto simp: paper_start_def paper_ok_def other_sizes intro: newPaperState_inv)
next
  fix s e assume "paper_ok s"
  then show "paper_ok (paper_step e s)" by (cases e) (simp_all add: paper_ok_def op_sizes wf_intros)
qed

text \<open>C1: However the account is traded, from its opening on, it holds at most one position per
  market, gives every resting order an id of its own (one it has handed out and will not
  hand out again), keeps no more than 500 fills, closed trades, orders or payments, and every
  position and resting order has a positive size.\<close>

theorem paper_account_invariant:
  "paper_ok (fold paper_step es (newPaperState v amount))"
  by (rule paper.reachable_inv) (auto simp: paper_start_def)

section \<open>Refusals\<close>

lemma execute_order_error:
  assumes "execute_order current state req ord mk quote fees now = (s', Some e)"
  shows "s' = current \<or> (\<exists>ord' st. s' = pushHistory state ord' st 0)"
  using assms by (auto simp: execute_order_def Let_def split: order_kind.splits if_splits)

text \<open>C4: An order the account refuses moves no money and leaves positions, resting orders,
  settings and trades as they were; at most the refused order itself goes into the history.\<close>

theorem refused_order_changes_nothing:
  assumes "placeOrder s req mk quotes fees now = (s', Some e)"
  shows "ps_cash s' = ps_cash s \<and> ps_positions s' = ps_positions s \<and> ps_orders s' = ps_orders s \<and>
    ps_fills s' = ps_fills s \<and> ps_closed s' = ps_closed s \<and> ps_settings s' = ps_settings s \<and>
    (e \<noteq> ErrPrice \<and> e \<noteq> ErrPostOnly \<longrightarrow> s' = s)"
  using assms
  by (auto simp: placeOrder_def Let_def execute_order_def pushHistory_def
      split: option.splits if_splits order_kind.splits)

lemma refused_order_changes_nothing_witness:
  "ps_orders (fst (placeOrder btc_account (btc_request Buy True (MarketKind 1)) btc btc_quotes no_fees (Fin 5))) =
   [btc_rest]"
proof -
  let ?r = "placeOrder btc_account (btc_request Buy True (MarketKind 1)) btc btc_quotes no_fees (Fin 5)"
  have "?r = (fst ?r, Some ErrReduceOnly)" by (simp add: place_eval)
  from refused_order_changes_nothing [OF this] show ?thesis by (simp add: btc_account_def)
qed

section \<open>Reduce-only orders\<close>

lemma pos_in_simps [simp]:
  "pos_in k (pushHistory s ord status f) = pos_in k s"
  "pos_in k (s\<lparr>ps_orders := ords\<rparr>) = pos_in k s"
  "pos_in k (s\<lparr>ps_nextId := n\<rparr>) = pos_in k s"
  "pos_in k (without_order i s) = pos_in k s"
  by (simp_all add: pos_in_def pushHistory_def without_order_def)

lemma pos_in_ok: "paper_ok s \<Longrightarrow> pos_in k s = Some p \<Longrightarrow> size_ok (pp_size p) \<and> pp_market p = k"
  using find_SomeD by (fastforce simp: pos_in_def paper_ok_def sizes_ok_def)

lemma js_minus_le: "size_ok x \<Longrightarrow> size_ok y \<Longrightarrow> y < x \<Longrightarrow> x - y \<le> x"
proof (cases x; cases y)
  fix a b assume ab: "x = Fin a" "y = Fin b" and ok: "size_ok x" "size_ok y"
  have "num (a - b) \<le> num a" using ab ok by (intro num_mono) (simp add: size_ok_def zero_Fin)
  with ab ok show ?thesis by (simp add: size_ok_def minus_jsnum_def canonical_fixed)
qed (auto simp: size_ok_def zero_Fin minus_jsnum_def)

text \<open>A fill no larger than the position it closes leaves nothing, or less of the same.\<close>

lemma fill_reduces:
  assumes ok: "paper_ok s" "size_ok sz" and p: "pos_in (m_id mk) s = Some p"
    and side: "closing_side p (po_side ord)" and le: "\<not> pp_size p < sz"
  shows "case pos_in (m_id mk) (fill s ord mk price taker fees now sz) of None \<Rightarrow> True
    | Some p' \<Rightarrow> pp_side p' = pp_side p \<and> pp_size p' \<le> pp_size p"
proof -
  have d: "distinct (map pp_market (ps_positions s))" using ok(1) by (simp add: paper_ok_def paper_inv_def)
  have P: "size_ok (pp_size p)" using pos_in_ok [OF ok(1) p] by simp
  have s: "(pp_side p = Long) \<noteq> (po_side ord = Buy)"
    using side by (cases "pp_side p"; cases "po_side ord") (simp_all add: closing_side_def)
  have min: "math_min sz (pp_size p) = sz"
    using P ok(2) le by (auto simp: math_min_def dest: size_ok_not_NaN)
  have none: "\<not> eps12 < sz - sz"
    using eps12_pos by (cases sz) (auto simp: minus_jsnum_def dest: js_less_asym js_less_imp_le)
  have "pp_size p - sz \<le> pp_size p" if "\<not> pp_size p - eps12 \<le> sz"
    using size_ok_partial [OF P ok(2)] that js_minus_le [OF P ok(2)] min by simp
  with fill_closes [OF p s d, of price taker fees now sz] none show ?thesis
    by (auto simp: Let_def min split: option.splits if_splits)
qed

lemma new_order_simps [simp]:
  "po_side (new_order n req mk sz now) = r_side req"
  "po_size (new_order n req mk sz now) = sz"
  "po_id (new_order n req mk sz now) = ''paper-'' @ int_str n"
  "po_market (new_order n req mk sz now) = m_id mk"
  "po_reduceOnly (new_order n req mk sz now) = r_reduceOnly req"
  by (simp_all add: new_order_def)

text \<open>An order is refused by the checks, with nothing changed, or its last part runs.\<close>

lemma placeOrder_executes:
  assumes "placeOrder s req mk quotes fees now = (s', err)" "quotes (m_id mk) = Some quote"
  obtains e where "s' = s" "err = Some e"
    | sz where "execute_order s (s\<lparr>ps_nextId := ps_nextId s + 1\<rparr>) req
        (new_order (ps_nextId s) req mk sz now) mk quote fees now = (s', err)"
  using assms by (auto simp: placeOrder_def Let_def split: option.splits if_splits)

text \<open>An accepted order has filled, or rests, or has only been written to the history.\<close>

lemma execute_order_accepted:
  assumes "execute_order current state req ord mk quote fees now = (s', None)"
  obtains ord' price where "po_side ord' = po_side ord" "po_size ord' = po_size ord"
      "s' = pushHistory (fill state ord' mk price True fees now (po_size ord)) ord' Filled (po_size ord)"
    | ord' where "po_side ord' = po_side ord" "s' = state\<lparr>ps_orders := ord' # ps_orders state\<rparr>"
    | ord' where "s' = pushHistory state ord' Cancelled 0"
proof (cases "r_kind req")
  case (MarketKind bps)
  with assms show ?thesis by (intro that(1) [of ord]) (auto simp: execute_order_def Let_def split: if_splits)
next
  case (LimitKind price tif)
  let ?ord = "ord\<lparr>po_price := Some (to_number price)\<rparr>"
  show ?thesis
    using assms LimitKind that(1) [of ?ord] that(2) [of ?ord] that(3) [of ?ord]
    by (auto simp: execute_order_def Let_def split: if_splits)
next
  case (TriggerKind trigger price)
  with assms show ?thesis
    by (intro that(2) [of "ord\<lparr>po_triggerPrice := Some (to_number trigger),
          po_triggerAbove := Some (q_mark quote < to_number trigger), po_price := truthy_number price\<rparr>"])
      (auto simp: execute_order_def Let_def split: if_splits)
next
  case (TwapKind mins pieces)
  with assms show ?thesis by (simp add: execute_order_def)
qed

lemma reduce_only_shrinks:
  assumes ok: "paper_ok s" and ro: "r_reduceOnly req"
    and placed: "placeOrder s req mk quotes fees now = (s', None)"
  shows "case pos_in (m_id mk) s' of None \<Rightarrow> True
    | Some p' \<Rightarrow> (\<exists>p. pos_in (m_id mk) s = Some p \<and> pp_side p' = pp_side p \<and> pp_size p' \<le> pp_size p)"
proof -
  let ?asked = "toStep (to_number (r_size req)) (to_number (m_sizeStep mk))"
  obtain quote p where q: "quotes (m_id mk) = Some quote" and p: "pos_in (m_id mk) s = Some p"
    and side: "closing_side p (r_side req)" and asked: "0 < ?asked"
    and ex: "execute_order s (s\<lparr>ps_nextId := ps_nextId s + 1\<rparr>) req
      (new_order (ps_nextId s) req mk (math_min ?asked (pp_size p)) now) mk quote fees now = (s', None)"
    using placed ro by (auto simp: placeOrder_def Let_def pos_in_def split: option.splits if_splits)
  have P: "size_ok (pp_size p)" using pos_in_ok [OF ok p] by simp
  let ?sz = "math_min ?asked (pp_size p)" and ?s = "s\<lparr>ps_nextId := ps_nextId s + 1\<rparr>"
  have sz: "size_ok ?sz" "\<not> pp_size p < ?sz"
    using toStep_ok [OF asked] P by (auto simp: size_ok_min math_min_def dest: js_less_asym js_less_imp_le size_ok_not_NaN)
  have ok': "paper_ok ?s" using ok bump_inv by (simp add: paper_ok_def)
  have p': "pos_in (m_id mk) ?s = Some p" using p by simp
  have filled: "pp_side p'' = pp_side p \<and> pp_size p'' \<le> pp_size p"
    if "po_side ord' = r_side req" "pos_in (m_id mk) (fill ?s ord' mk price taker fees now ?sz) = Some p''"
    for ord' price taker p''
    using fill_reduces [OF ok' sz(1) p' _ sz(2), of ord' price taker fees now] side that by simp
  have "pp_size p \<le> pp_size p" using P by (simp add: size_ok_not_NaN)
  with ex show ?thesis
    by (cases rule: execute_order_accepted) (use p in \<open>auto split: option.splits dest: filled\<close>)
qed

text \<open>C3: A reduce-only order that is accepted never opens or enlarges a position, and never turns
  it round: afterwards the market's position is gone, or is on the same side and no larger.\<close>

theorem reduce_only_never_opens:
  assumes ok: "paper_ok s" and ro: "r_reduceOnly req"
    and placed: "placeOrder s req mk quotes fees now = (s', None)"
  shows "case pos_in (m_id mk) s' of None \<Rightarrow> True
    | Some p' \<Rightarrow> (\<exists>p. pos_in (m_id mk) s = Some p \<and> pp_side p' = pp_side p \<and> pp_size p' \<le> pp_size p)"
  using assms by (rule reduce_only_shrinks)

lemma btc_account_ok: "paper_ok btc_account"
  by (simp add: paper_ok_def btc_account_inv btc_account_sizes)

lemma reduce_only_never_opens_witness:
  "\<exists>s'. placeOrder btc_account (btc_request Sell True (MarketKind (Fin 10000))) btc btc_quotes no_fees (Fin 5) =
      (s', None) \<and>
    (case pos_in ''BTC'' s' of None \<Rightarrow> True | Some p' \<Rightarrow> pp_side p' = Long \<and> pp_size p' \<le> Fin 2)"
proof -
  let ?r = "placeOrder btc_account (btc_request Sell True (MarketKind (Fin 10000))) btc btc_quotes no_fees (Fin 5)"
  have "?r = (fst ?r, None)" by (simp add: place_eval)
  moreover have "pos_in ''BTC'' btc_account = Some btc_long" by (simp add: sample_simps pos_in_def)
  ultimately show ?thesis
    using reduce_only_never_opens [OF btc_account_ok _ \<open>?r = (fst ?r, None)\<close>]
    by (intro exI [of _ "fst ?r"]) (simp add: btc_request_def btc_def btc_long_def split: option.splits)
qed

section \<open>Prices\<close>

text \<open>C5: A market order that goes through is one fill at the taker price, and that price is
  within the order's own slippage bound of the mark.\<close>

theorem market_order_within_slippage:
  assumes "placeOrder s req mk quotes fees now = (s', None)" "r_kind req = MarketKind bps"
    "quotes (m_id mk) = Some quote"
  shows "\<exists>ord. s' = pushHistory (fill (s\<lparr>ps_nextId := ps_nextId s + 1\<rparr>) ord mk
                      (takerPrice quote (r_side req)) True fees now (po_size ord)) ord Filled (po_size ord) \<and>
    po_side ord = r_side req \<and> po_market ord = m_id mk \<and>
    \<not> q_mark quote * (bps / Fin 10000) + eps12 < \<bar>takerPrice quote (r_side req) - q_mark quote\<bar>"
  using assms(1,3)
proof (cases rule: placeOrder_executes)
  case (2 sz)
  let ?ord = "new_order (ps_nextId s) req mk sz now"
  from 2 assms(2) show ?thesis
    by (intro exI [of _ ?ord]) (auto simp: execute_order_def Let_def split: if_splits)
qed simp

lemma market_order_within_slippage_witness:
  "\<not> Fin 100 + eps12 < \<bar>takerPrice btc_quote Sell - Fin 100\<bar>"
proof -
  let ?r = "placeOrder btc_account (btc_request Sell True (MarketKind (Fin 10000))) btc btc_quotes no_fees (Fin 5)"
  have "?r = (fst ?r, None)" by (simp add: place_eval)
  from market_order_within_slippage [OF this, of "Fin 10000" btc_quote]
  show ?thesis by (auto simp: sample_simps)
qed

text \<open>C6: A post-only order never takes: whatever becomes of it, no fill is made and no money moves;
  accepted, it rests at its own price, which does not cross the book.\<close>

theorem post_only_never_takes:
  assumes "placeOrder s req mk quotes fees now = (s', err)" "r_kind req = LimitKind price (Some PostOnly)"
    "quotes (m_id mk) = Some quote"
  shows "ps_fills s' = ps_fills s \<and> ps_cash s' = ps_cash s \<and> ps_positions s' = ps_positions s \<and>
    (err = None \<longrightarrow> (\<exists>ord. ps_orders s' = ord # ps_orders s \<and> po_price ord = Some (to_number price) \<and>
       \<not> (case r_side req of Buy \<Rightarrow> takerPrice quote Buy \<le> to_number price
                             | Sell \<Rightarrow> to_number price \<le> takerPrice quote Sell)))"
  using assms(1,3)
proof (cases rule: placeOrder_executes)
  case (2 sz)
  moreover have "po_postOnly (new_order (ps_nextId s) req mk sz now)" using assms(2) by (simp add: new_order_def)
  ultimately show ?thesis
    using assms(2) by (auto simp: execute_order_def Let_def pushHistory_def split: if_splits)
qed simp

lemma post_only_never_takes_witness:
  "\<exists>ord. ps_orders (fst (placeOrder btc_account (btc_request Sell True (LimitKind ''200'' (Some PostOnly)))
      btc btc_quotes no_fees (Fin 5))) = [ord, btc_rest] \<and> po_price ord = Some (Fin 200)"
proof -
  let ?req = "btc_request Sell True (LimitKind ''200'' (Some PostOnly))"
  let ?r = "placeOrder btc_account ?req btc btc_quotes no_fees (Fin 5)"
  have r: "?r = (fst ?r, None)" by (simp add: place_eval)
  have "r_kind ?req = LimitKind ''200'' (Some PostOnly)" "btc_quotes (m_id btc) = Some btc_quote"
    by (simp_all add: btc_request_def btc_quotes_def btc_def)
  from post_only_never_takes [OF r this] show ?thesis by (auto simp: sample_numbers btc_account_def)
qed

section \<open>Cancelling\<close>

lemma find_remove_by_id:
  assumes "distinct (map po_id ords)" "List.find (\<lambda>x. po_id x = i) ords = Some ord"
  shows "mset ords = add_mset ord (mset (filter (\<lambda>x. po_id x \<noteq> i) ords))"
  using assms
proof (induction ords)
  case (Cons x ords)
  show ?case
  proof (cases "po_id x = i")
    case True
    have "po_id y \<noteq> i" if "y \<in> set ords" for y
      using Cons.prems(1) True imageI [OF that, of po_id] by auto
    then have "filter (\<lambda>x. po_id x \<noteq> i) ords = ords" by (rule filter_True [OF ballI])
    with True Cons.prems(2) show ?thesis by simp
  next
    case False
    with Cons.prems Cons.IH show ?thesis by simp
  qed
qed simp

text \<open>Cancelling takes exactly the named order off the book, puts it at the head of the history
  as cancelled with nothing filled, and touches neither money nor positions; an unknown id
  changes nothing.\<close>

theorem cancel_removes_one_order:
  assumes "paper_ok s" "cancelOrder s i = (s', err)"
  shows "(err = None \<longrightarrow> (\<exists>ord. po_id ord = i \<and> mset (ps_orders s) = add_mset ord (mset (ps_orders s')) \<and>
             hd (ps_history s') = toOrder (ps_venue s) ord Cancelled 0)) \<and>
    (err \<noteq> None \<longrightarrow> s' = s \<and> i \<notin> po_id ` set (ps_orders s)) \<and>
    ps_cash s' = ps_cash s \<and> ps_positions s' = ps_positions s"
proof (cases "List.find (\<lambda>x. po_id x = i) (ps_orders s)")
  case None
  with assms show ?thesis by (auto simp: cancelOrder_def find_None)
next
  case (Some ord)
  have d: "distinct (map po_id (ps_orders s))"
    using assms(1) by (simp add: paper_ok_def paper_inv_def orders_ok_def)
  have "hd (keep (x # xs)) = x" for x :: order and xs by (simp add: keep_def KEEP_def)
  with assms Some find_SomeD [OF Some] find_remove_by_id [OF d Some] show ?thesis
    by (auto simp: cancelOrder_def pushHistory_def without_order_def)
qed

lemma cancel_removes_one_order_witness:
  "snd (cancelOrder btc_account ''paper-1'') = None \<and>
   ps_positions (fst (cancelOrder btc_account ''paper-1'')) = [btc_long]"
proof -
  have "cancelOrder btc_account ''paper-1'' = (fst (cancelOrder btc_account ''paper-1''), None)"
    by (simp add: cancelOrder_def sample_simps)
  from cancel_removes_one_order [OF btc_account_ok this] this show ?thesis
    by (simp add: btc_account_def cancelOrder_def btc_rest_def)
qed

end
