(* ===== verification/Paper_Effects.thy ===== *)
theory Paper_Effects
  imports Paper_Account
begin

text \<open>
  What closing everything, a tick and a move of funds achieve: the account is flat, stops and
  funding are settled at the new prices, and money moved in or out is not profit.
\<close>

section \<open>Closing a whole position\<close>

definition keyed :: "markets \<Rightarrow> bool" where
  "keyed mks = (\<forall>k mk. mks k = Some mk \<longrightarrow> m_id mk = k)"

lemma closeAt_pos:
  assumes ok: "paper_ok s" and p: "pos_in (m_id mk) s = Some p'" "pp_size p' = pp_size p" "pp_side p' = pp_side p"
  shows "pos_in k (closeAt s p mk price fees now) = (if k = m_id mk then None else pos_in k s)"
proof -
  let ?s = "s\<lparr>ps_nextId := ps_nextId s + 1\<rparr>" and ?o = "exit_order (ps_nextId s) p now"
  have d: "distinct (map pp_market (ps_positions ?s))" using ok by (simp add: paper_ok_def paper_inv_def)
  have sz: "size_ok (pp_size p)" using pos_in_ok [OF ok p(1)] p(2) by simp
  have side: "(pp_side p' = Long) \<noteq> (po_side ?o = Buy)"
    using p(3) by (cases "pp_side p") (simp_all add: exit_order_def exit_side_def)
  have min: "math_min (pp_size p) (pp_size p) = pp_size p" by (simp add: math_min_def)
  have none: "\<not> eps12 < pp_size p - pp_size p"
    using eps12_pos by (cases "pp_size p") (auto simp: minus_jsnum_def dest: js_less_asym js_less_imp_le)
  have at: "pos_in (m_id mk) (fill ?s ?o mk price True fees now (pp_size p)) = None"
    using fill_closes [OF _ side d, of mk price True fees now "pp_size p"] p minus_eps_le [OF sz] min none by simp
  have size: "po_size ?o = pp_size p" by (simp add: exit_order_def)
  show ?thesis
  proof (cases "k = m_id mk")
    case True
    with at show ?thesis by (simp add: closeAt_def Let_def size)
  next
    case False
    then show ?thesis by (simp add: closeAt_def Let_def fill_other_market)
  qed
qed

lemma closeAt_parts:
  "ps_orders s = [] \<Longrightarrow> ps_orders (closeAt s p mk price fees now) = []"
  "ps_fundedAt (closeAt s p mk price fees now) = ps_fundedAt s"
  using fill_orders [of "s\<lparr>ps_nextId := ps_nextId s + 1\<rparr>"]
  by (auto simp: closeAt_def Let_def pushHistory_def fill_frame)

lemma closeAt_ok: "paper_ok s \<Longrightarrow> size_ok (pp_size p) \<Longrightarrow> paper_ok (closeAt s p mk price fees now)"
  by (simp add: paper_ok_def closeAt_inv closeAt_sizes)

lemma find_key: "distinct (map g xs) \<Longrightarrow> x \<in> set xs \<Longrightarrow> List.find (\<lambda>y. g y = g x) xs = Some x"
  by (induction xs) (auto simp: image_iff)

lemma pos_in_members:
  "distinct (map pp_market (ps_positions s)) \<Longrightarrow> p \<in> set (ps_positions s) \<Longrightarrow> pos_in (pp_market p) s = Some p"
  unfolding pos_in_def by (rule find_key)

section \<open>Closing everything\<close>

definition tradable :: "quotes \<Rightarrow> markets \<Rightarrow> string \<Rightarrow> bool" where
  "tradable quotes mks k = (quotes k \<noteq> None \<and> mks k \<noteq> None)"

lemma close_if_quoted_pos:
  assumes "keyed mks" "paper_ok s" "pos_in (pp_market p) s = Some p"
  shows "pos_in k (close_if_quoted quotes mks fees now p s) =
      (if k = pp_market p \<and> tradable quotes mks k then None else pos_in k s)"
    "paper_ok (close_if_quoted quotes mks fees now p s)"
    "ps_orders s = [] \<Longrightarrow> ps_orders (close_if_quoted quotes mks fees now p s) = []"
proof -
  have id: "m_id mk = pp_market p" if "mks (pp_market p) = Some mk" for mk
    using assms(1) that by (simp add: keyed_def)
  have sz: "size_ok (pp_size p)" using pos_in_ok [OF assms(2,3)] by simp
  show "pos_in k (close_if_quoted quotes mks fees now p s) =
      (if k = pp_market p \<and> tradable quotes mks k then None else pos_in k s)"
    using id closeAt_pos [OF assms(2), of _ p p k] assms(3)
    by (auto simp: close_if_quoted_def tradable_def split: option.split)
  show "paper_ok (close_if_quoted quotes mks fees now p s)"
    using closeAt_ok [OF assms(2) sz] assms(2) by (auto simp: close_if_quoted_def split: option.split)
  show "ps_orders s = [] \<Longrightarrow> ps_orders (close_if_quoted quotes mks fees now p s) = []"
    by (auto simp: close_if_quoted_def closeAt_parts split: option.split)
qed

lemma close_all_positions:
  assumes "keyed mks" "paper_ok s" "distinct (map pp_market ps)" "\<forall>p \<in> set ps. pos_in (pp_market p) s = Some p"
    "ps_orders s = []"
  shows "pos_in k (fold (close_if_quoted quotes mks fees now) ps s) =
      (if k \<in> pp_market ` set ps \<and> tradable quotes mks k then None else pos_in k s) \<and>
    ps_orders (fold (close_if_quoted quotes mks fees now) ps s) = []"
  using assms(2-5)
proof (induction ps arbitrary: s)
  case (Cons p ps)
  let ?t = "close_if_quoted quotes mks fees now p s"
  have p: "pos_in (pp_market p) s = Some p" using Cons.prems by simp
  note c = close_if_quoted_pos [OF assms(1) Cons.prems(1) p]
  have "\<forall>q \<in> set ps. pos_in (pp_market q) ?t = Some q"
    using Cons.prems(2,3) by (auto simp: c(1) image_iff)
  with Cons c show ?case by auto
qed simp

lemma cancel_all_frame:
  "ps_positions (fold (\<lambda>ord s. pushHistory s ord Cancelled 0) ords s) = ps_positions s"
  by (induction ords arbitrary: s) (simp_all add: pushHistory_def)

text \<open>C7: Closing everything leaves no resting order, and no position in any market that has a quote
  and is known; a position without a price stays as it was.\<close>

theorem closeAll_flat:
  assumes "paper_ok s" "keyed mks"
  shows "ps_orders (closeAll s quotes mks fees now) = [] \<and>
    pos_in k (closeAll s quotes mks fees now) = (if tradable quotes mks k then None else pos_in k s)"
proof (cases "ps_positions s = [] \<and> ps_orders s = []")
  case True
  then show ?thesis by (simp add: closeAll_def pos_in_def)
next
  case False
  let ?t = "(fold (\<lambda>ord s. pushHistory s ord Cancelled 0) (ps_orders s) s)\<lparr>ps_orders := []\<rparr>"
  have pos: "ps_positions ?t = ps_positions s" by (simp add: cancel_all_frame)
  have at: "pos_in k (fold (\<lambda>ord s. pushHistory s ord Cancelled 0) (ps_orders s) s) = pos_in k s" for k
    by (simp add: pos_in_def cancel_all_frame)
  have d: "distinct (map pp_market (ps_positions s))" using assms(1) by (simp add: paper_ok_def paper_inv_def)
  have "paper_inv (fold (\<lambda>ord s. pushHistory s ord Cancelled 0) (ps_orders s) s)"
    using assms(1) by (intro fold_inv [where P = paper_inv]) (auto simp: paper_ok_def intro: pushHistory_inv)
  then have "paper_inv ?t" by (simp add: paper_inv_def orders_ok_def)
  moreover have "sizes_ok ?t" using assms(1) pos by (simp add: paper_ok_def sizes_ok_def)
  ultimately have "paper_ok ?t" by (simp add: paper_ok_def)
  from close_all_positions [OF assms(2) this, of "ps_positions s"] d pos_in_members [OF d]
  have "pos_in k (fold (close_if_quoted quotes mks fees now) (ps_positions s) ?t) =
      (if k \<in> pp_market ` set (ps_positions s) \<and> tradable quotes mks k then None else pos_in k s) \<and>
    ps_orders (fold (close_if_quoted quotes mks fees now) (ps_positions s) ?t) = []"
    by (simp add: at)
  moreover have "pos_in k s = None" if "k \<notin> pp_market ` set (ps_positions s)"
    using that by (auto simp: pos_in_def find_None)
  moreover have "closeAll s quotes mks fees now = fold (close_if_quoted quotes mks fees now) (ps_positions s) ?t"
    using False by (auto simp: closeAll_def Let_def cancel_all_frame)
  ultimately show ?thesis by auto
qed

lemma btc_keyed: "keyed btc_markets"
  by (simp add: keyed_def btc_markets_def btc_def)

lemma closeAll_flat_witness:
  "ps_orders (closeAll btc_account btc_quotes btc_markets no_fees (Fin 5)) = [] \<and>
   pos_in ''BTC'' (closeAll btc_account btc_quotes btc_markets no_fees (Fin 5)) = None"
proof -
  from closeAll_flat [OF btc_account_ok btc_keyed, of btc_quotes no_fees "Fin 5" "''BTC''"]
  show ?thesis by (simp add: tradable_def btc_quotes_def btc_markets_def)
qed

section \<open>What a tick settles\<close>

text \<open>A position whose exit or whose funding the prices at \<open>now\<close> still call for.\<close>

definition stop_due :: "paper_position \<Rightarrow> jsnum \<Rightarrow> bool" where
  "stop_due p mark =
     ((case pp_stopLoss p of Some s \<Rightarrow> if pp_side p = Long then mark \<le> s else s \<le> mark | None \<Rightarrow> False) \<or>
      (case pp_takeProfit p of Some t \<Rightarrow> if pp_side p = Long then t \<le> mark else mark \<le> t | None \<Rightarrow> False) \<or>
      trail_hit p mark)"

definition settled :: "quotes \<Rightarrow> markets \<Rightarrow> jsnum \<Rightarrow> string \<Rightarrow> paper_state \<Rightarrow> bool" where
  "settled quotes mks now k s =
     (case (quotes k, mks k, pos_in k s) of
        (Some quote, Some mk, Some p) \<Rightarrow>
          \<not> stop_due p (q_mark quote) \<and> obj_get (ps_fundedAt s) k \<noteq> None \<and>
          (\<forall>later. math_floor (later / funding_interval quote) = math_floor (now / funding_interval quote) \<longrightarrow>
             \<not> funding_due (ps_fundedAt s) p quote later)
      | _ \<Rightarrow> True)"

lemma exit_price_None: "exit_price st p quote quotes mk = None \<Longrightarrow> \<not> stop_due p (q_mark quote)"
  by (auto simp: exit_price_def stop_due_def Let_def split: option.splits if_splits)

lemma pay_funding_settles:
  assumes "pay_funding st p quote now = (st', p', b)" "pp_market p'' = pp_market p"
    "math_floor (later / funding_interval quote) = math_floor (now / funding_interval quote)"
  shows "\<not> funding_due (ps_fundedAt st') p'' quote later \<and> obj_get (ps_fundedAt st') (pp_market p) \<noteq> None"
  using assms by (auto simp: pay_funding_def funding_due_def Let_def split: if_splits option.splits)

lemma pay_funding_other:
  "pay_funding st p quote now = (st', p', b) \<Longrightarrow> k \<noteq> pp_market p \<Longrightarrow>
   obj_get (ps_fundedAt st') k = obj_get (ps_fundedAt st) k"
  by (auto simp: pay_funding_def Let_def split: if_splits)

lemma find_replace:
  "List.find (\<lambda>x. g x = k) (update_first (\<lambda>x. g x = g p) (\<lambda>_. p) xs) =
     (if k = g p then map_option (\<lambda>_. p) (List.find (\<lambda>x. g x = k) xs) else List.find (\<lambda>x. g x = k) xs)"
  by (induction xs) auto

lemma pos_in_set_position:
  "pos_in k (set_position p s) =
     (if k = pp_market p then map_option (\<lambda>_. p) (pos_in k s) else pos_in k s)"
  by (simp add: pos_in_def set_position_def find_replace)

lemma set_position_fundedAt [simp]: "ps_fundedAt (set_position p s) = ps_fundedAt s"
  by (simp add: set_position_def)

lemma settled_cong:
  "pos_in k s = pos_in k s' \<Longrightarrow> obj_get (ps_fundedAt s) k = obj_get (ps_fundedAt s') k \<Longrightarrow>
   settled quotes mks now k s = settled quotes mks now k s'"
  using pos_in_def find_SomeD
  by (fastforce simp: settled_def funding_due_def split: option.split)

lemma tick_position_settles:
  fixes quotes :: quotes and mks :: markets and fees :: fees and now :: jsnum
  assumes keyed: "keyed mks" and ok: "paper_ok (fst sc)" and p: "pos_in (pp_market p0) (fst sc) = Some p0"
  defines "r \<equiv> tick_position quotes mks fees now p0 sc"
  shows "paper_ok (fst r) \<and> settled quotes mks now (pp_market p0) (fst r) \<and>
    (\<forall>k. k \<noteq> pp_market p0 \<longrightarrow> pos_in k (fst r) = pos_in k (fst sc) \<and>
       obj_get (ps_fundedAt (fst r)) k = obj_get (ps_fundedAt (fst sc)) k) \<and>
    (\<not> snd r \<longrightarrow> \<not> snd sc \<and> (\<forall>k. pos_in k (fst r) = pos_in k (fst sc)))"
proof (rule conjI)
  have sz: "size_ok (pp_size p0)" using pos_in_ok [OF ok p] by simp
  show "paper_ok (fst r)"
    using ok sz by (simp add: paper_ok_def r_def tick_position_inv tick_position_sizes)
  let ?goal = "settled quotes mks now (pp_market p0) (fst r) \<and>
    (\<forall>k. k \<noteq> pp_market p0 \<longrightarrow> pos_in k (fst r) = pos_in k (fst sc) \<and>
       obj_get (ps_fundedAt (fst r)) k = obj_get (ps_fundedAt (fst sc)) k) \<and>
    (\<not> snd r \<longrightarrow> \<not> snd sc \<and> (\<forall>k. pos_in k (fst r) = pos_in k (fst sc)))"
  show ?goal
  proof (cases "quotes (pp_market p0)"; cases "mks (pp_market p0)")
    fix quote mk assume q: "quotes (pp_market p0) = Some quote" and m: "mks (pp_market p0) = Some mk"
    obtain st1 p1 paid where f: "pay_funding (fst sc) p0 quote now = (st1, p1, paid)" by (metis prod_cases3)
    obtain p2 moved where t: "follow_trail p1 (q_mark quote) = (p2, moved)" by (metis surj_pair)
    let ?st = "set_position p2 st1"
    have id: "m_id mk = pp_market p0" using keyed m by (simp add: keyed_def)
    have p2: "pp_market p2 = pp_market p0" "pp_size p2 = pp_size p0" "pp_side p2 = pp_side p0"
      using pay_funding_parts [OF f] follow_trail_parts [OF t] by simp_all
    have at: "pos_in k st1 = pos_in k (fst sc)" for k using pay_funding_parts [OF f] by (simp add: pos_in_def)
    have st: "pos_in k ?st = (if k = pp_market p0 then Some p2 else pos_in k (fst sc))" for k
      using p by (simp add: pos_in_set_position at p2)
    have "paper_ok st1" using ok pay_funding_inv [OF _ f] pay_funding_parts [OF f]
      by (simp add: paper_ok_def sizes_ok_def)
    then have ok': "paper_ok ?st" using sz p2 by (simp add: paper_ok_def set_position_inv set_position_sizes)
    have other: "obj_get (ps_fundedAt st1) k = obj_get (ps_fundedAt (fst sc)) k" if "k \<noteq> pp_market p0" for k
      using pay_funding_other [OF f] that by simp
    show ?goal
    proof (cases "exit_price ?st p2 quote quotes mk")
      case None
      have r: "r = (?st, snd sc \<or> paid \<or> moved)" using q m f t None by (simp add: r_def tick_position_def Let_def)
      have same: "p2 = p0" if "\<not> paid" "\<not> moved"
        using f t that by (auto simp: pay_funding_def follow_trail_def opt_differs_def js_eq_def Let_def
            split: if_splits option.splits)
      have "settled quotes mks now (pp_market p0) ?st"
        using exit_price_None [OF None] pay_funding_settles [OF f p2(1)] q m
        by (simp add: settled_def st)
      with r st other same p show ?thesis by auto
    next
      case (Some price)
      have "r = (closeAt ?st p2 mk price fees now, True)"
        using q m f t Some by (simp add: r_def tick_position_def Let_def)
      moreover have "pos_in k (closeAt ?st p2 mk price fees now) =
          (if k = pp_market p0 then None else pos_in k (fst sc))" for k
        using closeAt_pos [OF ok', of mk p2 p2 k] id by (simp add: st)
      ultimately show ?thesis using other by (simp add: settled_def closeAt_parts split: option.split)
    qed
  qed (use p in \<open>simp_all add: r_def tick_position_def settled_def\<close>)
qed

lemma tick_positions_settle:
  assumes "keyed mks" "paper_ok (fst sc)" "distinct (map pp_market ps)"
    "\<forall>p \<in> set ps. pos_in (pp_market p) (fst sc) = Some p"
  defines "run \<equiv> \<lambda>quotes fees now. tick_positions quotes mks fees now ps sc"
  shows "(k \<in> pp_market ` set ps \<longrightarrow> settled quotes mks now k (fst (run quotes fees now))) \<and>
    (k \<notin> pp_market ` set ps \<longrightarrow> pos_in k (fst (run quotes fees now)) = pos_in k (fst sc) \<and>
      obj_get (ps_fundedAt (fst (run quotes fees now))) k = obj_get (ps_fundedAt (fst sc)) k) \<and>
    (\<not> snd (run quotes fees now) \<longrightarrow> \<not> snd sc \<and> pos_in k (fst (run quotes fees now)) = pos_in k (fst sc))"
  using assms(2-4) unfolding run_def tick_positions_def
proof (induction ps arbitrary: sc)
  case (Cons p ps)
  let ?t = "tick_position quotes mks fees now p sc"
  have p: "pos_in (pp_market p) (fst sc) = Some p" using Cons.prems by simp
  note s = tick_position_settles [OF assms(1) Cons.prems(1) p, of quotes fees now]
  have "\<forall>q \<in> set ps. pos_in (pp_market q) (fst ?t) = Some q"
    using Cons.prems(2,3) s by (auto simp: image_iff)
  moreover have "distinct (map pp_market ps)" using Cons.prems(2) by simp
  ultimately have ih: "(k \<in> pp_market ` set ps \<longrightarrow> settled quotes mks now k (fst (fold (tick_position quotes mks fees now) ps ?t))) \<and>
    (k \<notin> pp_market ` set ps \<longrightarrow> pos_in k (fst (fold (tick_position quotes mks fees now) ps ?t)) = pos_in k (fst ?t) \<and>
      obj_get (ps_fundedAt (fst (fold (tick_position quotes mks fees now) ps ?t))) k =
      obj_get (ps_fundedAt (fst ?t)) k) \<and>
    (\<not> snd (fold (tick_position quotes mks fees now) ps ?t) \<longrightarrow> \<not> snd ?t \<and>
      pos_in k (fst (fold (tick_position quotes mks fees now) ps ?t)) = pos_in k (fst ?t))"
    using Cons.IH [of ?t] s by simp
  have kept: "settled quotes mks now (pp_market p) (fst (fold (tick_position quotes mks fees now) ps ?t))"
    if "k = pp_market p"
    using ih s settled_cong [of "pp_market p" "fst (fold (tick_position quotes mks fees now) ps ?t)" "fst ?t"]
      Cons.prems(2) that by auto
  show ?case
    using ih s kept by (cases "k = pp_market p") auto
qed simp

lemma tick_order_flag: "\<not> snd (tick_order quotes mks fees now ord sc) \<Longrightarrow> tick_order quotes mks fees now ord sc = sc"
  by (auto simp: tick_order_def Let_def split: option.splits paper_order_type.splits if_splits)

lemma tick_orders_flag:
  "\<not> snd (tick_orders quotes mks fees now ords sc) \<Longrightarrow> tick_orders quotes mks fees now ords sc = sc"
proof -
  have "\<not> snd (fold (tick_order quotes mks fees now) ords sc) \<Longrightarrow>
      fold (tick_order quotes mks fees now) ords sc = sc" for ords sc
  proof (induction ords arbitrary: sc)
    case (Cons x ords)
    then have "fold (tick_order quotes mks fees now) ords (tick_order quotes mks fees now x sc) =
      tick_order quotes mks fees now x sc" by simp
    with Cons.prems show ?case using tick_order_flag [of quotes mks fees now x sc] by simp
  qed simp
  then show "\<not> snd (tick_orders quotes mks fees now ords sc) \<Longrightarrow> ?thesis" by (simp add: tick_orders_def)
qed

lemma tick_settles:
  assumes "paper_ok s" "keyed mks"
  shows "settled quotes mks now k (tick s quotes mks fees now)"
proof -
  let ?sc = "tick_orders quotes mks fees now (ps_orders s) (s, False)"
  let ?run = "tick_positions quotes mks fees now (ps_positions (fst ?sc)) ?sc"
  have ok: "paper_ok (fst ?sc)"
    using assms(1) tick_orders_inv [of "(s, False)" "ps_orders s"] tick_orders_sizes [of "(s, False)" "ps_orders s"]
    by (simp add: paper_ok_def paper_inv_def orders_ok_def sizes_ok_def)
  then have d: "distinct (map pp_market (ps_positions (fst ?sc)))" by (simp add: paper_ok_def paper_inv_def)
  note settle = tick_positions_settle [OF assms(2) ok d, of k quotes now fees] pos_in_members [OF d]
  have run: "settled quotes mks now k (fst ?run)"
  proof (cases "k \<in> pp_market ` set (ps_positions (fst ?sc))")
    case False
    then have "pos_in k (fst ?sc) = None" by (auto simp: pos_in_def find_None)
    with False settle show ?thesis by (simp add: settled_def split: option.split)
  qed (use settle in simp)
  show ?thesis
  proof (cases "snd ?run \<or> ps_fundedAt (fst ?run) \<noteq> ps_fundedAt s")
    case True
    then have "tick s quotes mks fees now = fst ?run" by (auto simp: tick_def tick_run_def Let_def split: prod.split)
    with run show ?thesis by simp
  next
    case False
    then have "\<not> snd ?sc" "pos_in k (fst ?run) = pos_in k (fst ?sc)" using settle by auto
    then have "pos_in k (fst ?run) = pos_in k s" using tick_orders_flag [of quotes mks fees now "ps_orders s" "(s, False)"] by simp
    then have "settled quotes mks now k s" using run False settled_cong [of k s "fst ?run"] by simp
    moreover have "tick s quotes mks fees now = s"
      using False by (auto simp: tick_def tick_run_def Let_def split: prod.split)
    ultimately show ?thesis by simp
  qed
qed

text \<open>C8: After a tick no position that has a price and a known market is past its stop-loss,
  its take-profit or its trailing stop at the mark of that tick: whatever was is closed.\<close>

theorem tick_honours_stops:
  assumes "paper_ok s" "keyed mks" "quotes k = Some quote" "mks k = Some mk"
    "pos_in k (tick s quotes mks fees now) = Some p"
  shows "\<not> stop_due p (q_mark quote)"
  using tick_settles [OF assms(1,2), of quotes now k fees] assms(3-5) by (simp add: settled_def)

lemma tick_sample:
  "pos_in ''BTC'' (tick btc_account btc_quotes btc_markets no_fees (Fin 2000)) =
     Some (btc_long\<lparr>pp_realized := Fin (- 50)\<rparr>)"
  by (simp add: tick_eval pos_in_def)

lemma tick_honours_stops_witness: "\<not> stop_due (btc_long\<lparr>pp_realized := Fin (- 50)\<rparr>) (Fin 100)"
  using tick_honours_stops [OF btc_account_ok btc_keyed _ _ tick_sample, of btc_quote btc]
  by (simp add: btc_quotes_def btc_markets_def) (simp add: btc_quote_def)

text \<open>C9: Funding is paid once per interval: after a tick, no position that has a price and a known
  market has funding due again until a later interval begins.\<close>

theorem tick_pays_funding_once:
  assumes "paper_ok s" "keyed mks" "quotes k = Some quote" "mks k = Some mk"
    "pos_in k (tick s quotes mks fees now) = Some p"
    "math_floor (later / funding_interval quote) = math_floor (now / funding_interval quote)"
  shows "\<not> funding_due (ps_fundedAt (tick s quotes mks fees now)) p quote later"
  using tick_settles [OF assms(1,2), of quotes now k fees] assms(3-6) by (simp add: settled_def)

lemma tick_pays_funding_once_witness:
  "\<not> funding_due (ps_fundedAt (tick btc_account btc_quotes btc_markets no_fees (Fin 2000)))
      (btc_long\<lparr>pp_realized := Fin (- 50)\<rparr>) btc_quote (Fin 2500)"
proof -
  have "num (5 / 2) = Fin (5 / 2)" "\<lfloor>5 / 2 :: rat\<rfloor> = 2" by code_simp+
  then have "math_floor (Fin 2500 / funding_interval btc_quote) = math_floor (Fin 2000 / funding_interval btc_quote)"
    by (simp add: funding_interval_def btc_quote_def)
  from tick_pays_funding_once [OF btc_account_ok btc_keyed _ _ tick_sample this] show ?thesis
    by (simp add: btc_quotes_def btc_markets_def)
qed

section \<open>Funds\<close>

definition whole :: "jsnum \<Rightarrow> bool" where
  "whole x = (\<exists>n. x = Fin (of_int n) \<and> \<bar>n\<bar> \<le> 2 ^ 52)"

text \<open>Money moved in or out is never profit or loss: an accepted move of a whole amount changes a
  whole cash balance and the sum put in by exactly that amount, so the profit shown stays the
  same; adding is at most the limit for one move and taking out leaves no negative amount
  beyond the tolerance.\<close>

theorem funds_are_not_profit:
  assumes "adjustFunds s amount quotes = (s', None)" "whole (ps_cash s)" "whole (ps_start s)" "whole amount"
  shows "ps_cash s' - ps_start s' = ps_cash s - ps_start s \<and> ps_positions s' = ps_positions s \<and>
    ps_orders s' = ps_orders s \<and> amount \<le> PAPER_ADD_MAX \<and> PAPER_MOVE_MIN \<le> \<bar>amount\<bar> \<and>
    (amount < 0 \<longrightarrow> \<not> withdrawable s quotes + eps9 < - amount)"
proof -
  obtain c t a where n: "ps_cash s = Fin (of_int c)" "ps_start s = Fin (of_int t)" "amount = Fin (of_int a)"
    and b: "\<bar>c\<bar> \<le> 2 ^ 52" "\<bar>t\<bar> \<le> 2 ^ 52" "\<bar>a\<bar> \<le> 2 ^ 52"
    using assms(2-4) by (auto simp: whole_def)
  have s': "s' = s\<lparr>ps_cash := ps_cash s + amount, ps_start := ps_start s + amount\<rparr>"
    and ok: "\<not> \<bar>amount\<bar> < PAPER_MOVE_MIN" "\<not> (0 < amount \<and> PAPER_ADD_MAX < amount)"
    "\<not> (amount < 0 \<and> withdrawable s quotes + eps9 < \<bar>amount\<bar>)"
    using assms(1) by (auto simp: adjustFunds_def Let_def split: if_splits)
  have "num (of_int (c + a)) = Fin (of_int (c + a))" "num (of_int (t + a)) = Fin (of_int (t + a))"
    using b num_of_int [of "c + a"] num_of_int [of "t + a"] by simp_all
  then have "ps_cash s' - ps_start s' = ps_cash s - ps_start s"
    by (simp add: s' n minus_jsnum_def)
  moreover have "amount \<le> PAPER_ADD_MAX" "PAPER_MOVE_MIN \<le> \<bar>amount\<bar>"
    using ok(1,2) by (auto simp: n PAPER_ADD_MAX_def PAPER_MOVE_MIN_def zero_Fin not_less)
  moreover have "\<not> withdrawable s quotes + eps9 < - amount" if "amount < 0"
    using ok(3) that by (simp add: n zero_Fin)
  ultimately show ?thesis by (simp add: s')
qed

section \<open>An exit order left behind\<close>

definition stale_orders :: "paper_order list" where
  "stale_orders =
     [btc_rest\<lparr>po_side := Sell, po_size := Fin 2, po_reduceOnly := True\<rparr>,
      btc_rest\<lparr>po_id := ''paper-2'', po_side := Sell, po_type := PaperTrigger, po_size := Fin 2, po_price := Some (Fin 99),
        po_triggerPrice := Some (Fin 100), po_triggerAbove := Some False, po_reduceOnly := True\<rparr>]"

lemma sample_close [sample_simps]: "Fin 2 + - eps12 \<le> Fin 2" "\<not> eps12 < Fin 0"
  using minus_eps_le [of "Fin 2"] eps12_pos js_less_asym js_less_imp_le sample_canonical
  by (auto simp: size_ok_def zero_Fin minus_jsnum_def simp del: canonical.simps)

lemma stale_limit_fills:
  assumes "ps_positions st = [btc_long]" "ps_orders st = stale_orders" "ord = hd stale_orders"
  shows "\<exists>st'. tick_order btc_quotes btc_markets no_fees (Fin 2000) ord (st, c) = (st', True) \<and>
    ps_positions st' = [] \<and> ps_orders st' = []"
proof -
  let ?t = "without_order (po_id ord) st"
  have sz: "sizeFor ?t ord = Fin 2"
    using assms by (simp add: sizeFor_def without_order_def stale_orders_def sample_simps closing_side_def math_min_def)
  obtain st2 e c2 where cp: "close_position (?t\<lparr>ps_cash := ps_cash ?t - Fin 2 * Fin 90 * fee_maker no_fees\<rparr>) ord btc
      btc_long (Fin 90) (Fin 2 * Fin 90 * fee_maker no_fees) (Fin 2000) (Fin 2) = (st2, e, c2)"
    by (metis prod_cases3)
  have s2: "ps_positions st2 = []" "ps_orders st2 = []"
    using cp assms by (auto simp: close_position_def Let_def sample_simps math_min_def without_order_def stale_orders_def
        minus_jsnum_def zero_Fin)
  have "ps_positions (fill ?t ord btc (Fin 90) False no_fees (Fin 2000) (Fin 2)) = [] \<and>
    ps_orders (fill ?t ord btc (Fin 90) False no_fees (Fin 2000) (Fin 2)) = []"
    using cp s2 assms by (simp add: fill_def Let_def without_order_def stale_orders_def btc_long_def btc_rest_def btc_def)
  with sz assms show ?thesis
    by (simp add: tick_order_def fill_or_cancel_def stale_orders_def btc_rest_def btc_quotes_def btc_markets_def
       btc_quote_def limit_reached_def limit_price_def Let_def pushHistory_def sample_fin)
qed

text \<open>A reduce-only stop-limit can outlive its position: of two exits of one position, a resting limit that closes it and
  a stop-limit whose trigger fires in the same tick, the close takes both orders off, but the walk over the orders
  reaches the second one still and puts it back as a resting limit, with nothing left to reduce.\<close>

lemma exit_order_outlives_position:
  "let s = btc_account\<lparr>ps_orders := stale_orders, ps_nextId := 3\<rparr>; s' = tick s btc_quotes btc_markets no_fees (Fin 2000);
       late = hd (tl stale_orders)
   in paper_ok s \<and> ps_orders s = stale_orders \<and> map pp_market (ps_positions s) = [''BTC''] \<and>
      po_type late = PaperTrigger \<and> po_reduceOnly late \<and> po_price late \<noteq> None \<and>
      ps_positions s' = [] \<and> ps_orders s' = [late\<lparr>po_type := PaperLimit, po_triggerPrice := None\<rparr>]"
proof -
  let ?s = "btc_account\<lparr>ps_orders := stale_orders, ps_nextId := 3\<rparr>"
  have "own_id 3 ''paper-1''" "own_id 3 ''paper-2''"
    unfolding own_id_def by (rule exI [of _ 1], simp add: sample_chars) (rule exI [of _ 2], simp, code_simp)
  then have "paper_ok ?s"
    by (simp add: paper_ok_def paper_inv_def sizes_ok_def orders_ok_def stale_orders_def sample_simps size_ok_def
        del: canonical.simps)
  obtain st where a: "tick_order btc_quotes btc_markets no_fees (Fin 2000) (hd stale_orders) (?s, False) = (st, True)"
    "ps_positions st = []" "ps_orders st = []"
    using stale_limit_fills [of ?s _ False] by (auto simp: btc_account_def)
  let ?b = "hd (tl stale_orders)"
  let ?st = "st\<lparr>ps_orders := [?b\<lparr>po_type := PaperLimit, po_triggerPrice := None\<rparr>]\<rparr>"
  have "tick_order btc_quotes btc_markets no_fees (Fin 2000) ?b (st, True) = (?st, True)"
    using a(3) by (simp add: tick_order_def stale_orders_def btc_rest_def btc_quotes_def btc_markets_def btc_quote_def
        trigger_hit_def without_order_def Let_def)
  with a have "tick_orders btc_quotes btc_markets no_fees (Fin 2000) stale_orders (?s, False) = (?st, True)"
    by (simp add: tick_orders_def stale_orders_def)
  with a(2) have "tick ?s btc_quotes btc_markets no_fees (Fin 2000) = ?st"
    by (simp add: tick_def tick_run_def tick_positions_def)
  with \<open>paper_ok ?s\<close> a(2) show ?thesis
    by (simp add: Let_def stale_orders_def sample_simps)
qed

section \<open>Leverage\<close>

text \<open>A leverage that is set lands between 1 and the market's maximum, whatever was asked, and
  both the market's settings and its open position carry it; other markets are untouched.\<close>

theorem leverage_within_bounds:
  assumes "leverage \<noteq> NaN" "1 \<le> m_maxLeverage mk"
  shows "1 \<le> st_leverage (settingsFor (setLeverage s mk leverage) mk) \<and> st_leverage (settingsFor (setLeverage s mk leverage) mk) \<le> m_maxLeverage mk \<and>
    (\<forall>p. pos_in (m_id mk) (setLeverage s mk leverage) = Some p \<longrightarrow> pp_leverage p = st_leverage (settingsFor (setLeverage s mk leverage) mk)) \<and>
    (\<forall>k. k \<noteq> m_id mk \<longrightarrow> pos_in k (setLeverage s mk leverage) = pos_in k s \<and> obj_get (ps_settings (setLeverage s mk leverage)) k = obj_get (ps_settings s) k)"
proof -
  have r: "math_round leverage \<noteq> NaN" using assms(1) by (cases leverage) auto
  have m: "m_maxLeverage mk \<noteq> NaN" using assms(2) by auto
  have "math_min (m_maxLeverage mk) (math_round leverage) \<le> m_maxLeverage mk"
    using math_min_le [OF m r] by simp
  moreover have "math_min (m_maxLeverage mk) (math_round leverage) \<noteq> NaN" using m r by (simp add: math_min_not_NaN)
  ultimately have "1 \<le> math_max 1 (math_min (m_maxLeverage mk) (math_round leverage))"
    "math_max 1 (math_min (m_maxLeverage mk) (math_round leverage)) \<le> m_maxLeverage mk"
    using assms(2) math_max_ge [of 1] by (auto simp: math_max_def one_Fin)
  then show ?thesis
    by (auto simp: setLeverage_def settingsFor_def Let_def pos_in_def find_update_key)
qed

lemma leverage_within_bounds_witness: "st_leverage (settingsFor (setLeverage btc_account btc (Fin 50)) btc) \<le> Fin 2"
  using leverage_within_bounds [of "Fin 50" btc btc_account] by (simp add: btc_def one_Fin)

lemma funds_are_not_profit_witness:
  "ps_cash (fst (adjustFunds btc_account (Fin 500) btc_quotes)) - ps_start (fst (adjustFunds btc_account (Fin 500) btc_quotes)) = 0"
proof -
  have "adjustFunds btc_account (Fin 500) btc_quotes = (fst (adjustFunds btc_account (Fin 500) btc_quotes), None)"
    by (simp add: Let_def adjustFunds_def PAPER_MOVE_MIN_def PAPER_ADD_MAX_def zero_Fin)
  moreover have w: "whole (Fin (of_int n))" if "\<bar>n\<bar> \<le> 2 ^ 52" for n using that by (auto simp: whole_def)
  moreover have "whole (ps_cash btc_account)" "whole (ps_start btc_account)" "whole (Fin 500)"
    using w [of 10000] w [of 500] by (simp_all add: sample_simps)
  ultimately show ?thesis
    using funds_are_not_profit [of btc_account "Fin 500" btc_quotes]
    by (simp add: sample_simps) (simp add: minus_jsnum_def zero_Fin)
qed

end
