(* ===== verification/Js_Value.thy ===== *)
theory Js_Value
  imports Prelude Js_Num
begin

text \<open>
  Values as \<open>JSON.parse\<close> gives them, and the tests the code makes on a value it does not
  trust. A saved text stands here as the value it parses to; \<open>None\<close> is a text that does
  not parse. A field that is not there is \<open>None\<close>.
\<close>

datatype json = JNull | JBool bool | JNum jsnum | JStr string | JArr "json list" | JObj "(string \<times> json) list"

definition field :: "json \<Rightarrow> string \<Rightarrow> json option" where
  "field v k = (case v of JObj m \<Rightarrow> obj_get m k | _ \<Rightarrow> None)"

text \<open>\<open>Array.isArray(v) ? v : []\<close>\<close>

definition arr_or_nil :: "json option \<Rightarrow> json list" where
  "arr_or_nil v = (case v of Some (JArr xs) \<Rightarrow> xs | _ \<Rightarrow> [])"

definition as_str :: "json option \<Rightarrow> string option" where
  "as_str v = (case v of Some (JStr s) \<Rightarrow> Some s | _ \<Rightarrow> None)"

definition as_num :: "json option \<Rightarrow> jsnum option" where
  "as_num v = (case v of Some (JNum n) \<Rightarrow> Some n | _ \<Rightarrow> None)"

definition as_bool :: "json option \<Rightarrow> bool option" where
  "as_bool v = (case v of Some (JBool b) \<Rightarrow> Some b | _ \<Rightarrow> None)"

definition is_arr :: "json option \<Rightarrow> bool" where
  "is_arr v = (case v of Some (JArr xs) \<Rightarrow> True | _ \<Rightarrow> False)"

text \<open>\<open>typeof v === "object" \<and> v !== null\<close>: an object, or an array, which has none of the named fields.\<close>

definition obj_or_empty :: "json \<Rightarrow> json" where
  "obj_or_empty v = (case v of JObj m \<Rightarrow> v | _ \<Rightarrow> JObj [])"

text \<open>\<open>{...a, ...b}\<close>\<close>

definition spread :: "(string \<times> json) list \<Rightarrow> (string \<times> json) list \<Rightarrow> (string \<times> json) list" where
  "spread a b = foldl (\<lambda>m kv. obj_set m (fst kv) (snd kv)) a b"

definition truthy :: "json \<Rightarrow> bool" where
  "truthy v = (case v of JNull \<Rightarrow> False | JBool b \<Rightarrow> b | JNum n \<Rightarrow> n \<noteq> 0 \<and> n \<noteq> NaN | JStr s \<Rightarrow> s \<noteq> [] | _ \<Rightarrow> True)"

text \<open>\<open>v.replace(/\s+/g, " ")\<close>\<close>

fun one_space :: "string \<Rightarrow> string" where
  "one_space [] = []"
| "one_space (c # cs) =
     (if is_space c
      then CHR '' '' # (case cs of [] \<Rightarrow> [] | d # ds \<Rightarrow> if is_space d then tl (one_space cs) else one_space cs)
      else c # one_space cs)"

text \<open>Lower and upper case, of the letters without accents that names and commands are made of.\<close>

definition to_lower :: "string \<Rightarrow> string" where
  "to_lower s = map (\<lambda>c. if 65 \<le> (of_char c :: int) \<and> (of_char c :: int) \<le> 90
                         then char_of ((of_char c :: int) + 32) else c) s"

definition to_upper :: "string \<Rightarrow> string" where
  "to_upper s = map (\<lambda>c. if 97 \<le> (of_char c :: int) \<and> (of_char c :: int) \<le> 122
                         then char_of ((of_char c :: int) - 32) else c) s"

text \<open>Strings in the order of \<open><\<close> and of \<open>sort()\<close>.\<close>

fun str_less :: "string \<Rightarrow> string \<Rightarrow> bool" where
  "str_less s [] = False"
| "str_less [] (d # ds) = True"
| "str_less (c # cs) (d # ds) =
     ((of_char c :: nat) < of_char d \<or> c = d \<and> str_less cs ds)"

text \<open>\<open>text.trim().split(/\s+/).filter(Boolean)\<close>\<close>

fun words_from :: "string \<Rightarrow> string \<Rightarrow> string list" where
  "words_from w [] = [rev w]"
| "words_from w (c # cs) = (if is_space c then rev w # words_from [] cs else words_from (c # w) cs)"

definition words_of :: "string \<Rightarrow> string list" where
  "words_of s = filter (\<lambda>w. w \<noteq> []) (words_from [] (js_trim s))"

lemma str_less_irrefl [simp]: "\<not> str_less s s"
  by (induction s) auto

lemma str_less_trans: "str_less s t \<Longrightarrow> str_less t u \<Longrightarrow> str_less s u"
proof (induction s t arbitrary: u rule: str_less.induct)
  case (2 d ds)
  then show ?case by (cases u) auto
next
  case (3 c cs d ds)
  then show ?case by (cases u) auto
qed simp

lemma str_less_total: "str_less s t \<or> s = t \<or> str_less t s"
proof (induction s t rule: str_less.induct)
  case (1 s)
  then show ?case by (cases s) auto
next
  case (3 c cs d ds)
  have "c = d \<or> (of_char c :: nat) < of_char d \<or> (of_char d :: nat) < of_char c"
    by (metis linorder_neqE_nat of_char_eq_iff)
  with 3 show ?case by auto
qed simp

lemma field_simps [simp]:
  "field (JObj m) k = obj_get m k" "field JNull k = None" "field (JArr xs) k = None"
  "field (JStr s) k = None" "field (JNum n) k = None" "field (JBool b) k = None"
  by (simp_all add: field_def)

lemma as_simps [simp]:
  "arr_or_nil (Some (JArr xs)) = xs" "arr_or_nil None = []"
  "as_str (Some (JStr s)) = Some s" "as_str None = None"
  "as_num (Some (JNum n)) = Some n" "as_num None = None"
  "as_bool (Some (JBool b)) = Some b" "as_bool None = None"
  by (simp_all add: arr_or_nil_def as_str_def as_num_def as_bool_def)

lemma spread_get:
  "distinct (map fst b) \<Longrightarrow> obj_get (spread a b) k = (case obj_get b k of Some v \<Rightarrow> Some v | None \<Rightarrow> obj_get a k)"
proof (induction b arbitrary: a)
  case (Cons x b)
  obtain k' v where x: "x = (k', v)" by (cases x)
  have "obj_get b k' = None" using Cons.prems unfolding x
    by (simp add: obj_get_None)
  with Cons show ?case by (simp add: spread_def x split: option.split)
qed (simp add: spread_def)

lemma one_space_nonempty: "cs \<noteq> [] \<Longrightarrow> one_space cs \<noteq> []"
  by (cases cs) (auto split: list.split)

section \<open>Reading names\<close>

definition name_in :: "(string \<times> 'a) list \<Rightarrow> json option \<Rightarrow> 'a option" where
  "name_in names v = (case as_str v of Some s \<Rightarrow> obj_get names s | None \<Rightarrow> None)"

definition name_of :: "(string \<times> 'a) list \<Rightarrow> 'a \<Rightarrow> string" where
  "name_of names x = (case List.find (\<lambda>kv. snd kv = x) names of Some kv \<Rightarrow> fst kv | None \<Rightarrow> [])"

text \<open>Names that stand for one value each, every value with one.\<close>

definition names_ok :: "(string \<times> 'a) list \<Rightarrow> bool" where
  "names_ok names = (distinct (map fst names) \<and> distinct (map snd names))"

lemma obj_get_distinct: "distinct (map fst m) \<Longrightarrow> (k, v) \<in> set m \<Longrightarrow> obj_get m k = Some v"
  by (induction m) (auto simp: image_iff)

lemma name_in_of: "names_ok names \<Longrightarrow> x \<in> snd ` set names \<Longrightarrow> name_in names (Some (JStr (name_of names x))) = Some x"
proof -
  assume ok: "names_ok names" and x: "x \<in> snd ` set names"
  then obtain kv where f: "List.find (\<lambda>kv. snd kv = x) names = Some kv"
    by (cases "List.find (\<lambda>kv. snd kv = x) names") (auto simp: find_None)
  with find_SomeD [OF f] ok show ?thesis
    by (cases kv) (auto simp: name_of_def name_in_def names_ok_def intro: obj_get_distinct)
qed

lemma name_in_member: "name_in names v = Some x \<Longrightarrow> x \<in> snd ` set names"
proof -
  have "obj_get m k = Some x \<Longrightarrow> x \<in> snd ` set m" for m :: "(string \<times> 'a) list" and k
    by (induction m k rule: obj_get.induct) (auto split: if_splits)
  then show "name_in names v = Some x \<Longrightarrow> x \<in> snd ` set names"
    by (auto simp: name_in_def split: option.splits)
qed

definition or_else :: "'a option \<Rightarrow> 'a \<Rightarrow> 'a" where
  "or_else x y = (case x of Some v \<Rightarrow> v | None \<Rightarrow> y)"


text \<open>A number as \<open>JSON.stringify\<close> writes it.\<close>

definition num_json :: "jsnum \<Rightarrow> json" where
  "num_json n = (if is_finite n then JNum n else JNull)"

end
