(* ===== verification/Storage.thy ===== *)
theory Storage
  imports Prelude Js_Value
begin

text \<open>
  Room in the page's storage, \<^verbatim>\<open>apps/desktop/src/lib/storageRoom.ts\<close>. A store is a table
  of texts; a text stands as a value of any type with a length. The browser's part is two
  parameters: \<open>fits\<close>, whether the store takes its content after a write (a write that does not
  fit is refused and changes nothing), and \<open>stuck\<close>, the keys it will not remove.
\<close>

definition REBUILDABLE :: "string list" where
  "REBUILDABLE = [''pd.icons.'', ''pd.cache.'', ''pd.candles.'', ''pd.rsi.'']"

definition TRIM_AT_CHARS :: nat where
  "TRIM_AT_CHARS = 1800000"

definition rebuildable :: "string \<Rightarrow> bool" where
  "rebuildable k = list_ex (starts_with k) REBUILDABLE"

definition store_keys :: "'v obj \<Rightarrow> string list" where
  "store_keys s = map fst s"

definition entry_chars :: "('v \<Rightarrow> nat) \<Rightarrow> 'v obj \<Rightarrow> string \<Rightarrow> nat" where
  "entry_chars len s k = length k + (case obj_get s k of Some v \<Rightarrow> len v | None \<Rightarrow> 0)"

definition storedChars :: "('v \<Rightarrow> nat) \<Rightarrow> 'v obj \<Rightarrow> nat" where
  "storedChars len s = foldl (\<lambda>n k. n + entry_chars len s k) 0 (store_keys s)"

text \<open>One key of the pass that clears the caches: the store and the characters freed so far.\<close>

definition clear_key :: "('v \<Rightarrow> nat) \<Rightarrow> (string \<Rightarrow> bool) \<Rightarrow> string \<Rightarrow> 'v obj \<times> nat \<Rightarrow> 'v obj \<times> nat" where
  "clear_key len stuck k r =
     (case r of (s, freed) \<Rightarrow>
        if \<not> rebuildable k then (s, freed)
        else (if stuck k then s else obj_del s k, freed + entry_chars len s k))"

definition makeRoom :: "('v \<Rightarrow> nat) \<Rightarrow> (string \<Rightarrow> bool) \<Rightarrow> 'v obj \<Rightarrow> 'v obj \<times> nat" where
  "makeRoom len stuck s = fold (clear_key len stuck) (store_keys s) (s, 0)"

text \<open>One attempt to write: whether the value is there after it, and the store.\<close>

definition attempt :: "('v obj \<Rightarrow> bool) \<Rightarrow> string \<Rightarrow> 'v \<Rightarrow> 'v obj \<Rightarrow> bool \<times> 'v obj" where
  "attempt fits k v s =
     (let s' = obj_set s k v
      in if fits s' then (obj_get s' k = Some v, s') else (False, s))"

definition writeSurely ::
    "('v \<Rightarrow> nat) \<Rightarrow> ('v obj \<Rightarrow> bool) \<Rightarrow> (string \<Rightarrow> bool) \<Rightarrow> string \<Rightarrow> 'v \<Rightarrow> 'v obj \<Rightarrow> bool \<times> 'v obj" where
  "writeSurely len fits stuck k v s =
     (let (ok, s1) = attempt fits k v s
      in if ok then (True, s1) else attempt fits k v (fst (makeRoom len stuck s1)))"

definition trimStorage :: "('v \<Rightarrow> nat) \<Rightarrow> (string \<Rightarrow> bool) \<Rightarrow> 'v obj \<Rightarrow> 'v obj" where
  "trimStorage len stuck s = (if TRIM_AT_CHARS < storedChars len s then fst (makeRoom len stuck s) else s)"

section \<open>What is cleared and what is kept\<close>

lemma clear_key_simps:
  "\<not> rebuildable k \<Longrightarrow> clear_key len stuck k (s, n) = (s, n)"
  "rebuildable k \<Longrightarrow> clear_key len stuck k (s, n) = (if stuck k then s else obj_del s k, n + entry_chars len s k)"
  by (simp_all add: clear_key_def)

lemma clear_fold:
  "fst (fold (clear_key len stuck) ks (s, n)) = filter (\<lambda>kv. fst kv \<notin> set ks \<or> \<not> rebuildable (fst kv) \<or> stuck (fst kv)) s"
proof (induction ks arbitrary: s n)
  case Nil
  then show ?case by simp
next
  case (Cons k ks)
  show ?case
  proof (cases "rebuildable k \<and> \<not> stuck k")
    case True
    then have "fst (fold (clear_key len stuck) (k # ks) (s, n)) =
        filter (\<lambda>kv. fst kv \<notin> set ks \<or> \<not> rebuildable (fst kv) \<or> stuck (fst kv)) (obj_del s k)"
      using Cons.IH by (simp add: clear_key_simps)
    also have "\<dots> = filter (\<lambda>kv. fst kv \<notin> set (k # ks) \<or> \<not> rebuildable (fst kv) \<or> stuck (fst kv)) s"
      unfolding obj_del_def filter_filter using True by (intro filter_cong) auto
    finally show ?thesis .
  next
    case False
    have "fst (fold (clear_key len stuck) (k # ks) (s, n)) =
        filter (\<lambda>kv. fst kv \<notin> set ks \<or> \<not> rebuildable (fst kv) \<or> stuck (fst kv)) s"
      using False Cons.IH by (cases "rebuildable k") (simp_all add: clear_key_simps)
    also have "\<dots> = filter (\<lambda>kv. fst kv \<notin> set (k # ks) \<or> \<not> rebuildable (fst kv) \<or> stuck (fst kv)) s"
      using False by (intro filter_cong) auto
    finally show ?thesis .
  qed
qed

lemma makeRoom_filter: "fst (makeRoom len stuck s) = filter (\<lambda>kv. \<not> rebuildable (fst kv) \<or> stuck (fst kv)) s"
proof -
  have "filter (\<lambda>kv. fst kv \<notin> set (map fst s) \<or> \<not> rebuildable (fst kv) \<or> stuck (fst kv)) s =
      filter (\<lambda>kv. \<not> rebuildable (fst kv) \<or> stuck (fst kv)) s"
    by (intro filter_cong) auto
  then show ?thesis unfolding makeRoom_def store_keys_def clear_fold .
qed

lemma obj_get_filter: "P k \<Longrightarrow> obj_get (filter (\<lambda>kv. P (fst kv)) m) k = obj_get m k"
  by (induction m k rule: obj_get.induct) auto

lemma makeRoom_keeps: "\<not> rebuildable k \<Longrightarrow> obj_get (fst (makeRoom len stuck s)) k = obj_get s k"
  unfolding makeRoom_filter by (rule obj_get_filter) simp

lemma attempt_simps:
  "fits (obj_set s k v) \<Longrightarrow> attempt fits k v s = (True, obj_set s k v)"
  "\<not> fits (obj_set s k v) \<Longrightarrow> attempt fits k v s = (False, s)"
  by (simp_all add: attempt_def Let_def)

text \<open>A write that must land says whether it did, and never costs anything but caches: landed, its
  value is what is read; refused, what was there is still there; and every other text that is no
  cache is kept. A write that fits clears nothing, and one that fits without the caches lands.\<close>

lemma write_surely_honest:
  "let (ok, s') = writeSurely len fits stuck k v s; room = fst (makeRoom len stuck s)
   in ok = (fits (obj_set s k v) \<or> fits (obj_set room k v)) \<and>
      s' = (if fits (obj_set s k v) then obj_set s k v else if fits (obj_set room k v) then obj_set room k v else room) \<and>
      obj_get s' k = (if ok then Some v else obj_get room k) \<and>
      (rebuildable k' \<or> k' = k \<and> ok \<or> obj_get s' k' = obj_get s k')"
proof -
  let ?room = "fst (makeRoom len stuck s)"
  consider "fits (obj_set s k v)" | "\<not> fits (obj_set s k v)" "fits (obj_set ?room k v)"
    | "\<not> fits (obj_set s k v)" "\<not> fits (obj_set ?room k v)" by blast
  then show ?thesis using makeRoom_keeps [of k' len stuck s]
    by cases (auto simp: writeSurely_def attempt_simps Let_def)
qed

lemma writeSurely_result:
  assumes "writeSurely len fits stuck k v s = (ok, s')"
  shows "ok \<Longrightarrow> obj_get s' k = Some v"
    and "\<not> rebuildable k' \<Longrightarrow> k' \<noteq> k \<or> \<not> ok \<Longrightarrow> obj_get s' k' = obj_get s k'"
  using write_surely_honest [of len fits stuck k v s k'] assms by (auto simp: Let_def)

end
