(* ===== verification/Paper_Store.thy ===== *)
theory Paper_Store
  imports Storage Paper
begin

text \<open>
  Where the paper accounts are kept, \<^verbatim>\<open>apps/desktop/src/lib/paperStore.ts\<close> with
  \<open>parsePaperState\<close> of \<^verbatim>\<open>paper.ts\<close>. A stored text stands as the value it parses
  to, \<open>None\<close> where it does not parse, and a saved account as the object it is written as: what
  is read back is not checked further than the code checks it.
\<close>

type_synonym text_value = "json option"

definition VENUE_NAMES :: "(string \<times> venue) list" where
  "VENUE_NAMES = [(''hyperliquid'', Hyperliquid), (''aster'', Aster), (''bybit'', Bybit), (''binance'', Binance),
     (''blofin'', Blofin)]"

definition MODE_KEY :: string where
  "MODE_KEY = ''pd.paper.mode''"

definition accountKey :: "venue \<Rightarrow> string" where
  "accountKey v = ''pd.paper.'' @ name_of VENUE_NAMES v"

section \<open>The accounts\<close>

text \<open>\<open>newPaperState\<close> as an object; \<open>value.start\<close> that is missing is the default.\<close>

definition new_state_fields :: "venue \<Rightarrow> json \<Rightarrow> (string \<times> json) list" where
  "new_state_fields v start =
     [(''venue'', JStr (name_of VENUE_NAMES v)), (''cash'', start), (''start'', start), (''positions'', JArr []),
      (''orders'', JArr []), (''fills'', JArr []), (''closed'', JArr []), (''history'', JArr []), (''funding'', JArr []),
      (''settings'', JObj []), (''nextId'', JNum (Fin 1)), (''fundedAt'', JObj [])]"

definition new_state_json :: "venue \<Rightarrow> json" where
  "new_state_json v = JObj (new_state_fields v (JNum PAPER_START))"

definition is_account :: "json \<Rightarrow> venue \<Rightarrow> bool" where
  "is_account value v =
     (truthy value \<and> field value ''venue'' = Some (JStr (name_of VENUE_NAMES v)) \<and>
      (case as_num (field value ''cash'') of Some c \<Rightarrow> is_finite c | None \<Rightarrow> False) \<and>
      is_arr (field value ''positions'') \<and> is_arr (field value ''orders''))"

definition parsePaperState :: "text_value option \<Rightarrow> venue \<Rightarrow> json option" where
  "parsePaperState raw v =
     (case raw of
        Some (Some (JObj m)) \<Rightarrow>
          if is_account (JObj m) v
          then Some (JObj (spread (new_state_fields v (or_else (obj_get m ''start'') (JNum PAPER_START))) m))
          else None
      | _ \<Rightarrow> None)"

text \<open>The store, and the account last read or saved per venue with the text it came from.\<close>

record paper_store =
  pst_store :: "text_value obj"
  pst_accounts :: "venue \<Rightarrow> (text_value option \<times> json) option"

definition read_account :: "venue \<Rightarrow> paper_store \<Rightarrow> json" where
  "read_account v st = or_else (parsePaperState (obj_get (pst_store st) (accountKey v)) v) (new_state_json v)"

definition paperAccount :: "venue \<Rightarrow> paper_store \<Rightarrow> json \<times> paper_store" where
  "paperAccount v st =
     (let raw = obj_get (pst_store st) (accountKey v); state = read_account v st;
          fresh = (state, st\<lparr>pst_accounts := (pst_accounts st)(v := Some (raw, state))\<rparr>)
      in case pst_accounts st v of
           Some (r, held) \<Rightarrow> if r = raw then (held, st) else fresh
         | None \<Rightarrow> fresh)"

text \<open>Saving: the first part of the result is false where \<open>PaperNotSaved\<close> is thrown.\<close>

definition savePaperAccount ::
    "(text_value \<Rightarrow> nat) \<Rightarrow> (text_value obj \<Rightarrow> bool) \<Rightarrow> (string \<Rightarrow> bool) \<Rightarrow> venue \<Rightarrow> json \<Rightarrow> paper_store
      \<Rightarrow> bool \<times> paper_store" where
  "savePaperAccount len fits stuck v state st =
     (let raw = Some state; (ok, s') = writeSurely len fits stuck (accountKey v) raw (pst_store st)
      in if \<not> ok then (False, st\<lparr>pst_store := s'\<rparr>)
         else (True, st\<lparr>pst_store := s', pst_accounts := (pst_accounts st)(v := Some (Some raw, state))\<rparr>))"

definition resetPaperAccount ::
    "(text_value \<Rightarrow> nat) \<Rightarrow> (text_value obj \<Rightarrow> bool) \<Rightarrow> (string \<Rightarrow> bool) \<Rightarrow> venue \<Rightarrow> jsnum \<Rightarrow> paper_store
      \<Rightarrow> bool \<times> paper_store" where
  "resetPaperAccount len fits stuck v start st =
     savePaperAccount len fits stuck v (JObj (new_state_fields v (num_json start))) st"

section \<open>Which venues are in paper mode\<close>

definition currentModes :: "paper_store \<Rightarrow> venue \<Rightarrow> bool" where
  "currentModes st v =
     (case obj_get (pst_store st) MODE_KEY of
        Some (Some (JObj m)) \<Rightarrow> isPaperVenue v \<and> obj_get m (name_of VENUE_NAMES v) = Some (JBool True)
      | _ \<Rightarrow> False)"

definition isPaperMode :: "venue \<Rightarrow> paper_store \<Rightarrow> bool" where
  "isPaperMode v st = (isPaperVenue v \<and> currentModes st v)"

text \<open>A write of the modes that is refused is lost without a word; \<open>fits\<close> as in the storage.\<close>

definition setPaperMode :: "(text_value obj \<Rightarrow> bool) \<Rightarrow> venue \<Rightarrow> bool \<Rightarrow> paper_store \<Rightarrow> paper_store" where
  "setPaperMode fits v on st =
     (if \<not> isPaperVenue v then st
      else let modes = (currentModes st)(v := on);
               s' = obj_set (pst_store st) MODE_KEY
                      (Some (JObj (map (\<lambda>w. (name_of VENUE_NAMES w, JBool True)) (filter modes (map snd VENUE_NAMES)))))
           in if fits s' then st\<lparr>pst_store := s'\<rparr> else st)"

section \<open>A save is kept or reported\<close>

definition account_of :: "venue \<Rightarrow> paper_store \<Rightarrow> json" where
  "account_of v st = fst (paperAccount v st)"

lemma venue_name_inj: "name_of VENUE_NAMES v = name_of VENUE_NAMES w \<longleftrightarrow> v = w"
  by (cases v; cases w) (simp_all add: name_of_def VENUE_NAMES_def)

lemma accountKey_inj [simp]: "accountKey v = accountKey w \<longleftrightarrow> v = w"
  by (simp add: accountKey_def venue_name_inj)

lemma accountKey_kept [simp]: "\<not> rebuildable (accountKey v)"
  by (simp add: rebuildable_def REBUILDABLE_def starts_with_def accountKey_def)

text \<open>C24: Saving a paper account is never believed where it did not happen: saved, the account shown is
  the one saved and the store holds it; refused, the failure is reported and every venue's account
  is the one before. The other venues' accounts are untouched either way.\<close>

theorem paper_save_honest:
  "let (ok, st') = savePaperAccount len fits stuck v state st
   in (if ok then account_of v st' = state \<and> obj_get (pst_store st') (accountKey v) = Some (Some state)
       else account_of v st' = account_of v st) \<and>
      (w = v \<or> account_of w st' = account_of w st)"
proof -
  obtain ok s' where w: "writeSurely len fits stuck (accountKey v) (Some state) (pst_store st) = (ok, s')"
    by (cases "writeSurely len fits stuck (accountKey v) (Some state) (pst_store st)")
  note r = writeSurely_result [OF w]
  have same: "account_of u t = account_of u st"
    if "obj_get (pst_store t) (accountKey u) = obj_get (pst_store st) (accountKey u)" "pst_accounts t u = pst_accounts st u"
    for u t
    using that by (auto simp: account_of_def paperAccount_def read_account_def Let_def split: option.split)
  show ?thesis
  proof (cases ok)
    case True
    let ?t = "st\<lparr>pst_store := s', pst_accounts := (pst_accounts st)(v := Some (Some (Some state), state))\<rparr>"
    have t: "savePaperAccount len fits stuck v state st = (True, ?t)"
      using True by (simp add: savePaperAccount_def w)
    have "account_of v ?t = state" using r(1) [OF True] by (simp add: account_of_def paperAccount_def Let_def)
    moreover have "w = v \<or> account_of w ?t = account_of w st"
      using r(2) [of "accountKey w"] by (cases "w = v") (auto intro!: same)
    ultimately show ?thesis using r(1) [OF True] by (simp add: t)
  next
    case False
    have t: "savePaperAccount len fits stuck v state st = (False, st\<lparr>pst_store := s'\<rparr>)"
      using False by (simp add: savePaperAccount_def w)
    have "account_of u (st\<lparr>pst_store := s'\<rparr>) = account_of u st" for u
      using r(2) [of "accountKey u"] False by (intro same) simp_all
    then show ?thesis by (simp add: t)
  qed
qed

end
