(* ===== verification/Replay.thy ===== *)
theory Replay
  imports Paper_Account
begin

text \<open>
  The replay account's market, \<^verbatim>\<open>apps/desktop/src/lib/replayAccount.ts\<close>: a past candle
  walked as a path of prices, and the paper account moved along it. What holds: the path meets
  every price at which an order, a stop-loss or a take-profit waits, worst extreme first, and the account stays well formed.
\<close>

record replay_bar =
  rb_time :: jsnum
  rb_open :: jsnum
  rb_high :: jsnum
  rb_low :: jsnum
  rb_close :: jsnum

definition levels :: "paper_state \<Rightarrow> string \<Rightarrow> jsnum list" where
  "levels state m =
     List.map_filter (\<lambda>v. v)
       (concat (map (\<lambda>ord. [po_price ord, po_triggerPrice ord, po_takeProfit ord, po_stopLoss ord])
                 (filter (\<lambda>ord. po_market ord = m) (ps_orders state))) @
        concat (map (\<lambda>p. [pp_takeProfit p, pp_stopLoss p])
                 (filter (\<lambda>p. pp_market p = m) (ps_positions state))))"

definition between :: "jsnum \<Rightarrow> jsnum \<Rightarrow> jsnum list \<Rightarrow> jsnum list" where
  "between from to stops =
     js_sort (\<lambda>a b. if from < to then a - b < 0 else b - a < 0)
       (filter (\<lambda>p. math_min from to < p \<and> p < math_max from to) stops)"

definition pricePath :: "replay_bar \<Rightarrow> jsnum list \<Rightarrow> bool \<Rightarrow> jsnum list" where
  "pricePath bar stops lowFirst =
     (let (first, second) = (if lowFirst then (rb_low bar, rb_high bar) else (rb_high bar, rb_low bar))
      in [rb_open bar] @ between (rb_open bar) first stops @ [first] @
         between first second stops @ [second] @ between second (rb_close bar) stops @ [rb_close bar])"

definition bar_quote :: "string \<Rightarrow> jsnum \<Rightarrow> quotes" where
  "bar_quote m mark =
     (\<lambda>k. if k = m
           then Some \<lparr>q_mark = mark, q_bid = None, q_ask = None, q_fundingRate = None, q_fundingIntervalSecs = None\<rparr>
           else None)"

definition one_market :: "market \<Rightarrow> markets" where
  "one_market mk = (\<lambda>k. if k = m_id mk then Some mk else None)"

definition stepBar :: "paper_state \<Rightarrow> market \<Rightarrow> replay_bar \<Rightarrow> fees \<Rightarrow> paper_state" where
  "stepBar state mk bar fees =
     (let pos = List.find (\<lambda>p. pp_market p = m_id mk) (ps_positions state);
          path = pricePath bar (levels state (m_id mk)) (case pos of Some p \<Rightarrow> pp_side p \<noteq> Short | None \<Rightarrow> True)
      in fold (\<lambda>mark st. tick st (bar_quote (m_id mk) mark) (one_market mk) fees (rb_time bar * Fin 1000)) path state)"

definition endSession :: "paper_state \<Rightarrow> market \<Rightarrow> replay_bar \<Rightarrow> fees \<Rightarrow> paper_state" where
  "endSession state mk bar fees =
     closeAll state (bar_quote (m_id mk) (rb_close bar)) (one_market mk) fees (rb_time bar * Fin 1000)"

section \<open>The path meets every stop\<close>

definition price_ok :: "jsnum \<Rightarrow> bool" where
  "price_ok x = (is_finite x \<and> canonical x)"

fun val :: "jsnum \<Rightarrow> rat" where
  "val (Fin q) = q"
| "val x = 0"

lemma price_less: "price_ok x \<Longrightarrow> price_ok y \<Longrightarrow> x < y \<longleftrightarrow> val x < val y"
  by (cases x; cases y) (auto simp: price_ok_def)

lemma diff_sign: "price_ok x \<Longrightarrow> price_ok y \<Longrightarrow> x - y < 0 \<longleftrightarrow> val x < val y"
proof (cases "val x < val y")
  case True
  assume ok: "price_ok x" "price_ok y"
  have "x < y" using price_less [OF ok] True by blast
  then have "0 < y - x" using ok by (intro js_diff_pos) (simp_all add: price_ok_def)
  then have "- (y - x) < 0" by (cases "y - x") (auto simp: zero_Fin)
  with True show ?thesis unfolding js_diff_minus by simp
next
  case False
  assume ok: "price_ok x" "price_ok y"
  then obtain a b where ab: "x = Fin a" "y = Fin b" by (cases x; cases y) (auto simp: price_ok_def)
  with False have "0 \<le> x - y" by (intro js_diff_nonneg) auto
  then have "\<not> x - y < 0" using js_less_asym by blast
  with False show ?thesis by simp
qed

lemma insert_sorted_cong:
  "(\<And>y. y \<in> set ys \<Longrightarrow> lt y x = lt' y x) \<Longrightarrow> insert_sorted lt x ys = insert_sorted lt' x ys"
  by (induction ys) auto

lemma js_sort_cong:
  "(\<And>x y. x \<in> set xs \<Longrightarrow> y \<in> set xs \<Longrightarrow> lt x y = lt' x y) \<Longrightarrow> js_sort lt xs = js_sort lt' xs"
proof (induction xs)
  case (Cons x xs)
  then have "js_sort lt xs = js_sort lt' xs" by simp
  moreover have "insert_sorted lt x (js_sort lt' xs) = insert_sorted lt' x (js_sort lt' xs)"
    using Cons.prems by (intro insert_sorted_cong) simp
  ultimately show ?case by (simp add: js_sort_def)
qed (simp add: js_sort_def)

text \<open>Sorted by a key, no element of a set lies strictly between two neighbours, where each is in the list
  or before all of it.\<close>

lemma sorted_gaps:
  fixes f :: "'a \<Rightarrow> rat"
  assumes "sorted_wrt (\<lambda>a b. f a \<le> f b) ys" "\<forall>p \<in> S. p \<in> set ys \<or> (\<forall>y \<in> set ys. f p \<le> f y)"
  shows "successively (\<lambda>x y. \<forall>p \<in> S. \<not> (f x < f p \<and> f p < f y)) ys"
  using assms
proof (induction ys)
  case (Cons y ys)
  have S: "\<forall>p \<in> S. p \<in> set ys \<or> (\<forall>z \<in> set ys. f p \<le> f z)"
    using Cons.prems by fastforce
  with Cons have ih: "successively (\<lambda>x y. \<forall>p \<in> S. \<not> (f x < f p \<and> f p < f y)) ys" by simp
  show ?case
  proof (cases ys)
    case (Cons z zs)
    have "\<not> (f y < f p \<and> f p < f z)" if "p \<in> S" for p
    proof -
      from that Cons.prems(2) have "p \<in> set (y # ys) \<or> f p \<le> f y" by auto
      then show ?thesis using Cons.prems(1) \<open>ys = z # zs\<close> by auto
    qed
    with ih Cons show ?thesis by (simp add: successively_Cons)
  qed simp
qed simp

text \<open>No stop strictly between two prices.\<close>

definition no_stop_between :: "jsnum list \<Rightarrow> jsnum \<Rightarrow> jsnum \<Rightarrow> bool" where
  "no_stop_between stops x y = list_all (\<lambda>p. \<not> (math_min x y < p \<and> p < math_max x y)) stops"

lemma min_max_val:
  "price_ok x \<Longrightarrow> price_ok y \<Longrightarrow> price_ok p \<Longrightarrow>
   (math_min x y < p \<and> p < math_max x y) \<longleftrightarrow> min (val x) (val y) < val p \<and> val p < max (val x) (val y)"
  by (cases x; cases y; cases p) (auto simp: price_ok_def math_min_def math_max_def min_def max_def)

lemma set_between: "set (between x y stops) = {p \<in> set stops. math_min x y < p \<and> p < math_max x y}"
  by (simp add: between_def)

lemma leg_gaps:
  assumes ok: "price_ok x" "price_ok y" "list_all price_ok stops"
  shows "successively (no_stop_between stops) (x # between x y stops @ [y])"
proof -
  define f where "f = (\<lambda>p. if val x < val y then val p else - val p)"
  let ?B = "between x y stops" and ?F = "filter (\<lambda>p. math_min x y < p \<and> p < math_max x y) stops"
  have okp: "price_ok p" if "p \<in> set stops" for p using that ok(3) by (simp add: list_all_iff)
  have xy: "x < y \<longleftrightarrow> val x < val y" using ok by (simp add: price_less)
  have sub: "set ?B \<subseteq> set stops" by (auto simp: set_between)
  have "?B = js_sort (\<lambda>a b. f a < f b) ?F"
    unfolding between_def
    by (rule js_sort_cong) (use okp in \<open>auto simp: f_def xy diff_sign\<close>)
  moreover have "sorted_wrt (\<lambda>a b. \<not> f b < f a) (js_sort (\<lambda>a b. f a < f b) ?F)"
    by (rule sorted_js_sort) auto
  ultimately have sB: "sorted_wrt (\<lambda>a b. f a \<le> f b) ?B" by (simp add: not_less)
  have inB: "f x < f p \<and> f p < f y" if "p \<in> set ?B" for p
    using that okp [of p] ok min_max_val [of x y p] by (auto simp: set_between f_def split: if_splits)
  have xyf: "f x \<le> f y" by (auto simp: f_def)
  have srt: "sorted_wrt (\<lambda>a b. f a \<le> f b) (x # ?B @ [y])"
    using sB inB xyf by (fastforce simp: sorted_wrt_append)
  have gaps: "successively (\<lambda>a b. \<forall>p \<in> set ?B. \<not> (f a < f p \<and> f p < f b)) (x # ?B @ [y])"
    by (rule sorted_gaps [OF srt]) simp
  have step: "no_stop_between stops a b"
    if m: "a \<in> set (x # ?B @ [y])" "b \<in> set (x # ?B @ [y])" and le: "f a \<le> f b"
      and g: "\<forall>p \<in> set ?B. \<not> (f a < f p \<and> f p < f b)" for a b
  proof -
    have oka: "price_ok a" "price_ok b" using m ok sub okp by auto
    have fa: "f x \<le> f a" "f b \<le> f y" using m inB xyf by fastforce+
    have "\<not> (math_min a b < p \<and> p < math_max a b)" if p: "p \<in> set stops" for p
    proof
      assume "math_min a b < p \<and> p < math_max a b"
      with min_max_val [OF oka okp [OF p]] le have s: "f a < f p" "f p < f b"
        by (auto simp: f_def min_def max_def split: if_splits)
      with fa have "f x < f p" "f p < f y" by linarith+
      with min_max_val [OF ok(1,2) okp [OF p]] p have "p \<in> set ?B"
        by (auto simp: set_between f_def min_def max_def split: if_splits)
      with g s show False by blast
    qed
    then show ?thesis by (simp add: no_stop_between_def list_all_iff)
  qed
  have "successively (\<lambda>a b. f a \<le> f b) (x # ?B @ [y])"
    using srt by (rule successively_if_sorted_wrt)
  with gaps have "successively (\<lambda>a b. f a \<le> f b \<and> (\<forall>p \<in> set ?B. \<not> (f a < f p \<and> f p < f b))) (x # ?B @ [y])"
    by (simp add: successively_conv_nth)
  then show ?thesis by (rule successively_mono) (use step in auto)
qed

lemma successively_join:
  "successively P (a # xs @ [b]) \<Longrightarrow> successively P (b # ys) \<Longrightarrow> successively P (a # xs @ b # ys)"
  using successively_append_iff [of P "a # xs" "[b]"] successively_append_iff [of P "a # xs" "b # ys"]
  by (auto simp: successively_Cons)

definition bar_ok :: "replay_bar \<Rightarrow> bool" where
  "bar_ok bar = list_all price_ok [rb_open bar, rb_high bar, rb_low bar, rb_close bar]"

lemma path_meets_stops:
  assumes "bar_ok bar" "list_all price_ok stops"
  shows "let path = pricePath bar stops lowFirst; first = (if lowFirst then rb_low bar else rb_high bar);
             second = (if lowFirst then rb_high bar else rb_low bar)
    in successively (no_stop_between stops) path \<and>
       (\<exists>xs ys zs. path = rb_open bar # xs @ first # ys @ second # zs @ [rb_close bar] \<and>
          set xs \<union> set ys \<union> set zs \<subseteq> set stops)"
proof -
  define a where "a = (if lowFirst then rb_low bar else rb_high bar)"
  define b where "b = (if lowFirst then rb_high bar else rb_low bar)"
  have path: "pricePath bar stops lowFirst =
      rb_open bar # between (rb_open bar) a stops @ a # between a b stops @ b # between b (rb_close bar) stops @ [rb_close bar]"
    by (simp add: pricePath_def a_def b_def)
  have ok: "price_ok (rb_open bar)" "price_ok a" "price_ok b" "price_ok (rb_close bar)"
    using assms(1) by (simp_all add: bar_ok_def a_def b_def)
  have "successively (no_stop_between stops) (pricePath bar stops lowFirst)"
    unfolding path
    by (rule successively_join [OF leg_gaps successively_join [OF leg_gaps leg_gaps]])
      (rule ok assms(2))+
  moreover have "set (between x y stops) \<subseteq> set stops" for x y by (auto simp: set_between)
  ultimately show ?thesis unfolding path Let_def a_def [symmetric] b_def [symmetric] by blast
qed

text \<open>A price some order or position of the market is waiting for: where an order rests, fires or has its exits, and
  where a position takes its profit or stops its loss.\<close>

definition waited_for :: "paper_state \<Rightarrow> string \<Rightarrow> jsnum \<Rightarrow> bool" where
  "waited_for s m v \<longleftrightarrow>
     (\<exists>x \<in> set (ps_orders s). po_market x = m \<and> Some v \<in> {po_price x, po_triggerPrice x, po_takeProfit x, po_stopLoss x}) \<or>
     (\<exists>p \<in> set (ps_positions s). pp_market p = m \<and> Some v \<in> {pp_takeProfit p, pp_stopLoss p})"

lemma set_levels: "set (levels s m) = {v. waited_for s m v}"
proof -
  have "v \<in> set (List.map_filter (\<lambda>v. v) xs) \<longleftrightarrow> Some v \<in> set xs" for v :: jsnum and xs
    by (force simp: map_filter_def)
  then show ?thesis by (auto simp: levels_def waited_for_def)
qed

text \<open>C11: A candle moves the account along a walk of prices: from its open to one extreme, the other and its close, the
  one against the position first, and on the way to every price an order or an exit of the market waits for, in the
  order they are met (none lies strictly between two steps), and to no others. Trailing stops and liquidations have no
  steps of their own.\<close>

theorem bar_walk_meets_orders:
  assumes "bar_ok bar" "\<forall>v. waited_for s (m_id mk) v \<longrightarrow> price_ok v"
  shows "\<exists>path xs ys zs.
    stepBar s mk bar fees =
      fold (\<lambda>mark st. tick st (bar_quote (m_id mk) mark) (one_market mk) fees (rb_time bar * Fin 1000)) path s \<and>
    path = (let short = (\<exists>p. List.find (\<lambda>p. pp_market p = m_id mk) (ps_positions s) = Some p \<and> pp_side p = Short)
            in rb_open bar # xs @ (if short then rb_high bar else rb_low bar) #
               ys @ (if short then rb_low bar else rb_high bar) # zs @ [rb_close bar]) \<and>
    (\<forall>v. waited_for s (m_id mk) v \<longrightarrow> successively (\<lambda>x y. \<not> (math_min x y < v \<and> v < math_max x y)) path) \<and>
    (\<forall>v \<in> set (xs @ ys @ zs). waited_for s (m_id mk) v)"
proof -
  let ?pos = "List.find (\<lambda>p. pp_market p = m_id mk) (ps_positions s)"
  define low where "low = (case ?pos of Some p \<Rightarrow> pp_side p \<noteq> Short | None \<Rightarrow> True)"
  let ?path = "pricePath bar (levels s (m_id mk)) low"
  have "list_all price_ok (levels s (m_id mk))" using assms(2) by (simp add: list_all_iff set_levels)
  from path_meets_stops [OF assms(1) this, of low] obtain xs ys zs where
    path: "successively (no_stop_between (levels s (m_id mk))) ?path"
      "?path = rb_open bar # xs @ (if low then rb_low bar else rb_high bar) # ys @
         (if low then rb_high bar else rb_low bar) # zs @ [rb_close bar]"
      "set xs \<union> set ys \<union> set zs \<subseteq> set (levels s (m_id mk))"
    unfolding Let_def by blast
  have "successively (\<lambda>x y. \<not> (math_min x y < v \<and> v < math_max x y)) ?path" if "waited_for s (m_id mk) v" for v
    using path(1) by (rule successively_mono) (use that in \<open>auto simp: no_stop_between_def list_all_iff set_levels\<close>)
  moreover have "(\<exists>p. ?pos = Some p \<and> pp_side p = Short) \<longleftrightarrow> \<not> low"
    by (auto simp: low_def split: option.splits)
  moreover have "stepBar s mk bar fees =
      fold (\<lambda>mark st. tick st (bar_quote (m_id mk) mark) (one_market mk) fees (rb_time bar * Fin 1000)) ?path s"
    by (simp add: stepBar_def low_def Let_def)
  ultimately show ?thesis using path(2,3)
    by (intro exI [of _ ?path] exI [of _ xs] exI [of _ ys] exI [of _ zs]) (auto simp: Let_def set_levels)
qed

definition sample_bar :: replay_bar where
  "sample_bar = \<lparr>rb_time = Fin 0, rb_open = Fin 95, rb_high = Fin 98, rb_low = Fin 80, rb_close = Fin 97\<rparr>"

lemma small_price: "numeral w \<le> (2 ^ 53 :: int) \<Longrightarrow> price_ok (Fin (numeral w))"
  using canonical_num [of "numeral w"] by (simp add: price_ok_def del: canonical.simps canonical_num)

lemma bar_walk_meets_orders_witness:
  "\<exists>path. stepBar btc_account btc sample_bar no_fees =
      fold (\<lambda>mark st. tick st (bar_quote ''BTC'' mark) (one_market btc) no_fees (rb_time sample_bar * Fin 1000)) path btc_account \<and>
    successively (\<lambda>x y. \<not> (math_min x y < Fin 90 \<and> Fin 90 < math_max x y)) path"
proof -
  have w: "waited_for btc_account ''BTC'' v \<longleftrightarrow> v = Fin 90" for v
    by (auto simp: waited_for_def sample_simps)
  have m: "m_id btc = ''BTC''" by (simp add: sample_simps)
  have "bar_ok sample_bar" by (simp add: bar_ok_def sample_bar_def small_price)
  moreover have "\<forall>v. waited_for btc_account (m_id btc) v \<longrightarrow> price_ok v" by (simp add: m w small_price)
  ultimately show ?thesis using bar_walk_meets_orders [of sample_bar btc_account btc no_fees] unfolding m w by blast
qed

text \<open>Replaying candles and ending the session keep the account well formed.\<close>

lemma stepBar_ok: "paper_ok s \<Longrightarrow> paper_ok (stepBar s mk bar fees)"
proof -
  have "paper_ok s \<Longrightarrow> paper_ok (fold (\<lambda>mark st. tick st (q mark) mks fees now) path s)" for q mks now path s
    by (induction path arbitrary: s) (simp_all add: paper_ok_def tick_sizes wf_intros)
  then show "paper_ok s \<Longrightarrow> paper_ok (stepBar s mk bar fees)" by (simp add: stepBar_def Let_def)
qed

lemma endSession_ok: "paper_ok s \<Longrightarrow> paper_ok (endSession s mk bar fees)"
  by (simp add: endSession_def paper_ok_def closeAll_sizes wf_intros)

lemma replay_ok: "paper_ok s \<Longrightarrow> paper_ok (endSession (fold (\<lambda>bar st. stepBar st mk bar fees) bars s) mk bar fees)"
  by (intro endSession_ok) (induction bars arbitrary: s, simp_all add: stepBar_ok)

end
