(* ===== verification/Ticket.thy ===== *)
theory Ticket
  imports Prelude Domain
begin

text \<open>
  The order ticket: \<^verbatim>\<open>packages/ui/src/lib/ticket.ts\<close> (the request it describes, or why
  it cannot be sent, and the price a market order would fill at) and
  \<^verbatim>\<open>ticketChecks.ts\<close> (what it warns of before sending, the position an order leaves
  behind, and the liquidation estimate).
\<close>

section \<open>Order types\<close>

datatype ticket_type =
    MarketTicket | LimitTicket | ScaleTicket | StopLimitTicket | StopMarketTicket | TakeLimitTicket
  | TakeMarketTicket | TwapTicket

definition hasLimitPrice :: "ticket_type \<Rightarrow> bool" where
  "hasLimitPrice t = (t = LimitTicket \<or> t = StopLimitTicket \<or> t = TakeLimitTicket)"

definition hasTrigger :: "ticket_type \<Rightarrow> bool" where
  "hasTrigger t =
     (t = StopLimitTicket \<or> t = StopMarketTicket \<or> t = TakeLimitTicket \<or> t = TakeMarketTicket)"

section \<open>A market order against the book\<close>

record book_level =
  l_price :: jsnum
  l_size :: jsnum

record book_fill =
  bf_avgPrice :: jsnum
  bf_complete :: bool

text \<open>The loop over the levels: what is left of the size, and the cost so far.\<close>

fun take_levels :: "book_level list \<Rightarrow> jsnum \<Rightarrow> jsnum \<Rightarrow> jsnum \<times> jsnum" where
  "take_levels [] left cost = (left, cost)"
| "take_levels (l # ls) left cost =
     (let t = math_min left (l_size l); cost' = cost + t * l_price l; left' = left - t
      in if left' \<le> 0 then (left', cost') else take_levels ls left' cost')"

definition marketFill :: "book_level list \<Rightarrow> jsnum \<Rightarrow> book_fill option" where
  "marketFill levels sz =
     (if \<not> 0 < sz \<or> levels = [] then None
      else let (left, cost) = take_levels levels sz 0; filled = sz - math_max left 0
           in if 0 < filled
              then Some \<lparr>bf_avgPrice = cost / filled, bf_complete = (left \<le> num (1 / 10 ^ 12))\<rparr>
              else None)"

definition slippageOf :: "jsnum \<Rightarrow> jsnum \<Rightarrow> jsnum" where
  "slippageOf avgPrice best = (if 0 < best then \<bar>avgPrice - best\<bar> / best else 0)"

definition sizeFromPercent :: "jsnum \<Rightarrow> jsnum \<Rightarrow> jsnum \<Rightarrow> jsnum \<Rightarrow> jsnum" where
  "sizeFromPercent percent available leverage price =
     (if 0 < price then available * leverage * percent / Fin 100 / price else 0)"

definition positionLeverage :: "position \<Rightarrow> jsnum option" where
  "positionLeverage p =
     (let margin = to_number (p_margin p); notional = to_number (p_size p) * to_number (p_markPrice p)
      in if 0 < margin \<and> 0 < notional then Some (math_max 1 (math_round (notional / margin))) else None)"

section \<open>The request\<close>

datatype ticket_block = BlockSize | BlockPrice | BlockTrigger | BlockType | BlockTpsl

definition MAX_SLIPPAGE_BPS :: jsnum where
  "MAX_SLIPPAGE_BPS = Fin 1000"

text \<open>Decimal places in a step: what stands between the first point and the next.\<close>

definition placesOf :: "string \<Rightarrow> nat" where
  "placesOf step =
     (case dropWhile (\<lambda>c. c \<noteq> CHR ''.'') step of
        [] \<Rightarrow> 0 | _ # t \<Rightarrow> length (takeWhile (\<lambda>c. c \<noteq> CHR ''.'') t))"

definition priceOf :: "string \<Rightarrow> string option" where
  "priceOf text = (let t = js_trim text in if 0 < to_number t then Some t else None)"

record ticket_input =
  ti_market :: string
  ti_sizeStep :: decimal
  ti_type :: ticket_type
  ti_side :: side
  ti_sizeBase :: jsnum
  ti_limitPrice :: string
  ti_trigger :: string
  ti_reduceOnly :: bool
  ti_tpsl :: bool
  ti_takeProfit :: "string option"
  ti_stopLoss :: "string option"
  ti_maxSlippage :: jsnum

definition ticket_exit :: "ticket_input \<Rightarrow> string option \<Rightarrow> string option" where
  "ticket_exit inp text =
     (if ti_tpsl inp \<and> \<not> ti_reduceOnly inp then priceOf (case text of Some t \<Rightarrow> t | None \<Rightarrow> []) else None)"

definition ticket_steps :: "ticket_input \<Rightarrow> jsnum" where
  "ticket_steps inp =
     (let step = to_number (ti_sizeStep inp)
      in if 0 < step then math_floor (ti_sizeBase inp / step + num (1 / 10 ^ 9)) else 0)"

definition ticket_kind :: "ticket_input \<Rightarrow> ticket_block + order_kind" where
  "ticket_kind inp =
     (if ti_type inp = MarketTicket
      then Inr (MarketKind (math_min MAX_SLIPPAGE_BPS (math_max 1 (math_round (ti_maxSlippage inp * Fin 10000)))))
      else if ti_type inp = LimitTicket
      then (case priceOf (ti_limitPrice inp) of
              None \<Rightarrow> Inl BlockPrice | Some price \<Rightarrow> Inr (LimitKind price None))
      else case priceOf (ti_trigger inp) of
             None \<Rightarrow> Inl BlockTrigger
           | Some trig \<Rightarrow>
               if hasLimitPrice (ti_type inp)
               then (case priceOf (ti_limitPrice inp) of
                       None \<Rightarrow> Inl BlockPrice | Some price \<Rightarrow> Inr (TriggerKind trig (Some price)))
               else Inr (TriggerKind trig None))"

definition ticketOrder :: "ticket_input \<Rightarrow> ticket_block + order_request" where
  "ticketOrder inp =
     (if ti_type inp = ScaleTicket \<or> ti_type inp = TwapTicket then Inl BlockType
      else let takeProfit = ticket_exit inp (ti_takeProfit inp); stopLoss = ticket_exit inp (ti_stopLoss inp);
               steps = ticket_steps inp; step = to_number (ti_sizeStep inp)
           in if ti_tpsl inp \<and> \<not> ti_reduceOnly inp \<and> takeProfit = None \<and> stopLoss = None then Inl BlockTpsl
              else if \<not> 0 < steps then Inl BlockSize
              else case ticket_kind inp of
                     Inl b \<Rightarrow> Inl b
                   | Inr kind \<Rightarrow>
                       Inr \<lparr>r_market = ti_market inp, r_side = ti_side inp,
                            r_size = to_fixed (placesOf (ti_sizeStep inp)) (steps * step),
                            r_reduceOnly = ti_reduceOnly inp, r_collateral = None, r_clientId = None,
                            r_takeProfit = takeProfit, r_stopLoss = stopLoss, r_kind = kind\<rparr>)"

section \<open>Checks before sending\<close>

definition FAR_THROUGH :: jsnum where
  "FAR_THROUGH = num (5 / 1000)"

definition GRID_SLACK :: jsnum where
  "GRID_SLACK = num (1 / 10 ^ 6)"

datatype check_field = PriceField | TriggerField | TpField | SlField | SizeField

datatype ticket_check =
    TickError check_field decimal
  | ExitSideError check_field
  | CrossesWarn jsnum jsnum            \<comment> \<open>past, mid\<close>
  | MinSizeError decimal
  | StepWarn decimal jsnum             \<comment> \<open>step, sends\<close>
  | MarginWarn jsnum jsnum jsnum       \<comment> \<open>need, have, max\<close>

fun is_error :: "ticket_check \<Rightarrow> bool" where
  "is_error (TickError f t) = True"
| "is_error (ExitSideError f) = True"
| "is_error (MinSizeError m) = True"
| "is_error _ = False"

definition onGrid :: "jsnum \<Rightarrow> jsnum \<Rightarrow> bool" where
  "onGrid v step = (\<not> 0 < step \<or> \<bar>v / step - math_round (v / step)\<bar> < GRID_SLACK)"

record check_input =
  ci_tickSize :: decimal
  ci_sizeStep :: decimal
  ci_minSize :: decimal
  ci_type :: ticket_type
  ci_side :: side
  ci_sizeBase :: jsnum
  ci_limitPrice :: string
  ci_trigger :: string
  ci_reduceOnly :: bool
  ci_bestBid :: jsnum
  ci_bestAsk :: jsnum
  ci_price :: jsnum
  ci_takeProfit :: "string option"
  ci_stopLoss :: "string option"
  ci_available :: "jsnum option"
  ci_leverage :: jsnum
  ci_position :: "(position_side \<times> decimal) option"

definition limit_checks :: "check_input \<Rightarrow> ticket_check list" where
  "limit_checks inp =
     (let tick = to_number (ci_tickSize inp); limitPrice = to_number (ci_limitPrice inp)
      in if \<not> (hasLimitPrice (ci_type inp) \<and> 0 < limitPrice) then []
         else if \<not> onGrid limitPrice tick then [TickError PriceField (ci_tickSize inp)]
         else if ci_type inp = LimitTicket
         then (let mid = (ci_bestBid inp + ci_bestAsk inp) / Fin 2;
                   through = (case ci_side inp of
                       Buy \<Rightarrow> 0 < ci_bestAsk inp \<and> ci_bestAsk inp * (1 + FAR_THROUGH) \<le> limitPrice
                     | Sell \<Rightarrow> 0 < ci_bestBid inp \<and> limitPrice \<le> ci_bestBid inp * (1 - FAR_THROUGH))
               in if through \<and> 0 < mid then [CrossesWarn (\<bar>limitPrice - mid\<bar> / mid) mid] else [])
         else [])"

definition trigger_checks :: "check_input \<Rightarrow> ticket_check list" where
  "trigger_checks inp =
     (let trig = to_number (ci_trigger inp)
      in if hasTrigger (ci_type inp) \<and> 0 < trig \<and> \<not> onGrid trig (to_number (ci_tickSize inp))
         then [TickError TriggerField (ci_tickSize inp)] else [])"

text \<open>The price the order goes in at: its limit, its trigger, or the touch.\<close>

definition entry_price :: "check_input \<Rightarrow> jsnum" where
  "entry_price inp =
     (let limitPrice = to_number (ci_limitPrice inp); trig = to_number (ci_trigger inp)
      in if hasLimitPrice (ci_type inp) \<and> 0 < limitPrice then limitPrice
         else if hasTrigger (ci_type inp) \<and> 0 < trig then trig
         else case ci_side inp of Buy \<Rightarrow> ci_bestAsk inp | Sell \<Rightarrow> ci_bestBid inp)"

text \<open>\<open>Number(undefined)\<close> is NaN.\<close>

definition exit_value :: "string option \<Rightarrow> jsnum" where
  "exit_value text = (case text of Some t \<Rightarrow> to_number t | None \<Rightarrow> NaN)"

definition exit_checks :: "check_input \<Rightarrow> check_field \<Rightarrow> string option \<Rightarrow> ticket_check list" where
  "exit_checks inp fld text =
     (let ex = exit_value text; entry = entry_price inp
      in if \<not> 0 < ex then []
         else if \<not> onGrid ex (to_number (ci_tickSize inp)) then [TickError fld (ci_tickSize inp)]
         else if 0 < entry
         then (let above = ((fld = TpField) = (ci_side inp = Buy))
               in if (if above then ex \<le> entry else entry \<le> ex) then [ExitSideError fld] else [])
         else [])"

definition margin_checks :: "check_input \<Rightarrow> jsnum \<Rightarrow> ticket_check list" where
  "margin_checks inp sends =
     (case ci_available inp of
        None \<Rightarrow> []
      | Some available \<Rightarrow>
          if ci_reduceOnly inp \<or> \<not> 0 < ci_price inp then []
          else let opposite = (case ci_position inp of
                       Some (sd, held) \<Rightarrow> if (sd = Long) \<noteq> (ci_side inp = Buy) then to_number held else 0
                     | None \<Rightarrow> 0);
                   adds = math_max 0 (sends - opposite);
                   need = adds * ci_price inp / ci_leverage inp;
                   step = to_number (ci_sizeStep inp)
               in if available < need
                  then (let most = opposite + available * ci_leverage inp / ci_price inp
                        in [MarginWarn need available
                              (if 0 < step then math_floor (most / step) * step else most)])
                  else [])"

definition size_checks :: "check_input \<Rightarrow> ticket_check list" where
  "size_checks inp =
     (let step = to_number (ci_sizeStep inp); base = ci_sizeBase inp;
          sends = (if 0 < step then math_floor (base / step + GRID_SLACK) * step else base)
      in if \<not> 0 < base then []
         else if sends < to_number (ci_minSize inp) - GRID_SLACK * step then [MinSizeError (ci_minSize inp)]
         else (if \<not> onGrid base step then [StepWarn (ci_sizeStep inp) sends] else []) @ margin_checks inp sends)"

definition ticketChecks :: "check_input \<Rightarrow> ticket_check list" where
  "ticketChecks inp =
     limit_checks inp @ trigger_checks inp @ exit_checks inp TpField (ci_takeProfit inp) @
     exit_checks inp SlField (ci_stopLoss inp) @ size_checks inp"

section \<open>The position after the order\<close>

record position_state =
  st_size :: jsnum
  st_entry :: "jsnum option"

definition held_size :: "(position_side \<times> decimal \<times> decimal) option \<Rightarrow> jsnum" where
  "held_size pos =
     (case pos of Some (sd, sz, _) \<Rightarrow> to_number sz * (if sd = Long then Fin 1 else Fin (- 1)) | None \<Rightarrow> 0)"

definition from_state :: "(position_side \<times> decimal \<times> decimal) option \<Rightarrow> position_state" where
  "from_state pos =
     (case pos of Some (_, _, entry) \<Rightarrow> \<lparr>st_size = held_size pos, st_entry = Some (to_number entry)\<rparr>
      | None \<Rightarrow> \<lparr>st_size = 0, st_entry = None\<rparr>)"

definition positionAfter ::
    "(position_side \<times> decimal \<times> decimal) option \<Rightarrow> side \<Rightarrow> jsnum \<Rightarrow> jsnum \<Rightarrow> bool \<Rightarrow> position_state \<times> position_state" where
  "positionAfter pos sd sz price reduceOnly =
     (let held = held_size pos; from = from_state pos;
          asked = sz * (if sd = Buy then Fin 1 else Fin (- 1));
          reduces = (\<not> js_eq held 0 \<and> \<not> js_eq (math_sign asked) (math_sign held));
          change = (if reduceOnly
                    then (if reduces then math_sign asked * math_min \<bar>asked\<bar> \<bar>held\<bar> else 0) else asked);
          next' = held + change;
          was = (case st_entry from of Some e \<Rightarrow> e | None \<Rightarrow> price)
      in if \<bar>next'\<bar> < num (1 / 10 ^ 12) then (from, \<lparr>st_size = 0, st_entry = None\<rparr>)
         else let entry = (if js_eq held 0 \<or> \<not> js_eq (math_sign next') (math_sign held) then price
                           else if reduces then was
                           else (\<bar>held\<bar> * was + \<bar>change\<bar> * price) / \<bar>next'\<bar>)
              in (from, \<lparr>st_size = next', st_entry = Some entry\<rparr>))"

definition MAINTENANCE_RATE :: jsnum where
  "MAINTENANCE_RATE = num (5 / 1000)"

definition estLiquidation ::
    "position_state \<Rightarrow> margin_mode \<Rightarrow> jsnum \<Rightarrow> jsnum option \<Rightarrow> jsnum option" where
  "estLiquidation pos mode leverage equity =
     (let sz = \<bar>st_size pos\<bar>
      in case st_entry pos of
           None \<Rightarrow> None
         | Some entry \<Rightarrow>
             if \<not> 0 < sz \<or> \<not> 0 < entry \<or> \<not> 0 < leverage then None
             else let dir = (if 0 < st_size pos then Fin 1 else Fin (- 1));
                      cushion = (if mode = Isolated then Some (entry / leverage - entry * MAINTENANCE_RATE)
                                 else map_option (\<lambda>e. e / sz - entry * MAINTENANCE_RATE) equity)
                  in case cushion of
                       None \<Rightarrow> None
                     | Some c \<Rightarrow>
                         if \<not> 0 < c then None
                         else let price = entry - dir * c in if 0 < price then Some price else None)"

section \<open>What the ticket sends\<close>

definition price_ok :: "decimal \<Rightarrow> bool" where
  "price_ok t = (0 < to_number t)"

definition request_ok :: "order_request \<Rightarrow> bool" where
  "request_ok req =
     ((case r_kind req of
         MarketKind bps \<Rightarrow> 1 \<le> bps \<and> bps \<le> MAX_SLIPPAGE_BPS
       | LimitKind price _ \<Rightarrow> price_ok price
       | TriggerKind trig limitPrice \<Rightarrow> price_ok trig \<and> (case limitPrice of Some l \<Rightarrow> price_ok l | None \<Rightarrow> True)
       | TwapKind _ _ \<Rightarrow> False) \<and>
      (case r_takeProfit req of Some t \<Rightarrow> price_ok t | None \<Rightarrow> True) \<and>
      (case r_stopLoss req of Some t \<Rightarrow> price_ok t | None \<Rightarrow> True) \<and>
      (if r_reduceOnly req then r_takeProfit req = None \<and> r_stopLoss req = None else True))"

lemma priceOf_ok: "priceOf t = Some p \<Longrightarrow> price_ok p"
  by (auto simp: priceOf_def price_ok_def Let_def split: if_splits)

lemma slippage_bounds:
  "x \<noteq> NaN \<Longrightarrow> 1 \<le> math_min MAX_SLIPPAGE_BPS (math_max 1 (math_round x)) \<and>
    math_min MAX_SLIPPAGE_BPS (math_max 1 (math_round x)) \<le> MAX_SLIPPAGE_BPS"
proof -
  assume "x \<noteq> NaN"
  then have r: "math_round x \<noteq> NaN" by (cases x) auto
  then have "1 \<le> math_max 1 (math_round x)" "math_max 1 (math_round x) \<noteq> NaN"
    using math_max_ge [of 1] by (auto simp: one_Fin math_max_not_NaN)
  moreover have "(1 :: jsnum) \<le> MAX_SLIPPAGE_BPS" "MAX_SLIPPAGE_BPS \<noteq> NaN" by (simp_all add: MAX_SLIPPAGE_BPS_def one_Fin)
  ultimately show ?thesis
    using math_min_le [of MAX_SLIPPAGE_BPS "math_max 1 (math_round x)"] by (auto simp: math_min_def)
qed

lemma scaled_not_NaN: "x \<noteq> NaN \<Longrightarrow> x * Fin 10000 \<noteq> NaN"
  by (cases x) (simp_all add: inf_of_def)

lemma ticket_kind_ok:
  assumes "ticket_kind inp = Inr kind" "ti_maxSlippage inp \<noteq> NaN"
  shows "case kind of
      MarketKind bps \<Rightarrow> 1 \<le> bps \<and> bps \<le> MAX_SLIPPAGE_BPS
    | LimitKind price _ \<Rightarrow> price_ok price
    | TriggerKind trig limitPrice \<Rightarrow> price_ok trig \<and> (case limitPrice of Some l \<Rightarrow> price_ok l | None \<Rightarrow> True)
    | TwapKind _ _ \<Rightarrow> False"
  using assms slippage_bounds [OF scaled_not_NaN [OF assms(2)]]
  by (auto simp: ticket_kind_def split: if_splits option.splits dest: priceOf_ok)

lemma ticket_exit_ok: "ticket_exit inp text = Some t \<Longrightarrow> price_ok t \<and> \<not> ti_reduceOnly inp"
  by (auto simp: ticket_exit_def split: if_splits dest: priceOf_ok)

text \<open>C14: An order the ticket sends is well formed: its prices are positive numbers, a market order's
  slippage bound is between 1 and 1000 basis points, exits come only with an order that can
  open something, and a type without a venue form is never sent.\<close>

theorem ticket_request_well_formed:
  assumes "ticketOrder inp = Inr req" "ti_maxSlippage inp \<noteq> NaN"
  shows "request_ok req \<and> 0 < ticket_steps inp"
proof -
  obtain kind where k: "ticket_kind inp = Inr kind" and steps: "0 < ticket_steps inp" and req: "req =
      \<lparr>r_market = ti_market inp, r_side = ti_side inp,
       r_size = to_fixed (placesOf (ti_sizeStep inp)) (ticket_steps inp * to_number (ti_sizeStep inp)),
       r_reduceOnly = ti_reduceOnly inp, r_collateral = None, r_clientId = None,
       r_takeProfit = ticket_exit inp (ti_takeProfit inp), r_stopLoss = ticket_exit inp (ti_stopLoss inp),
       r_kind = kind\<rparr>"
    using assms(1) by (auto simp: ticketOrder_def Let_def split: if_splits sum.splits)
  have none: "ti_reduceOnly inp \<Longrightarrow> ticket_exit inp t = None" for t by (simp add: ticket_exit_def)
  have ex: "case ticket_exit inp t of Some t \<Rightarrow> price_ok t | None \<Rightarrow> True" for t
    using ticket_exit_ok by (auto split: option.split)
  show ?thesis using ticket_kind_ok [OF k assms(2)] steps none ex by (simp add: request_ok_def req)
qed

definition sample_ticket :: ticket_input where
  "sample_ticket = \<lparr>ti_market = ''BTC'', ti_sizeStep = ''1'', ti_type = LimitTicket, ti_side = Buy,
     ti_sizeBase = Fin 2, ti_limitPrice = ''90'', ti_trigger = [], ti_reduceOnly = False, ti_tpsl = True,
     ti_takeProfit = Some ''120'', ti_stopLoss = None, ti_maxSlippage = 0\<rparr>"

lemma ticket_request_well_formed_witness:
  "\<exists>req. ticketOrder sample_ticket = Inr req \<and> request_ok req \<and> r_takeProfit req = Some ''120'' \<and>
     r_kind req = LimitKind ''90'' None \<and> r_size req = ''2''"
proof -
  have "ticketOrder sample_ticket = Inr \<lparr>r_market = ''BTC'', r_side = Buy, r_size = ''2'', r_reduceOnly = False,
      r_collateral = None, r_clientId = None, r_takeProfit = Some ''120'', r_stopLoss = None,
      r_kind = LimitKind ''90'' None\<rparr>"
    by code_simp
  from ticket_request_well_formed [OF this] this show ?thesis by (simp add: sample_ticket_def zero_Fin)
qed

section \<open>What the checks rule out\<close>

lemma exit_checks_pass:
  assumes "\<forall>c \<in> set (exit_checks inp fld text). \<not> is_error c" "0 < exit_value text"
  shows "onGrid (exit_value text) (to_number (ci_tickSize inp)) \<and>
    (0 < entry_price inp \<longrightarrow>
      (if (fld = TpField) = (ci_side inp = Buy) then entry_price inp < exit_value text
       else exit_value text < entry_price inp))"
  using assms js_not_le [of "exit_value text" "entry_price inp"] js_not_le [of "entry_price inp" "exit_value text"]
  by (auto simp: exit_checks_def Let_def dest: js_less_not_NaN split: if_splits)

text \<open>C15: A ticket without an error has its exits where the venue wants them: a take-profit strictly
  beyond the price the order goes in at and a stop-loss strictly behind it, on either side,
  and every price typed on the market's tick.\<close>

theorem passed_checks_place_exits:
  assumes "\<forall>c \<in> set (ticketChecks inp). \<not> is_error c" "0 < entry_price inp"
    "0 < exit_value (ci_takeProfit inp)" "0 < exit_value (ci_stopLoss inp)"
  shows "(case ci_side inp of
      Buy \<Rightarrow> exit_value (ci_stopLoss inp) < entry_price inp \<and> entry_price inp < exit_value (ci_takeProfit inp)
    | Sell \<Rightarrow> exit_value (ci_takeProfit inp) < entry_price inp \<and> entry_price inp < exit_value (ci_stopLoss inp)) \<and>
    onGrid (exit_value (ci_takeProfit inp)) (to_number (ci_tickSize inp)) \<and>
    onGrid (exit_value (ci_stopLoss inp)) (to_number (ci_tickSize inp))"
proof -
  have "\<forall>c \<in> set (exit_checks inp TpField (ci_takeProfit inp)). \<not> is_error c"
    "\<forall>c \<in> set (exit_checks inp SlField (ci_stopLoss inp)). \<not> is_error c"
    using assms(1) by (auto simp: ticketChecks_def)
  from exit_checks_pass [OF this(1) assms(3)] exit_checks_pass [OF this(2) assms(4)] assms(2)
  show ?thesis by (cases "ci_side inp") auto
qed

definition sample_checks :: check_input where
  "sample_checks = \<lparr>ci_tickSize = ''1'', ci_sizeStep = ''1'', ci_minSize = ''1'', ci_type = MarketTicket,
     ci_side = Sell, ci_sizeBase = Fin 0, ci_limitPrice = [], ci_trigger = [], ci_reduceOnly = False,
     ci_bestBid = Fin 100, ci_bestAsk = Fin 101, ci_price = Fin 100, ci_takeProfit = Some ''90'',
     ci_stopLoss = Some ''110'', ci_available = Some (Fin 150), ci_leverage = Fin 1, ci_position = None\<rparr>"

lemma passed_checks_place_exits_witness:
  "ticketChecks sample_checks = [] \<and>
   exit_value (ci_takeProfit sample_checks) < Fin 100 \<and> Fin 100 < exit_value (ci_stopLoss sample_checks)"
proof -
  have n: "to_number ''1'' = Fin 1" "to_number ''90'' = Fin 90" "to_number ''110'' = Fin 110" by code_simp+
  have f: "\<lfloor>181 / 2 :: rat\<rfloor> = 90" "\<lfloor>221 / 2 :: rat\<rfloor> = 110" by code_simp+
  have "0 \<le> GRID_SLACK" by (simp add: GRID_SLACK_def num_nonneg)
  moreover have "GRID_SLACK \<noteq> 0" by code_simp
  ultimately have g: "Fin 0 < GRID_SLACK" by (auto simp: less_eq_jsnum_def zero_Fin)
  have e: "entry_price sample_checks = Fin 100"
    by (simp add: sample_checks_def entry_price_def hasLimitPrice_def hasTrigger_def)
  have c: "ticketChecks sample_checks = []"
    using e g by (simp add: ticketChecks_def limit_checks_def trigger_checks_def exit_checks_def size_checks_def
        sample_checks_def hasLimitPrice_def hasTrigger_def exit_value_def onGrid_def n f zero_Fin Let_def minus_jsnum_def)
  have x: "0 < exit_value (ci_takeProfit sample_checks)" "0 < exit_value (ci_stopLoss sample_checks)"
    "0 < entry_price sample_checks"
    by (simp_all add: e) (simp_all add: sample_checks_def exit_value_def n zero_Fin)
  from passed_checks_place_exits [OF _ x(3,1,2)] c e show ?thesis by (simp add: sample_checks_def)
qed

text \<open>A liquidation estimate is a positive price on the losing side of the entry: below it for a
  long, above it for a short.\<close>

theorem liquidation_on_losing_side:
  assumes "estLiquidation pos mode leverage equity = Some price" "st_entry pos = Some entry" "canonical entry"
  shows "0 < price \<and> (if 0 < st_size pos then price \<le> entry else entry \<le> price)"
proof -
  obtain c where c: "0 < c" "0 < entry" and pr: "0 < price"
    "price = entry - (if 0 < st_size pos then Fin 1 else Fin (- 1)) * c"
    using assms(1,2) by (auto simp: estLiquidation_def Let_def split: option.splits if_splits)
  have "price \<noteq> NaN" using pr(1) by auto
  show ?thesis
  proof (cases "entry"; cases c)
    fix e d assume ed: "entry = Fin e" "c = Fin d"
    with c have "0 < d" by (simp add: zero_Fin)
    have e: "num e = Fin e" using assms(3) ed by (simp add: canonical_fixed)
    obtain q where q: "num d = q" by simp
    have "0 \<le> q" using num_nonneg [of d] \<open>0 < d\<close> q by simp
    show ?thesis
    proof (cases q)
      case (Fin r)
      with \<open>0 \<le> q\<close> have "0 \<le> r" by (simp add: zero_Fin)
      then have "num (e - r) \<le> num e" "num e \<le> num (e + r)" by (auto intro: num_mono)
      with pr q Fin ed e show ?thesis by (auto simp: minus_jsnum_def)
    next
      case PInf
      with pr q ed show ?thesis by (auto simp: minus_jsnum_def zero_Fin)
    qed (use \<open>0 \<le> q\<close> in \<open>simp_all add: zero_Fin less_eq_jsnum_def\<close>)
  next
    fix d assume "entry = PInf" "c = Fin d"
    moreover have "PInf + num q = PInf \<or> PInf + num q = NaN" for q by (cases "num q") simp_all
    ultimately show ?thesis using pr \<open>price \<noteq> NaN\<close> by (auto simp: minus_jsnum_def zero_Fin split: if_splits)
  qed (use c pr \<open>price \<noteq> NaN\<close> in \<open>auto simp: minus_jsnum_def zero_Fin inf_of_def split: if_splits\<close>)
qed

lemma liquidation_on_losing_side_witness:
  "\<exists>price. estLiquidation \<lparr>st_size = Fin 2, st_entry = Some (Fin 100)\<rparr> Isolated (Fin 4) None = Some price \<and>
     price \<le> Fin 100"
proof -
  have n: "estLiquidation \<lparr>st_size = Fin 2, st_entry = Some (Fin 100)\<rparr> Isolated (Fin 4) None \<noteq> None" by code_simp
  have "canonical (Fin 100)" using canonical_num [of 100] by simp
  with n liquidation_on_losing_side [of "\<lparr>st_size = Fin 2, st_entry = Some (Fin 100)\<rparr>" Isolated "Fin 4" None _ "Fin 100"]
  show ?thesis by (auto simp: zero_Fin simp del: canonical.simps)
qed

end
