(* ===== verification/Preview.thy ===== *)
theory Preview
  imports Paper_Net Ticket
begin

text \<open>
  The ticket and the engine behind paper trading agree: the position the ticket shows for an
  order before it is sent (\<^verbatim>\<open>positionAfter\<close> in
  \<^verbatim>\<open>packages/ui/src/lib/ticketChecks.ts\<close>) is the one the account has after its fill
  (\<^verbatim>\<open>fill\<close> in \<^verbatim>\<open>apps/desktop/src/lib/paper.ts\<close>).
\<close>

lemma eps12_small:
  obtains e where "eps12 = Fin e" "0 < e" "e < 1 / 2"
proof -
  have "0 < eps12" "eps12 < Fin (1 / 2)" by code_simp+
  moreover from this obtain e where e: "eps12 = Fin e" by (cases eps12) (auto simp: zero_Fin)
  ultimately have "0 < e" "e < 1 / 2" unfolding e zero_Fin by simp_all
  with e show ?thesis by (rule that)
qed

lemma half_kept:
  assumes "0 \<le> k" "k < 2 ^ 52"
  shows "num (of_int k + 1 / 2) = Fin (of_int k + 1 / 2)"
proof -
  have r: "rnd (of_int k + 1 / 2) = of_int k + 1 / 2"
    using assms by (intro rnd_fixed [of _ "2 * k + 1" "- 1"]) (simp_all add: field_simps)
  have "(of_int k :: rat) < of_int (2 ^ 52)" using assms(2) by (simp only: of_int_less_iff)
  then have "of_int k + 1 / 2 < (2 ^ 53 :: rat)" by simp
  also have "(2 :: rat) ^ 53 \<le> 2 ^ 1024" by (rule power_increasing) simp_all
  finally have "\<bar>of_int k + 1 / 2\<bar> < (2 ^ 1024 :: rat)" using assms(1) by simp
  with r show ?thesis using canonical_fixed [of "of_int k + 1 / 2"] by simp
qed

text \<open>On whole numbers the engine's tolerance never shows.\<close>

lemma whole_num: "\<bar>n\<bar> \<le> 2 ^ 53 \<Longrightarrow> num (of_int n) = Fin (of_int n)"
  by (rule num_of_int)

lemma whole_add: "\<bar>a\<bar> \<le> 2 ^ 52 \<Longrightarrow> \<bar>c\<bar> \<le> 2 ^ 52 \<Longrightarrow> Fin (of_int a) + Fin (of_int c) = Fin (of_int (a + c))"
  using whole_num [of "a + c"] by simp

lemma whole_diff: "\<bar>a\<bar> \<le> 2 ^ 52 \<Longrightarrow> \<bar>c\<bar> \<le> 2 ^ 52 \<Longrightarrow> Fin (of_int a) - Fin (of_int c) = Fin (of_int (a - c))"
  using whole_num [of "a - c"] by (simp add: minus_jsnum_def)

lemma whole_over: "eps12 < Fin (of_int n) \<longleftrightarrow> 0 < n"
proof -
  obtain e where e: "eps12 = Fin e" "0 < e" "e < 1 / 2" by (rule eps12_small)
  have "e < of_int n" if "0 < n"
  proof -
    have "(1 :: rat) \<le> of_int n" unfolding of_int_1_le_iff using that by linarith
    with e(3) show ?thesis by linarith
  qed
  moreover have "\<not> e < of_int n" if "\<not> 0 < n"
  proof -
    have "of_int n \<le> (0 :: rat)" using that by simp
    with e(2) show ?thesis by linarith
  qed
  ultimately show ?thesis unfolding e(1) by auto
qed

lemma whole_small: "\<bar>Fin (of_int n)\<bar> < eps12 \<longleftrightarrow> n = 0"
proof -
  obtain e where e: "eps12 = Fin e" "0 < e" "e < 1 / 2" by (rule eps12_small)
  have "\<not> \<bar>of_int n\<bar> < e" if "n \<noteq> 0"
  proof -
    have "1 \<le> \<bar>n\<bar>" using that by linarith
    then have "(1 :: rat) \<le> of_int \<bar>n\<bar>" by (simp only: of_int_1_le_iff)
    with e(3) show ?thesis by linarith
  qed
  then show ?thesis unfolding e(1) using e(2) by auto
qed

lemma whole_near:
  assumes "\<bar>a\<bar> \<le> 2 ^ 52" "0 \<le> c" "c \<le> 2 ^ 52"
  shows "Fin (of_int a) - eps12 \<le> Fin (of_int c) \<longleftrightarrow> a \<le> c"
proof -
  obtain e where e: "eps12 = Fin e" "0 < e" "e < 1 / 2" by (rule eps12_small)
  have d: "Fin (of_int a) - eps12 = num (of_int a - e)" by (simp add: e(1) minus_jsnum_def)
  have c: "num (of_int c) = Fin (of_int c)" by (rule whole_num) (use assms in simp)
  show ?thesis
  proof (cases "a \<le> c")
    case True
    then have "(of_int a :: rat) \<le> of_int c" by simp
    then have "num (of_int a - e) \<le> num (of_int c)" using e(2) by (intro num_mono) linarith
    with True show ?thesis unfolding d c by simp
  next
    case False
    then have "c + 1 \<le> a" by simp
    then have "(of_int (c + 1) :: rat) \<le> of_int a" by (simp only: of_int_le_iff)
    then have "num (of_int c + 1 / 2) \<le> num (of_int a - e)" using e(3) by (intro num_mono) simp
    moreover have "num (of_int c + 1 / 2) = Fin (of_int c + 1 / 2)"
      by (rule half_kept) (use assms False in linarith)+
    ultimately have "\<not> num (of_int a - e) \<le> Fin (of_int c)" by (metis Fin_le js_le_trans add_le_same_cancel1 not_le half_gt_zero_iff zero_less_one)
    with False show ?thesis unfolding d by simp
  qed
qed

lemma whole_abs: "\<bar>Fin (of_int n)\<bar> = Fin (of_int \<bar>n\<bar>)"
  by simp

lemma whole_min: "math_min (Fin (of_int a)) (Fin (of_int c)) = Fin (of_int (min a c))"
  by (auto simp: math_min_def min_def)

section \<open>What is shown of a position\<close>

definition shown_as :: "paper_position option \<Rightarrow> position_state" where
  "shown_as p =
     (case p of None \<Rightarrow> \<lparr>st_size = 0, st_entry = None\<rparr> | Some x \<Rightarrow> \<lparr>st_size = net_of x, st_entry = Some (pp_entry x)\<rparr>)"

definition whole_position :: "int \<Rightarrow> paper_position option \<Rightarrow> bool" where
  "whole_position a p =
     (case p of None \<Rightarrow> a = 0
      | Some x \<Rightarrow> pp_size x = Fin (of_int \<bar>a\<bar>) \<and> (if pp_side x = Long then 0 < a else a < 0))"

lemma whole_net: "whole_position a p \<Longrightarrow> st_size (shown_as p) = Fin (of_int a)"
  by (auto simp: whole_position_def shown_as_def net_of_def zero_Fin split: option.splits position_side.splits if_splits)

text \<open>What an order in the direction \<open>d\<close> that changes a position of \<open>a\<close> by \<open>c\<close> leaves of it.\<close>

definition entry_after :: "int \<Rightarrow> jsnum \<Rightarrow> int \<Rightarrow> int \<Rightarrow> jsnum \<Rightarrow> position_state" where
  "entry_after a was d c price =
     (if a + c = 0 then \<lparr>st_size = 0, st_entry = None\<rparr>
      else \<lparr>st_size = Fin (of_int (a + c)),
            st_entry = Some (if a = 0 \<or> sgn (a + c) \<noteq> sgn a then price
                             else if sgn d \<noteq> sgn a then was
                             else (Fin (of_int \<bar>a\<bar>) * was + Fin (of_int \<bar>c\<bar>) * price) / Fin (of_int \<bar>a + c\<bar>))\<rparr>)"

definition way :: "side \<Rightarrow> int" where
  "way sd = (if sd = Buy then 1 else - 1)"

definition change_by :: "bool \<Rightarrow> int \<Rightarrow> side \<Rightarrow> int \<Rightarrow> int" where
  "change_by reduceOnly a sd b = (if reduceOnly then (if a * way sd < 0 then way sd * min b \<bar>a\<bar> else 0) else way sd * b)"

lemma sign_whole: "math_sign (Fin (of_int n)) = Fin (of_int (sgn n))"
  by (simp add: sgn_if)

lemma positionAfter_whole:
  assumes pos: "from_state pos = shown_as p" "whole_position a p" and a: "\<bar>a\<bar> \<le> 2 ^ 52" and b: "0 < b" "b \<le> 2 ^ 52"
  shows "snd (positionAfter pos sd (Fin (of_int b)) price reduceOnly) =
    entry_after a (case p of Some x \<Rightarrow> pp_entry x | None \<Rightarrow> price) (way sd) (change_by reduceOnly a sd b) price"
proof -
  define d where "d = way sd"
  define c where "c = change_by reduceOnly a sd b"
  have d: "d = 1 \<or> d = - 1" by (simp add: d_def way_def)
  have held: "held_size pos = Fin (of_int a)"
  proof -
    have "st_size (from_state pos) = held_size pos" by (auto simp: from_state_def held_size_def split: option.split)
    then show ?thesis using whole_net [OF pos(2)] by (simp add: pos(1))
  qed
  have was: "(case st_entry (from_state pos) of Some e \<Rightarrow> e | None \<Rightarrow> price) = (case p of Some x \<Rightarrow> pp_entry x | None \<Rightarrow> price)"
    unfolding pos(1) by (simp add: shown_as_def split: option.split)
  have asked: "Fin (of_int b) * (if sd = Buy then Fin 1 else Fin (- 1)) = Fin (of_int (d * b))"
    using whole_num [of b] whole_num [of "- b"] b by (simp add: d_def way_def)
  have zero: "js_eq (Fin (of_int n)) 0 \<longleftrightarrow> n = 0" for n by (simp add: js_eq_def zero_Fin)
  have signs: "js_eq (math_sign (Fin (of_int m))) (math_sign (Fin (of_int n))) \<longleftrightarrow> sgn m = sgn n" for m n
    unfolding sign_whole by (simp add: js_eq_def)
  have sd: "sgn (d * b) = sgn d" using b(1) by (simp add: sgn_mult)
  have reduces: "(\<not> a = 0 \<and> sgn d \<noteq> sgn a) \<longleftrightarrow> a * d < 0"
    using d by (auto simp: sgn_if)
  have capped: "math_sign (Fin (of_int (d * b))) * math_min \<bar>Fin (of_int (d * b))\<bar> \<bar>Fin (of_int a)\<bar> =
      Fin (of_int (d * min b \<bar>a\<bar>))"
  proof -
    have "\<bar>d * b\<bar> = b" using d b(1) by auto
    then have "math_min \<bar>Fin (of_int (d * b))\<bar> \<bar>Fin (of_int a)\<bar> = Fin (of_int (min b \<bar>a\<bar>))"
      using whole_min [of b "\<bar>a\<bar>"] whole_abs [of "d * b"] whole_abs [of a] by metis
    moreover have "\<bar>min b \<bar>a\<bar>\<bar> \<le> 2 ^ 53" using a b by (simp add: min_def)
    moreover have "math_sign (Fin (of_int (d * b))) = Fin (of_int d)"
      unfolding sign_whole sd using d by auto
    ultimately show ?thesis using d whole_num [of "min b \<bar>a\<bar>"] whole_num [of "- min b \<bar>a\<bar>"] by auto
  qed
  have change: "(if reduceOnly then (if a * d < 0 then Fin (of_int (d * min b \<bar>a\<bar>)) else 0) else Fin (of_int (d * b))) =
      Fin (of_int c)"
    by (simp add: c_def change_by_def d_def zero_Fin)
  have "\<bar>c\<bar> \<le> 2 ^ 52" using b d by (auto simp: c_def change_by_def d_def [symmetric] abs_mult)
  note sum = whole_add [OF a this]
  show ?thesis
    unfolding positionAfter_def Let_def held asked was zero signs sd reduces capped change sum eps12_def [symmetric]
      whole_small entry_after_def d_def [symmetric] c_def [symmetric]
    using reduces by (auto simp: zero_Fin)
qed

section \<open>What is left of a position by a fill\<close>

lemma pos_in_pushHistory [simp]: "pos_in k (pushHistory s ord status filled) = pos_in k s"
  by (simp add: pos_in_def pushHistory_def)

text \<open>The side, size and entry of a position, and what is shown of it.\<close>

definition outline :: "paper_position option \<Rightarrow> (position_side \<times> jsnum \<times> jsnum) option" where
  "outline p = map_option (\<lambda>x. (pp_side x, pp_size x, pp_entry x)) p"

lemma shown_outline:
  "shown_as p = (case outline p of None \<Rightarrow> \<lparr>st_size = 0, st_entry = None\<rparr>
     | Some (sd, sz, entry) \<Rightarrow> \<lparr>st_size = (case sd of Long \<Rightarrow> sz | Short \<Rightarrow> - sz), st_entry = Some entry\<rparr>)"
  by (simp add: shown_as_def outline_def net_of_def split: option.split)

lemma closing_whole: "whole_position a (Some x) \<Longrightarrow> closing_side x sd \<longleftrightarrow> a * way sd < 0"
  by (cases "pp_side x"; cases sd) (auto simp: whole_position_def closing_side_def way_def)

lemma sizeFor_whole:
  assumes p: "whole_position a (pos_in (m_id mk) s)" and ord: "po_market ord = m_id mk" "po_size ord = Fin (of_int b)"
    and b: "0 < b"
  shows "sizeFor s ord = Fin (of_int \<bar>change_by (po_reduceOnly ord) a (po_side ord) b\<bar>)"
proof -
  have way: "\<bar>way (po_side ord) * k\<bar> = \<bar>k\<bar>" for k by (simp add: way_def)
  have bb: "\<bar>way (po_side ord) * b\<bar> = b" using b by (simp add: way)
  show ?thesis
  proof (cases "pos_in (m_id mk) s")
    case None
    with p b ord show ?thesis
      by (simp add: sizeFor_def pos_in_def [symmetric] whole_position_def change_by_def bb zero_Fin del: of_int_abs)
  next
    case (Some x)
    with p have "pp_size x = Fin (of_int \<bar>a\<bar>)" by (simp add: whole_position_def)
    moreover have "\<bar>min b \<bar>a\<bar>\<bar> = min b \<bar>a\<bar>" using b by simp
    ultimately show ?thesis
      using Some b ord closing_whole [of a x "po_side ord"] p
      by (simp add: sizeFor_def pos_in_def [symmetric] change_by_def way bb zero_Fin whole_min del: of_int_abs of_int_min)
  qed
qed

lemma shown_added:
  "shown_as (Some (added_position price fee sz x)) =
   \<lparr>st_size = (case pp_side x of Long \<Rightarrow> pp_size x + sz | Short \<Rightarrow> - (pp_size x + sz)),
    st_entry = Some ((pp_entry x * pp_size x + price * sz) / (pp_size x + sz))\<rparr>"
  by (simp add: shown_as_def net_of_def added_position_def Let_def split: position_side.split)

lemma fill_or_cancel_whole:
  fixes s :: paper_state
  assumes inv: "distinct (map pp_market (ps_positions s))" and p: "whole_position a (pos_in (m_id mk) s)"
    and a: "\<bar>a\<bar> \<le> 2 ^ 52" and b: "0 < b" "b \<le> 2 ^ 52" and ord: "po_market ord = m_id mk" "po_size ord = Fin (of_int b)"
  shows "let left = entry_after a (case pos_in (m_id mk) s of Some x \<Rightarrow> pp_entry x | None \<Rightarrow> price) (way (po_side ord))
        (change_by (po_reduceOnly ord) a (po_side ord) b) price;
      after = shown_as (pos_in (m_id mk) (fill_or_cancel s ord mk price taker fees now))
    in st_size after = st_size left \<and> (\<not> po_reduceOnly ord \<or> a * way (po_side ord) \<le> 0 \<longrightarrow> after = left)"
proof -
  define d where "d = way (po_side ord)"
  define c where "c = change_by (po_reduceOnly ord) a (po_side ord) b"
  define n where "n = \<bar>c\<bar>"
  define s' where "s' = fill_or_cancel s ord mk price taker fees now"
  have d: "d = 1 \<or> d = - 1" by (simp add: d_def way_def)
  have c: "c = d * n" "0 \<le> n" "n \<le> 2 ^ 52" using b d
    by (auto simp: n_def c_def change_by_def d_def [symmetric] abs_mult)
  have sz: "sizeFor s ord = Fin (of_int n)" using sizeFor_whole [OF p ord b(1)] by (simp add: n_def c_def)
  show ?thesis
  proof (cases "n = 0")
    case True
    then have "s' = pushHistory s ord Cancelled 0" by (simp add: s'_def fill_or_cancel_def sz zero_Fin)
    moreover have c0: "c = 0" using True by (simp add: n_def)
    moreover have "po_reduceOnly ord"
    proof (rule ccontr)
      assume "\<not> po_reduceOnly ord"
      with c0 b(1) d show False by (auto simp: c_def change_by_def d_def [symmetric])
    qed
    moreover have "a = 0 \<or> 0 < a * d"
      using True b(1) d \<open>po_reduceOnly ord\<close> by (auto simp: n_def c_def change_by_def d_def [symmetric] split: if_splits)
    moreover have "a = 0 \<longleftrightarrow> pos_in (m_id mk) s = None" using p by (auto simp: whole_position_def split: option.splits if_splits)
    ultimately show ?thesis
      unfolding Let_def c_def [symmetric] d_def [symmetric] s'_def [symmetric]
      using whole_net [OF p] by (auto simp: entry_after_def shown_as_def)
  next
    case False
    then have n: "0 < n" using c(2) by simp
    then have s': "pos_in (m_id mk) s' = pos_in (m_id mk) (fill s ord mk price taker fees now (Fin (of_int n)))"
      by (simp add: s'_def fill_or_cancel_def sz zero_Fin Let_def)
    have "shown_as (pos_in (m_id mk) s') =
        entry_after a (case pos_in (m_id mk) s of Some x \<Rightarrow> pp_entry x | None \<Rightarrow> price) d c price"
    proof (cases "pos_in (m_id mk) s")
      case None
      then have "a = 0" using p by (simp add: whole_position_def)
      then show ?thesis using n d c
        unfolding s' fill_opens [OF None] shown_as_def entry_after_def
        by (auto simp: net_of_def opened_position_def d_def way_def None split: if_splits)
    next
      case (Some x)
      have xs: "pp_size x = Fin (of_int \<bar>a\<bar>)" and x: "if pp_side x = Long then 0 < a else a < 0"
        using p unfolding Some whole_position_def by simp_all
      have sides: "(pp_side x = Long) = (po_side ord = Buy) \<longleftrightarrow> 0 < a * d"
        using x d by (auto simp: d_def way_def split: if_splits)
      show ?thesis
      proof (cases "0 < a * d")
        case True
        let ?fee = "Fin (of_int n) * price * (if taker then fee_taker fees else fee_maker fees)"
        have size: "pp_size x + Fin (of_int n) = Fin (of_int (\<bar>a\<bar> + n))"
          unfolding xs by (rule whole_add) (use a c in simp_all)
        have s1: "a + c \<noteq> 0" "sgn (a + c) = sgn a" "sgn d = sgn a" "\<bar>a + c\<bar> = \<bar>a\<bar> + n" "\<bar>c\<bar> = n" "a \<noteq> 0"
          using True d n c(1) by (auto simp: sgn_if)
        have "shown_as (pos_in (m_id mk) s') =
            \<lparr>st_size = (case pp_side x of Long \<Rightarrow> Fin (of_int (\<bar>a\<bar> + n)) | Short \<Rightarrow> - Fin (of_int (\<bar>a\<bar> + n))),
             st_entry = Some ((pp_entry x * pp_size x + price * Fin (of_int n)) / Fin (of_int (\<bar>a\<bar> + n)))\<rparr>"
          using fill_adds [OF Some, of ord price taker fees now "Fin (of_int n)"] sides True
          by (simp only: s' shown_added size)
        also have "(case pp_side x of Long \<Rightarrow> Fin (of_int (\<bar>a\<bar> + n)) | Short \<Rightarrow> - Fin (of_int (\<bar>a\<bar> + n))) = Fin (of_int (a + c))"
          using True d c(1) x by (cases "pp_side x") auto
        also have "pp_entry x * pp_size x + price * Fin (of_int n) =
            Fin (of_int \<bar>a\<bar>) * pp_entry x + Fin (of_int \<bar>c\<bar>) * price"
          unfolding xs s1(5) by (simp only: js_mult_commute [of "pp_entry x"] js_mult_commute [of price])
        finally show ?thesis using s1 by (simp add: entry_after_def Some del: of_int_abs of_int_add)
      next
        case False
        have ad: "a * d < 0" using False x d by (auto split: if_splits)
        have closes: "(pp_side x = Long) \<noteq> (po_side ord = Buy)" using sides False by simp
        let ?m = "min n \<bar>a\<bar>"
        have m: "0 \<le> ?m" "?m \<le> 2 ^ 52" "\<bar>\<bar>a\<bar>\<bar> \<le> 2 ^ 52" "\<bar>?m\<bar> \<le> 2 ^ 52" "\<bar>n\<bar> \<le> 2 ^ 52" using a c(2,3) by auto
        have "outline (pos_in (m_id mk) s') =
            (if \<bar>a\<bar> \<le> ?m
             then (if 0 < n - ?m then Some (if po_side ord = Buy then Long else Short, Fin (of_int (n - ?m)), price) else None)
             else Some (pp_side x, Fin (of_int (\<bar>a\<bar> - ?m)), pp_entry x))"
          using fill_closes [OF Some closes inv, of price taker fees now "Fin (of_int n)"]
          unfolding outline_def s' xs whole_min Let_def whole_near [OF m(3,1,2)] whole_diff [OF m(5,4)]
            whole_diff [OF m(3,4)] whole_over .
        then show ?thesis
          unfolding shown_outline using ad d c(1) n x
          by (auto simp: entry_after_def Some sgn_if d_def way_def min_def split: if_splits position_side.splits)
      qed
    qed
    then show ?thesis by (simp add: s'_def [symmetric] c_def [symmetric] d_def [symmetric] Let_def)
  qed
qed

text \<open>C10: The ticket's preview is what the fill does. For whole sizes, whatever the account holds in the market and
  whichever way the order goes (opening, adding, reducing, closing, turning round, or only reducing), the size the
  ticket shows after the order is the signed size the account has once it is filled or cancelled, and the entry price
  shown is the position's, to the last bit; only for a reduce-only order that would add, and so does nothing, the ticket
  works the entry out again.\<close>

theorem preview_matches_fill:
  assumes "paper_inv s" "whole_position a (pos_in (m_id mk) s)" "from_state pos = shown_as (pos_in (m_id mk) s)"
    "\<bar>a\<bar> \<le> 2 ^ 52" "0 < b" "b \<le> 2 ^ 52" "po_market ord = m_id mk" "po_size ord = Fin (of_int b)"
  shows "let shown = snd (positionAfter pos (po_side ord) (po_size ord) price (po_reduceOnly ord));
             left = shown_as (pos_in (m_id mk) (fill_or_cancel s ord mk price taker fees now))
         in st_size shown = st_size left \<and> (po_reduceOnly ord \<and> 0 < a * way (po_side ord) \<or> shown = left)"
proof -
  have "distinct (map pp_market (ps_positions s))" using assms(1) by (simp add: paper_inv_def)
  from fill_or_cancel_whole [OF this assms(2,4-8), of price taker fees now]
    positionAfter_whole [OF assms(3,2,4-6), of "po_side ord" price "po_reduceOnly ord"]
  show ?thesis unfolding Let_def assms(8) by (metis linorder_not_less)
qed

theorem preview_matches_fill_witness:
  "snd (positionAfter (Some (Long, ''2'', ''100'')) Buy (Fin 1) (Fin 100) False) =
   shown_as (pos_in ''BTC'' (fill_or_cancel btc_account (btc_rest\<lparr>po_size := Fin (of_int 1)\<rparr>) btc (Fin 100) True no_fees (Fin 5)))"
proof -
  have p: "whole_position 2 (pos_in (m_id btc) btc_account)" by (simp add: sample_simps pos_in_def whole_position_def)
  have h: "from_state (Some (Long, ''2'', ''100'')) = shown_as (pos_in (m_id btc) btc_account)" by code_simp
  from preview_matches_fill [OF btc_account_inv p h, of 1 "btc_rest\<lparr>po_size := Fin (of_int 1)\<rparr>" "Fin 100" True no_fees "Fin 5"]
  show ?thesis by (simp add: btc_rest_def btc_def Let_def way_def)
qed

end
