(* ===== verification/Tabs.thy ===== *)
theory Tabs
  imports Interfaces Js_Value
begin

text \<open>
  The header's tabs and the trail of pages: \<^verbatim>\<open>apps/desktop/src/lib/pages.ts\<close>,
  \<^verbatim>\<open>tabs.ts\<close> and \<^verbatim>\<open>pageHistory.ts\<close>. A tab's id and a place in a list
  are whole numbers that stay far below \<open>2^53\<close>, so they are integers here.
\<close>

section \<open>Pages\<close>

datatype page =
    TradePage | ChartsPage | MapsPage | ScreenerPage | PortfolioPage | RulesPage | VenuesPage
  | NewsPage | AiPage | PlanPage | SettingsPage

definition PAGES :: "(string \<times> page) list" where
  "PAGES = [(''trade'', TradePage), (''charts'', ChartsPage), (''maps'', MapsPage),
     (''screener'', ScreenerPage), (''portfolio'', PortfolioPage), (''rules'', RulesPage),
     (''venues'', VenuesPage), (''news'', NewsPage), (''ai'', AiPage), (''plan'', PlanPage),
     (''settings'', SettingsPage)]"

definition MENU_PAGES :: "page list" where
  "MENU_PAGES = filter (\<lambda>p. p \<noteq> SettingsPage \<and> p \<noteq> PortfolioPage) (map snd PAGES)"

definition SHORTCUT_PAGES :: "page list" where
  "SHORTCUT_PAGES = filter (\<lambda>p. p \<noteq> SettingsPage) (map snd PAGES)"

definition page_of :: "json option \<Rightarrow> page option" where
  "page_of v = (case as_str v of Some s \<Rightarrow> obj_get PAGES s | None \<Rightarrow> None)"

definition page_str :: "page \<Rightarrow> string" where
  "page_str p = (case List.find (\<lambda>kv. snd kv = p) PAGES of Some kv \<Rightarrow> fst kv | None \<Rightarrow> [])"

lemma page_of_str [simp]: "page_of (Some (JStr (page_str p))) = Some p"
  by (cases p) (simp_all add: page_of_def page_str_def PAGES_def as_str_def)

section \<open>Tabs\<close>

definition MAX_TABS :: nat where
  "MAX_TABS = 3"

record tab =
  tab_id :: int
  tab_page :: page

record tabs_state =
  tbs :: "tab list"
  active :: int

definition initialTabs :: "page \<Rightarrow> tabs_state" where
  "initialTabs p = \<lparr>tbs = [\<lparr>tab_id = 1, tab_page = p\<rparr>], active = 1\<rparr>"

definition active_tab :: "tabs_state \<Rightarrow> tab option" where
  "active_tab s = List.find (\<lambda>t. tab_id t = active s) (tbs s)"

definition activePage :: "tabs_state \<Rightarrow> page" where
  "activePage s =
     (case active_tab s of Some t \<Rightarrow> tab_page t
      | None \<Rightarrow> (case tbs s of t # _ \<Rightarrow> tab_page t | [] \<Rightarrow> TradePage))"

definition withPage :: "tabs_state \<Rightarrow> page \<Rightarrow> tabs_state" where
  "withPage s p =
     (if activePage s = p then s
      else s\<lparr>tbs := map (\<lambda>t. if tab_id t = active s then t\<lparr>tab_page := p\<rparr> else t) (tbs s)\<rparr>)"

definition selected :: "tabs_state \<Rightarrow> int \<Rightarrow> tabs_state" where
  "selected s i =
     (if active s \<noteq> i \<and> list_ex (\<lambda>t. tab_id t = i) (tbs s) then s\<lparr>active := i\<rparr> else s)"

definition opened :: "tabs_state \<Rightarrow> tabs_state" where
  "opened s =
     (if MAX_TABS \<le> length (tbs s) then s
      else let p = (case List.find (\<lambda>p. p \<notin> tab_page ` set (tbs s)) MENU_PAGES of
                      Some p \<Rightarrow> p | None \<Rightarrow> TradePage);
               i = foldl max 0 (map tab_id (tbs s)) + 1
           in \<lparr>tbs = tbs s @ [\<lparr>tab_id = i, tab_page = p\<rparr>], active = i\<rparr>)"

definition closed :: "tabs_state \<Rightarrow> int \<Rightarrow> tabs_state" where
  "closed s i =
     (case find_index (\<lambda>t. tab_id t = i) (tbs s) of
        None \<Rightarrow> s
      | Some place \<Rightarrow>
          if length (tbs s) = 1 then s
          else let ts = filter (\<lambda>t. tab_id t \<noteq> i) (tbs s);
                   next' = nth_opt ts (min place (length ts - 1))
               in \<lparr>tbs = ts, active = (case next' of Some t \<Rightarrow> if active s = i then tab_id t else active s
                                                    | None \<Rightarrow> active s)\<rparr>)"

text \<open>
  \<open>(at + by + length) % length\<close>: with no tab on screen \<open>at\<close> is -1. The sum is never
  negative for a list with at least two tabs, and for one tab only -1 - 1 + 1 is, whose
  remainder is then -0 or 0.
\<close>

definition stepped :: "tabs_state \<Rightarrow> int \<Rightarrow> tabs_state" where
  "stepped s by =
     (let n = int (length (tbs s));
          place = (case find_index (\<lambda>t. tab_id t = active s) (tbs s) of Some k \<Rightarrow> int k | None \<Rightarrow> - 1)
      in if n = 0 then s
         else let j = (place + by + n) mod n
              in case nth_opt (tbs s) (nat j) of Some t \<Rightarrow> selected s (tab_id t) | None \<Rightarrow> s)"

section \<open>Saved tabs\<close>

text \<open>The tabs that read, numbered by their place in the saved list, from 1.\<close>

definition saved_tabs :: "json list \<Rightarrow> tab list" where
  "saved_tabs xs =
     List.map_filter (\<lambda>(i, v). map_option (\<lambda>p. \<lparr>tab_id = int i + 1, tab_page = p\<rparr>)
                                 (page_of (field (obj_or_empty v) ''page'')))
       (enumerate 0 xs)"

text \<open>\<open>tabs[index]\<close> for a number that need not be a whole one or in range.\<close>

definition nth_num :: "'a list \<Rightarrow> jsnum \<Rightarrow> 'a option" where
  "nth_num xs n = (case n of Fin q \<Rightarrow> if 0 \<le> q \<and> q = of_int \<lfloor>q\<rfloor> then nth_opt xs (nat \<lfloor>q\<rfloor>) else None | _ \<Rightarrow> None)"

definition restoreTabs :: "json \<Rightarrow> page \<Rightarrow> tabs_state" where
  "restoreTabs saved fallback =
     (let raw = obj_or_empty saved;
          ts = take MAX_TABS (saved_tabs (arr_or_nil (field raw ''tabs'')))
      in if ts = [] then initialTabs fallback
         else let index = (case as_num (field raw ''activeIndex'') of Some n \<Rightarrow> n | None \<Rightarrow> 0)
              in \<lparr>tbs = ts, active = tab_id (case nth_num ts index of Some t \<Rightarrow> t | None \<Rightarrow> hd ts)\<rparr>)"

text \<open>What is kept of the tabs. \<open>loadTabs\<close> reads it back; text that does not parse is \<open>None\<close>.\<close>

definition saveTabs :: "tabs_state \<Rightarrow> json" where
  "saveTabs s =
     JObj [(''tabs'', JArr (map (\<lambda>t. JObj [(''page'', JStr (page_str (tab_page t)))]) (tbs s))),
           (''activeIndex'', JNum (Fin (of_nat (case find_index (\<lambda>t. tab_id t = active s) (tbs s) of
                                                  Some k \<Rightarrow> k | None \<Rightarrow> 0))))]"

definition loadTabs :: "json option \<Rightarrow> string option \<Rightarrow> tabs_state" where
  "loadTabs stored old =
     (case stored of None \<Rightarrow> initialTabs TradePage
      | Some v \<Rightarrow> restoreTabs v (case page_of (map_option JStr old) of Some p \<Rightarrow> p | None \<Rightarrow> TradePage))"

section \<open>The trail of pages\<close>

definition MAX_TRAIL :: nat where
  "MAX_TRAIL = 50"

record page_history =
  entries :: "page list"
  at_index :: int

definition startHistory :: "page \<Rightarrow> page_history" where
  "startHistory p = \<lparr>entries = [p], at_index = 0\<rparr>"

definition entry_at :: "page_history \<Rightarrow> int \<Rightarrow> page option" where
  "entry_at h i = (if 0 \<le> i then nth_opt (entries h) (nat i) else None)"

definition visited :: "page_history \<Rightarrow> page \<Rightarrow> page_history" where
  "visited h p =
     (if entry_at h (at_index h) = Some p then h
      else let es = take_last MAX_TRAIL (take (nat (at_index h + 1)) (entries h) @ [p])
           in \<lparr>entries = es, at_index = int (length es) - 1\<rparr>)"

definition stepTo :: "page_history \<Rightarrow> int \<Rightarrow> page option" where
  "stepTo h by = entry_at h (at_index h + by)"

definition steppedHistory :: "page_history \<Rightarrow> int \<Rightarrow> page_history" where
  "steppedHistory h by = (if stepTo h by = None then h else h\<lparr>at_index := at_index h + by\<rparr>)"

section \<open>What the tabs keep\<close>

definition tabs_ok :: "tabs_state \<Rightarrow> bool" where
  "tabs_ok s = (tbs s \<noteq> [] \<and> length (tbs s) \<le> MAX_TABS \<and> distinct (map tab_id (tbs s)) \<and>
     active s \<in> tab_id ` set (tbs s))"

datatype tabs_event = ShowPage page | SelectTab int | OpenTab | CloseTab int | StepTabs bool

fun tabs_step :: "tabs_event \<Rightarrow> tabs_state \<Rightarrow> tabs_state" where
  "tabs_step (ShowPage p) s = withPage s p"
| "tabs_step (SelectTab i) s = selected s i"
| "tabs_step OpenTab s = opened s"
| "tabs_step (CloseTab i) s = closed s i"
| "tabs_step (StepTabs forward) s = stepped s (if forward then 1 else - 1)"

definition tabs_start :: "tabs_state \<Rightarrow> bool" where
  "tabs_start s = (\<exists>stored old. s = loadTabs stored old)"

lemma initialTabs_ok: "tabs_ok (initialTabs p)"
  by (simp add: tabs_ok_def initialTabs_def MAX_TABS_def)

lemma saved_tabs_Cons_from:
  "List.map_filter (\<lambda>(i, v). map_option (\<lambda>p. \<lparr>tab_id = int i + 1, tab_page = p\<rparr>) (f v)) (enumerate n xs) = ts \<Longrightarrow>
   distinct (map tab_id ts) \<and> (\<forall>t \<in> set ts. int n < tab_id t)"
proof (induction xs arbitrary: n ts)
  case (Cons x xs)
  let ?rest = "List.map_filter (\<lambda>(i, v). map_option (\<lambda>p. \<lparr>tab_id = int i + 1, tab_page = p\<rparr>) (f v)) (enumerate (Suc n) xs)"
  have "distinct (map tab_id ?rest) \<and> (\<forall>t \<in> set ?rest. int (Suc n) < tab_id t)" using Cons.IH by blast
  with Cons.prems show ?case by (cases "f x") (force simp: List.map_filter_simps)+
qed (simp add: List.map_filter_simps)

lemma saved_tabs_ids: "distinct (map tab_id (saved_tabs xs))"
  unfolding saved_tabs_def
  using saved_tabs_Cons_from [of "\<lambda>v. page_of (field (obj_or_empty v) ''page'')" 0 xs] by simp

lemma nth_num_mem: "nth_num xs n = Some x \<Longrightarrow> x \<in> set xs"
  by (auto simp: nth_num_def nth_opt_def split: jsnum.splits if_splits)

lemma restoreTabs_eq:
  "take MAX_TABS (saved_tabs (arr_or_nil (field (obj_or_empty v) ''tabs''))) = ts \<Longrightarrow>
   restoreTabs v p = (if ts = [] then initialTabs p else
      \<lparr>tbs = ts, active = tab_id (case nth_num ts (case as_num (field (obj_or_empty v) ''activeIndex'') of
         Some n \<Rightarrow> n | None \<Rightarrow> 0) of Some t \<Rightarrow> t | None \<Rightarrow> hd ts)\<rparr>)"
  by (simp only: restoreTabs_def Let_def)

lemma restoreTabs_ok: "tabs_ok (restoreTabs v p)"
proof -
  define ts where "ts = take MAX_TABS (saved_tabs (arr_or_nil (field (obj_or_empty v) ''tabs'')))"
  have d: "distinct (map tab_id ts)" "length ts \<le> MAX_TABS" using saved_tabs_ids by (simp_all add: ts_def take_map [symmetric])
  note r = restoreTabs_eq [OF ts_def [symmetric], of p]
  show ?thesis
  proof (cases "ts = []")
    case True
    then show ?thesis by (simp add: r initialTabs_ok)
  next
    case False
    have "(case nth_num ts n of Some t \<Rightarrow> t | None \<Rightarrow> hd ts) \<in> set ts" for n
      using False by (auto split: option.split dest: nth_num_mem)
    with False d show ?thesis by (simp add: r tabs_ok_def)
  qed
qed

lemma loadTabs_ok: "tabs_ok (loadTabs stored old)"
  by (auto simp: loadTabs_def initialTabs_ok restoreTabs_ok split: option.split)

lemma withPage_ids: "map tab_id (tbs (withPage s p)) = map tab_id (tbs s) \<and> active (withPage s p) = active s"
  by (simp add: withPage_def)

lemma withPage_ok: "tabs_ok s \<Longrightarrow> tabs_ok (withPage s p)"
proof -
  note ids = withPage_ids [of s p]
  then have "tab_id ` set (tbs (withPage s p)) = tab_id ` set (tbs s)" "length (tbs (withPage s p)) = length (tbs s)"
    by (metis list.set_map, metis length_map)
  with ids show "tabs_ok s \<Longrightarrow> ?thesis" by (auto simp: tabs_ok_def)
qed

lemma selected_ok: "tabs_ok s \<Longrightarrow> tabs_ok (selected s i)"
  by (auto simp: tabs_ok_def selected_def list_ex_iff)

lemma foldl_max_start: "(a::int) \<le> foldl max a xs"
proof (induction xs arbitrary: a)
  case (Cons x xs)
  show ?case using Cons [of "max a x"] by simp
qed simp

lemma foldl_max_ge: "(x::int) \<in> set xs \<Longrightarrow> x \<le> foldl max a xs"
proof (induction xs arbitrary: a)
  case (Cons y xs)
  show ?case using Cons.IH [of "max a y"] Cons.prems foldl_max_start [of "max a y" xs] by auto
qed simp

lemma opened_ok: "tabs_ok s \<Longrightarrow> tabs_ok (opened s)"
proof -
  assume ok: "tabs_ok s"
  have "foldl max 0 (map tab_id (tbs s)) + 1 \<notin> tab_id ` set (tbs s)"
    using foldl_max_ge [of _ "map tab_id (tbs s)" 0] by (fastforce simp: image_iff)
  with ok show ?thesis by (auto simp: tabs_ok_def opened_def Let_def)
qed

lemma stepped_ok: "tabs_ok s \<Longrightarrow> tabs_ok (stepped s by)"
  by (auto simp: stepped_def Let_def selected_ok split: option.split)

lemma closed_ok: "tabs_ok s \<Longrightarrow> tabs_ok (closed s i)"
proof (cases "find_index (\<lambda>t. tab_id t = i) (tbs s)")
  case (Some k)
  assume ok: "tabs_ok s"
  let ?ts = "filter (\<lambda>t. tab_id t \<noteq> i) (tbs s)"
  show ?thesis
  proof (cases "length (tbs s) = 1")
    case False
    have "\<exists>t \<in> set (tbs s). tab_id t \<noteq> i"
    proof (rule ccontr)
      assume "\<not> ?thesis"
      then have "\<forall>t \<in> set (tbs s). tab_id t = i" by blast
      with False ok show False by (cases "tbs s"; cases "tl (tbs s)") (auto simp: tabs_ok_def)
    qed
    then have ne: "?ts \<noteq> []" by (auto simp: filter_empty_conv)
    then have "min k (length ?ts - 1) < length ?ts" by (intro min.strict_coboundedI2) simp
    from nth_opt_in [OF this] obtain t where t: "nth_opt ?ts (min k (length ?ts - 1)) = Some t" "t \<in> set ?ts"
      by blast
    have "length ?ts \<le> MAX_TABS" using ok le_trans [OF length_filter_le] by (auto simp: tabs_ok_def)
    moreover have "distinct (map tab_id ?ts)" using ok by (simp add: tabs_ok_def distinct_map_filter)
    ultimately show ?thesis using Some False ne t ok by (auto simp: closed_def Let_def tabs_ok_def)
  qed (use ok Some in \<open>simp add: closed_def\<close>)
qed (simp add: closed_def)

interpretation tabs: machine tabs_step tabs_start tabs_ok
proof
  show "tabs_start s \<Longrightarrow> tabs_ok s" for s by (auto simp: tabs_start_def loadTabs_ok)
  show "tabs_ok s \<Longrightarrow> tabs_ok (tabs_step e s)" for s e
    by (cases e) (simp_all add: withPage_ok selected_ok opened_ok closed_ok stepped_ok)
qed

text \<open>C12: Whatever was stored and however the tabs are used from there, one to three tabs are open,
  their ids are all different, and the tab on screen is one of them.\<close>

theorem tabs_invariant: "tabs_ok (fold tabs_step es (loadTabs stored old))"
  by (rule tabs.reachable_inv) (auto simp: tabs_start_def)

section \<open>Tabs survive a restart\<close>

definition renumbered :: "tab list \<Rightarrow> tab list" where
  "renumbered ts = map (\<lambda>(i, t). \<lparr>tab_id = int i + 1, tab_page = tab_page t\<rparr>) (enumerate 0 ts)"

lemma saved_tabs_saved:
  "saved_tabs (map (\<lambda>t. JObj [(''page'', JStr (page_str (tab_page t)))]) ts) = renumbered ts"
proof -
  have "List.map_filter (\<lambda>(i, v). map_option (\<lambda>p. \<lparr>tab_id = int i + 1, tab_page = p\<rparr>)
          (page_of (field (obj_or_empty v) ''page'')))
        (enumerate n (map (\<lambda>t. JObj [(''page'', JStr (page_str (tab_page t)))]) ts)) =
      map (\<lambda>(i, t). \<lparr>tab_id = int i + 1, tab_page = tab_page t\<rparr>) (enumerate n ts)" for n
    by (induction ts arbitrary: n) (simp_all add: List.map_filter_simps obj_or_empty_def)
  then show ?thesis by (simp add: saved_tabs_def renumbered_def)
qed

lemma renumbered_simps [simp]:
  "length (renumbered ts) = length ts" "map tab_page (renumbered ts) = map tab_page ts"
  "i < length ts \<Longrightarrow> tab_id (renumbered ts ! i) = int i + 1"
  "i < length ts \<Longrightarrow> tab_page (renumbered ts ! i) = tab_page (ts ! i)"
  by (simp_all add: renumbered_def nth_enumerate_eq list_eq_iff_nth_eq)

lemma find_renumbered: "k < length ts \<Longrightarrow> find_index (\<lambda>t. tab_id t = int k + 1) (renumbered ts) = Some k"
proof -
  have "k < length ts \<Longrightarrow> find_index (\<lambda>t. tab_id t = int (n + k) + 1)
      (map (\<lambda>(i, t). \<lparr>tab_id = int i + 1, tab_page = tab_page t\<rparr>) (enumerate n ts)) = Some k" for n
  proof (induction ts arbitrary: n k)
    case (Cons t ts)
    then show ?case by (cases k) (auto simp: Cons.IH [of _ "Suc n", simplified])
  qed simp
  from this [of 0] show "k < length ts \<Longrightarrow> ?thesis" by (simp add: renumbered_def)
qed

lemma nth_num_of_nat: "nth_num xs (Fin (of_nat k)) = nth_opt xs k"
  by (simp add: nth_num_def)

lemma restore_saved:
  assumes "tabs_ok s" "find_index (\<lambda>t. tab_id t = active s) (tbs s) = Some k"
  shows "restoreTabs (saveTabs s) p = \<lparr>tbs = renumbered (tbs s), active = int k + 1\<rparr>"
proof -
  have k: "k < length (tbs s)" using find_index_Some [OF assms(2)] by simp
  then have ne: "renumbered (tbs s) \<noteq> []" by (metis length_0_conv less_nat_zero_code renumbered_simps(1))
  have t: "take MAX_TABS (renumbered (tbs s)) = renumbered (tbs s)" using assms(1) by (simp add: tabs_ok_def)
  have "restoreTabs (saveTabs s) p = \<lparr>tbs = renumbered (tbs s),
      active = tab_id (case nth_opt (renumbered (tbs s)) k of Some t \<Rightarrow> t | None \<Rightarrow> hd (renumbered (tbs s)))\<rparr>"
    using assms(2) ne
    by (subst restoreTabs_eq [where ts = "renumbered (tbs s)"])
      (simp_all add: saveTabs_def obj_or_empty_def saved_tabs_saved t nth_num_of_nat)
  with k show ?thesis by (simp add: nth_opt_def)
qed

lemma active_found: "tabs_ok s \<Longrightarrow> \<exists>k. find_index (\<lambda>t. tab_id t = active s) (tbs s) = Some k"
  by (cases "find_index (\<lambda>t. tab_id t = active s) (tbs s)") (auto simp: tabs_ok_def find_index_None)

text \<open>Tabs survive a restart: what is saved reads back as the same pages in the same order with
  the same one on screen, whatever the fallback page; and saving again writes the same.\<close>

theorem tabs_round_trip:
  assumes "tabs_ok s"
  shows "map tab_page (tbs (loadTabs (Some (saveTabs s)) old)) = map tab_page (tbs s) \<and>
    activePage (loadTabs (Some (saveTabs s)) old) = activePage s \<and>
    saveTabs (loadTabs (Some (saveTabs s)) old) = saveTabs s"
proof -
  obtain k where k: "find_index (\<lambda>t. tab_id t = active s) (tbs s) = Some k" using active_found [OF assms] by blast
  note f = find_index_Some [OF k]
  let ?r = "\<lparr>tbs = renumbered (tbs s), active = int k + 1\<rparr>"
  have r: "loadTabs (Some (saveTabs s)) old = ?r" using restore_saved [OF assms k] by (simp add: loadTabs_def)
  have g: "find_index (\<lambda>t. tab_id t = int k + 1) (renumbered (tbs s)) = Some k" using f by (intro find_renumbered) simp
  have "activePage ?r = activePage s"
    using f find_index_Some [OF g] by (simp add: activePage_def active_tab_def)
  moreover have "map (\<lambda>t. JObj [(''page'', JStr (page_str (tab_page t)))]) (renumbered ts) =
      map (\<lambda>t. JObj [(''page'', JStr (page_str (tab_page t)))]) ts" for ts
    by (simp add: list_eq_iff_nth_eq)
  ultimately show ?thesis unfolding r using k g by (simp add: saveTabs_def)
qed

lemma tabs_round_trip_witness:
  "map tab_page (tbs (loadTabs (Some (saveTabs (opened (initialTabs NewsPage)))) None)) = [NewsPage, TradePage]"
proof -
  have "tabs_ok (opened (initialTabs NewsPage))" by (intro opened_ok initialTabs_ok)
  from tabs_round_trip [OF this, of None] show ?thesis
    by (simp add: opened_def initialTabs_def MAX_TABS_def MENU_PAGES_def PAGES_def)
qed

section \<open>Back and forward\<close>

definition history_ok :: "page_history \<Rightarrow> bool" where
  "history_ok h = (0 \<le> at_index h \<and> at_index h < int (length (entries h)) \<and> length (entries h) \<le> MAX_TRAIL)"

lemma startHistory_ok: "history_ok (startHistory p)"
  by (simp add: history_ok_def startHistory_def MAX_TRAIL_def)

lemma visited_ok: "history_ok h \<Longrightarrow> history_ok (visited h p)"
  by (auto simp: history_ok_def visited_def Let_def MAX_TRAIL_def)

lemma steppedHistory_ok: "history_ok h \<Longrightarrow> history_ok (steppedHistory h by)"
  by (auto simp: history_ok_def steppedHistory_def stepTo_def entry_at_def nth_opt_def split: if_splits)

datatype trail_event = Visit page | Back | Forward

fun trail_step :: "trail_event \<Rightarrow> page_history \<Rightarrow> page_history" where
  "trail_step (Visit p) h = visited h p"
| "trail_step Back h = steppedHistory h (- 1)"
| "trail_step Forward h = steppedHistory h 1"

interpretation trail: machine trail_step "\<lambda>h. \<exists>p. h = startHistory p" history_ok
proof
  show "\<exists>p. h = startHistory p \<Longrightarrow> history_ok h" for h using startHistory_ok by blast
  show "history_ok h \<Longrightarrow> history_ok (trail_step e h)" for h e
    by (cases e) (simp_all add: visited_ok steppedHistory_ok)
qed

text \<open>The visited page is last; the page it was opened from is right before it.\<close>

lemma visited_entries:
  assumes "history_ok h" "entry_at h (at_index h) \<noteq> Some p"
  shows "\<exists>before. entries (visited h p) = before @ [the (entry_at h (at_index h)), p] \<and>
    at_index (visited h p) = int (length before) + 1"
proof -
  let ?i = "nat (at_index h)"
  have i: "?i < length (entries h)" "nat (at_index h + 1) = Suc ?i" using assms(1) by (auto simp: history_ok_def)
  have e: "the (entry_at h (at_index h)) = entries h ! ?i"
    using assms(1) i by (simp add: entry_at_def nth_opt_def history_ok_def)
  have v: "entries (visited h p) = take_last MAX_TRAIL (take ?i (entries h) @ [entries h ! ?i, p])"
    "at_index (visited h p) = int (length (entries (visited h p))) - 1"
    using assms(2) i by (simp_all add: visited_def Let_def take_Suc_conv_app_nth)
  define d where "d = Suc (Suc ?i) - MAX_TRAIL"
  have "d \<le> ?i" by (simp add: d_def MAX_TRAIL_def)
  then have "entries (visited h p) = drop d (take ?i (entries h)) @ [entries h ! ?i, p]"
    using i by (simp add: v(1) take_last_def d_def min_def)
  then show ?thesis using v(2) e by auto
qed

text \<open>C13: From wherever the trail stands after any use of it: opening a page and going back shows the
  page that was on screen, going forward again shows the opened one, and the trail never
  reaches back more than 50 pages.\<close>

theorem back_undoes_visit:
  "let h = fold trail_step es (startHistory start); h' = visited h p
   in length (entries h') \<le> MAX_TRAIL \<and>
      (if entry_at h (at_index h) = Some p then h' = h
       else stepTo h' (- 1) = entry_at h (at_index h) \<and> steppedHistory (steppedHistory h' (- 1)) 1 = h')"
proof -
  let ?h = "fold trail_step es (startHistory start)"
  have ok: "history_ok ?h" using trail.reachable_inv [of "startHistory start" es] by blast
  show ?thesis
  proof (cases "entry_at ?h (at_index ?h) = Some p")
    case True
    with ok show ?thesis by (simp add: visited_def history_ok_def Let_def)
  next
    case False
    obtain before where b: "entries (visited ?h p) = before @ [the (entry_at ?h (at_index ?h)), p]"
      "at_index (visited ?h p) = int (length before) + 1"
      using visited_entries [OF ok False] by blast
    have now: "entry_at ?h (at_index ?h) = Some (the (entry_at ?h (at_index ?h)))"
      using ok by (auto simp: entry_at_def nth_opt_def history_ok_def)
    have undo: "stepTo (visited ?h p) (- 1) = entry_at ?h (at_index ?h)"
      by (subst now) (simp add: stepTo_def entry_at_def nth_opt_def b)
    then have "stepTo (visited ?h p) (- 1) \<noteq> None" by (subst (asm) now) simp
    then have "steppedHistory (visited ?h p) (- 1) = (visited ?h p)\<lparr>at_index := int (length before)\<rparr>"
      by (simp add: steppedHistory_def b)
    then have "steppedHistory (steppedHistory (visited ?h p) (- 1)) 1 = visited ?h p"
      using b by (simp add: steppedHistory_def stepTo_def entry_at_def nth_opt_def nat_add_distrib)
    with undo False visited_ok [OF ok, of p] show ?thesis by (simp add: Let_def history_ok_def)
  qed
qed

end
