(* ===== verification/Indicators.thy ===== *)
theory Indicators
  imports Prelude Domain
begin

text \<open>
  The chart's indicators, \<^verbatim>\<open>packages/ui/src/lib/indicators.ts\<close>, and the candles
  as drawn and the countdown of \<^verbatim>\<open>chart.ts\<close>. A series has a value per input point and
  none until there is enough history. Bollinger Bands are left out: \<open>Math.sqrt\<close> is not in
  the number model.
\<close>

type_synonym series = "jsnum option list"

section \<open>Chart settings\<close>

datatype chart_type = Bars | Candles | Hollow | HeikinAshi | LineChart | AreaChart | Baseline

definition CHART_TYPES :: "(string \<times> chart_type) list" where
  "CHART_TYPES = [(''bars'', Bars), (''candles'', Candles), (''hollow'', Hollow), (''heikinAshi'', HeikinAshi),
     (''line'', LineChart), (''area'', AreaChart), (''baseline'', Baseline)]"

datatype candle_interval =
    M1 | M3 | M5 | M15 | M30 | H1 | H2 | H4 | H8 | H12 | D1 | D3 | W1 | Mo1 | Mo3 | Mo6 | Mo12

definition INTERVAL_GROUPS :: "(string \<times> (string \<times> candle_interval) list) list" where
  "INTERVAL_GROUPS =
     [(''minutes'', [(''1m'', M1), (''3m'', M3), (''5m'', M5), (''15m'', M15), (''30m'', M30)]),
      (''hours'', [(''1h'', H1), (''2h'', H2), (''4h'', H4), (''8h'', H8), (''12h'', H12)]),
      (''days'', [(''1d'', D1), (''3d'', D3), (''1w'', W1)]),
      (''months'', [(''1M'', Mo1), (''3M'', Mo3), (''6M'', Mo6), (''12M'', Mo12)])]"

definition ALL_INTERVALS :: "(string \<times> candle_interval) list" where
  "ALL_INTERVALS = concat (map snd INTERVAL_GROUPS)"

datatype indicator_id = Volume | Sma | Ema | BollingerId | Vwap | Rsi | Macd

definition INDICATORS :: "(string \<times> indicator_id) list" where
  "INDICATORS = [(''volume'', Volume), (''sma'', Sma), (''ema'', Ema), (''bollinger'', BollingerId),
     (''vwap'', Vwap), (''rsi'', Rsi), (''macd'', Macd)]"

definition interval_ms :: "candle_interval \<Rightarrow> int" where
  "interval_ms i =
     (let minute = 60000; hour = 60 * minute; day = 24 * hour in
      case i of
        M1 \<Rightarrow> minute | M3 \<Rightarrow> 3 * minute | M5 \<Rightarrow> 5 * minute | M15 \<Rightarrow> 15 * minute | M30 \<Rightarrow> 30 * minute
      | H1 \<Rightarrow> hour | H2 \<Rightarrow> 2 * hour | H4 \<Rightarrow> 4 * hour | H8 \<Rightarrow> 8 * hour | H12 \<Rightarrow> 12 * hour
      | D1 \<Rightarrow> day | D3 \<Rightarrow> 3 * day | W1 \<Rightarrow> 7 * day
      | Mo1 \<Rightarrow> 31 * day | Mo3 \<Rightarrow> 3 * 31 * day | Mo6 \<Rightarrow> 6 * 31 * day | Mo12 \<Rightarrow> 12 * 31 * day)"

section \<open>Candles as drawn\<close>

record drawn_candle =
  dc_open :: jsnum
  dc_high :: jsnum
  dc_low :: jsnum
  dc_close :: jsnum

record candle =
  k_openTime :: jsnum
  k_open :: decimal
  k_high :: decimal
  k_low :: decimal
  k_close :: decimal
  k_volume :: decimal

definition joinedCandle :: "candle \<Rightarrow> jsnum option \<Rightarrow> drawn_candle" where
  "joinedCandle c prevClose =
     (let high = to_number (k_high c); low = to_number (k_low c); close = to_number (k_close c);
          opn = (case prevClose of Some p \<Rightarrow> p | None \<Rightarrow> to_number (k_open c))
      in \<lparr>dc_open = opn, dc_high = math_max high opn, dc_low = math_min low opn, dc_close = close\<rparr>)"

fun joined_from :: "jsnum option \<Rightarrow> candle list \<Rightarrow> drawn_candle list" where
  "joined_from prev [] = []"
| "joined_from prev (c # cs) = joinedCandle c prev # joined_from (Some (to_number (k_close c))) cs"

definition joinedCandles :: "candle list \<Rightarrow> drawn_candle list" where
  "joinedCandles cs = joined_from None cs"

text \<open>Each candle from its own prices and the candle before it.\<close>

fun heikin_from :: "drawn_candle option \<Rightarrow> drawn_candle list \<Rightarrow> drawn_candle list" where
  "heikin_from prev [] = []"
| "heikin_from prev (c # cs) =
     (let close = (dc_open c + dc_high c + dc_low c + dc_close c) / Fin 4;
          opn = (case prev of Some p \<Rightarrow> (dc_open p + dc_close p) / Fin 2
                 | None \<Rightarrow> (dc_open c + dc_close c) / Fin 2);
          k = \<lparr>dc_open = opn, dc_high = math_max (math_max (dc_high c) opn) close,
               dc_low = math_min (math_min (dc_low c) opn) close, dc_close = close\<rparr>
      in k # heikin_from (Some k) cs)"

definition heikinAshi :: "drawn_candle list \<Rightarrow> drawn_candle list" where
  "heikinAshi cs = heikin_from None cs"

section \<open>Averages\<close>

fun sma_from :: "jsnum list \<Rightarrow> nat \<Rightarrow> nat \<Rightarrow> jsnum \<Rightarrow> jsnum list \<Rightarrow> series" where
  "sma_from vals period i acc [] = []"
| "sma_from vals period i acc (v # vs) =
     (let added = acc + v; acc' = (if period \<le> i then added - vals ! (i - period) else added)
      in (if period \<le> i + 1 then Some (acc' / num (of_nat period)) else None)
         # sma_from vals period (i + 1) acc' vs)"

definition sma :: "jsnum list \<Rightarrow> nat \<Rightarrow> series" where
  "sma vals period = sma_from vals period 0 0 vals"

fun ema_from :: "nat \<Rightarrow> jsnum option \<Rightarrow> jsnum list \<Rightarrow> series \<Rightarrow> series" where
  "ema_from period prev seed [] = []"
| "ema_from period prev seed (None # vs) = None # ema_from period prev seed vs"
| "ema_from period prev seed (Some v # vs) =
     (let k = Fin 2 / (num (of_nat period) + 1) in
      case prev of
        None \<Rightarrow>
          (let seed' = seed @ [v]
           in if length seed' < period then None # ema_from period None seed' vs
              else let p = foldl (+) 0 seed' / num (of_nat period)
                   in Some p # ema_from period (Some p) [] vs)
      | Some p0 \<Rightarrow> (let p = v * k + p0 * (1 - k) in Some p # ema_from period (Some p) seed vs))"

definition ema :: "series \<Rightarrow> nat \<Rightarrow> series" where
  "ema vals period = ema_from period None [] vals"

section \<open>Relative strength\<close>

definition rsi_value :: "jsnum \<Rightarrow> jsnum \<Rightarrow> jsnum" where
  "rsi_value gain loss =
     (if js_eq loss 0 then (if js_eq gain 0 then Fin 50 else Fin 100)
      else Fin 100 - Fin 100 / (1 + gain / loss))"

definition rsi_seed :: "jsnum list \<Rightarrow> nat \<Rightarrow> jsnum \<times> jsnum" where
  "rsi_seed vals period =
     (let (g, l) = fold (\<lambda>i (g, l). let d = vals ! i - vals ! (i - 1)
                                    in if 0 < d then (g + d, l) else (g, l - d)) [1..<period + 1] (0, 0)
      in (g / num (of_nat period), l / num (of_nat period)))"

definition rsi_next :: "jsnum \<Rightarrow> jsnum \<Rightarrow> jsnum \<times> jsnum \<Rightarrow> jsnum \<times> jsnum" where
  "rsi_next period d gl =
     ((fst gl * (period - 1) + math_max d 0) / period, (snd gl * (period - 1) + math_max (- d) 0) / period)"

fun rsi_from :: "jsnum \<Rightarrow> jsnum list \<Rightarrow> jsnum \<times> jsnum \<Rightarrow> series" where
  "rsi_from period (w # v # vs) gl =
     (let gl' = rsi_next period (v - w) gl
      in Some (rsi_value (fst gl') (snd gl')) # rsi_from period (v # vs) gl')"
| "rsi_from period _ gl = []"

definition rsi :: "jsnum list \<Rightarrow> nat \<Rightarrow> series" where
  "rsi vals period =
     (if length vals \<le> period then replicate (length vals) None
      else let gl = rsi_seed vals period
           in replicate period None @ Some (rsi_value (fst gl) (snd gl))
              # rsi_from (num (of_nat period)) (drop period vals) gl)"

section \<open>MACD and VWAP\<close>

record macd_point =
  mp_macd :: "jsnum option"
  mp_signal :: "jsnum option"
  mp_histogram :: "jsnum option"

definition opt_minus :: "jsnum option \<Rightarrow> jsnum option \<Rightarrow> jsnum option" where
  "opt_minus a b = (case (a, b) of (Some x, Some y) \<Rightarrow> Some (x - y) | _ \<Rightarrow> None)"

definition macd :: "jsnum list \<Rightarrow> nat \<Rightarrow> nat \<Rightarrow> nat \<Rightarrow> macd_point list" where
  "macd vals fast slow signal =
     (let f = ema (map Some vals) fast; s = ema (map Some vals) slow;
          line = map (\<lambda>(v, w). opt_minus v w) (zip f s); sig = ema line signal
      in map (\<lambda>(m, g). \<lparr>mp_macd = m, mp_signal = g, mp_histogram = opt_minus m g\<rparr>) (zip line sig))"

record vwap_input =
  vi_openTime :: jsnum
  vi_high :: jsnum
  vi_low :: jsnum
  vi_close :: jsnum
  vi_volume :: jsnum

fun vwap_from :: "jsnum \<Rightarrow> jsnum \<Rightarrow> jsnum \<Rightarrow> vwap_input list \<Rightarrow> series" where
  "vwap_from day pv vol [] = []"
| "vwap_from day pv vol (c # cs) =
     (let d = math_floor (vi_openTime c / Fin 86400000); new = (\<not> js_eq d day);
          pv' = (if new then 0 else pv) + (vi_high c + vi_low c + vi_close c) / Fin 3 * vi_volume c;
          vol' = (if new then 0 else vol) + vi_volume c
      in (if 0 < vol' then Some (pv' / vol') else None) # vwap_from (if new then d else day) pv' vol' cs)"

definition vwap :: "vwap_input list \<Rightarrow> series" where
  "vwap cs = vwap_from (Fin (- 1)) 0 0 cs"

section \<open>Shape of the series\<close>

lemma sma_from_nth:
  "j < length vs \<Longrightarrow> length (sma_from vals period i acc vs) = length vs \<and>
    (sma_from vals period i acc vs ! j = None \<longleftrightarrow> \<not> period \<le> i + j + 1)"
proof (induction vs arbitrary: i acc j)
  case (Cons v vs)
  have "length (sma_from vals period i acc vs) = length vs" for i acc
    by (induction vs arbitrary: i acc) (simp_all add: Let_def)
  with Cons show ?case by (cases j) (simp_all add: Let_def)
qed simp

lemma ema_from_length: "length (ema_from period prev seed vs) = length vs"
  by (induction period prev seed vs rule: ema_from.induct) (simp_all add: Let_def split: option.split)

lemma ema_seeding:
  "prev = None \<Longrightarrow> length seed < period \<Longrightarrow> j < length vs \<Longrightarrow>
    (ema_from period prev seed (map Some vs) ! j = None \<longleftrightarrow> length seed + j + 1 < period)"
proof (induction vs arbitrary: prev seed j)
  case (Cons v vs)
  have some: "j < length vs \<Longrightarrow> ema_from period (Some p) s (map Some vs) ! j \<noteq> None" for p s j vs
  proof (induction vs arbitrary: p j)
    case (Cons w ws)
    then show ?case by (cases j) (simp_all add: Let_def)
  qed simp
  show ?case
  proof (cases j)
    case 0
    with Cons.prems show ?thesis by (simp add: Let_def)
  next
    case (Suc i)
    with Cons.prems Cons.IH [of None "seed @ [v]" i] some [of i vs] show ?thesis by (auto simp: Let_def)
  qed
qed simp

text \<open>A moving average has a value for every input point from the first that has a full period
  of history on, and none before; the simple and the exponential one agree on where.\<close>

theorem averages_start_together:
  "map (\<lambda>x. x = None) (sma vals (Suc p)) = map (\<lambda>j. j < p) [0..<length vals] \<and>
   map (\<lambda>x. x = None) (ema (map Some vals) (Suc p)) = map (\<lambda>j. j < p) [0..<length vals]"
proof -
  have "length (sma_from vals n i acc vs) = length vs" for n i acc vs
    by (induction vs arbitrary: i acc) (simp_all add: Let_def)
  then have len: "length (sma vals (Suc p)) = length vals" "length (ema (map Some vals) (Suc p)) = length vals"
    by (simp_all add: sma_def ema_def ema_from_length)
  have "(sma vals (Suc p) ! j = None) = (j < p)" "(ema (map Some vals) (Suc p) ! j = None) = (j < p)"
    if "j < length vals" for j
    using that sma_from_nth [of j vals vals "Suc p" 0 0] ema_seeding [of None "[]" "Suc p" j vals]
    by (simp_all add: sma_def ema_def not_le)
  with len show ?thesis by (intro conjI nth_equalityI) simp_all
qed

section \<open>Relative strength stays in its range\<close>

definition nonneg_or_NaN :: "jsnum \<Rightarrow> bool" where
  "nonneg_or_NaN x = (x = NaN \<or> 0 \<le> x)"

lemma nn_Fin [simp]: "nonneg_or_NaN (Fin a) = (0 \<le> a)"
  by (simp add: nonneg_or_NaN_def zero_Fin)

lemma nn_simps [simp]: "nonneg_or_NaN NaN" "nonneg_or_NaN PInf" "\<not> nonneg_or_NaN NInf"
  by (simp_all add: nonneg_or_NaN_def zero_Fin)

lemma nn_num: "0 \<le> q \<Longrightarrow> nonneg_or_NaN (num q)"
  by (simp add: nonneg_or_NaN_def num_nonneg)

lemma nn_add: "nonneg_or_NaN x \<Longrightarrow> nonneg_or_NaN y \<Longrightarrow> nonneg_or_NaN (x + y)"
  by (cases x; cases y) (simp_all add: nn_num)

lemma nn_pos: "0 < x \<Longrightarrow> nonneg_or_NaN x"
  by (simp add: nonneg_or_NaN_def js_less_imp_le)

lemma nn_mult: "nonneg_or_NaN x \<Longrightarrow> nonneg_or_NaN y \<Longrightarrow> nonneg_or_NaN (x * y)"
  by (cases x; cases y) (simp_all add: nn_num inf_of_def)

lemma nn_divide: "nonneg_or_NaN x \<Longrightarrow> nonneg_or_NaN y \<Longrightarrow> nonneg_or_NaN (x / y)"
  by (cases x; cases y) (simp_all add: nn_num inf_of_def)

lemma nn_max: "nonneg_or_NaN (math_max x 0)"
  by (cases x) (simp_all add: math_max_def zero_Fin)

lemma nn_sub: "nonneg_or_NaN l \<Longrightarrow> \<not> 0 < d \<Longrightarrow> nonneg_or_NaN (l - d)"
  by (cases l; cases d) (simp_all add: minus_jsnum_def nn_num zero_Fin)

lemma hundred_over:
  assumes "nonneg_or_NaN g" "nonneg_or_NaN l" "Fin 100 - Fin 100 / (1 + g / l) \<noteq> NaN"
  shows "0 \<le> Fin 100 - Fin 100 / (1 + g / l) \<and> Fin 100 - Fin 100 / (1 + g / l) \<le> Fin 100"
proof -
  obtain x where x: "g / l = x" "nonneg_or_NaN x" using nn_divide [OF assms(1,2)] by simp
  show ?thesis
  proof (cases x)
    case (Fin a)
    with x(2) have a: "0 \<le> a" by simp
    have "num (1 + 0) \<le> num (1 + a)" using a by (intro num_mono) simp
    then have s: "Fin 1 \<le> num (1 + a)" by simp
    show ?thesis
    proof (cases "num (1 + a)")
      case (Fin b)
      with s have b: "1 \<le> b" by simp
      have "num (100 / b) \<le> num 100" by (rule num_mono) (use b in \<open>simp add: divide_le_eq\<close>)
      moreover have "num 0 \<le> num (100 / b)" by (rule num_mono) (use b in simp)
      ultimately obtain c where c: "num (100 / b) = Fin c" "0 \<le> c" "c \<le> 100"
        by (cases "num (100 / b)") (auto simp: zero_Fin)
      have "num 0 \<le> num (100 - c)" "num (100 - c) \<le> num 100" using c by (intro num_mono; simp)+
      with Fin b c \<open>x = Fin a\<close> x(1) show ?thesis by (simp add: one_Fin minus_jsnum_def)
    next
      case PInf
      with \<open>x = Fin a\<close> x(1) show ?thesis by (simp add: one_Fin minus_jsnum_def zero_Fin)
    qed (use s in auto)
  next
    case PInf
    with x(1) show ?thesis by (simp add: one_Fin minus_jsnum_def zero_Fin)
  qed (use x assms(3) in \<open>auto simp: one_Fin minus_jsnum_def\<close>)
qed

lemma rsi_value_range:
  "nonneg_or_NaN g \<Longrightarrow> nonneg_or_NaN l \<Longrightarrow> rsi_value g l \<noteq> NaN \<Longrightarrow> 0 \<le> rsi_value g l \<and> rsi_value g l \<le> Fin 100"
  using hundred_over [of g l] by (auto simp: rsi_value_def zero_Fin split: if_splits)

lemma rsi_next_nn:
  assumes "nonneg_or_NaN (fst gl)" "nonneg_or_NaN (snd gl)" "1 \<le> period"
  shows "nonneg_or_NaN (fst (rsi_next period d gl)) \<and> nonneg_or_NaN (snd (rsi_next period d gl))"
proof -
  have "nonneg_or_NaN (period - 1)" "nonneg_or_NaN period" using assms(3)
    by (cases period; simp add: one_Fin minus_jsnum_def nn_num)+
  with assms show ?thesis by (auto simp: rsi_next_def intro!: nn_divide nn_add nn_mult nn_max)
qed

lemma rsi_from_range:
  "nonneg_or_NaN (fst gl) \<Longrightarrow> nonneg_or_NaN (snd gl) \<Longrightarrow> 1 \<le> period \<Longrightarrow>
    \<forall>x \<in> set (rsi_from period vs gl). \<forall>v. x = Some v \<longrightarrow> v = NaN \<or> 0 \<le> v \<and> v \<le> Fin 100"
proof (induction period vs gl rule: rsi_from.induct)
  case (1 period w v vs gl)
  have nn: "nonneg_or_NaN (fst (rsi_next period (v - w) gl))" "nonneg_or_NaN (snd (rsi_next period (v - w) gl))"
    using rsi_next_nn [OF 1(2-4)] by simp_all
  show ?case using 1(1) [OF refl nn 1(4)] rsi_value_range [OF nn] by (auto simp: Let_def)
qed simp_all

lemma rsi_seed_nn:
  "nonneg_or_NaN (fst (rsi_seed vals period)) \<and> nonneg_or_NaN (snd (rsi_seed vals period))"
proof -
  let ?f = "\<lambda>i (g, l). let d = vals ! i - vals ! (i - 1) in if 0 < d then (g + d, l) else (g, l - d)"
  have "nonneg_or_NaN (fst (fold ?f xs gl)) \<and> nonneg_or_NaN (snd (fold ?f xs gl))"
    if "nonneg_or_NaN (fst gl) \<and> nonneg_or_NaN (snd gl)" for xs gl
    using that
  proof (induction xs arbitrary: gl)
    case (Cons i xs)
    have "nonneg_or_NaN (fst (?f i gl)) \<and> nonneg_or_NaN (snd (?f i gl))"
      using Cons.prems by (cases gl) (auto simp: Let_def nn_sub nn_pos intro!: nn_add)
    then show ?case using Cons.IH by simp
  qed simp
  from this [of "(0, 0)" "[1..<period + 1]"] show ?thesis
    by (auto simp: rsi_seed_def Let_def zero_Fin intro!: nn_divide nn_num split: prod.split)
qed

text \<open>C16: A relative strength index that is a number lies between 0 and 100, through all the
  rounding of the smoothed gains and losses, and starts after a full period.\<close>

theorem rsi_in_range:
  assumes "i < length (rsi vals (Suc p))"
  shows "case rsi vals (Suc p) ! i of
      None \<Rightarrow> i < Suc p
    | Some v \<Rightarrow> Suc p \<le> i \<and> (v = NaN \<or> 0 \<le> v \<and> v \<le> Fin 100)"
proof (cases "length vals \<le> Suc p")
  case True
  with assms show ?thesis by (simp add: rsi_def)
next
  case False
  let ?gl = "rsi_seed vals (Suc p)" and ?n = "num (of_nat (Suc p))"
  let ?tail = "Some (rsi_value (fst ?gl) (snd ?gl)) # rsi_from ?n (drop (Suc p) vals) ?gl"
  have r: "rsi vals (Suc p) = replicate (Suc p) None @ ?tail" using False by (simp add: rsi_def Let_def)
  have one: "1 \<le> ?n" using num_mono [of 1 "of_nat (Suc p)"] by (simp add: one_Fin)
  note nn = rsi_seed_nn [of vals "Suc p"]
  have some: "x \<noteq> None" if "x \<in> set (rsi_from n vs gl)" for x n vs gl
    using that by (induction n vs gl rule: rsi_from.induct) (auto simp: Let_def)
  show ?thesis
  proof (cases "i < Suc p")
    case True
    then show ?thesis by (simp add: r nth_append del: replicate.simps)
  next
    case False
    then have i: "rsi vals (Suc p) ! i = ?tail ! (i - Suc p)" "i - Suc p < length ?tail"
      using assms by (auto simp: r nth_append simp del: replicate.simps)
    then have m: "rsi vals (Suc p) ! i \<in> set ?tail" by (metis nth_mem)
    moreover have "x \<noteq> None" if "x \<in> set ?tail" for x
      using that some [of x ?n "drop (Suc p) vals" ?gl] by auto
    ultimately obtain v where v: "rsi vals (Suc p) ! i = Some v" by (cases "rsi vals (Suc p) ! i") auto
    with m rsi_value_range [of "fst ?gl" "snd ?gl"] rsi_from_range [of ?gl ?n "drop (Suc p) vals"] nn one
    have "v = NaN \<or> 0 \<le> v \<and> v \<le> Fin 100" by auto
    with v False show ?thesis by simp
  qed
qed

lemma rsi_in_range_witness:
  "rsi [Fin 1, Fin 2, Fin 1] 1 = [None, Some (Fin 100), Some (Fin 0)] \<and>
   (case rsi [Fin 1, Fin 2, Fin 1] 1 ! 2 of None \<Rightarrow> False | Some v \<Rightarrow> v = NaN \<or> 0 \<le> v \<and> v \<le> Fin 100)"
proof -
  have r: "rsi [Fin 1, Fin 2, Fin 1] 1 = [None, Some (Fin 100), Some (Fin 0)]" by code_simp
  from rsi_in_range [of 2 "[Fin 1, Fin 2, Fin 1]" 0] r show ?thesis by (simp add: One_nat_def [symmetric] del: One_nat_def)
qed

section \<open>Drawn candles\<close>

definition candle_ok :: "drawn_candle \<Rightarrow> bool" where
  "candle_ok k =
     (if dc_high k = NaN \<or> dc_low k = NaN then True
      else dc_low k \<le> dc_open k \<and> dc_open k \<le> dc_high k \<and> dc_low k \<le> dc_close k \<and> dc_close k \<le> dc_high k)"

lemma heikin_candle_ok:
  "candle_ok \<lparr>dc_open = a, dc_high = math_max (math_max h a) b, dc_low = math_min (math_min l a) b, dc_close = b\<rparr>"
proof (cases "math_max (math_max h a) b = NaN \<or> math_min (math_min l a) b = NaN")
  case False
  then have n: "h \<noteq> NaN" "l \<noteq> NaN" "a \<noteq> NaN" "b \<noteq> NaN"
    using math_max_not_NaN math_min_not_NaN by metis+
  have m: "math_min l a \<noteq> NaN" "math_max h a \<noteq> NaN" using n by (simp_all add: math_min_not_NaN math_max_not_NaN)
  note n1 = math_min_le [OF n(2,3)] math_min_le [OF m(1) n(4)] math_max_ge [OF n(1,3)] math_max_ge [OF m(2) n(4)]
  have "math_min (math_min l a) b \<le> a" using n1 js_le_trans [of _ "math_min l a" a] by blast
  moreover have "a \<le> math_max (math_max h a) b" using n1 js_le_trans [of a "math_max h a"] by blast
  ultimately show ?thesis using n1 by (simp add: candle_ok_def)
qed (simp add: candle_ok_def)

text \<open>Every Heikin-Ashi candle is a candle: its open and close lie between its low and its high.\<close>

theorem heikinAshi_candles:
  "list_all candle_ok (heikinAshi cs) \<and> length (heikinAshi cs) = length cs"
proof -
  have "list_all candle_ok (heikin_from prev cs) \<and> length (heikin_from prev cs) = length cs" for prev
    by (induction cs arbitrary: prev) (simp_all add: Let_def heikin_candle_ok)
  then show ?thesis by (simp add: heikinAshi_def)
qed

end
