(* ===== verification/Charts.thy ===== *)
theory Charts
  imports Interfaces Js_Value Indicators
begin

text \<open>
  The chart's saved setup, \<^verbatim>\<open>apps/desktop/src/lib/chartPrefs.ts\<close>, and the
  Multi-chart page, \<^verbatim>\<open>multiChart.ts\<close>: what is read back of a saved state, how the
  state is made good against a venue's markets, its operations, and the named sets.
\<close>

section \<open>The chart's setup\<close>

record chart_prefs =
  cp_type :: chart_type
  cp_indicators :: "indicator_id list"
  cp_favoriteIntervals :: "candle_interval list"
  cp_favoriteTypes :: "chart_type list"
  cp_favoriteChartTypes :: "string list"

definition DEFAULT_CHART_PREFS :: chart_prefs where
  "DEFAULT_CHART_PREFS = \<lparr>cp_type = Candles, cp_indicators = [Volume],
     cp_favoriteIntervals = [M1, M15, H1, H4, D1], cp_favoriteTypes = [Bars, Candles, LineChart],
     cp_favoriteChartTypes = []\<rparr>"

text \<open>\<open>/^[a-z-]{1,40}$/\<close>\<close>

definition chart_type_id :: "string \<Rightarrow> bool" where
  "chart_type_id s =
     (s \<noteq> [] \<and> length s \<le> 40 \<and>
      list_all (\<lambda>c. c = CHR ''-'' \<or> (97 \<le> (of_char c :: int) \<and> (of_char c :: int) \<le> 122)) s)"

definition chartTypeIds :: "json option \<Rightarrow> string list" where
  "chartTypeIds raw =
     uniq (filter chart_type_id (List.map_filter (\<lambda>v. as_str (Some v)) (arr_or_nil raw)))"

definition known :: "(string \<times> 'a) list \<Rightarrow> json option \<Rightarrow> 'a list option" where
  "known allowed raw =
     (if is_arr raw then Some (uniq (List.map_filter (\<lambda>v. name_in allowed (Some v)) (arr_or_nil raw))) else None)"

text \<open>A text that does not parse is \<open>None\<close>; so is a value that is no object at all.\<close>

definition loadChartPrefs :: "json option \<Rightarrow> chart_prefs" where
  "loadChartPrefs saved =
     (case saved of
        None \<Rightarrow> DEFAULT_CHART_PREFS
      | Some v \<Rightarrow>
          (let s = obj_or_empty v; d = DEFAULT_CHART_PREFS
           in \<lparr>cp_type = or_else (name_in CHART_TYPES (field s ''type'')) (cp_type d),
               cp_indicators = or_else (known INDICATORS (field s ''indicators'')) (cp_indicators d),
               cp_favoriteIntervals =
                 or_else (known ALL_INTERVALS (field s ''favoriteIntervals'')) (cp_favoriteIntervals d),
               cp_favoriteTypes = or_else (known CHART_TYPES (field s ''favoriteTypes'')) (cp_favoriteTypes d),
               cp_favoriteChartTypes = chartTypeIds (field s ''favoriteChartTypes'')\<rparr>))"

definition names_json :: "(string \<times> 'a) list \<Rightarrow> 'a list \<Rightarrow> json" where
  "names_json names xs = JArr (map (\<lambda>x. JStr (name_of names x)) xs)"

definition saveChartPrefs :: "chart_prefs \<Rightarrow> json" where
  "saveChartPrefs p =
     JObj [(''type'', JStr (name_of CHART_TYPES (cp_type p))),
           (''indicators'', names_json INDICATORS (cp_indicators p)),
           (''favoriteIntervals'', names_json ALL_INTERVALS (cp_favoriteIntervals p)),
           (''favoriteTypes'', names_json CHART_TYPES (cp_favoriteTypes p)),
           (''favoriteChartTypes'', JArr (map JStr (cp_favoriteChartTypes p)))]"

definition toggled :: "'a list \<Rightarrow> 'a \<Rightarrow> 'a list" where
  "toggled xs x = (if x \<in> set xs then filter (\<lambda>y. y \<noteq> x) xs else xs @ [x])"

definition inOrder :: "'a list \<Rightarrow> 'a list \<Rightarrow> 'a list" where
  "inOrder xs order = filter (\<lambda>x. x \<in> set xs) order"

section \<open>The Multi-chart page's state\<close>

datatype layout = Lay1x2 | Lay1x3 | Lay2x2 | Lay2x3 | Lay3x3 | Lay1p2

definition LAYOUTS :: "(string \<times> layout) list" where
  "LAYOUTS = [(''1x2'', Lay1x2), (''1x3'', Lay1x3), (''2x2'', Lay2x2), (''2x3'', Lay2x3), (''3x3'', Lay3x3),
     (''1+2'', Lay1p2)]"

text \<open>Columns, rows and the number of charts of a layout.\<close>

definition GRID :: "layout \<Rightarrow> nat \<times> nat \<times> nat" where
  "GRID l = (case l of Lay1x2 \<Rightarrow> (2, 1, 2) | Lay1x3 \<Rightarrow> (3, 1, 3) | Lay2x2 \<Rightarrow> (2, 2, 4)
     | Lay2x3 \<Rightarrow> (3, 2, 6) | Lay3x3 \<Rightarrow> (3, 3, 9) | Lay1p2 \<Rightarrow> (3, 2, 3))"

definition MAX_CELLS :: nat where
  "MAX_CELLS = 9"

record cell_settings =
  cs_levels :: bool
  cs_news :: bool

definition DEFAULT_CELL_SETTINGS :: cell_settings where
  "DEFAULT_CELL_SETTINGS = \<lparr>cs_levels = True, cs_news = True\<rparr>"

record chart_cell =
  cc_venue :: venue
  cc_market :: string
  cc_interval :: candle_interval
  cc_settings :: cell_settings
  cc_chart :: "string option"

record multi_chart =
  mc_layout :: layout
  mc_cells :: "chart_cell list"
  mc_syncInterval :: bool
  mc_syncSymbol :: bool
  mc_syncCrosshair :: bool
  mc_syncRange :: bool
  mc_tradeBar :: bool
  mc_favoriteIntervals :: "candle_interval list"
  mc_favoriteChartTypes :: "string list"

record chart_set =
  set_name :: string
  set_layout :: layout
  set_cells :: "chart_cell list"

definition DEFAULT_INTERVAL :: candle_interval where
  "DEFAULT_INTERVAL = M15"

definition SPREAD :: "candle_interval list" where
  "SPREAD = [M1, M5, M15, H1, H4, D1, W1, M30, H12]"

definition SET_NAME_MAX :: nat where
  "SET_NAME_MAX = 24"

definition MAX_SETS :: nat where
  "MAX_SETS = 12"

definition CHART_MAX :: nat where
  "CHART_MAX = 200000"

definition VENUES :: "(string \<times> venue) list" where
  "VENUES = [(''bybit'', Bybit), (''hyperliquid'', Hyperliquid), (''aster'', Aster), (''binance'', Binance),
     (''blofin'', Blofin)]"

definition fresh :: "venue \<Rightarrow> string \<Rightarrow> chart_cell" where
  "fresh v mk = \<lparr>cc_venue = v, cc_market = mk, cc_interval = DEFAULT_INTERVAL,
     cc_settings = DEFAULT_CELL_SETTINGS, cc_chart = None\<rparr>"

definition settingsFrom :: "json option \<Rightarrow> cell_settings" where
  "settingsFrom raw =
     (let s = obj_or_empty (or_else raw JNull)
      in \<lparr>cs_levels = or_else (as_bool (field s ''levels'')) True, cs_news = or_else (as_bool (field s ''news'')) True\<rparr>)"

definition defaultCells :: "venue \<Rightarrow> market list \<Rightarrow> string list \<Rightarrow> chart_cell list" where
  "defaultCells v mks majors =
     (let ids = filter (\<lambda>i. i \<in> m_id ` set mks) majors @ map m_id mks
      in map (fresh v) (take MAX_CELLS (uniq ids)))"

definition cellFrom :: "json \<Rightarrow> chart_cell option" where
  "cellFrom raw =
     (case (name_in VENUES (field raw ''venue''), as_str (field raw ''market'')) of
        (Some v, Some mk) \<Rightarrow>
          if mk = [] then None
          else Some \<lparr>cc_venue = v, cc_market = mk,
                     cc_interval = or_else (name_in ALL_INTERVALS (field raw ''interval'')) DEFAULT_INTERVAL,
                     cc_settings = settingsFrom (field raw ''settings''),
                     cc_chart = (case as_str (field raw ''chart'') of
                                   Some c \<Rightarrow> if length c \<le> CHART_MAX then Some c else None | None \<Rightarrow> None)\<rparr>
      | _ \<Rightarrow> None)"

definition cellsFrom :: "json option \<Rightarrow> chart_cell list" where
  "cellsFrom raw = take MAX_CELLS (List.map_filter cellFrom (arr_or_nil raw))"

definition restore :: "json \<Rightarrow> multi_chart" where
  "restore saved =
     (let raw = obj_or_empty saved
      in \<lparr>mc_layout = or_else (name_in LAYOUTS (field raw ''layout'')) Lay2x2,
          mc_cells = cellsFrom (field raw ''cells''),
          mc_syncInterval = (field raw ''syncInterval'' = Some (JBool True)),
          mc_syncSymbol = (field raw ''syncSymbol'' = Some (JBool True)),
          mc_syncCrosshair = (field raw ''syncCrosshair'' \<noteq> Some (JBool False)),
          mc_syncRange = (field raw ''syncRange'' = Some (JBool True)),
          mc_tradeBar = (field raw ''tradeBar'' = Some (JBool True)),
          mc_favoriteIntervals =
            map snd (filter (\<lambda>kv. JStr (fst kv) \<in> set (arr_or_nil (field raw ''favoriteIntervals''))) ALL_INTERVALS),
          mc_favoriteChartTypes = chartTypeIds (field raw ''favoriteChartTypes'')\<rparr>)"

definition cell_json :: "chart_cell \<Rightarrow> json" where
  "cell_json c =
     JObj ([(''venue'', JStr (name_of VENUES (cc_venue c))), (''market'', JStr (cc_market c)),
            (''interval'', JStr (name_of ALL_INTERVALS (cc_interval c))),
            (''settings'', JObj [(''levels'', JBool (cs_levels (cc_settings c))), (''news'', JBool (cs_news (cc_settings c)))])]
           @ (case cc_chart c of Some t \<Rightarrow> [(''chart'', JStr t)] | None \<Rightarrow> []))"

definition saveMultiChart :: "multi_chart \<Rightarrow> json" where
  "saveMultiChart s =
     JObj [(''layout'', JStr (name_of LAYOUTS (mc_layout s))), (''cells'', JArr (map cell_json (mc_cells s))),
           (''syncInterval'', JBool (mc_syncInterval s)), (''syncSymbol'', JBool (mc_syncSymbol s)),
           (''syncCrosshair'', JBool (mc_syncCrosshair s)), (''syncRange'', JBool (mc_syncRange s)),
           (''tradeBar'', JBool (mc_tradeBar s)),
           (''favoriteIntervals'', names_json ALL_INTERVALS (mc_favoriteIntervals s)),
           (''favoriteChartTypes'', JArr (map JStr (mc_favoriteChartTypes s)))]"

definition loadMultiChart :: "json option \<Rightarrow> multi_chart" where
  "loadMultiChart stored = restore (or_else stored JNull)"

section \<open>Made good against the markets\<close>

text \<open>The next default chart no chart shows yet (else the first), and the markets used so far.\<close>

definition spare :: "chart_cell list \<Rightarrow> string list \<Rightarrow> chart_cell option \<times> string list" where
  "spare defaults used =
     (let next' = (case List.find (\<lambda>d. cc_market d \<notin> set used) defaults of
                     Some d \<Rightarrow> Some d | None \<Rightarrow> nth_opt defaults 0)
      in (next', case next' of Some d \<Rightarrow> cc_market d # used | None \<Rightarrow> used))"

fun repair_cells ::
    "venue \<Rightarrow> string set \<Rightarrow> chart_cell list \<Rightarrow> chart_cell list \<Rightarrow> string list \<Rightarrow> bool
      \<Rightarrow> chart_cell list \<times> string list \<times> bool" where
  "repair_cells v listed defaults [] used changed = ([], used, changed)"
| "repair_cells v listed defaults (c # cs) used changed =
     (if cc_venue c \<noteq> v \<or> cc_market c \<in> listed
      then (let (cs', r) = repair_cells v listed defaults cs used changed in (c # cs', r))
      else case spare defaults used of
             (None, used') \<Rightarrow> (let (cs', r) = repair_cells v listed defaults cs used' changed in (c # cs', r))
           | (Some d, used') \<Rightarrow>
               (let (cs', r) = repair_cells v listed defaults cs used' True
                in (c\<lparr>cc_market := cc_market d\<rparr> # cs', r)))"

text \<open>The \<open>while\<close> loop that adds charts up to the limit.\<close>

function fill_cells ::
    "chart_cell list \<Rightarrow> chart_cell list \<Rightarrow> string list \<Rightarrow> bool \<Rightarrow> chart_cell list \<times> bool" where
  "fill_cells defaults cells used changed =
     (if MAX_CELLS \<le> length cells then (cells, changed)
      else case spare defaults used of
             (None, used') \<Rightarrow> (cells, changed)
           | (Some d, used') \<Rightarrow> fill_cells defaults (cells @ [d]) used' True)"
  by pat_completeness auto
termination
  by (relation "measure (\<lambda>(defaults, cells, used, changed). MAX_CELLS - length cells)") auto

declare fill_cells.simps [simp del]

definition repaired :: "multi_chart \<Rightarrow> venue \<Rightarrow> market list \<Rightarrow> string list \<Rightarrow> bool \<Rightarrow> multi_chart" where
  "repaired state v mks majors fills =
     (if mks = [] then state
      else let defaults = defaultCells v mks majors;
               used = map cc_market (filter (\<lambda>c. cc_venue c = v) (mc_cells state));
               (cells, used', changed) = repair_cells v (m_id ` set mks) defaults (mc_cells state) used False;
               (cells', changed') = (if fills then fill_cells defaults cells used' changed else (cells, changed))
           in if changed' then state\<lparr>mc_cells := cells'\<rparr> else state)"

section \<open>Operations\<close>

definition map_cells :: "(nat \<Rightarrow> chart_cell \<Rightarrow> chart_cell) \<Rightarrow> multi_chart \<Rightarrow> multi_chart" where
  "map_cells f s = s\<lparr>mc_cells := map (\<lambda>(i, c). f i c) (enumerate 0 (mc_cells s))\<rparr>"

definition withInterval :: "multi_chart \<Rightarrow> nat \<Rightarrow> candle_interval \<Rightarrow> multi_chart" where
  "withInterval s index i =
     map_cells (\<lambda>k c. if mc_syncInterval s \<or> k = index then c\<lparr>cc_interval := i\<rparr> else c) s"

definition withFavoriteInterval :: "multi_chart \<Rightarrow> candle_interval \<Rightarrow> multi_chart" where
  "withFavoriteInterval s i =
     (let on = i \<in> set (mc_favoriteIntervals s)
      in s\<lparr>mc_favoriteIntervals :=
             filter (\<lambda>k. if k = i then \<not> on else k \<in> set (mc_favoriteIntervals s)) (map snd ALL_INTERVALS)\<rparr>)"

definition withFavoriteType :: "multi_chart \<Rightarrow> string \<Rightarrow> multi_chart" where
  "withFavoriteType s t = s\<lparr>mc_favoriteChartTypes := toggled (mc_favoriteChartTypes s) t\<rparr>"

definition withMarket :: "multi_chart \<Rightarrow> nat \<Rightarrow> venue \<Rightarrow> string \<Rightarrow> multi_chart" where
  "withMarket s index v mk =
     map_cells (\<lambda>k c. if mc_syncSymbol s \<or> k = index then c\<lparr>cc_venue := v, cc_market := mk\<rparr> else c) s"

definition sameCoin :: "string option \<Rightarrow> market list \<Rightarrow> string \<Rightarrow> string" where
  "sameCoin base mks fallback =
     (case base of
        None \<Rightarrow> fallback
      | Some b \<Rightarrow> (case List.find (\<lambda>m. to_upper (m_base m) = to_upper b) mks of
                    Some m \<Rightarrow> m_id m | None \<Rightarrow> fallback))"

text \<open>A change of a chart's settings, its look, or both.\<close>

definition withCell :: "multi_chart \<Rightarrow> nat \<Rightarrow> cell_settings option \<Rightarrow> string option \<Rightarrow> multi_chart" where
  "withCell s index settings chart =
     map_cells (\<lambda>k c. if k = index
                      then c\<lparr>cc_settings := or_else settings (cc_settings c),
                             cc_chart := (case chart of Some t \<Rightarrow> Some t | None \<Rightarrow> cc_chart c)\<rparr>
                      else c) s"

definition swapped :: "multi_chart \<Rightarrow> nat \<Rightarrow> nat \<Rightarrow> multi_chart" where
  "swapped s a b =
     (case (nth_opt (mc_cells s) a, nth_opt (mc_cells s) b) of
        (Some one, Some other) \<Rightarrow>
          if a = b then s else map_cells (\<lambda>k c. if k = a then other else if k = b then one else c) s
      | _ \<Rightarrow> s)"

definition withPositions :: "multi_chart \<Rightarrow> venue \<Rightarrow> string list \<Rightarrow> multi_chart" where
  "withPositions s v held =
     (let rest = filter (\<lambda>c. \<not> list_ex (\<lambda>mk. cc_venue c = v \<and> cc_market c = mk) held) (mc_cells s);
          order = map (\<lambda>mk. (v, mk)) held @ map (\<lambda>c. (cc_venue c, cc_market c)) rest
      in (map_cells (\<lambda>k c. case nth_opt order k of
                             Some (v', mk) \<Rightarrow> c\<lparr>cc_venue := v', cc_market := mk\<rparr> | None \<Rightarrow> c) s)
         \<lparr>mc_syncSymbol := False\<rparr>)"

datatype sync_kind = SyncInterval | SyncSymbol

definition withSync :: "multi_chart \<Rightarrow> sync_kind \<Rightarrow> bool \<Rightarrow> multi_chart" where
  "withSync s which on =
     (case which of
        SyncInterval \<Rightarrow>
          (let s' = (case mc_cells s of
                       f # _ \<Rightarrow> if on then map_cells (\<lambda>k c. c\<lparr>cc_interval := cc_interval f\<rparr>) s else s
                     | [] \<Rightarrow> s)
           in s'\<lparr>mc_syncInterval := on\<rparr>)
      | SyncSymbol \<Rightarrow>
          (case mc_cells s of
             [] \<Rightarrow> s\<lparr>mc_syncSymbol := on\<rparr>
           | f # _ \<Rightarrow>
               if \<not> on then s\<lparr>mc_syncSymbol := on\<rparr>
               else (map_cells (\<lambda>k c. c\<lparr>cc_venue := cc_venue f, cc_market := cc_market f,
                                        cc_interval := SPREAD ! (k mod length SPREAD)\<rparr>) s)
                    \<lparr>mc_syncSymbol := True, mc_syncInterval := False\<rparr>))"

section \<open>Named sets\<close>

definition setName :: "string \<Rightarrow> string" where
  "setName name = take SET_NAME_MAX (one_space (js_trim name))"

definition setFrom :: "json \<Rightarrow> chart_set option" where
  "setFrom raw =
     (let name = (case as_str (field raw ''name'') of Some n \<Rightarrow> setName n | None \<Rightarrow> []);
          cells = cellsFrom (field raw ''cells'')
      in case name_in LAYOUTS (field raw ''layout'') of
           Some l \<Rightarrow> if name \<noteq> [] \<and> cells \<noteq> []
                      then Some \<lparr>set_name = name, set_layout = l, set_cells = cells\<rparr> else None
         | None \<Rightarrow> None)"

definition setsFrom :: "json \<Rightarrow> chart_set list" where
  "setsFrom saved = take MAX_SETS (List.map_filter setFrom (arr_or_nil (Some saved)))"

definition saveSets :: "chart_set list \<Rightarrow> json" where
  "saveSets sets =
     JArr (map (\<lambda>s. JObj [(''name'', JStr (set_name s)), (''layout'', JStr (name_of LAYOUTS (set_layout s))),
                           (''cells'', JArr (map cell_json (set_cells s)))]) sets)"

definition withSet :: "chart_set list \<Rightarrow> string \<Rightarrow> multi_chart \<Rightarrow> chart_set list" where
  "withSet sets name state =
     (let kept = setName name
      in if kept = [] then sets
         else take_last MAX_SETS
                (filter (\<lambda>s. set_name s \<noteq> kept) sets @
                 [\<lparr>set_name = kept, set_layout = mc_layout state, set_cells = mc_cells state\<rparr>]))"

definition withoutSet :: "chart_set list \<Rightarrow> string \<Rightarrow> chart_set list" where
  "withoutSet sets name = filter (\<lambda>s. set_name s \<noteq> name) sets"

definition applySet :: "multi_chart \<Rightarrow> chart_set \<Rightarrow> multi_chart" where
  "applySet state s = state\<lparr>mc_layout := set_layout s, mc_cells := set_cells s, mc_syncSymbol := False\<rparr>"

definition currentSet :: "chart_set list \<Rightarrow> multi_chart \<Rightarrow> chart_set option" where
  "currentSet sets state = List.find (\<lambda>s. set_layout s = mc_layout state \<and> set_cells s = mc_cells state) sets"

text \<open>The chart a window opened at an address shows; \<open>query\<close> reads the address's parameters.\<close>

definition popoutCell :: "(string \<Rightarrow> string option) \<Rightarrow> json \<Rightarrow> chart_cell option" where
  "popoutCell query left =
     (let param = (\<lambda>k. case query k of Some v \<Rightarrow> JStr v | None \<Rightarrow> JNull)
      in case cellFrom (JObj [(''venue'', param ''venue''), (''market'', param ''market''),
                              (''interval'', param ''interval'')]) of
           None \<Rightarrow> None
         | Some named \<Rightarrow>
             (case cellFrom left of
                Some saved \<Rightarrow>
                  if cc_venue saved = cc_venue named \<and> cc_market saved = cc_market named \<and>
                     cc_interval saved = cc_interval named
                  then Some saved else Some named
              | None \<Rightarrow> Some named))"

end
