(* ===== verification/Charts_Props.thy ===== *)
theory Charts_Props
  imports Charts
begin

text \<open>
  What the chart setup and the Multi-chart page keep: saved states read back as they were,
  the charts are made good against the venue's markets, and the operations on them.
\<close>

section \<open>Saved setups read back\<close>

lemma names_back [simp]:
  "name_in CHART_TYPES (Some (JStr (name_of CHART_TYPES t))) = Some t"
  "name_in ALL_INTERVALS (Some (JStr (name_of ALL_INTERVALS i))) = Some i"
  "name_in INDICATORS (Some (JStr (name_of INDICATORS n))) = Some n"
  "name_in LAYOUTS (Some (JStr (name_of LAYOUTS l))) = Some l"
  "name_in VENUES (Some (JStr (name_of VENUES v))) = Some v"
  subgoal by (cases t) (simp_all add: name_in_def name_of_def CHART_TYPES_def)
  subgoal by (cases i) (simp_all add: name_in_def name_of_def ALL_INTERVALS_def INTERVAL_GROUPS_def)
  subgoal by (cases n) (simp_all add: name_in_def name_of_def INDICATORS_def)
  subgoal by (cases l) (simp_all add: name_in_def name_of_def LAYOUTS_def)
  subgoal by (cases v) (simp_all add: name_in_def name_of_def VENUES_def)
  done

lemma known_back:
  assumes "\<And>x. name_in names (Some (JStr (name_of names x))) = Some x" "distinct xs"
  shows "known names (Some (names_json names xs)) = Some xs"
proof -
  have "List.map_filter (\<lambda>v. name_in names (Some v)) (map (\<lambda>x. JStr (name_of names x)) xs) = xs"
    using assms(1) by (rule map_filter_Some)
  with assms(2) show ?thesis by (simp add: known_def names_json_def is_arr_def uniq_id)
qed

lemma chartTypeIds_back: "distinct xs \<Longrightarrow> list_all chart_type_id xs \<Longrightarrow> chartTypeIds (Some (JArr (map JStr xs))) = xs"
proof -
  have "List.map_filter (\<lambda>v. as_str (Some v)) (map JStr xs) = xs" by (rule map_filter_Some) simp
  moreover assume "distinct xs" "list_all chart_type_id xs"
  ultimately show ?thesis by (simp add: chartTypeIds_def uniq_id filter_id_conv list_all_iff)
qed

lemma chartTypeIds_ok: "distinct (chartTypeIds v) \<and> list_all chart_type_id (chartTypeIds v)"
  by (simp add: chartTypeIds_def list_all_iff)

definition prefs_ok :: "chart_prefs \<Rightarrow> bool" where
  "prefs_ok p =
     (distinct (cp_indicators p) \<and> distinct (cp_favoriteIntervals p) \<and> distinct (cp_favoriteTypes p) \<and>
      distinct (cp_favoriteChartTypes p) \<and> list_all chart_type_id (cp_favoriteChartTypes p))"

lemma default_prefs_ok: "prefs_ok DEFAULT_CHART_PREFS"
  by (simp add: prefs_ok_def DEFAULT_CHART_PREFS_def)

lemma known_distinct: "distinct xs \<Longrightarrow> distinct (or_else (known names v) xs)"
  by (simp add: or_else_def known_def)

lemma loadChartPrefs_ok: "prefs_ok (loadChartPrefs v)"
  using default_prefs_ok chartTypeIds_ok
  by (auto simp: loadChartPrefs_def prefs_ok_def Let_def known_distinct split: option.split)

lemma saveChartPrefs_back: "prefs_ok p \<Longrightarrow> loadChartPrefs (Some (saveChartPrefs p)) = p"
  by (simp add: loadChartPrefs_def saveChartPrefs_def obj_or_empty_def prefs_ok_def Let_def known_back
      chartTypeIds_back or_else_def)

interpretation prefs: persisted "\<lambda>p. Some (saveChartPrefs p)" loadChartPrefs prefs_ok
  by unfold_locales (simp_all add: loadChartPrefs_ok saveChartPrefs_back)

text \<open>The chart's setup settles after one reading: whatever was stored, saving what was read of
  it and reading that again gives the same setup, each list without repeats.\<close>

theorem chart_prefs_settle:
  "loadChartPrefs (Some (saveChartPrefs (loadChartPrefs stored))) = loadChartPrefs stored \<and>
   prefs_ok (loadChartPrefs stored)"
  using prefs.reload prefs.load_ok by simp

definition cell_ok :: "chart_cell \<Rightarrow> bool" where
  "cell_ok c = (cc_market c \<noteq> [] \<and> (case cc_chart c of Some t \<Rightarrow> length t \<le> CHART_MAX | None \<Rightarrow> True))"

definition charts_ok :: "multi_chart \<Rightarrow> bool" where
  "charts_ok s =
     (length (mc_cells s) \<le> MAX_CELLS \<and> list_all cell_ok (mc_cells s) \<and>
      mc_favoriteIntervals s = filter (\<lambda>i. i \<in> set (mc_favoriteIntervals s)) (map snd ALL_INTERVALS) \<and>
      distinct (mc_favoriteChartTypes s) \<and> list_all chart_type_id (mc_favoriteChartTypes s))"

lemma cellFrom_ok: "cellFrom v = Some c \<Longrightarrow> cell_ok c"
  by (auto simp: cellFrom_def cell_ok_def split: option.splits if_splits)

lemma cell_back: "cell_ok c \<Longrightarrow> cellFrom (cell_json c) = Some c"
  by (cases "cc_chart c")
    (simp_all add: cell_ok_def cell_json_def cellFrom_def settingsFrom_def obj_or_empty_def or_else_def)

lemma cells_back: "list_all cell_ok cs \<Longrightarrow> length cs \<le> MAX_CELLS \<Longrightarrow> cellsFrom (Some (JArr (map cell_json cs))) = cs"
  using map_filter_back [of cs cellFrom cell_json] by (simp add: cellsFrom_def cell_back list_all_iff)

lemma cellsFrom_ok: "list_all cell_ok (cellsFrom v) \<and> length (cellsFrom v) \<le> MAX_CELLS"
  by (simp add: cellsFrom_def list_all_take map_filter_all cellFrom_ok)

lemma filter_names_same:
  assumes "distinct (map snd m)"
  shows "map snd (filter P m) = filter (\<lambda>x. x \<in> set (map snd (filter P m))) (map snd m)"
proof -
  have "P kv = (snd kv \<in> set (map snd (filter P m)))" if "kv \<in> set m" for kv
    using assms that by (auto simp: distinct_map dest: inj_onD)
  then have "filter P m = filter (\<lambda>kv. snd kv \<in> set (map snd (filter P m))) m"
    by (intro filter_cong) auto
  then show ?thesis by (simp only: filter_map comp_def)
qed

lemma restore_ok: "charts_ok (restore v)"
proof -
  have "distinct (map snd ALL_INTERVALS)" by (simp add: ALL_INTERVALS_def INTERVAL_GROUPS_def)
  from filter_names_same [OF this] show ?thesis
    using cellsFrom_ok chartTypeIds_ok by (simp add: restore_def charts_ok_def Let_def del: set_map)
qed

lemma name_of_interval: "kv \<in> set ALL_INTERVALS \<Longrightarrow> name_of ALL_INTERVALS (snd kv) = fst kv"
  by (auto simp: ALL_INTERVALS_def INTERVAL_GROUPS_def name_of_def)

lemma interval_names:
  "JStr (fst kv) \<in> set (arr_or_nil (Some (names_json ALL_INTERVALS xs))) \<longleftrightarrow> snd kv \<in> set xs"
  if "kv \<in> set ALL_INTERVALS"
proof -
  have "fst kv = name_of ALL_INTERVALS i \<Longrightarrow> snd kv = i" for i
    using names_back(2) [of i] names_back(2) [of "snd kv"] name_of_interval [OF that]
    by simp
  then show ?thesis using name_of_interval [OF that] by (auto simp: names_json_def image_iff intro!: bexI [of _ "snd kv"])
qed

lemma intervals_back:
  "map snd (filter (\<lambda>kv. JStr (fst kv) \<in> set (arr_or_nil (Some (names_json ALL_INTERVALS xs)))) ALL_INTERVALS) =
   filter (\<lambda>i. i \<in> set xs) (map snd ALL_INTERVALS)"
  by (simp add: filter_map comp_def interval_names cong: filter_cong)

lemma saveMultiChart_back: "charts_ok s \<Longrightarrow> restore (saveMultiChart s) = s"
  by (simp add: restore_def saveMultiChart_def obj_or_empty_def charts_ok_def Let_def or_else_def cells_back
      chartTypeIds_back intervals_back)

interpretation charts: persisted saveMultiChart restore charts_ok
  by unfold_locales (simp_all add: restore_ok saveMultiChart_back)

text \<open>C17: The Multi-chart page survives a restart: any state within its limits is read back exactly
  as it was saved, and whatever else is stored reads as a state within the limits.\<close>

theorem multi_chart_round_trip:
  "restore (saveMultiChart (restore v)) = restore v \<and> (charts_ok s = (\<exists>j. restore j = s))"
  using charts.reload charts.ok_iff by simp

section \<open>Made good against the markets\<close>

lemma defaults_listed: "c \<in> set (defaultCells v mks majors) \<Longrightarrow> cc_venue c = v \<and> cc_market c \<in> m_id ` set mks"
  by (auto simp: defaultCells_def fresh_def Let_def dest!: in_set_takeD)

lemma defaults_there: "mks \<noteq> [] \<Longrightarrow> defaultCells v mks majors \<noteq> []"
  by (simp add: defaultCells_def MAX_CELLS_def Let_def)

lemma spare_there:
  assumes "defaults \<noteq> []"
  obtains d used' where "spare defaults used = (Some d, used')" "d \<in> set defaults"
proof (cases "List.find (\<lambda>d. cc_market d \<notin> set used) defaults")
  case None
  with assms show ?thesis
    by (intro that [of "defaults ! 0"]) (auto simp: spare_def nth_opt_def Let_def)
next
  case (Some d)
  with find_SomeD [OF this] show ?thesis by (intro that [of d]) (auto simp: spare_def Let_def)
qed

definition listed_cell :: "venue \<Rightarrow> string set \<Rightarrow> chart_cell \<Rightarrow> bool" where
  "listed_cell v listed c = (cc_venue c = v \<longrightarrow> cc_market c \<in> listed)"

text \<open>A chart of the venue whose market is gone shows another; every other chart is left alone.\<close>

definition kept_cell :: "venue \<Rightarrow> string set \<Rightarrow> chart_cell \<Rightarrow> chart_cell \<Rightarrow> bool" where
  "kept_cell v listed c c' = (c' = (if listed_cell v listed c then c else c\<lparr>cc_market := cc_market c'\<rparr>))"

lemma repair_cells_good:
  assumes "defaults \<noteq> []" "\<And>d. d \<in> set defaults \<Longrightarrow> cc_market d \<in> listed"
    "repair_cells v listed defaults cs used ch = (cs', u', ch')"
  shows "list_all (listed_cell v listed) cs' \<and>
    list_all2 (kept_cell v listed) cs cs' \<and>
    (ch' = (ch \<or> \<not> list_all (listed_cell v listed) cs))"
  using assms(3)
proof (induction cs arbitrary: used ch cs' u' ch')
  case (Cons c cs)
  obtain d used' where sp: "spare defaults used = (Some d, used')" "d \<in> set defaults"
    using spare_there [OF assms(1)] .
  show ?case
  proof (cases "listed_cell v listed c")
    case True
    obtain cs1 where r: "repair_cells v listed defaults cs used ch = (cs1, u', ch')" and cs': "cs' = c # cs1"
      using Cons.prems True by (auto simp: listed_cell_def split: prod.splits)
    from Cons.IH [OF r] True show ?thesis by (simp add: cs' kept_cell_def)
  next
    case False
    obtain cs1 where r: "repair_cells v listed defaults cs used' True = (cs1, u', ch')"
      and cs': "cs' = c\<lparr>cc_market := cc_market d\<rparr> # cs1"
      using Cons.prems False by (auto simp: listed_cell_def sp(1) split: prod.splits)
    have "listed_cell v listed (c\<lparr>cc_market := cc_market d\<rparr>)"
      using assms(2) [OF sp(2)] by (simp add: listed_cell_def)
    with Cons.IH [OF r] False show ?thesis by (simp add: cs' kept_cell_def)
  qed
qed simp

lemma repair_cells_same:
  "list_all (listed_cell v listed) cs \<Longrightarrow> repair_cells v listed defaults cs used ch = (cs, used, ch)"
  by (induction cs) (auto simp: listed_cell_def)

lemma fill_cells_good:
  assumes "defaults \<noteq> []"
  shows "\<exists>ds. set ds \<subseteq> set defaults \<and> length ds = MAX_CELLS - length cells \<and>
    fill_cells defaults cells used ch = (cells @ ds, ch \<or> ds \<noteq> [])"
  using assms
proof (induction defaults cells used ch rule: fill_cells.induct)
  case (1 defaults cells used ch)
  show ?case
  proof (cases "MAX_CELLS \<le> length cells")
    case True
    then show ?thesis by (simp add: fill_cells.simps)
  next
    case False
    obtain d used' where sp: "spare defaults used = (Some d, used')" "d \<in> set defaults"
      using spare_there [OF 1(2)] .
    from 1(1) [OF False sp(1) [symmetric] refl 1(2)] obtain ds where
      "set ds \<subseteq> set defaults" "length ds = MAX_CELLS - length (cells @ [d])"
      "fill_cells defaults (cells @ [d]) used' True = ((cells @ [d]) @ ds, True \<or> ds \<noteq> [])" by auto
    with False sp show ?thesis
      by (intro exI [of _ "d # ds"]) (simp add: fill_cells.simps [of defaults cells])
  qed
qed

lemma fill_cells_same: "MAX_CELLS \<le> length cells \<Longrightarrow> fill_cells defaults cells used ch = (cells, ch)"
  by (simp add: fill_cells.simps)

lemma repaired_cells:
  assumes "mks \<noteq> []"
  obtains cs ds where "mc_cells (repaired s v mks majors True) = cs @ ds"
    "list_all (listed_cell v (m_id ` set mks)) (cs @ ds)" "length ds = MAX_CELLS - length (mc_cells s)"
    "list_all2 (kept_cell v (m_id ` set mks))
       (mc_cells s) cs"
proof -
  let ?L = "m_id ` set mks" and ?d = "defaultCells v mks majors"
  let ?u = "map cc_market (filter (\<lambda>c. cc_venue c = v) (mc_cells s))"
  obtain cs u ch where r: "repair_cells v ?L ?d (mc_cells s) ?u False = (cs, u, ch)"
    by (cases "repair_cells v ?L ?d (mc_cells s) ?u False") auto
  note good = repair_cells_good [OF defaults_there [OF assms] _ r]
  have g: "list_all (listed_cell v ?L) cs"
    "list_all2 (kept_cell v ?L) (mc_cells s) cs"
    "ch = (\<not> list_all (listed_cell v ?L) (mc_cells s))"
    using good defaults_listed by blast+
  have len: "length cs = length (mc_cells s)" using g(2) by (simp add: list_all2_lengthD)
  obtain ds where ds: "set ds \<subseteq> set ?d" "length ds = MAX_CELLS - length cs"
    "fill_cells ?d cs u ch = (cs @ ds, ch \<or> ds \<noteq> [])"
    using fill_cells_good [OF defaults_there [OF assms]] by blast
  have same: "cs = mc_cells s" if "\<not> ch"
    using g(2) g(3) that by (induction rule: list_all2_induct) (auto simp: kept_cell_def)
  have "mc_cells (repaired s v mks majors True) = cs @ ds"
    using same by (auto simp: repaired_def assms r ds(3) Let_def)
  moreover have "list_all (listed_cell v ?L) (cs @ ds)"
    using g(1) ds(1) defaults_listed by (fastforce simp: list_all_iff listed_cell_def)
  ultimately show ?thesis using that ds(2) g(2) len by simp
qed

text \<open>C18: With a venue's markets at hand the page shows charts of listed markets only: exactly nine of
  them, each chart of another venue or of a listed market left as it was, the others keeping
  everything but the market; doing it again changes nothing.\<close>

theorem repaired_makes_good:
  assumes "mks \<noteq> []" "charts_ok s"
  shows "length (mc_cells (repaired s v mks majors True)) = MAX_CELLS \<and>
    list_all (listed_cell v (m_id ` set mks)) (mc_cells (repaired s v mks majors True)) \<and>
    list_all2 (kept_cell v (m_id ` set mks))
      (mc_cells s) (take (length (mc_cells s)) (mc_cells (repaired s v mks majors True))) \<and>
    repaired (repaired s v mks majors True) v mks majors True = repaired s v mks majors True"
proof -
  obtain cs ds where c: "mc_cells (repaired s v mks majors True) = cs @ ds"
    "list_all (listed_cell v (m_id ` set mks)) (cs @ ds)" "length ds = MAX_CELLS - length (mc_cells s)"
    "list_all2 (kept_cell v (m_id ` set mks))
       (mc_cells s) cs"
    using repaired_cells [OF assms(1)] .
  have len: "length cs = length (mc_cells s)" "length (mc_cells s) \<le> MAX_CELLS"
    using c(4) assms(2) by (simp_all add: list_all2_lengthD charts_ok_def)
  have "repaired t v mks majors True = t"
    if "list_all (listed_cell v (m_id ` set mks)) (mc_cells t)" "MAX_CELLS \<le> length (mc_cells t)" for t
    using that by (simp add: repaired_def repair_cells_same fill_cells_same Let_def)
  with c len show ?thesis by simp
qed

definition sample_market :: market where
  "sample_market = \<lparr>m_venue = Bybit, m_id = ''BTCUSDT'', m_symbol = ''BTC-PERP'', m_base = ''BTC'', m_quote = ''USDT'',
     m_tickSize = ''0.1'', m_sizeStep = ''0.001'', m_minSize = ''0.001'', m_maxLeverage = Fin 100,
     m_listedBy = None, m_category = None, m_listedAt = None\<rparr>"

definition sample_charts :: multi_chart where
  "sample_charts = (restore JNull)\<lparr>mc_cells := [fresh Bybit ''GONEUSDT'', fresh Aster ''ETHUSDT'']\<rparr>"

theorem repaired_makes_good_witness:
  "length (mc_cells (repaired sample_charts Bybit [sample_market] [] True)) = 9 \<and>
   mc_cells (repaired sample_charts Bybit [sample_market] [] True) ! 1 = fresh Aster ''ETHUSDT''"
proof -
  have ok: "charts_ok sample_charts"
    by (simp add: sample_charts_def charts_ok_def restore_def obj_or_empty_def Let_def cellsFrom_def chartTypeIds_def
        List.map_filter_simps arr_or_nil_def cell_ok_def fresh_def MAX_CELLS_def)
  have cells: "mc_cells sample_charts = [fresh Bybit ''GONEUSDT'', fresh Aster ''ETHUSDT'']"
    by (simp add: sample_charts_def)
  have ne: "[sample_market] \<noteq> []" by simp
  note r = repaired_makes_good [OF ne ok, of Bybit "[]"]
  have "kept_cell Bybit (m_id ` set [sample_market]) (mc_cells sample_charts ! 1)
      (take (length (mc_cells sample_charts)) (mc_cells (repaired sample_charts Bybit [sample_market] [] True)) ! 1)"
    by (rule list_all2_nthD [OF conjunct1 [OF conjunct2 [OF conjunct2 [OF r]]]]) (simp add: cells)
  then have "mc_cells (repaired sample_charts Bybit [sample_market] [] True) ! 1 = fresh Aster ''ETHUSDT''"
    by (simp add: cells kept_cell_def listed_cell_def) (simp add: fresh_def)
  with r show ?thesis by (simp add: MAX_CELLS_def)
qed

lemma length_map_cells [simp]: "length (mc_cells (map_cells f s)) = length (mc_cells s)"
  by (simp add: map_cells_def)

lemma nth_map_cells [simp]: "i < length (mc_cells s) \<Longrightarrow> mc_cells (map_cells f s) ! i = f i (mc_cells s ! i)"
  by (simp add: map_cells_def nth_enumerate_eq)

lemma map_cells_frame [frame_simps]: "map_cells f s = s\<lparr>mc_cells := mc_cells (map_cells f s)\<rparr>"
  by (simp add: map_cells_def)

lemma multi_chart_eqI:
  "mc_cells s = mc_cells t \<Longrightarrow> s\<lparr>mc_cells := x\<rparr> = t\<lparr>mc_cells := x\<rparr> \<Longrightarrow> s = t" for s t :: multi_chart
  by (cases s; cases t) simp

text \<open>Two charts swapped and swapped again stand where they stood, whatever places are named.\<close>

theorem swapped_twice: "swapped (swapped s a b) a b = s"
proof (cases "a < length (mc_cells s) \<and> b < length (mc_cells s) \<and> a \<noteq> b")
  case True
  let ?x = "mc_cells s ! a" and ?y = "mc_cells s ! b"
  define f where "f = (\<lambda>k c. if k = a then ?y else if k = b then ?x else c)"
  define g where "g = (\<lambda>k c. if k = a then ?x else if k = b then ?y else (c :: chart_cell))"
  have s1: "swapped s a b = map_cells f s"
    using True by (simp add: swapped_def nth_opt_def f_def)
  have "swapped (map_cells f s) a b = map_cells g (map_cells f s)"
    using True by (simp add: swapped_def nth_opt_def f_def g_def)
  moreover have "mc_cells (map_cells g (map_cells f s)) = mc_cells s"
    by (rule nth_equalityI) (auto simp: f_def g_def)
  ultimately show ?thesis unfolding s1 by (metis map_cells_frame multi_chart.surjective multi_chart.update_convs(2))
next
  case False
  then show ?thesis by (auto simp: swapped_def nth_opt_def)
qed

section \<open>Named sets\<close>

text \<open>A name cut at its limit may end in a space, which the next reading trims: the name a set is
  saved under is then not the one it is read back with.\<close>

lemma set_name_not_stable:
  "setName (setName ''aaaaaaaaaaaaaaaaaaaaaaa b'') \<noteq> setName ''aaaaaaaaaaaaaaaaaaaaaaa b''"
  by code_simp

end
