(* ===== verification/Alerts.thy ===== *)
theory Alerts
  imports Js_Value Domain
begin

text \<open>
  Market alerts: what each kind watches and when it fires
  (\<^verbatim>\<open>packages/ui/src/lib/alerts.ts\<close>), the alerts kept on the machine
  (\<^verbatim>\<open>apps/desktop/src/lib/alerts.ts\<close>), the rounds that check them against the
  venues' summaries and the operations of the popover
  (\<^verbatim>\<open>apps/desktop/src/hooks/useAlerts.ts\<close>), and what the daemon fired meanwhile
  (\<^verbatim>\<open>apps/desktop/src/lib/daemonAlerts.ts\<close>).
\<close>

section \<open>What an alert watches\<close>

datatype alert_kind =
  PriceAlert | MoveAlert | FundingAlert | RsiAlert | VolumeAlert | OiAlert | PnlAlert | LiqAlert

definition ALERT_KINDS :: "(string \<times> alert_kind) list" where
  "ALERT_KINDS = [(''price'', PriceAlert), (''move'', MoveAlert), (''funding'', FundingAlert), (''rsi'', RsiAlert),
     (''volume'', VolumeAlert), (''oi'', OiAlert), (''pnl'', PnlAlert), (''liq'', LiqAlert)]"

definition RELATIVE_KINDS :: "alert_kind list" where
  "RELATIVE_KINDS = [PriceAlert, VolumeAlert, OiAlert]"

datatype alert_condition = Above | Below

datatype alert_repeat = Once | Every

definition ALERT_COOLDOWN_MS :: jsnum where
  "ALERT_COOLDOWN_MS = Fin 300000"

text \<open>The channels an alert notifies are not checked when it is read, so they stay values.\<close>

record market_alert =
  al_id :: string
  al_kind :: alert_kind
  al_venue :: venue
  al_market :: string
  al_symbol :: string
  al_condition :: alert_condition
  al_value :: jsnum
  al_repeat :: alert_repeat
  al_notify :: "json list"
  al_note :: "string option"
  al_active :: bool
  al_createdAt :: jsnum
  al_firedAt :: "jsnum option"

record fired_alert =
  fa_id :: string
  fa_alertId :: "string option"
  fa_kind :: alert_kind
  fa_venue :: venue
  fa_market :: string
  fa_symbol :: string
  fa_condition :: alert_condition
  fa_value :: jsnum
  fa_actual :: "jsnum option"
  fa_time :: jsnum
  fa_notify :: "json list option"

record alert_context =
  ac_rsi :: "jsnum option"
  ac_position :: "position option"

definition finite_opt :: "jsnum \<Rightarrow> jsnum option" where
  "finite_opt x = (if is_finite x then Some x else None)"

definition watchedValue :: "alert_kind \<Rightarrow> market_summary option \<Rightarrow> alert_context \<Rightarrow> jsnum option" where
  "watchedValue kind summary context =
     (case kind of
        RsiAlert \<Rightarrow> Option.bind (ac_rsi context) finite_opt
      | PnlAlert \<Rightarrow> Option.bind (ac_position context) (\<lambda>p. finite_opt (to_number (p_unrealizedPnl p)))
      | LiqAlert \<Rightarrow>
          (case ac_position context of
             None \<Rightarrow> None
           | Some p \<Rightarrow>
               (let mark = to_number (p_markPrice p);
                    liq = (case p_liquidationPrice p of None \<Rightarrow> NaN | Some l \<Rightarrow> to_number l)
                in if \<not> 0 < mark \<or> \<not> 0 < liq then None
                   else Some (\<bar>mark - liq\<bar> div mark * Fin 100)))
      | _ \<Rightarrow>
          (case summary of
             None \<Rightarrow> None
           | Some s \<Rightarrow>
               (let mark = to_number (s_markPrice s); prev = to_number (s_prevDayPrice s)
                in case kind of
                     VolumeAlert \<Rightarrow> finite_opt (to_number (s_dayVolume s))
                   | OiAlert \<Rightarrow> finite_opt (to_number (s_openInterest s) * mark)
                   | PriceAlert \<Rightarrow> finite_opt mark
                   | MoveAlert \<Rightarrow>
                       (if \<not> 0 < prev then None else finite_opt ((mark - prev) div prev * Fin 100))
                   | _ \<Rightarrow> finite_opt (to_number (s_fundingRate s) * Fin 100))))"

definition distanceToFire :: "market_alert \<Rightarrow> jsnum option \<Rightarrow> jsnum option" where
  "distanceToFire alert cur =
     (case cur of
        None \<Rightarrow> None
      | Some c \<Rightarrow>
          (let gap = (case al_condition alert of Above \<Rightarrow> al_value alert - c | Below \<Rightarrow> c - al_value alert)
           in if al_kind alert \<notin> set RELATIVE_KINDS then Some gap
              else if 0 < c then Some (gap div c) else None))"

definition crossed :: "market_alert \<Rightarrow> jsnum option \<Rightarrow> jsnum option \<Rightarrow> bool" where
  "crossed alert previous cur =
     (case (previous, cur) of
        (Some p, Some c) \<Rightarrow>
          (case al_condition alert of
             Above \<Rightarrow> p < al_value alert \<and> al_value alert \<le> c
           | Below \<Rightarrow> al_value alert < p \<and> c \<le> al_value alert)
      | _ \<Rightarrow> False)"

definition canFire :: "market_alert \<Rightarrow> jsnum \<Rightarrow> bool" where
  "canFire alert now =
     (al_active alert \<and>
      (case al_firedAt alert of None \<Rightarrow> True | Some t \<Rightarrow> ALERT_COOLDOWN_MS \<le> now - t))"

definition closeness :: "(market_alert \<Rightarrow> jsnum option) \<Rightarrow> market_alert \<Rightarrow> jsnum" where
  "closeness currentOf a =
     (case distanceToFire a (currentOf a) of
        None \<Rightarrow> PInf
      | Some d \<Rightarrow>
          if al_kind a \<in> set RELATIVE_KINDS then \<bar>d\<bar>
          else \<bar>if al_kind a = PnlAlert then d div math_max \<bar>al_value a\<bar> 1 else d div Fin 100\<bar>)"

definition sortAlerts :: "market_alert list \<Rightarrow> (market_alert \<Rightarrow> jsnum option) \<Rightarrow> market_alert list" where
  "sortAlerts alerts currentOf =
     js_sort (\<lambda>a b. if al_active a \<noteq> al_active b then al_active a
                    else if \<not> al_active a then al_createdAt b - al_createdAt a < 0
                    else closeness currentOf a - closeness currentOf b < 0) alerts"

section \<open>What is kept on the machine\<close>

definition MAX_ALERTS :: nat where
  "MAX_ALERTS = 200"

definition CHANNELS_VERSION :: jsnum where
  "CHANNELS_VERSION = Fin 2"

definition VENUE_IDS :: "(string \<times> venue) list" where
  "VENUE_IDS = [(''bybit'', Bybit), (''hyperliquid'', Hyperliquid), (''aster'', Aster), (''binance'', Binance),
     (''blofin'', Blofin)]"

definition CONDITIONS :: "(string \<times> alert_condition) list" where
  "CONDITIONS = [(''above'', Above), (''below'', Below)]"

definition REPEATS :: "(string \<times> alert_repeat) list" where
  "REPEATS = [(''once'', Once), (''every'', Every)]"

record alerts_state =
  as_alerts :: "market_alert list"
  as_fired :: "fired_alert list"
  as_paused :: bool
  as_seenAt :: jsnum

definition EMPTY_ALERTS :: alerts_state where
  "EMPTY_ALERTS = \<lparr>as_alerts = [], as_fired = [], as_paused = False, as_seenAt = 0\<rparr>"

definition as_arr :: "json option \<Rightarrow> json list option" where
  "as_arr v = (case v of Some (JArr xs) \<Rightarrow> Some xs | _ \<Rightarrow> None)"

text \<open>The fields the reader does not check (the note, when it fired) are read where they have their type.\<close>

definition isAlert :: "json \<Rightarrow> market_alert option" where
  "isAlert v =
     (case (as_str (field v ''id''), name_in ALERT_KINDS (field v ''kind''), name_in VENUE_IDS (field v ''venue''),
            as_str (field v ''market''), as_str (field v ''symbol''), name_in CONDITIONS (field v ''condition''),
            Option.bind (as_num (field v ''value'')) finite_opt, name_in REPEATS (field v ''repeat''),
            as_arr (field v ''notify''), as_bool (field v ''active''), as_num (field v ''createdAt'')) of
        (Some i, Some k, Some ve, Some m, Some s, Some c, Some x, Some r, Some n, Some a, Some t) \<Rightarrow>
          Some \<lparr>al_id = i, al_kind = k, al_venue = ve, al_market = m, al_symbol = s, al_condition = c, al_value = x,
                al_repeat = r, al_notify = n, al_note = as_str (field v ''note''), al_active = a, al_createdAt = t,
                al_firedAt = as_num (field v ''firedAt'')\<rparr>
      | _ \<Rightarrow> None)"

definition isFired :: "json \<Rightarrow> fired_alert option" where
  "isFired v =
     (case (as_str (field v ''id''), name_in ALERT_KINDS (field v ''kind''), name_in VENUE_IDS (field v ''venue''),
            as_str (field v ''market''), as_str (field v ''symbol''), name_in CONDITIONS (field v ''condition''),
            as_num (field v ''value''), as_num (field v ''time'')) of
        (Some i, Some k, Some ve, Some m, Some s, Some c, Some x, Some t) \<Rightarrow>
          Some \<lparr>fa_id = i, fa_alertId = as_str (field v ''alertId''), fa_kind = k, fa_venue = ve, fa_market = m,
                fa_symbol = s, fa_condition = c, fa_value = x, fa_actual = as_num (field v ''actual''), fa_time = t,
                fa_notify = as_arr (field v ''notify'')\<rparr>
      | _ \<Rightarrow> None)"

text \<open>An alert saved before its channels were honoured goes on reaching the desktop with its sound.\<close>

definition upgraded :: "market_alert \<Rightarrow> market_alert" where
  "upgraded a = (if list_all (\<lambda>c. c = JStr ''app'') (al_notify a)
                 then a\<lparr>al_notify := [JStr ''app'', JStr ''desktop'', JStr ''sound'']\<rparr> else a)"

definition loadAlerts :: "json option \<Rightarrow> alerts_state" where
  "loadAlerts saved =
     (case saved of
        Some (JObj m) \<Rightarrow>
          (let v = JObj m; up = field v ''channels'' \<noteq> Some (JNum CHANNELS_VERSION)
           in \<lparr>as_alerts = map (\<lambda>a. if up then upgraded a else a)
                             (take MAX_ALERTS (List.map_filter isAlert (arr_or_nil (field v ''alerts'')))),
               as_fired = List.map_filter isFired (arr_or_nil (field v ''fired'')),
               as_paused = (field v ''paused'' = Some (JBool True)),
               as_seenAt = or_else (as_num (field v ''seenAt'')) 0\<rparr>)
      | _ \<Rightarrow> EMPTY_ALERTS)"

definition opt_field :: "string \<Rightarrow> json option \<Rightarrow> (string \<times> json) list" where
  "opt_field k v = (case v of Some x \<Rightarrow> [(k, x)] | None \<Rightarrow> [])"

definition alert_json :: "market_alert \<Rightarrow> json" where
  "alert_json a =
     JObj ([(''id'', JStr (al_id a)), (''kind'', JStr (name_of ALERT_KINDS (al_kind a))),
            (''venue'', JStr (name_of VENUE_IDS (al_venue a))), (''market'', JStr (al_market a)),
            (''symbol'', JStr (al_symbol a)), (''condition'', JStr (name_of CONDITIONS (al_condition a))),
            (''value'', num_json (al_value a)), (''repeat'', JStr (name_of REPEATS (al_repeat a))),
            (''notify'', JArr (al_notify a)), (''active'', JBool (al_active a)),
            (''createdAt'', num_json (al_createdAt a))]
           @ opt_field ''note'' (map_option JStr (al_note a)) @ opt_field ''firedAt'' (map_option num_json (al_firedAt a)))"

definition fired_json :: "fired_alert \<Rightarrow> json" where
  "fired_json f =
     JObj ([(''id'', JStr (fa_id f)), (''kind'', JStr (name_of ALERT_KINDS (fa_kind f))),
            (''venue'', JStr (name_of VENUE_IDS (fa_venue f))), (''market'', JStr (fa_market f)),
            (''symbol'', JStr (fa_symbol f)), (''condition'', JStr (name_of CONDITIONS (fa_condition f))),
            (''value'', num_json (fa_value f)), (''time'', num_json (fa_time f))]
           @ opt_field ''alertId'' (map_option JStr (fa_alertId f)) @ opt_field ''actual'' (map_option num_json (fa_actual f))
           @ opt_field ''notify'' (map_option JArr (fa_notify f)))"

definition saveAlerts :: "alerts_state \<Rightarrow> json" where
  "saveAlerts s =
     JObj [(''alerts'', JArr (map alert_json (as_alerts s))), (''fired'', JArr (map fired_json (as_fired s))),
           (''paused'', JBool (as_paused s)), (''seenAt'', num_json (as_seenAt s)),
           (''channels'', JNum CHANNELS_VERSION)]"

section \<open>Checking the alerts\<close>

definition FIRED_KEPT :: nat where
  "FIRED_KEPT = 50"

text \<open>A venue's summaries by market id: of two for one market the later counts.\<close>

definition summary_at :: "market_summary list \<Rightarrow> string \<Rightarrow> market_summary option" where
  "summary_at summaries m = List.find (\<lambda>s. s_market s = m) (rev summaries)"

definition rsiKey :: "(venue \<times> string) \<Rightarrow> string" where
  "rsiKey vm = name_of VENUE_IDS (fst vm) @ '':'' @ snd vm"

definition contextOf :: "jsnum obj \<Rightarrow> account_snapshot option \<Rightarrow> venue \<Rightarrow> string \<Rightarrow> alert_context" where
  "contextOf rsi account v m =
     \<lparr>ac_rsi = obj_get rsi (rsiKey (v, m)),
      ac_position = (case account of
                       Some a \<Rightarrow> if a_venue a = v then List.find (\<lambda>p. p_market p = m) (a_positions a) else None
                     | None \<Rightarrow> None)\<rparr>"

text \<open>What a round reads: each venue's summaries, the RSI readings, the account, and the time.\<close>

record alert_reads =
  ar_byVenue :: "venue \<Rightarrow> market_summary list"
  ar_rsi :: "jsnum obj"
  ar_account :: "account_snapshot option"
  ar_now :: jsnum

definition reading :: "alert_reads \<Rightarrow> market_alert \<Rightarrow> jsnum option" where
  "reading r a =
     (let summaries = ar_byVenue r (al_venue a)
      in if summaries = [] then None
         else watchedValue (al_kind a) (summary_at summaries (al_market a))
                (contextOf (ar_rsi r) (ar_account r) (al_venue a) (al_market a)))"

text \<open>The alerts with the last value each one saw.\<close>

record alerts_page =
  ap_state :: alerts_state
  ap_previous :: "jsnum obj"

definition fires :: "alert_reads \<Rightarrow> jsnum obj \<Rightarrow> market_alert \<Rightarrow> bool" where
  "fires r previous a =
     (reading r a \<noteq> None \<and> canFire a (ar_now r) \<and> crossed a (obj_get previous (al_id a)) (reading r a))"

definition fired_entry :: "alert_reads \<Rightarrow> string \<Rightarrow> market_alert \<Rightarrow> fired_alert" where
  "fired_entry r uuid a =
     \<lparr>fa_id = uuid, fa_alertId = Some (al_id a), fa_kind = al_kind a, fa_venue = al_venue a, fa_market = al_market a,
      fa_symbol = al_symbol a, fa_condition = al_condition a, fa_value = al_value a, fa_actual = reading r a,
      fa_time = ar_now r, fa_notify = Some (al_notify a)\<rparr>"

text \<open>One pass over the alerts: the readings kept, what fired (oldest first), and for each alert
  that fired whether it stays on. \<open>uuid\<close> gives the ids of the entries.\<close>

fun check_alerts ::
    "alert_reads \<Rightarrow> (nat \<Rightarrow> string) \<Rightarrow> market_alert list \<Rightarrow> jsnum obj \<Rightarrow> fired_alert list \<Rightarrow> bool obj
      \<Rightarrow> jsnum obj \<times> fired_alert list \<times> bool obj" where
  "check_alerts r uuid [] previous fired updates = (previous, fired, updates)"
| "check_alerts r uuid (a # as) previous fired updates =
     (let previous' = (case reading r a of Some c \<Rightarrow> obj_set previous (al_id a) c | None \<Rightarrow> previous)
      in if fires r previous a
         then check_alerts r uuid as previous' (fired @ [fired_entry r (uuid (length fired)) a])
                (obj_set updates (al_id a) (al_repeat a = Every))
         else check_alerts r uuid as previous' fired updates)"

definition mark_fired :: "jsnum \<Rightarrow> bool obj \<Rightarrow> market_alert \<Rightarrow> market_alert" where
  "mark_fired now updates a =
     (case obj_get updates (al_id a) of
        Some on \<Rightarrow> a\<lparr>al_firedAt := Some now, al_active := on\<rparr>
      | None \<Rightarrow> a)"

definition push_fired :: "fired_alert list \<Rightarrow> fired_alert list \<Rightarrow> fired_alert list" where
  "push_fired new old = take FIRED_KEPT (rev new @ old)"

definition check_round :: "alert_reads \<Rightarrow> (nat \<Rightarrow> string) \<Rightarrow> alerts_page \<Rightarrow> alerts_page \<times> fired_alert list" where
  "check_round r uuid p =
     (let s = ap_state p
      in if as_paused s then (p\<lparr>ap_previous := []\<rparr>, [])
         else (let (previous, fired, updates) = check_alerts r uuid (as_alerts s) (ap_previous p) [] []
               in (p\<lparr>ap_previous := previous,
                     ap_state := (if fired = [] then s
                                  else s\<lparr>as_alerts := map (mark_fired (ar_now r) updates) (as_alerts s),
                                         as_fired := push_fired fired (as_fired s)\<rparr>)\<rparr>, fired)))"

section \<open>The popover's operations\<close>

definition create_alert :: "market_alert \<Rightarrow> string \<Rightarrow> jsnum \<Rightarrow> alerts_state \<Rightarrow> alerts_state" where
  "create_alert draft uuid now s =
     s\<lparr>as_alerts := as_alerts s @ [draft\<lparr>al_id := uuid, al_active := True, al_createdAt := now, al_firedAt := None\<rparr>]\<rparr>"

definition toggle_alert :: "string \<Rightarrow> bool \<Rightarrow> alerts_page \<Rightarrow> alerts_page" where
  "toggle_alert i active p =
     (let s = ap_state p
      in \<lparr>ap_state = s\<lparr>as_alerts := map (\<lambda>a. if al_id a = i then a\<lparr>al_active := active, al_firedAt := None\<rparr> else a)
                                       (as_alerts s)\<rparr>,
          ap_previous = obj_del (ap_previous p) i\<rparr>)"

definition remove_alert :: "string \<Rightarrow> alerts_page \<Rightarrow> alerts_page" where
  "remove_alert i p =
     (let s = ap_state p
      in \<lparr>ap_state = s\<lparr>as_alerts := filter (\<lambda>a. al_id a \<noteq> i) (as_alerts s)\<rparr>,
          ap_previous = obj_del (ap_previous p) i\<rparr>)"

definition unseen :: "(jsnum \<Rightarrow> bool) \<Rightarrow> alerts_state \<Rightarrow> nat" where
  "unseen today s = length (filter (\<lambda>f. today (fa_time f) \<and> as_seenAt s < fa_time f) (as_fired s))"

datatype alert_event =
    Check alert_reads "nat \<Rightarrow> string"
  | Create market_alert string jsnum
  | Toggle string bool
  | Remove string
  | SetPaused bool
  | ClearFired
  | MarkSeen jsnum

fun alerts_step :: "alert_event \<Rightarrow> alerts_page \<Rightarrow> alerts_page \<times> fired_alert list" where
  "alerts_step (Check r uuid) p = check_round r uuid p"
| "alerts_step (Create draft uuid now) p = (p\<lparr>ap_state := create_alert draft uuid now (ap_state p)\<rparr>, [])"
| "alerts_step (Toggle i active) p = (toggle_alert i active p, [])"
| "alerts_step (Remove i) p = (remove_alert i p, [])"
| "alerts_step (SetPaused b) p = (p\<lparr>ap_state := (ap_state p)\<lparr>as_paused := b\<rparr>\<rparr>, [])"
| "alerts_step ClearFired p = (p\<lparr>ap_state := (ap_state p)\<lparr>as_fired := []\<rparr>\<rparr>, [])"
| "alerts_step (MarkSeen now) p = (p\<lparr>ap_state := (ap_state p)\<lparr>as_seenAt := now\<rparr>\<rparr>, [])"

text \<open>Everything that fires over a sequence of rounds and operations, in the order it fires.\<close>

fun run_fired :: "alert_event list \<Rightarrow> alerts_page \<Rightarrow> fired_alert list" where
  "run_fired [] p = []"
| "run_fired (e # es) p = (let (p', fs) = alerts_step e p in fs @ run_fired es p')"

section \<open>What the daemon fired meanwhile\<close>

record alert_firing =
  fi_alertId :: string
  fi_actual :: jsnum
  fi_time :: jsnum

definition away_entry :: "string \<Rightarrow> alert_firing \<Rightarrow> market_alert \<Rightarrow> fired_alert" where
  "away_entry newId f a =
     \<lparr>fa_id = newId, fa_alertId = Some (al_id a), fa_kind = al_kind a, fa_venue = al_venue a, fa_market = al_market a,
      fa_symbol = al_symbol a, fa_condition = al_condition a, fa_value = al_value a, fa_actual = Some (fi_actual f),
      fa_time = fi_time f, fa_notify = Some [JStr ''app'']\<rparr>"

fun take_firings ::
    "(string \<Rightarrow> market_alert option) \<Rightarrow> (nat \<Rightarrow> string) \<Rightarrow> alert_firing list \<Rightarrow> fired_alert list \<Rightarrow> jsnum obj
      \<Rightarrow> fired_alert list \<times> jsnum obj" where
  "take_firings byId newId [] fired latest = (fired, latest)"
| "take_firings byId newId (f # fs) fired latest =
     (case byId (fi_alertId f) of
        None \<Rightarrow> take_firings byId newId fs fired latest
      | Some a \<Rightarrow>
          take_firings byId newId fs (fired @ [away_entry (newId (length fired)) f a])
            (obj_set latest (al_id a) (math_max (or_else (obj_get latest (al_id a)) 0) (fi_time f))))"

definition applyAway :: "alerts_state \<Rightarrow> alert_firing list \<Rightarrow> (nat \<Rightarrow> string) \<Rightarrow> nat \<Rightarrow> alerts_state" where
  "applyAway s firings newId kept =
     (let byId = (\<lambda>i. List.find (\<lambda>a. al_id a = i) (rev (as_alerts s)));
          (fired, latest) = take_firings byId newId firings [] []
      in if fired = [] then s
         else s\<lparr>as_alerts := map (\<lambda>a. case obj_get latest (al_id a) of
                                       None \<Rightarrow> a
                                     | Some t \<Rightarrow> a\<lparr>al_firedAt := Some (math_max (or_else (al_firedAt a) 0) t),
                                                   al_active := (al_repeat a = Every \<and> al_active a)\<rparr>)
                                   (as_alerts s),
                as_fired := take kept (js_sort (\<lambda>x y. fa_time y - fa_time x < 0) fired @ as_fired s)\<rparr>)"

end
