(* ===== verification/Watchlists.thy ===== *)
theory Watchlists
  imports Alerts Interfaces Indicators
begin

text \<open>
  The Watchlist tab's named lists, \<^verbatim>\<open>apps/desktop/src/lib/watchlists.ts\<close>: what is
  made of a stored text, the operations on the lists, the store behind them, and what a
  list's cards show. A stored text stands as the value it parses to, \<open>None\<close> where it
  does not parse.
\<close>

definition STARRED :: string where
  "STARRED = ''starred''"

definition LIST_NAME_MAX :: nat where
  "LIST_NAME_MAX = 32"

definition MAX_LISTS :: nat where
  "MAX_LISTS = 40"

definition MAX_ENTRIES :: nat where
  "MAX_ENTRIES = 200"

record named_list =
  nl_id :: string
  nl_name :: string
  nl_keys :: "string list"

record lists_state =
  ls_lists :: "named_list list"
  ls_active :: string

definition EMPTY_LISTS :: lists_state where
  "EMPTY_LISTS = \<lparr>ls_lists = [], ls_active = STARRED\<rparr>"

definition cleanName :: "string \<Rightarrow> string" where
  "cleanName name = take LIST_NAME_MAX (one_space (js_trim name))"

section \<open>Read back\<close>

text \<open>The next stored list, kept where it is well formed and its id is new.\<close>

definition take_list :: "json \<Rightarrow> named_list list \<Rightarrow> named_list list" where
  "take_list l kept =
     (case (as_str (field l ''id''), as_str (field l ''name'')) of
        (Some i, Some n) \<Rightarrow>
          if i = [] \<or> i = STARRED \<or> cleanName n = [] \<or> i \<in> nl_id ` set kept then kept
          else kept @
            [\<lparr>nl_id = i, nl_name = cleanName n,
              nl_keys = take MAX_ENTRIES
                (uniq (filter (\<lambda>k. CHR '':'' \<in> set k)
                         (List.map_filter (\<lambda>k. as_str (Some k)) (arr_or_nil (field l ''keys'')))))\<rparr>]
      | _ \<Rightarrow> kept)"

definition parseLists :: "json option option \<Rightarrow> lists_state" where
  "parseLists raw =
     (case raw of
        Some (Some v) \<Rightarrow>
          (let kept = fold take_list (arr_or_nil (field v ''lists'')) [];
               active = (case as_str (field v ''active'') of
                           Some a \<Rightarrow> if a \<in> nl_id ` set kept then a else STARRED | None \<Rightarrow> STARRED)
           in \<lparr>ls_lists = take MAX_LISTS kept, ls_active = active\<rparr>)
      | _ \<Rightarrow> EMPTY_LISTS)"

definition list_json :: "named_list \<Rightarrow> json" where
  "list_json l = JObj [(''id'', JStr (nl_id l)), (''name'', JStr (nl_name l)), (''keys'', JArr (map JStr (nl_keys l)))]"

definition lists_json :: "lists_state \<Rightarrow> json" where
  "lists_json s = JObj [(''lists'', JArr (map list_json (ls_lists s))), (''active'', JStr (ls_active s))]"

section \<open>Operations\<close>

definition withList :: "lists_state \<Rightarrow> string \<Rightarrow> string \<Rightarrow> lists_state" where
  "withList s i name =
     (let clean = cleanName name
      in if clean = [] \<or> MAX_LISTS \<le> length (ls_lists s) then s
         else \<lparr>ls_lists = ls_lists s @ [\<lparr>nl_id = i, nl_name = clean, nl_keys = []\<rparr>], ls_active = i\<rparr>)"

definition withoutList :: "lists_state \<Rightarrow> string \<Rightarrow> lists_state" where
  "withoutList s i =
     \<lparr>ls_lists = filter (\<lambda>l. nl_id l \<noteq> i) (ls_lists s),
      ls_active = (if ls_active s = i then STARRED else ls_active s)\<rparr>"

definition renamed :: "lists_state \<Rightarrow> string \<Rightarrow> string \<Rightarrow> lists_state" where
  "renamed s i name =
     (let clean = cleanName name
      in if clean = [] then s
         else s\<lparr>ls_lists := map (\<lambda>l. if nl_id l = i then l\<lparr>nl_name := clean\<rparr> else l) (ls_lists s)\<rparr>)"

definition toggle_key :: "string \<Rightarrow> named_list \<Rightarrow> named_list" where
  "toggle_key key l =
     (if key \<in> set (nl_keys l) then l\<lparr>nl_keys := filter (\<lambda>k. k \<noteq> key) (nl_keys l)\<rparr>
      else if MAX_ENTRIES \<le> length (nl_keys l) then l else l\<lparr>nl_keys := nl_keys l @ [key]\<rparr>)"

definition toggledKey :: "lists_state \<Rightarrow> string \<Rightarrow> string \<Rightarrow> lists_state" where
  "toggledKey s i key = s\<lparr>ls_lists := map (\<lambda>l. if nl_id l \<noteq> i then l else toggle_key key l) (ls_lists s)\<rparr>"

definition createWith :: "lists_state \<Rightarrow> string \<Rightarrow> string \<Rightarrow> string list \<Rightarrow> lists_state" where
  "createWith s uuid name keys = fold (\<lambda>key l. toggledKey l uuid key) (take MAX_ENTRIES keys) (withList s uuid name)"

definition marketsOn :: "string list \<Rightarrow> venue \<Rightarrow> string list" where
  "marketsOn keys v =
     (let prefix = name_of VENUE_IDS v @ '':''
      in map (drop (length prefix)) (filter (\<lambda>k. starts_with k prefix) keys))"

section \<open>The store behind the lists\<close>

text \<open>What is stored, and the text last read with the lists it stood for. \<open>accepts\<close> is
  whether the store takes a write; \<open>None\<close> as the stored text is nothing stored.\<close>

record lists_store =
  st_raw :: "json option option"
  st_cachedRaw :: "json option option option"
  st_cached :: lists_state

definition current_lists :: "lists_store \<Rightarrow> lists_store" where
  "current_lists st =
     (if st_cachedRaw st = Some (st_raw st) then st
      else st\<lparr>st_cachedRaw := Some (st_raw st), st_cached := parseLists (st_raw st)\<rparr>)"

definition save_lists :: "bool \<Rightarrow> lists_state \<Rightarrow> lists_store \<Rightarrow> lists_store" where
  "save_lists accepts next' st =
     (if accepts then st\<lparr>st_raw := Some (Some (lists_json next'))\<rparr>
      else st\<lparr>st_cachedRaw := Some (Some (Some (lists_json next'))), st_cached := next'\<rparr>)"

datatype lists_event =
    SetActive string
  | CreateList string string
  | CreateListWith string string "string list"
  | RenameList string string
  | RemoveList string
  | ToggleKey string string

fun lists_step :: "lists_event \<Rightarrow> lists_state \<Rightarrow> lists_state" where
  "lists_step (SetActive i) s = s\<lparr>ls_active := i\<rparr>"
| "lists_step (CreateList uuid name) s = withList s uuid name"
| "lists_step (CreateListWith uuid name keys) s = createWith s uuid name keys"
| "lists_step (RenameList i name) s = renamed s i name"
| "lists_step (RemoveList i) s = withoutList s i"
| "lists_step (ToggleKey i key) s = toggledKey s i key"

definition update_lists :: "bool \<Rightarrow> lists_event \<Rightarrow> lists_store \<Rightarrow> lists_store" where
  "update_lists accepts e st =
     (let st' = current_lists st in save_lists accepts (lists_step e (st_cached st')) st')"

section \<open>What a card shows\<close>

definition listPerformance :: "jsnum list \<Rightarrow> jsnum option" where
  "listPerformance changes =
     (let known = filter is_finite changes
      in if known = [] then None else Some (foldl (+) 0 known div num (of_nat (length known))))"

record day_range =
  dr_low :: jsnum
  dr_high :: jsnum
  dr_closes :: "jsnum list"

definition lastDay :: "candle list \<Rightarrow> jsnum \<Rightarrow> day_range option" where
  "lastDay history now =
     (let since = now - Fin 86400000; candles = filter (\<lambda>c. since \<le> k_openTime c) history
      in if candles = [] then None
         else Some \<lparr>dr_low = foldl math_min PInf (map (to_number \<circ> k_low) candles),
                    dr_high = foldl math_max NInf (map (to_number \<circ> k_high) candles),
                    dr_closes = map (to_number \<circ> k_close) candles\<rparr>)"

definition rangeShare :: "jsnum \<Rightarrow> jsnum \<Rightarrow> jsnum \<Rightarrow> jsnum" where
  "rangeShare price low high =
     (if low < high then math_min 1 (math_max 0 ((price - low) div (high - low))) else Fin (1 / 2))"

definition nearestPriceAlert :: "market_alert list \<Rightarrow> venue \<Rightarrow> string \<Rightarrow> jsnum \<Rightarrow> market_alert option" where
  "nearestPriceAlert alerts v m price =
     nth_opt (js_sort (\<lambda>a b. \<bar>al_value a - price\<bar> - \<bar>al_value b - price\<bar> < 0)
       (filter (\<lambda>a. al_active a \<and> al_kind a = PriceAlert \<and> al_venue a = v \<and> al_market a = m) alerts)) 0"

definition positionIn :: "position list \<Rightarrow> string \<Rightarrow> position option" where
  "positionIn positions m = List.find (\<lambda>p. p_market p = m) positions"

section \<open>The lists stay within their limits\<close>

definition list_ok :: "named_list \<Rightarrow> bool" where
  "list_ok l = (nl_name l \<noteq> [] \<and> length (nl_name l) \<le> LIST_NAME_MAX \<and>
     distinct (nl_keys l) \<and> length (nl_keys l) \<le> MAX_ENTRIES)"

definition lists_ok :: "lists_state \<Rightarrow> bool" where
  "lists_ok s = (length (ls_lists s) \<le> MAX_LISTS \<and> list_all list_ok (ls_lists s))"

lemma cleanName_length: "length (cleanName n) \<le> LIST_NAME_MAX"
  by (simp add: cleanName_def)

lemma toggle_key_ok: "list_ok l \<Longrightarrow> list_ok (toggle_key key l)"
proof -
  assume "list_ok l"
  then have f: "length (filter P (nl_keys l)) \<le> MAX_ENTRIES" for P
    by (simp add: list_ok_def filter_length_bound)
  with \<open>list_ok l\<close> show ?thesis by (auto simp: toggle_key_def list_ok_def)
qed

lemma toggledKey_ok: "lists_ok s \<Longrightarrow> lists_ok (toggledKey s i key)"
  by (auto simp: lists_ok_def toggledKey_def list_all_iff intro: toggle_key_ok)

lemma withList_ok: "lists_ok s \<Longrightarrow> lists_ok (withList s i name)"
  using cleanName_length by (auto simp: lists_ok_def withList_def list_ok_def Let_def)

lemma lists_step_ok: "lists_ok s \<Longrightarrow> lists_ok (lists_step e s)"
proof (cases e)
  case (CreateListWith uuid name keys)
  have "lists_ok t \<Longrightarrow> lists_ok (fold (\<lambda>key l. toggledKey l uuid key) ks t)" for ks t
    by (induction ks arbitrary: t) (simp_all add: toggledKey_ok)
  moreover assume "lists_ok s"
  ultimately show ?thesis using CreateListWith by (simp add: createWith_def withList_ok)
next
  case (RenameList i name)
  moreover assume "lists_ok s"
  ultimately show ?thesis
    using cleanName_length by (auto simp: lists_ok_def renamed_def list_all_iff list_ok_def Let_def)
next
  case (RemoveList i)
  moreover assume "lists_ok s"
  ultimately show ?thesis
    by (simp add: lists_ok_def withoutList_def list_all_iff filter_length_bound)
qed (simp_all add: toggledKey_ok withList_ok, simp add: lists_ok_def)

lemma take_list_ok:
  assumes "list_all list_ok ls" "distinct (map nl_id ls)" "STARRED \<notin> nl_id ` set ls"
  shows "list_all list_ok (take_list l ls) \<and> distinct (map nl_id (take_list l ls)) \<and> STARRED \<notin> nl_id ` set (take_list l ls)"
  using assms cleanName_length by (auto simp: take_list_def list_ok_def split: option.split)

lemma take_lists_ok:
  "list_all list_ok ls \<Longrightarrow> distinct (map nl_id ls) \<Longrightarrow> STARRED \<notin> nl_id ` set ls \<Longrightarrow>
   list_all list_ok (fold take_list xs ls) \<and> distinct (map nl_id (fold take_list xs ls)) \<and>
   STARRED \<notin> nl_id ` set (fold take_list xs ls)"
  using take_list_ok by (induction xs arbitrary: ls) simp_all

lemma parseLists_ok:
  "lists_ok (parseLists raw) \<and> distinct (map nl_id (ls_lists (parseLists raw))) \<and>
   STARRED \<notin> nl_id ` set (ls_lists (parseLists raw))"
proof (cases raw)
  case (Some v)
  show ?thesis
  proof (cases v)
    case None
    with Some show ?thesis by (simp add: parseLists_def lists_ok_def EMPTY_LISTS_def)
  next
    case (Some j)
    let ?ls = "fold take_list (arr_or_nil (field j ''lists'')) []"
    have ok: "list_all list_ok ?ls" "distinct (map nl_id ?ls)" "STARRED \<notin> nl_id ` set ?ls"
      using take_lists_ok [of "[]"] by simp_all
    moreover have "distinct (map nl_id (take MAX_LISTS ?ls))"
      using ok(2) by (simp flip: take_map)
    moreover have "STARRED \<notin> nl_id ` set (take MAX_LISTS ?ls)"
      using ok(3) set_take_subset [of MAX_LISTS ?ls] by blast
    ultimately show ?thesis
      using \<open>raw = Some v\<close> Some by (simp add: parseLists_def lists_ok_def list_all_take Let_def)
  qed
qed (simp add: parseLists_def lists_ok_def EMPTY_LISTS_def)

definition lists_start :: "lists_state \<Rightarrow> bool" where
  "lists_start s = (\<exists>raw. s = parseLists raw)"

interpretation watchlists: machine lists_step lists_start lists_ok
  by unfold_locales (use parseLists_ok in \<open>auto simp: lists_start_def lists_step_ok\<close>)

text \<open>Whatever was stored and whatever is done with the lists since, there are at most 40 of them,
  each with a name of 1 to 32 characters and at most 200 markets, none twice.\<close>

theorem watchlists_within_limits:
  "lists_ok (fold lists_step es (parseLists raw)) \<and> distinct (map nl_id (ls_lists (parseLists raw)))"
  using watchlists.run_inv parseLists_ok by blast

lemma fold_toggle_fresh:
  assumes "distinct (ks @ keys)" "length (ks @ keys) \<le> MAX_ENTRIES" "i \<notin> nl_id ` set ls"
  shows "fold (\<lambda>key l. toggledKey l i key) keys
      \<lparr>ls_lists = ls @ [\<lparr>nl_id = i, nl_name = n, nl_keys = ks\<rparr>], ls_active = a\<rparr> =
    \<lparr>ls_lists = ls @ [\<lparr>nl_id = i, nl_name = n, nl_keys = ks @ keys\<rparr>], ls_active = a\<rparr>"
  using assms
proof (induction keys arbitrary: ks)
  case (Cons k keys)
  have same: "map (\<lambda>l. if nl_id l \<noteq> i then l else toggle_key k l) ls = ls"
    using Cons.prems(3) by (intro map_idI) auto
  from Cons.prems Cons.IH [of "ks @ [k]"] show ?case
    by (simp add: toggledKey_def same toggle_key_def)
qed simp

text \<open>A list made of markets holds exactly those, in order, up to its limit, and is the one on
  screen; the lists before it stay as they were. Markets named twice would cancel out.\<close>

theorem new_list_holds_markets:
  assumes "cleanName name \<noteq> []" "length (ls_lists s) < MAX_LISTS" "uuid \<notin> nl_id ` set (ls_lists s)" "distinct keys"
  shows "createWith s uuid name keys =
    \<lparr>ls_lists = ls_lists s @ [\<lparr>nl_id = uuid, nl_name = cleanName name, nl_keys = take MAX_ENTRIES keys\<rparr>],
     ls_active = uuid\<rparr>"
  using assms fold_toggle_fresh [of "[]" "take MAX_ENTRIES keys" uuid "ls_lists s"]
  by (simp add: createWith_def withList_def Let_def)

theorem new_list_holds_markets_witness:
  "createWith EMPTY_LISTS ''u'' '' My  list '' [''bybit:B'', ''aster:A''] =
    \<lparr>ls_lists = [\<lparr>nl_id = ''u'', nl_name = ''My list'', nl_keys = [''bybit:B'', ''aster:A'']\<rparr>], ls_active = ''u''\<rparr>"
proof -
  have n: "cleanName '' My  list '' = ''My list''" by code_simp
  then have "cleanName '' My  list '' \<noteq> []" by simp
  from new_list_holds_markets [OF this, of EMPTY_LISTS "''u''" "[''bybit:B'', ''aster:A'']"] n show ?thesis
    by (simp add: EMPTY_LISTS_def MAX_LISTS_def MAX_ENTRIES_def)
qed

text \<open>Adding a market and taking it out again leaves the list as it was.\<close>

lemma toggle_twice:
  assumes "key \<notin> set (nl_keys l)" "length (nl_keys l) < MAX_ENTRIES"
  shows "toggle_key key (toggle_key key l) = l"
  using assms by (simp add: toggle_key_def filter_neq_id)

section \<open>Where the code falls short\<close>

text \<open>Of more than 40 stored lists the one on screen may be one that is dropped: the active id is
  looked for among all of them.\<close>

definition many_lists :: json where
  "many_lists = JObj [(''lists'', JArr (map (\<lambda>n. JObj [(''id'', JStr (replicate (Suc n) CHR ''a'')), (''name'', JStr ''x'')])
                                        [0..<41])),
                      (''active'', JStr (replicate 41 CHR ''a''))]"

lemma active_list_dropped:
  "let s = parseLists (Some (Some many_lists)) in ls_active s \<notin> insert STARRED (nl_id ` set (ls_lists s))"
  by code_simp

text \<open>A change the store refuses is lost at the next read, which goes by the stored text again.\<close>

lemma refused_change_lost:
  assumes "st_raw st \<noteq> Some (Some (lists_json (lists_step e (st_cached (current_lists st)))))"
  shows "st_cached (current_lists (update_lists False e st)) = parseLists (st_raw st)"
  using assms by (auto simp: update_lists_def save_lists_def current_lists_def Let_def)

end
