(* ===== verification/Alerts_Props.thy ===== *)
theory Alerts_Props
  imports Alerts Interfaces
begin

text \<open>
  What the alerts keep to: they fire on a crossing only, once or after a pause, they come back
  from storage as they were, and their list shows the closest first.
\<close>

section \<open>What fires in a round\<close>

definition fired_for :: "string \<Rightarrow> fired_alert list \<Rightarrow> jsnum list" where
  "fired_for i fs = map fa_time (filter (\<lambda>f. fa_alertId f = Some i) fs)"

lemma fired_for_simps [simp]:
  "fired_for i [] = []" "fired_for i (xs @ ys) = fired_for i xs @ fired_for i ys"
  by (simp_all add: fired_for_def)

definition ids :: "market_alert list \<Rightarrow> string set" where
  "ids as = al_id ` set as"

lemma obj_get_other: "al_id a \<noteq> i \<Longrightarrow> obj_get (case v of Some c \<Rightarrow> obj_set p (al_id a) c | None \<Rightarrow> p) i = obj_get p i"
  by (cases v) simp_all

text \<open>One pass: for every alert, the entries it adds and whether it is marked.\<close>

lemma check_alerts_other:
  assumes "i \<notin> ids as" "check_alerts r uuid as p fs u = (p', fs', u')"
  shows "obj_get p' i = obj_get p i \<and> fired_for i fs' = fired_for i fs \<and> obj_get u' i = obj_get u i"
  using assms
proof (induction r uuid as p fs u rule: check_alerts.induct)
  case (2 r uuid a as p fs u)
  let ?p = "case reading r a of Some c \<Rightarrow> obj_set p (al_id a) c | None \<Rightarrow> p"
  have ne: "al_id a \<noteq> i" "i \<notin> ids as" using 2(3) by (auto simp: ids_def)
  show ?case
  proof (cases "fires r p a")
    case True
    with 2 ne show ?thesis
      using obj_get_other [OF ne(1)] by (auto simp: fired_entry_def fired_for_def Let_def)
  next
    case False
    with 2 ne show ?thesis using obj_get_other [OF ne(1)] by (simp add: Let_def)
  qed
qed simp

text \<open>The one alert of its id.\<close>

definition alone :: "market_alert \<Rightarrow> market_alert list \<Rightarrow> bool" where
  "alone a as = (filter (\<lambda>b. al_id b = al_id a) as = [a])"

lemma check_alerts_one:
  assumes "alone a as" "check_alerts r uuid as p fs u = (p', fs', u')"
  shows "fired_for (al_id a) fs' = fired_for (al_id a) fs @ (if fires r p a then [ar_now r] else []) \<and>
    obj_get u' (al_id a) = (if fires r p a then Some (al_repeat a = Every) else obj_get u (al_id a))"
  using assms
proof (induction r uuid as p fs u rule: check_alerts.induct)
  case (2 r uuid b as p fs u)
  let ?p = "case reading r b of Some c \<Rightarrow> obj_set p (al_id b) c | None \<Rightarrow> p"
  show ?case
  proof (cases "al_id b = al_id a")
    case True
    with 2(3) have ab: "b = a" "filter (\<lambda>b. al_id b = al_id a) as = []" by (simp_all add: alone_def)
    then have "al_id a \<notin> ids as" by (auto simp: ids_def filter_empty_conv)
    from check_alerts_other [OF this] 2(4) ab(1) show ?thesis
      by (cases "fires r p b") (fastforce simp: fired_entry_def fired_for_def Let_def)+
  next
    case False
    then have m: "alone a as" "al_id b \<noteq> al_id a" using 2(3) by (auto simp: alone_def)
    have f: "fires r ?p a = fires r p a"
      by (simp add: fires_def obj_get_other [OF m(2)])
    show ?thesis
    proof (cases "fires r p b")
      case True
      with 2(1) [OF refl True m(1)] 2(4) m(2) f show ?thesis
        by (simp add: fired_entry_def fired_for_def Let_def)
    next
      case False
      with 2(2) [OF refl False m(1)] 2(4) f show ?thesis by (simp add: Let_def)
    qed
  qed
qed (simp add: alone_def)

lemma check_alerts_sources:
  assumes "check_alerts r uuid as p fs u = (p', fs', u')"
  shows "\<exists>new. fs' = fs @ new \<and>
    (\<forall>f \<in> set new. \<exists>a \<in> set as. \<exists>q uid. fires r q a \<and> f = fired_entry r uid a \<and>
       (distinct (map al_id as) \<longrightarrow> obj_get q (al_id a) = obj_get p (al_id a)))"
  using assms
proof (induction r uuid as p fs u rule: check_alerts.induct)
  case (2 r uuid a as p fs u)
  let ?p = "case reading r a of Some c \<Rightarrow> obj_set p (al_id a) c | None \<Rightarrow> p"
  have other: "al_id b \<noteq> al_id a" if "distinct (map al_id (a # as))" "b \<in> set as" for b
    using that by (auto simp: image_iff)
  have step: "\<exists>b \<in> set (a # as). \<exists>q uid. fires r q b \<and> f = fired_entry r uid b \<and>
      (distinct (map al_id (a # as)) \<longrightarrow> obj_get q (al_id b) = obj_get p (al_id b))"
    if "\<exists>b \<in> set as. \<exists>q uid. fires r q b \<and> f = fired_entry r uid b \<and>
      (distinct (map al_id as) \<longrightarrow> obj_get q (al_id b) = obj_get ?p (al_id b))" for f
  proof -
    from that obtain b q uid where b: "b \<in> set as" "fires r q b" "f = fired_entry r uid b"
      "distinct (map al_id as) \<longrightarrow> obj_get q (al_id b) = obj_get ?p (al_id b)" by blast
    have "obj_get ?p (al_id b) = obj_get p (al_id b)" if "distinct (map al_id (a # as))"
      by (rule obj_get_other) (use other [OF that b(1)] in simp)
    with b show ?thesis by (intro bexI [of _ b] exI [of _ q] exI [of _ uid]) auto
  qed
  show ?case
  proof (cases "fires r p a")
    case True
    with 2(3) have "check_alerts r uuid as ?p (fs @ [fired_entry r (uuid (length fs)) a])
        (obj_set u (al_id a) (al_repeat a = Every)) = (p', fs', u')" by (simp add: Let_def)
    from 2(1) [OF refl True this] obtain new where
      new: "fs' = (fs @ [fired_entry r (uuid (length fs)) a]) @ new"
      "\<forall>f \<in> set new. \<exists>b \<in> set as. \<exists>q uid. fires r q b \<and> f = fired_entry r uid b \<and>
         (distinct (map al_id as) \<longrightarrow> obj_get q (al_id b) = obj_get ?p (al_id b))" by blast
    from new(2) step have "\<forall>f \<in> set new. \<exists>b \<in> set (a # as). \<exists>q uid. fires r q b \<and> f = fired_entry r uid b \<and>
      (distinct (map al_id (a # as)) \<longrightarrow> obj_get q (al_id b) = obj_get p (al_id b))" by blast
    with new(1) True show ?thesis
      by (intro exI [of _ "fired_entry r (uuid (length fs)) a # new"]) auto
  next
    case False
    with 2(3) have "check_alerts r uuid as ?p fs u = (p', fs', u')" by (simp add: Let_def)
    from 2(2) [OF refl False this] obtain new where
      new: "fs' = fs @ new"
      "\<forall>f \<in> set new. \<exists>b \<in> set as. \<exists>q uid. fires r q b \<and> f = fired_entry r uid b \<and>
         (distinct (map al_id as) \<longrightarrow> obj_get q (al_id b) = obj_get ?p (al_id b))" by blast
    show ?thesis
    proof (intro exI [of _ new] conjI ballI)
      fix f assume "f \<in> set new"
      with new(2) show "\<exists>b \<in> set (a # as). \<exists>q uid. fires r q b \<and> f = fired_entry r uid b \<and>
          (distinct (map al_id (a # as)) \<longrightarrow> obj_get q (al_id b) = obj_get p (al_id b))" by (intro step) (rule bspec)
    qed (rule new(1))
  qed
qed simp

text \<open>C19: An alert fires in a round only where it is on, out of its cooldown, and the value moved across
  its line between two readings: the one before on the near side, this one at the line or past it.
  A paused page fires nothing and forgets its readings.\<close>

theorem alerts_fire_on_crossing:
  assumes "distinct (map al_id (as_alerts (ap_state p)))" "f \<in> set (snd (check_round r uuid p))"
  shows "\<not> as_paused (ap_state p) \<and>
    (\<exists>a b c. a \<in> set (as_alerts (ap_state p)) \<and> fa_alertId f = Some (al_id a) \<and> fa_actual f = Some c \<and>
       al_active a \<and> canFire a (ar_now r) \<and>
       obj_get (ap_previous p) (al_id a) = Some b \<and> reading r a = Some c \<and>
       (case al_condition a of
          Above \<Rightarrow> b < al_value a \<and> al_value a \<le> c
        | Below \<Rightarrow> al_value a < b \<and> c \<le> al_value a))"
proof (cases "as_paused (ap_state p)")
  case True
  with assms(2) show ?thesis by (simp add: check_round_def Let_def)
next
  case False
  let ?as = "as_alerts (ap_state p)"
  obtain p' fs u where c: "check_alerts r uuid ?as (ap_previous p) [] [] = (p', fs, u)"
    by (cases "check_alerts r uuid ?as (ap_previous p) [] []") auto
  with assms(2) False have "f \<in> set fs" by (simp add: check_round_def Let_def)
  with check_alerts_sources [OF c] assms(1) obtain a q uid where
    a: "a \<in> set ?as" "fires r q a" "f = fired_entry r uid a" "obj_get q (al_id a) = obj_get (ap_previous p) (al_id a)"
    by auto
  from a(2) obtain b x where bx: "obj_get q (al_id a) = Some b" "reading r a = Some x"
    by (auto simp: fires_def crossed_def split: option.splits)
  with a(4) have pb: "obj_get (ap_previous p) (al_id a) = Some b" by simp
  from a(2,3) bx pb have "fa_alertId f = Some (al_id a) \<and> fa_actual f = Some x \<and> al_active a \<and> canFire a (ar_now r) \<and>
      obj_get (ap_previous p) (al_id a) = Some b \<and> reading r a = Some x \<and>
      (case al_condition a of
          Above \<Rightarrow> b < al_value a \<and> al_value a \<le> x
        | Below \<Rightarrow> al_value a < b \<and> x \<le> al_value a)"
    by (simp add: fires_def crossed_def fired_entry_def canFire_def)
  with a(1) False show ?thesis by blast
qed

section \<open>Once, or after a pause\<close>

definition touches :: "string \<Rightarrow> alert_event \<Rightarrow> bool" where
  "touches i e = (case e of Create d u n \<Rightarrow> u = i | Toggle j b \<Rightarrow> j = i | Remove j \<Rightarrow> j = i | _ \<Rightarrow> False)"

definition after_firing :: "jsnum \<Rightarrow> market_alert \<Rightarrow> market_alert" where
  "after_firing t a = a\<lparr>al_firedAt := Some t, al_active := (al_repeat a = Every)\<rparr>"

lemma alone_map:
  assumes "alone a as" "\<And>b. al_id (g b) = al_id b"
  shows "alone (g a) (map g as)"
  using assms by (simp add: alone_def filter_map comp_def)

lemma step_one:
  assumes "alone a (as_alerts (ap_state p))" "\<not> touches (al_id a) e" "alerts_step e p = (p', fs)"
  shows "(fired_for (al_id a) fs = [] \<and> alone a (as_alerts (ap_state p'))) \<or>
    (\<exists>t. fired_for (al_id a) fs = [t] \<and> canFire a t \<and> alone (after_firing t a) (as_alerts (ap_state p')))"
proof (cases e)
  case (Check r uuid)
  let ?s = "ap_state p"
  obtain q fs1 u where c: "check_alerts r uuid (as_alerts ?s) (ap_previous p) [] [] = (q, fs1, u)"
    by (cases "check_alerts r uuid (as_alerts ?s) (ap_previous p) [] []") auto
  note one = check_alerts_one [OF assms(1) c]
  have m: "mark_fired (ar_now r) u a = (if fires r (ap_previous p) a then after_firing (ar_now r) a else a)"
    using one by (simp add: mark_fired_def after_firing_def)
  have al: "alone (mark_fired (ar_now r) u a) (map (mark_fired (ar_now r) u) (as_alerts ?s))"
    by (rule alone_map [OF assms(1)]) (simp add: mark_fired_def split: option.split)
  show ?thesis
  proof (cases "as_paused ?s")
    case True
    with assms(1,3) Check show ?thesis by (auto simp: check_round_def Let_def)
  next
    case False
    with assms(3) c Check have "fs = fs1"
      "as_alerts (ap_state p') = (if fs1 = [] then as_alerts ?s else map (mark_fired (ar_now r) u) (as_alerts ?s))"
      by (auto simp: check_round_def Let_def)
    with one m al assms(1) show ?thesis by (cases "fires r (ap_previous p) a") (auto simp: fires_def)
  qed
next
  case (Toggle i b)
  let ?g = "\<lambda>c. if al_id c = i then c\<lparr>al_active := b, al_firedAt := None\<rparr> else c"
  have "alone (?g a) (map ?g (as_alerts (ap_state p)))" by (rule alone_map [OF assms(1)]) simp
  with Toggle assms(2,3) show ?thesis by (auto simp: toggle_alert_def touches_def Let_def)
next
  case (Remove i)
  have "filter (\<lambda>c. al_id c = al_id a) (filter (\<lambda>c. al_id c \<noteq> i) as) = filter (\<lambda>c. al_id c = al_id a) as"
    if "al_id a \<noteq> i" for as :: "market_alert list"
    unfolding filter_filter using that by (intro filter_cong) auto
  with Remove assms show ?thesis
    by (auto simp: remove_alert_def touches_def alone_def Let_def simp del: filter_filter)
qed (use assms in \<open>auto simp: touches_def alone_def create_alert_def\<close>)

text \<open>C20: Over any rounds and operations that leave an alert to itself, it fires again only after its
  cooldown, at most once where it is set to fire once, and never while it is off.\<close>

theorem alerts_keep_quiet:
  assumes "alone a (as_alerts (ap_state p))" "list_all (\<lambda>e. \<not> touches (al_id a) e) es"
  shows "successively (\<lambda>t u. ALERT_COOLDOWN_MS \<le> u - t) (fired_for (al_id a) (run_fired es p)) \<and>
    (al_repeat a = Once \<longrightarrow> length (fired_for (al_id a) (run_fired es p)) \<le> 1) \<and>
    (\<not> al_active a \<longrightarrow> fired_for (al_id a) (run_fired es p) = []) \<and>
    (case (al_firedAt a, fired_for (al_id a) (run_fired es p)) of
       (Some f, t # ts) \<Rightarrow> ALERT_COOLDOWN_MS \<le> t - f | _ \<Rightarrow> True)"
  using assms
proof (induction es arbitrary: a p)
  case Nil
  then show ?case by (simp split: option.split)
next
  case (Cons e es)
  obtain p' fs where s: "alerts_step e p = (p', fs)" by (cases "alerts_step e p")
  from step_one [OF Cons.prems(1) _ s] Cons.prems(2) consider
      (quiet) "fired_for (al_id a) fs = []" "alone a (as_alerts (ap_state p'))"
    | (fired) t where "fired_for (al_id a) fs = [t]" "canFire a t" "alone (after_firing t a) (as_alerts (ap_state p'))"
    by auto
  then show ?case
  proof cases
    case quiet
    with Cons.IH [of a p'] Cons.prems(2) show ?thesis by (simp add: s)
  next
    case fired
    let ?ts = "fired_for (al_id a) (run_fired es p')"
    have i: "al_id (after_firing t a) = al_id a" by (simp add: after_firing_def)
    from Cons.IH [OF fired(3)] Cons.prems(2) have ih:
      "successively (\<lambda>t u. ALERT_COOLDOWN_MS \<le> u - t) ?ts" "al_repeat a = Once \<longrightarrow> ?ts = []"
      "?ts \<noteq> [] \<longrightarrow> ALERT_COOLDOWN_MS \<le> hd ?ts - t"
      unfolding i by (auto simp: after_firing_def split: list.splits)
    with fired(1,2) show ?thesis
      by (auto simp: s canFire_def successively_Cons split: option.splits)
  qed
qed

section \<open>Kept on the machine\<close>

definition alert_ok :: "market_alert \<Rightarrow> bool" where
  "alert_ok a = (is_finite (al_value a) \<and> is_finite (al_createdAt a) \<and>
     (case al_firedAt a of Some t \<Rightarrow> is_finite t | None \<Rightarrow> True))"

definition fired_ok :: "fired_alert \<Rightarrow> bool" where
  "fired_ok f = (is_finite (fa_value f) \<and> is_finite (fa_time f) \<and>
     (case fa_actual f of Some t \<Rightarrow> is_finite t | None \<Rightarrow> True))"

definition alerts_ok :: "alerts_state \<Rightarrow> bool" where
  "alerts_ok s = (length (as_alerts s) \<le> MAX_ALERTS \<and> list_all alert_ok (as_alerts s) \<and>
     list_all fired_ok (as_fired s) \<and> is_finite (as_seenAt s))"

lemma alert_names_back [simp]:
  "name_in ALERT_KINDS (Some (JStr (name_of ALERT_KINDS k))) = Some k"
  "name_in VENUE_IDS (Some (JStr (name_of VENUE_IDS v))) = Some v"
  "name_in CONDITIONS (Some (JStr (name_of CONDITIONS c))) = Some c"
  "name_in REPEATS (Some (JStr (name_of REPEATS r))) = Some r"
  subgoal by (cases k) (simp_all add: name_in_def name_of_def ALERT_KINDS_def)
  subgoal by (cases v) (simp_all add: name_in_def name_of_def VENUE_IDS_def)
  subgoal by (cases c) (simp_all add: name_in_def name_of_def CONDITIONS_def)
  subgoal by (cases r) (simp_all add: name_in_def name_of_def REPEATS_def)
  done

lemma alert_back: "alert_ok a \<Longrightarrow> isAlert (alert_json a) = Some a"
  by (cases "al_note a"; cases "al_firedAt a")
    (simp_all add: alert_ok_def isAlert_def alert_json_def opt_field_def num_json_def as_arr_def finite_opt_def)

lemma fired_back: "fired_ok f \<Longrightarrow> isFired (fired_json f) = Some f"
  by (cases "fa_alertId f"; cases "fa_actual f"; cases "fa_notify f")
    (simp_all add: fired_ok_def isFired_def fired_json_def opt_field_def num_json_def as_arr_def)

text \<open>The alerts come back from storage as they were: up to 200 of them, each firing and each
  setting, without the channels of any being changed again.\<close>

theorem alerts_round_trip:
  assumes "alerts_ok s"
  shows "loadAlerts (Some (saveAlerts s)) = s"
proof -
  have "List.map_filter isAlert (map alert_json (as_alerts s)) = as_alerts s"
    using assms by (intro map_filter_back) (simp add: alerts_ok_def list_all_iff alert_back)
  moreover have "List.map_filter isFired (map fired_json (as_fired s)) = as_fired s"
    using assms by (intro map_filter_back) (simp add: alerts_ok_def list_all_iff fired_back)
  ultimately show ?thesis
    using assms by (simp add: loadAlerts_def saveAlerts_def alerts_ok_def num_json_def or_else_def Let_def)
qed

section \<open>A sample\<close>

definition sample_alert :: market_alert where
  "sample_alert = \<lparr>al_id = ''a1'', al_kind = PriceAlert, al_venue = Bybit, al_market = ''BTCUSDT'', al_symbol = ''BTC-PERP'',
     al_condition = Above, al_value = Fin 100, al_repeat = Once, al_notify = [JStr ''app''], al_note = None,
     al_active = True, al_createdAt = Fin 1, al_firedAt = None\<rparr>"

definition sample_summary :: market_summary where
  "sample_summary = \<lparr>s_market = ''BTCUSDT'', s_markPrice = ''128'', s_prevDayPrice = ''64'', s_dayVolume = ''0'',
     s_openInterest = ''0'', s_fundingRate = ''0'', s_fundingIntervalSecs = Fin 28800\<rparr>"

definition sample_reads :: alert_reads where
  "sample_reads = \<lparr>ar_byVenue = (\<lambda>v. if v = Bybit then [sample_summary] else []), ar_rsi = [], ar_account = None,
     ar_now = Fin 1000\<rparr>"

definition sample_page :: alerts_page where
  "sample_page = \<lparr>ap_state = EMPTY_ALERTS\<lparr>as_alerts := [sample_alert]\<rparr>, ap_previous = [(''a1'', Fin 64)]\<rparr>"

lemma sample_reading: "reading sample_reads sample_alert = Some (Fin 128)"
  by code_simp

lemma sample_fires: "snd (check_round sample_reads (\<lambda>n. ''f1'') sample_page) = [fired_entry sample_reads ''f1'' sample_alert]"
proof -
  have "fires sample_reads [(''a1'', Fin 64)] sample_alert"
    by (simp add: fires_def sample_reading canFire_def crossed_def) (simp add: sample_alert_def)
  then show ?thesis
    by (simp add: check_round_def sample_page_def EMPTY_ALERTS_def Let_def)
qed

theorem alerts_fire_on_crossing_witness:
  "\<exists>a b c. a \<in> set (as_alerts (ap_state sample_page)) \<and> obj_get (ap_previous sample_page) (al_id a) = Some b \<and>
     reading sample_reads a = Some c \<and> b < al_value a \<and> al_value a \<le> c"
proof -
  have d: "distinct (map al_id (as_alerts (ap_state sample_page)))" by (simp add: sample_page_def)
  have f: "fired_entry sample_reads ''f1'' sample_alert \<in> set (snd (check_round sample_reads (\<lambda>n. ''f1'') sample_page))"
    by (simp add: sample_fires)
  have "al_condition a = Above" if "a \<in> set (as_alerts (ap_state sample_page))" for a
    using that by (simp add: sample_page_def sample_alert_def)
  with alerts_fire_on_crossing [OF d f] show ?thesis by fastforce
qed

theorem alerts_keep_quiet_witness:
  "length (fired_for ''a1'' (run_fired (replicate 3 (Check sample_reads (\<lambda>n. ''f1''))) sample_page)) \<le> 1"
proof -
  have a: "alone sample_alert (as_alerts (ap_state sample_page))" by (simp add: alone_def sample_page_def)
  have t: "list_all (\<lambda>e. \<not> touches (al_id sample_alert) e) (replicate 3 (Check sample_reads (\<lambda>n. ''f1'')))"
    by (simp add: touches_def list_all_iff)
  from alerts_keep_quiet [OF a t] show ?thesis by (simp add: sample_alert_def)
qed

theorem alerts_round_trip_witness: "loadAlerts (Some (saveAlerts (ap_state sample_page))) = ap_state sample_page"
  by (rule alerts_round_trip)
    (simp add: alerts_ok_def sample_page_def EMPTY_ALERTS_def alert_ok_def sample_alert_def MAX_ALERTS_def zero_Fin)

end
