(* ===== verification/Notes.thy ===== *)
theory Notes
  imports Js_Value Interfaces
begin

text \<open>
  Notifications, \<^verbatim>\<open>apps/desktop/src/lib/notifications.ts\<close>: the centre's log, the
  settings, where an event is delivered, and the merge with what the cloud holds; and the
  toasts it shows, \<^verbatim>\<open>packages/ui/src/lib/toasts.ts\<close>, with their timers.
\<close>

section \<open>Toasts\<close>

datatype toast_tone = NeutralTone | BuyTone | SellTone | WarnTone

record toast_item =
  to_id :: nat
  to_title :: string
  to_body :: "string option"
  to_tone :: toast_tone
  to_time :: jsnum

definition MAX_SHOWN :: nat where
  "MAX_SHOWN = 5"

definition STAY_MS :: nat where
  "STAY_MS = 6000"

definition WARN_STAY_MS :: nat where
  "WARN_STAY_MS = 12000"

text \<open>The toasts on screen, the next id, the ids the timer table holds, and the timers still
  running, each with how long it was set for.\<close>

record toasts_state =
  tst_toasts :: "toast_item list"
  tst_nextId :: nat
  tst_timers :: "nat list"
  tst_running :: "(nat \<times> nat) list"

definition NO_TOASTS :: toasts_state where
  "NO_TOASTS = \<lparr>tst_toasts = [], tst_nextId = 1, tst_timers = [], tst_running = []\<rparr>"

definition toast :: "string \<Rightarrow> string option \<Rightarrow> toast_tone option \<Rightarrow> jsnum \<Rightarrow> toasts_state \<Rightarrow> toasts_state" where
  "toast title body tone now s =
     (let i = tst_nextId s; tn = or_else tone NeutralTone; n = length (tst_toasts s);
          dropped = (if MAX_SHOWN \<le> n then take (n - MAX_SHOWN + 1) (tst_toasts s) else []);
          running = filter (\<lambda>r. fst r \<notin> to_id ` set dropped) (tst_running s)
      in \<lparr>tst_toasts = drop (length dropped) (tst_toasts s) @
            [\<lparr>to_id = i, to_title = title, to_body = body, to_tone = tn, to_time = now\<rparr>],
          tst_nextId = i + 1,
          tst_timers = tst_timers s @ [i],
          tst_running = running @ [(i, if tn = WarnTone then WARN_STAY_MS else STAY_MS)]\<rparr>)"

text \<open>What was thrown: an error with its message, a text, or something else.\<close>

datatype thrown = ErrorThrown string | TextThrown string | OtherThrown

definition toastError :: "string \<Rightarrow> thrown \<Rightarrow> string option \<Rightarrow> jsnum \<Rightarrow> toasts_state \<Rightarrow> toasts_state" where
  "toastError title err fallback now s =
     toast title (case err of ErrorThrown m \<Rightarrow> Some m | TextThrown t \<Rightarrow> Some t | OtherThrown \<Rightarrow> fallback)
       (Some WarnTone) now s"

definition dismissToast :: "nat \<Rightarrow> toasts_state \<Rightarrow> toasts_state" where
  "dismissToast i s =
     \<lparr>tst_toasts = filter (\<lambda>x. to_id x \<noteq> i) (tst_toasts s), tst_nextId = tst_nextId s,
      tst_timers = filter (\<lambda>k. k \<noteq> i) (tst_timers s), tst_running = filter (\<lambda>r. fst r \<noteq> i) (tst_running s)\<rparr>"

definition clearToasts :: "toasts_state \<Rightarrow> toasts_state" where
  "clearToasts s = s\<lparr>tst_toasts := [], tst_timers := [], tst_running := []\<rparr>"

datatype toast_event =
  ShowToast string "string option" "toast_tone option" jsnum | DismissToast nat | ClearToasts

fun toast_step :: "toast_event \<Rightarrow> toasts_state \<Rightarrow> toasts_state" where
  "toast_step (ShowToast t b tn now) s = toast t b tn now s"
| "toast_step (DismissToast i) s = dismissToast i s"
| "toast_step ClearToasts s = clearToasts s"

text \<open>At most five toasts, each with an id of its own, and a running timer for exactly those.\<close>

definition toasts_ok :: "toasts_state \<Rightarrow> bool" where
  "toasts_ok s =
     (length (tst_toasts s) \<le> MAX_SHOWN \<and> distinct (map to_id (tst_toasts s)) \<and>
      map fst (tst_running s) = map to_id (tst_toasts s) \<and>
      list_all (\<lambda>x. to_id x < tst_nextId s) (tst_toasts s))"

lemma map_filter_key: "map g (filter (\<lambda>x. P (g x)) xs) = filter P (map g xs)"
  by (simp add: filter_map comp_def)

lemma filter_drop_front:
  assumes "distinct (map f xs)" "map g ys = map f xs"
  shows "map g (filter (\<lambda>y. g y \<notin> f ` set (take n xs)) ys) = map f (drop n xs)"
proof -
  have m: "map g (filter (\<lambda>y. g y \<notin> f ` set (take n xs)) ys) = filter (\<lambda>k. k \<notin> f ` set (take n xs)) (map f xs)"
    using assms(2) by (simp add: filter_map comp_def flip: assms(2))
  have s: "map f xs = map f (take n xs) @ map f (drop n xs)" by (simp flip: map_append)
  have "filter (\<lambda>k. k \<notin> f ` set (take n xs)) (map f (drop n xs)) = map f (drop n xs)"
    using assms(1) s by (intro filter_True) (metis disjoint_iff distinct_append list.set_map)
  moreover have "filter (\<lambda>k. k \<notin> f ` set (take n xs)) (map f (take n xs)) = []"
    by (simp add: filter_empty_conv)
  ultimately show ?thesis unfolding m by (subst s) simp
qed

lemma toast_ok: "toasts_ok s \<Longrightarrow> toasts_ok (toast t b tn now s)"
proof -
  assume ok: "toasts_ok s"
  let ?n = "length (tst_toasts s)"
  define k where "k = (if MAX_SHOWN \<le> ?n then ?n - MAX_SHOWN + 1 else 0)"
  define dropped where "dropped = (if MAX_SHOWN \<le> ?n then take (?n - MAX_SHOWN + 1) (tst_toasts s) else [])"
  have d: "dropped = take k (tst_toasts s)" by (simp add: k_def dropped_def)
  have k: "k \<le> ?n" using ok by (auto simp: k_def MAX_SHOWN_def)
  then have len: "length dropped = k" by (simp add: d)
  have run: "map fst (filter (\<lambda>r. fst r \<notin> to_id ` set dropped) (tst_running s)) = map to_id (drop k (tst_toasts s))"
    unfolding d by (rule filter_drop_front) (use ok in \<open>simp_all add: toasts_ok_def\<close>)
  have sub: "set (drop k (tst_toasts s)) \<subseteq> set (tst_toasts s)" by (rule set_drop_subset)
  have new: "tst_nextId s \<notin> to_id ` set (drop k (tst_toasts s))"
    using ok sub by (auto simp: toasts_ok_def list_all_iff)
  have dist: "distinct (map to_id (drop k (tst_toasts s)))"
    using ok by (simp add: toasts_ok_def flip: drop_map)
  have short: "?n - k < MAX_SHOWN" using ok by (auto simp: k_def toasts_ok_def MAX_SHOWN_def)
  have "tst_toasts (toast t b tn now s) = drop k (tst_toasts s) @
      [\<lparr>to_id = tst_nextId s, to_title = t, to_body = b, to_tone = or_else tn NeutralTone, to_time = now\<rparr>]"
    "map fst (tst_running (toast t b tn now s)) = map to_id (drop k (tst_toasts s)) @ [tst_nextId s]"
    "tst_nextId (toast t b tn now s) = tst_nextId s + 1"
    unfolding toast_def Let_def dropped_def [symmetric] len by (simp_all add: run)
  with ok sub new dist short show ?thesis
    by (auto simp: toasts_ok_def list_all_iff less_Suc_eq)
qed

lemma toast_step_ok: "toasts_ok s \<Longrightarrow> toasts_ok (toast_step e s)"
proof (cases e)
  case (DismissToast i)
  assume ok: "toasts_ok s"
  have "map fst (filter (\<lambda>r. fst r \<noteq> i) (tst_running s)) = map to_id (filter (\<lambda>x. to_id x \<noteq> i) (tst_toasts s))"
    using ok map_filter_key [of fst "\<lambda>k. k \<noteq> i" "tst_running s"] map_filter_key [of to_id "\<lambda>k. k \<noteq> i" "tst_toasts s"]
    by (simp add: toasts_ok_def)
  with ok DismissToast show ?thesis
    by (auto simp: toasts_ok_def dismissToast_def list_all_iff filter_length_bound distinct_map_filter)
qed (simp_all add: toast_ok, simp add: toasts_ok_def clearToasts_def)

interpretation toasts: machine toast_step "\<lambda>s. s = NO_TOASTS" toasts_ok
  by unfold_locales (simp_all add: toast_step_ok, simp add: toasts_ok_def NO_TOASTS_def)

text \<open>However toasts are shown, dismissed and cleared, at most five are on screen, each with an id
  of its own, and exactly those on screen have a timer running that will take them off.\<close>

theorem toasts_invariant:
  "length (tst_toasts (fold toast_step es NO_TOASTS)) \<le> 5 \<and>
   distinct (map to_id (tst_toasts (fold toast_step es NO_TOASTS))) \<and>
   map fst (tst_running (fold toast_step es NO_TOASTS)) = map to_id (tst_toasts (fold toast_step es NO_TOASTS))"
  using toasts.reachable_inv [of NO_TOASTS es] by (simp add: toasts_ok_def MAX_SHOWN_def)

section \<open>Notifications\<close>

datatype note_type = OrderNote | FillNote | PositionNote | AlertNote | RiskNote

definition NOTE_TYPES :: "(string \<times> note_type) list" where
  "NOTE_TYPES = [(''order'', OrderNote), (''fill'', FillNote), (''position'', PositionNote), (''alert'', AlertNote),
     (''risk'', RiskNote)]"

datatype note_channel = ToastChannel | DesktopChannel | SoundChannel

definition NOTE_CHANNELS :: "(string \<times> note_channel) list" where
  "NOTE_CHANNELS = [(''toast'', ToastChannel), (''desktop'', DesktopChannel), (''sound'', SoundChannel)]"

definition TONES :: "(string \<times> toast_tone) list" where
  "TONES = [(''neutral'', NeutralTone), (''buy'', BuyTone), (''sell'', SellTone), (''warn'', WarnTone)]"

record app_note =
  n_id :: string
  n_type :: note_type
  n_title :: string
  n_body :: "string option"
  n_tone :: toast_tone
  n_time :: jsnum
  n_read :: bool
  n_venue :: "string option"
  n_market :: "string option"

record note_settings =
  ns_dnd :: bool
  ns_types :: "note_type \<Rightarrow> note_channel \<Rightarrow> bool"

definition DEFAULT_NOTE_SETTINGS :: note_settings where
  "DEFAULT_NOTE_SETTINGS =
     \<lparr>ns_dnd = False, ns_types = (\<lambda>t c. \<not> (t = OrderNote \<and> c = DesktopChannel))\<rparr>"

definition MAX_NOTES :: nat where
  "MAX_NOTES = 200"

text \<open>A stored note; the fields the reader does not check are read where they have their type.\<close>

definition isNote :: "json \<Rightarrow> app_note option" where
  "isNote v =
     (case (as_str (field v ''id''), name_in NOTE_TYPES (field v ''type''), as_str (field v ''title''),
            name_in TONES (field v ''tone''), as_num (field v ''time''), as_bool (field v ''read'')) of
        (Some i, Some ty, Some t, Some tn, Some tm, Some r) \<Rightarrow>
          if field v ''body'' \<noteq> None \<and> as_str (field v ''body'') = None then None
          else Some \<lparr>n_id = i, n_type = ty, n_title = t, n_body = as_str (field v ''body''), n_tone = tn, n_time = tm,
                      n_read = r, n_venue = as_str (field v ''venue''), n_market = as_str (field v ''market'')\<rparr>
      | _ \<Rightarrow> None)"

definition loadNotes :: "json option \<Rightarrow> app_note list" where
  "loadNotes saved = take MAX_NOTES (List.map_filter isNote (arr_or_nil saved))"

definition is_record :: "json option \<Rightarrow> bool" where
  "is_record v = (case v of Some (JObj m) \<Rightarrow> True | Some (JArr xs) \<Rightarrow> True | _ \<Rightarrow> False)"

definition loadNoteSettings :: "json option \<Rightarrow> string option \<Rightarrow> note_settings" where
  "loadNoteSettings saved legacy =
     (case saved of
        None \<Rightarrow> DEFAULT_NOTE_SETTINGS
      | Some v \<Rightarrow>
          (let d = ns_types DEFAULT_NOTE_SETTINGS
           in if \<not> is_record saved
              then if legacy \<noteq> Some ''off'' then DEFAULT_NOTE_SETTINGS
                   else DEFAULT_NOTE_SETTINGS\<lparr>ns_types := (\<lambda>t c. if c = DesktopChannel then False else d t c)\<rparr>
              else \<lparr>ns_dnd = (field v ''dnd'' = Some (JBool True)),
                    ns_types = (\<lambda>t c. let row = or_else (field (or_else (field v ''types'') JNull) (name_of NOTE_TYPES t)) JNull
                                      in or_else (as_bool (field row (name_of NOTE_CHANNELS c))) (d t c))\<rparr>))"

definition settings_json :: "note_settings \<Rightarrow> json" where
  "settings_json s =
     JObj [(''dnd'', JBool (ns_dnd s)),
           (''types'', JObj (map (\<lambda>(tn, t). (tn, JObj (map (\<lambda>(cn, c). (cn, JBool (ns_types s t c))) NOTE_CHANNELS)))
                                NOTE_TYPES))]"

definition channelsFor :: "note_settings \<Rightarrow> note_type \<Rightarrow> note_channel list option \<Rightarrow> note_channel list" where
  "channelsFor s ty only =
     (if ns_dnd s \<and> ty \<noteq> RiskNote then []
      else filter (\<lambda>c. ns_types s ty c \<and> (case only of None \<Rightarrow> True | Some cs \<Rightarrow> c \<in> set cs)) (map snd NOTE_CHANNELS))"

definition withNote :: "app_note list \<Rightarrow> app_note \<Rightarrow> app_note list" where
  "withNote notes n = take MAX_NOTES (n # notes)"

section \<open>The centre\<close>

record note_centre =
  nc_notes :: "app_note list"
  nc_settings :: note_settings

definition markNotesRead :: "string list option \<Rightarrow> note_centre \<Rightarrow> note_centre" where
  "markNotesRead which s =
     s\<lparr>nc_notes := map (\<lambda>n. if \<not> n_read n \<and> (case which of None \<Rightarrow> True | Some is \<Rightarrow> n_id n \<in> set is)
                            then n\<lparr>n_read := True\<rparr> else n) (nc_notes s)\<rparr>"

text \<open>One note of the cloud taken in: a new one joins, one read there is read here.\<close>

fun merge_note :: "app_note \<Rightarrow> app_note obj \<times> bool \<Rightarrow> app_note obj \<times> bool" where
  "merge_note r (byId, changed) =
     (case obj_get byId (n_id r) of
        None \<Rightarrow> (obj_set byId (n_id r) r, True)
      | Some held \<Rightarrow>
          if n_read r \<and> \<not> n_read held then (obj_set byId (n_id r) (held\<lparr>n_read := True\<rparr>), True)
          else (byId, changed))"

definition mergeNotes :: "json list \<Rightarrow> note_centre \<Rightarrow> note_centre" where
  "mergeNotes remote s =
     (let byId = foldl (\<lambda>m n. obj_set m (n_id n) n) [] (nc_notes s);
          (byId', changed) = fold merge_note (List.map_filter isNote remote) (byId, False)
      in if \<not> changed then s
         else s\<lparr>nc_notes := take MAX_NOTES (js_sort (\<lambda>a b. n_time b - n_time a < 0) (map snd byId'))\<rparr>)"

definition clearNotes :: "note_centre \<Rightarrow> note_centre" where
  "clearNotes s = s\<lparr>nc_notes := []\<rparr>"

datatype sound_kind = OrderSound | FillSound | SavedSound | CancelSound | ErrorSound | AlertSound

record note_input =
  ni_type :: note_type
  ni_title :: string
  ni_body :: "string option"
  ni_tone :: "toast_tone option"
  ni_sound :: "sound_kind option"
  ni_venue :: "string option"
  ni_market :: "string option"
  ni_only :: "note_channel list option"
  ni_noDesktop :: bool

datatype delivery =
    DeliverToast string "string option" toast_tone
  | DeliverDesktop string "string option"
  | DeliverSound sound_kind

definition input_note :: "note_input \<Rightarrow> string \<Rightarrow> jsnum \<Rightarrow> app_note" where
  "input_note i uuid now =
     \<lparr>n_id = uuid, n_type = ni_type i, n_title = ni_title i, n_body = ni_body i,
      n_tone = or_else (ni_tone i) NeutralTone, n_time = now, n_read = False, n_venue = ni_venue i,
      n_market = ni_market i\<rparr>"

definition notifyEvent :: "note_input \<Rightarrow> string \<Rightarrow> jsnum \<Rightarrow> note_centre \<Rightarrow> note_centre \<times> delivery list" where
  "notifyEvent i uuid now s =
     (let tone = or_else (ni_tone i) NeutralTone; channels = channelsFor (nc_settings s) (ni_type i) (ni_only i)
      in (s\<lparr>nc_notes := withNote (nc_notes s) (input_note i uuid now)\<rparr>,
          (if ToastChannel \<in> set channels then [DeliverToast (ni_title i) (ni_body i) tone] else []) @
          (if DesktopChannel \<in> set channels \<and> \<not> ni_noDesktop i then [DeliverDesktop (ni_title i) (ni_body i)] else []) @
          (case ni_sound i of
             Some k \<Rightarrow> if SoundChannel \<in> set channels then [DeliverSound k] else [] | None \<Rightarrow> [])))"

end
