(* ===== verification/Notes_Props.thy ===== *)
theory Notes_Props
  imports Notes
begin

text \<open>
  What the notification centre promises: every event is recorded and goes only where the
  settings let it, the settings read back as they were saved, and what is read in the cloud
  is read here.
\<close>

section \<open>Recorded and delivered\<close>

interpretation note_log: bounded_log "\<lambda>n notes. withNote notes n" MAX_NOTES
  by unfold_locales (simp_all add: withNote_def MAX_NOTES_def)

definition delivered_on :: "delivery \<Rightarrow> note_channel" where
  "delivered_on d = (case d of DeliverToast t b tn \<Rightarrow> ToastChannel | DeliverDesktop t b \<Rightarrow> DesktopChannel
     | DeliverSound k \<Rightarrow> SoundChannel)"

lemma channelsFor_iff:
  "c \<in> set (channelsFor s ty only) \<longleftrightarrow>
     ns_types s ty c \<and> (ns_dnd s \<longrightarrow> ty = RiskNote) \<and> (case only of None \<Rightarrow> True | Some cs \<Rightarrow> c \<in> set cs)"
  by (cases c) (auto simp: channelsFor_def NOTE_CHANNELS_def)

text \<open>C21: Every event is recorded, unread and first in the centre, which keeps the newest 200; it is
  delivered on a channel just where the settings and the event's own choice let it, at most once
  on each, and in do not disturb only a liquidation risk is delivered at all.\<close>

theorem events_recorded_and_delivered:
  "let (s', ds) = notifyEvent i uuid now s
   in nc_notes s' \<noteq> [] \<and> hd (nc_notes s') = input_note i uuid now \<and> length (nc_notes s') \<le> 200 \<and>
      nc_settings s' = nc_settings s \<and> distinct (map delivered_on ds) \<and>
      (\<forall>c. c \<in> delivered_on ` set ds \<longleftrightarrow>
         ns_types (nc_settings s) (ni_type i) c \<and> (ns_dnd (nc_settings s) \<longrightarrow> ni_type i = RiskNote) \<and>
         (case ni_only i of None \<Rightarrow> True | Some cs \<Rightarrow> c \<in> set cs) \<and>
         (c = DesktopChannel \<longrightarrow> \<not> ni_noDesktop i) \<and> (c = SoundChannel \<longrightarrow> ni_sound i \<noteq> None))"
proof -
  let ?cs = "channelsFor (nc_settings s) (ni_type i) (ni_only i)"
  let ?ds = "snd (notifyEvent i uuid now s)"
  have on: "c \<in> delivered_on ` set ?ds \<longleftrightarrow> c \<in> set ?cs \<and> (c = DesktopChannel \<longrightarrow> \<not> ni_noDesktop i) \<and>
      (c = SoundChannel \<longrightarrow> ni_sound i \<noteq> None)" for c
    by (cases c; cases "ni_sound i") (auto simp: notifyEvent_def delivered_on_def Let_def)
  have d: "distinct (map delivered_on ?ds)"
    by (cases "ni_sound i") (auto simp: notifyEvent_def delivered_on_def Let_def)
  have n: "nc_notes (fst (notifyEvent i uuid now s)) = withNote (nc_notes s) (input_note i uuid now)"
    "nc_settings (fst (notifyEvent i uuid now s)) = nc_settings s"
    by (simp_all add: notifyEvent_def Let_def)
  show ?thesis
    using note_log.push_newest [of "nc_notes s" "input_note i uuid now"]
      note_log.push_length [of "nc_notes s" "input_note i uuid now"] on d n
    by (simp add: case_prod_beta Let_def channelsFor_iff MAX_NOTES_def)
qed

definition sample_event :: note_input where
  "sample_event = \<lparr>ni_type = RiskNote, ni_title = ''Close to liquidation'', ni_body = None, ni_tone = Some WarnTone,
     ni_sound = Some AlertSound, ni_venue = None, ni_market = None, ni_only = None, ni_noDesktop = True\<rparr>"

definition quiet_centre :: note_centre where
  "quiet_centre = \<lparr>nc_notes = [], nc_settings = DEFAULT_NOTE_SETTINGS\<lparr>ns_dnd := True\<rparr>\<rparr>"

theorem events_recorded_and_delivered_witness:
  "SoundChannel \<in> delivered_on ` set (snd (notifyEvent sample_event ''u'' (Fin 1) quiet_centre)) \<and>
   DesktopChannel \<notin> delivered_on ` set (snd (notifyEvent sample_event ''u'' (Fin 1) quiet_centre))"
proof -
  let ?D = "delivered_on ` set (snd (notifyEvent sample_event ''u'' (Fin 1) quiet_centre))"
  have "c \<in> ?D \<longleftrightarrow> ns_types (nc_settings quiet_centre) (ni_type sample_event) c \<and>
      (ns_dnd (nc_settings quiet_centre) \<longrightarrow> ni_type sample_event = RiskNote) \<and>
      (case ni_only sample_event of None \<Rightarrow> True | Some cs \<Rightarrow> c \<in> set cs) \<and>
      (c = DesktopChannel \<longrightarrow> \<not> ni_noDesktop sample_event) \<and> (c = SoundChannel \<longrightarrow> ni_sound sample_event \<noteq> None)" for c
    using events_recorded_and_delivered [of sample_event "''u''" "Fin 1" quiet_centre]
    unfolding case_prod_beta Let_def by blast
  then show ?thesis by (simp only:) (simp add: sample_event_def quiet_centre_def DEFAULT_NOTE_SETTINGS_def)
qed

section \<open>The settings read back\<close>

lemma settings_back: "loadNoteSettings (Some (settings_json s)) legacy = s"
proof -
  have "ns_types (loadNoteSettings (Some (settings_json s)) legacy) t c = ns_types s t c" for t c
    by (cases t; cases c)
      (simp_all add: loadNoteSettings_def settings_json_def is_record_def or_else_def name_of_def NOTE_TYPES_def
        NOTE_CHANNELS_def Let_def)
  then have "ns_types (loadNoteSettings (Some (settings_json s)) legacy) = ns_types s" by blast
  moreover have "ns_dnd (loadNoteSettings (Some (settings_json s)) legacy) = ns_dnd s"
    by (simp add: loadNoteSettings_def settings_json_def is_record_def Let_def)
  ultimately show ?thesis by simp
qed

interpretation note_settings: persisted "\<lambda>s. (Some (settings_json s), None :: string option)"
    "\<lambda>(saved, legacy). loadNoteSettings saved legacy" "\<lambda>_. True"
  by unfold_locales (simp_all add: settings_back)

section \<open>The cloud's notes\<close>

definition keyed :: "app_note obj \<Rightarrow> bool" where
  "keyed m = (distinct (map fst m) \<and> (\<forall>(k, n) \<in> set m. n_id n = k))"

text \<open>Read in the one is read in the other.\<close>

definition reads_kept :: "app_note obj \<Rightarrow> app_note obj \<Rightarrow> bool" where
  "reads_kept m m' =
     (\<forall>k n. obj_get m k = Some n \<and> n_read n \<longrightarrow> (\<exists>n'. obj_get m' k = Some n' \<and> n_read n'))"

lemma reads_kept_trans: "reads_kept a b \<Longrightarrow> reads_kept b c \<Longrightarrow> reads_kept a c"
  unfolding reads_kept_def by blast

lemma entry_of_obj_set: "(k', x) \<in> set (obj_set m k v) \<Longrightarrow> (k', x) \<in> set m \<or> k' = k \<and> x = v"
  by (induction m k v rule: obj_set.induct) (auto split: if_splits)

lemma keyed_set: "keyed m \<Longrightarrow> n_id n = k \<Longrightarrow> keyed (obj_set m k n)"
  by (auto simp: keyed_def obj_distinct_set dest: entry_of_obj_set)

lemma keyed_get: "keyed m \<Longrightarrow> obj_get m k = Some n \<Longrightarrow> n_id n = k"
proof -
  have "obj_get m k = Some n \<Longrightarrow> (k, n) \<in> set m"
    by (induction m k rule: obj_get.induct) (auto split: if_splits)
  then show "keyed m \<Longrightarrow> obj_get m k = Some n \<Longrightarrow> n_id n = k" by (auto simp: keyed_def)
qed

lemma merge_note_step:
  assumes "merge_note r (m, ch) = (m', ch')" "keyed m"
  shows "keyed m' \<and> reads_kept m m' \<and> (n_read r \<longrightarrow> (\<exists>n'. obj_get m' (n_id r) = Some n' \<and> n_read n')) \<and>
    (ch' \<or> \<not> ch \<and> m' = m)"
proof (cases "obj_get m (n_id r)")
  case None
  with assms keyed_set [OF assms(2)] show ?thesis by (auto simp: reads_kept_def)
next
  case (Some held)
  with keyed_get [OF assms(2) Some] keyed_set [OF assms(2), of "held\<lparr>n_read := True\<rparr>" "n_id r"] assms show ?thesis
    by (auto simp: reads_kept_def split: if_splits)
qed

lemma merge_notes_fold:
  assumes "fold merge_note rs (m, ch) = (m', ch')" "keyed m"
  shows "keyed m' \<and> reads_kept m m' \<and>
    (\<forall>r \<in> set rs. n_read r \<longrightarrow> (\<exists>n'. obj_get m' (n_id r) = Some n' \<and> n_read n')) \<and> (ch' \<or> \<not> ch \<and> m' = m)"
  using assms
proof (induction rs arbitrary: m ch)
  case Nil
  then show ?case by (simp add: reads_kept_def)
next
  case (Cons r rs)
  obtain m1 c1 where s: "merge_note r (m, ch) = (m1, c1)" by (cases "merge_note r (m, ch)")
  note one = merge_note_step [OF s Cons.prems(2)]
  from Cons.prems(1) s have f: "fold merge_note rs (m1, c1) = (m', ch')" by simp
  note rest = Cons.IH [OF f conjunct1 [OF one]]
  have "n_read r \<longrightarrow> (\<exists>n'. obj_get m' (n_id r) = Some n' \<and> n_read n')"
    using one rest unfolding reads_kept_def by blast
  with one rest show ?case by (auto intro: reads_kept_trans)
qed

lemma by_id:
  fixes ns :: "app_note list"
  assumes "distinct (map n_id ns)"
  shows "foldl (\<lambda>m n. obj_set m (n_id n) n) [] ns = map (\<lambda>n. (n_id n, n)) ns"
  using assms
proof (induction ns rule: rev_induct)
  case (snoc n ns)
  have "k \<notin> fst ` set m \<Longrightarrow> obj_set m k v = m @ [(k, v)]" for m k and v :: app_note
    by (induction m k v rule: obj_set.induct) auto
  from this [of "n_id n" "map (\<lambda>n. (n_id n, n)) ns" n] snoc show ?case by (simp add: image_image)
qed simp

text \<open>A note read on either side is read after the merge: what the cloud has as read is not unread
  here, and what was read here stays read.\<close>

theorem merged_notes_stay_read:
  assumes "distinct (map n_id (nc_notes s))" "n \<in> set (nc_notes (mergeNotes remote s))"
    "r \<in> set (nc_notes s) \<union> set (List.map_filter isNote remote)" "n_read r" "n_id n = n_id r"
  shows "n_read n"
proof -
  let ?m = "map (\<lambda>n. (n_id n, n)) (nc_notes s)" and ?rs = "List.map_filter isNote remote"
  obtain m' ch where f: "fold merge_note ?rs (?m, False) = (m', ch)" by (cases "fold merge_note ?rs (?m, False)")
  have k: "keyed ?m" using assms(1) by (auto simp: keyed_def comp_def)
  note all = merge_notes_fold [OF f k]
  have g: "obj_get m' (n_id r) = Some n' \<Longrightarrow> n = n' \<or> n \<notin> snd ` set m'" for n'
  proof -
    assume "obj_get m' (n_id r) = Some n'"
    moreover have "obj_get m' (n_id n) = Some n" if "n \<in> snd ` set m'"
    proof -
      from that all have "(n_id n, n) \<in> set m'" by (auto simp: keyed_def)
      with all show ?thesis by (intro obj_get_distinct) (simp_all add: keyed_def)
    qed
    ultimately show ?thesis using assms(5) by auto
  qed
  have "n \<in> snd ` set m'"
  proof (cases ch)
    case True
    with assms(2) f by_id [OF assms(1)] show ?thesis
      by (auto simp: mergeNotes_def Let_def dest!: in_set_takeD)
  next
    case False
    with all have "m' = ?m" by simp
    with False assms(2) f by_id [OF assms(1)] show ?thesis
      by (auto simp: mergeNotes_def Let_def image_image)
  qed
  moreover have "\<exists>n'. obj_get m' (n_id r) = Some n' \<and> n_read n'"
  proof (cases "r \<in> set ?rs")
    case True
    with all assms(4) show ?thesis by blast
  next
    case False
    with assms(3) have "r \<in> set (nc_notes s)" by simp
    then have "obj_get ?m (n_id r) = Some r"
      using assms(1) by (intro obj_get_distinct) (auto simp: comp_def)
    with all assms(4) show ?thesis unfolding reads_kept_def by blast
  qed
  ultimately show ?thesis using g by blast
qed

definition sample_note :: "bool \<Rightarrow> app_note" where
  "sample_note r = \<lparr>n_id = ''n1'', n_type = FillNote, n_title = ''Filled'', n_body = None, n_tone = BuyTone,
     n_time = Fin 5, n_read = r, n_venue = None, n_market = None\<rparr>"

definition sample_remote :: json where
  "sample_remote = JObj [(''id'', JStr ''n1''), (''type'', JStr ''fill''), (''title'', JStr ''Filled''),
     (''tone'', JStr ''buy''), (''time'', JNum (Fin 5)), (''read'', JBool True)]"

theorem merged_notes_stay_read_witness:
  "\<exists>n. n \<in> set (nc_notes (mergeNotes [sample_remote] \<lparr>nc_notes = [sample_note False], nc_settings = DEFAULT_NOTE_SETTINGS\<rparr>)) \<and>
     n_read n"
proof -
  let ?s = "\<lparr>nc_notes = [sample_note False], nc_settings = DEFAULT_NOTE_SETTINGS\<rparr>"
  have r: "isNote sample_remote = Some (sample_note True)"
    by (simp add: isNote_def sample_remote_def sample_note_def name_in_def NOTE_TYPES_def TONES_def)
  have m: "List.map_filter isNote [sample_remote] = [sample_note True]"
    by (simp add: List.map_filter_simps r)
  have there: "sample_note True \<in> set (nc_notes (mergeNotes [sample_remote] ?s))"
    unfolding mergeNotes_def m by (simp add: sample_note_def js_sort_def MAX_NOTES_def)
  have src: "sample_note True \<in> set (nc_notes ?s) \<union> set (List.map_filter isNote [sample_remote])"
    unfolding m by simp
  have "n_read (sample_note True)"
    by (rule merged_notes_stay_read [OF _ there src]) (simp_all add: sample_note_def)
  with there show ?thesis by blast
qed

end
