(* ===== verification/Trading_Rules.thy ===== *)
theory Trading_Rules
  imports Js_Value Domain Interfaces
begin

text \<open>
  The trader's own rules as the page keeps them, \<^verbatim>\<open>apps/desktop/src/lib/tradingRules.ts\<close>:
  the challenges they start from, what is made of saved rules, the amounts in USD, and the trading
  hours. A \<open>Date\<close> is its milliseconds, an integer.
\<close>

section \<open>The rules\<close>

datatype preset = Classic | OneStep | Instant | Own

definition PRESETS :: "(string \<times> preset) list" where
  "PRESETS = [(''classic'', Classic), (''oneStep'', OneStep), (''instant'', Instant), (''own'', Own)]"

datatype breach_action = WarnOnly | WarnLock | LockOnly

definition BREACH_ACTIONS :: "(string \<times> breach_action) list" where
  "BREACH_ACTIONS = [(''warn'', WarnOnly), (''warnLock'', WarnLock), (''lock'', LockOnly)]"

datatype daily_from = FromBalance | FromEquity

definition DAILY_FROM :: "(string \<times> daily_from) list" where
  "DAILY_FROM = [(''balance'', FromBalance), (''equity'', FromEquity)]"

datatype max_kind = StaticFloor | IntradayFloor | EodFloor

definition MAX_KINDS :: "(string \<times> max_kind) list" where
  "MAX_KINDS = [(''static'', StaticFloor), (''intraday'', IntradayFloor), (''eod'', EodFloor)]"

datatype hour_days = Weekdays | EveryDay

definition HOUR_DAYS :: "(string \<times> hour_days) list" where
  "HOUR_DAYS = [(''weekdays'', Weekdays), (''everyDay'', EveryDay)]"

datatype stop_mode = StopMode | WarnMode

definition STOP_MODES :: "(string \<times> stop_mode) list" where
  "STOP_MODES = [(''stop'', StopMode), (''warn'', WarnMode)]"

datatype revenge_mode = RevengeWarn | RevengeCoolOff

definition REVENGE_MODES :: "(string \<times> revenge_mode) list" where
  "REVENGE_MODES = [(''warn'', RevengeWarn), (''coolOff'', RevengeCoolOff)]"

record challenge =
  ch_size :: jsnum
  ch_targetPct :: jsnum
  ch_dailyPct :: jsnum
  ch_dailyFrom :: daily_from
  ch_maxPct :: jsnum
  ch_maxKind :: max_kind
  ch_minDays :: jsnum
  ch_maxDays :: jsnum

record rule_hours =
  rh_days :: hour_days
  rh_from :: string
  rh_to :: string

record trading_rules =
  tr_preset :: preset
  tr_breach :: breach_action
  tr_challenge :: challenge
  tr_tradeLossPct :: jsnum
  tr_tradeLossMode :: stop_mode
  tr_positionUsd :: jsnum
  tr_positionLeverage :: jsnum
  tr_tradesPerDay :: jsnum
  tr_hours :: rule_hours
  tr_newsOn :: bool
  tr_newsMinutes :: jsnum
  tr_coolOffLosses :: jsnum
  tr_coolOffMinutes :: jsnum
  tr_revengeOn :: bool
  tr_revengeMinutes :: jsnum
  tr_revengeMode :: revenge_mode
  tr_sizeCreepOn :: bool
  tr_sizeCreepFactor :: jsnum
  tr_overtradingOn :: bool
  tr_overtradingFactor :: jsnum

text \<open>A challenge's terms for an account of a size.\<close>

definition PRESET_TERMS :: "preset \<Rightarrow> jsnum \<Rightarrow> challenge" where
  "PRESET_TERMS p size' =
     (case p of
        Classic \<Rightarrow> \<lparr>ch_size = size', ch_targetPct = Fin 8, ch_dailyPct = Fin 5, ch_dailyFrom = FromBalance,
                    ch_maxPct = Fin 10, ch_maxKind = IntradayFloor, ch_minDays = Fin 5, ch_maxDays = Fin 30\<rparr>
      | OneStep \<Rightarrow> \<lparr>ch_size = size', ch_targetPct = Fin 10, ch_dailyPct = Fin 4, ch_dailyFrom = FromBalance,
                    ch_maxPct = Fin 6, ch_maxKind = IntradayFloor, ch_minDays = Fin 3, ch_maxDays = Fin 30\<rparr>
      | Instant \<Rightarrow> \<lparr>ch_size = size', ch_targetPct = Fin 0, ch_dailyPct = Fin 3, ch_dailyFrom = FromEquity,
                    ch_maxPct = Fin 6, ch_maxKind = EodFloor, ch_minDays = Fin 0, ch_maxDays = Fin 0\<rparr>
      | Own \<Rightarrow> \<lparr>ch_size = size', ch_targetPct = Fin 0, ch_dailyPct = Fin 5, ch_dailyFrom = FromEquity,
                ch_maxPct = Fin 10, ch_maxKind = StaticFloor, ch_minDays = Fin 0, ch_maxDays = Fin 0\<rparr>)"

definition hasTarget :: "preset \<Rightarrow> bool" where
  "hasTarget p = (p = Classic \<or> p = OneStep)"

definition DEFAULT_RULES :: trading_rules where
  "DEFAULT_RULES =
     \<lparr>tr_preset = Own, tr_breach = WarnLock, tr_challenge = PRESET_TERMS Own (Fin 10000),
      tr_tradeLossPct = Fin 1, tr_tradeLossMode = StopMode, tr_positionUsd = Fin 25000, tr_positionLeverage = Fin 10,
      tr_tradesPerDay = Fin 8, tr_hours = \<lparr>rh_days = Weekdays, rh_from = ''07:00'', rh_to = ''20:00''\<rparr>,
      tr_newsOn = False, tr_newsMinutes = Fin 15, tr_coolOffLosses = Fin 3, tr_coolOffMinutes = Fin 30,
      tr_revengeOn = True, tr_revengeMinutes = Fin 10, tr_revengeMode = RevengeCoolOff,
      tr_sizeCreepOn = True, tr_sizeCreepFactor = Fin (3 / 2), tr_overtradingOn = True,
      tr_overtradingFactor = Fin (3 / 2)\<rparr>"

definition withPreset :: "trading_rules \<Rightarrow> preset \<Rightarrow> trading_rules" where
  "withPreset r p = r\<lparr>tr_preset := p, tr_challenge := PRESET_TERMS p (ch_size (tr_challenge r))\<rparr>"

section \<open>Saved rules\<close>

definition sub :: "json option \<Rightarrow> json" where
  "sub v = (case v of Some j \<Rightarrow> obj_or_empty j | None \<Rightarrow> JObj [])"

definition flag :: "json option \<Rightarrow> bool \<Rightarrow> bool" where
  "flag v d = or_else (as_bool v) d"

definition amount :: "json option \<Rightarrow> jsnum \<Rightarrow> rat \<Rightarrow> jsnum" where
  "amount v d mx =
     (case as_num v of
        Some n \<Rightarrow> if is_finite n \<and> 0 \<le> n \<and> n \<le> Fin mx then n else d
      | None \<Rightarrow> d)"

definition clock_ok :: "string \<Rightarrow> bool" where
  "clock_ok s =
     (case s of
        [a, b, c, d, e] \<Rightarrow>
          ((a = CHR ''0'' \<or> a = CHR ''1'') \<and> is_digit b \<or> a = CHR ''2'' \<and> is_digit b \<and> digit_val b \<le> 3) \<and>
          c = CHR '':'' \<and> is_digit d \<and> digit_val d \<le> 5 \<and> is_digit e
      | _ \<Rightarrow> False)"

definition clock :: "json option \<Rightarrow> string \<Rightarrow> string" where
  "clock v d = (case as_str v of Some s \<Rightarrow> if clock_ok s then s else d | None \<Rightarrow> d)"

definition one_of :: "json option \<Rightarrow> (string \<times> 'a) list \<Rightarrow> 'a \<Rightarrow> 'a" where
  "one_of v allowed d = or_else (name_in allowed v) d"

definition restoreRules :: "json \<Rightarrow> trading_rules" where
  "restoreRules saved =
     (let s = obj_or_empty saved; d = DEFAULT_RULES; dc = tr_challenge d; dh = tr_hours d;
          c = sub (field s ''challenge''); tradeLoss = sub (field s ''tradeLoss'');
          pos = sub (field s ''position''); hours = sub (field s ''hours''); news = sub (field s ''news'');
          coolOff = sub (field s ''coolOff''); tilt = sub (field s ''tilt'');
          revenge = sub (field tilt ''revenge''); sizeCreep = sub (field tilt ''sizeCreep'');
          overtrading = sub (field tilt ''overtrading'')
      in \<lparr>tr_preset = one_of (field s ''preset'') PRESETS (tr_preset d),
          tr_breach = one_of (field s ''breach'') BREACH_ACTIONS (tr_breach d),
          tr_challenge =
            \<lparr>ch_size = amount (field c ''size'') (ch_size dc) 1000000000000,
             ch_targetPct = amount (field c ''targetPct'') (ch_targetPct dc) 1000,
             ch_dailyPct = amount (field c ''dailyPct'') (ch_dailyPct dc) 100,
             ch_dailyFrom = one_of (field c ''dailyFrom'') DAILY_FROM (ch_dailyFrom dc),
             ch_maxPct = amount (field c ''maxPct'') (ch_maxPct dc) 100,
             ch_maxKind = one_of (field c ''maxKind'') MAX_KINDS (ch_maxKind dc),
             ch_minDays = amount (field c ''minDays'') (ch_minDays dc) 365,
             ch_maxDays = amount (field c ''maxDays'') (ch_maxDays dc) 3650\<rparr>,
          tr_tradeLossPct = amount (field tradeLoss ''pct'') (tr_tradeLossPct d) 100,
          tr_tradeLossMode = one_of (field tradeLoss ''mode'') STOP_MODES (tr_tradeLossMode d),
          tr_positionUsd = amount (field pos ''usd'') (tr_positionUsd d) 1000000000000,
          tr_positionLeverage = amount (field pos ''leverage'') (tr_positionLeverage d) 1000,
          tr_tradesPerDay = amount (field s ''tradesPerDay'') (tr_tradesPerDay d) 10000,
          tr_hours =
            \<lparr>rh_days = one_of (field hours ''days'') HOUR_DAYS (rh_days dh),
             rh_from = clock (field hours ''from'') (rh_from dh), rh_to = clock (field hours ''to'') (rh_to dh)\<rparr>,
          tr_newsOn = flag (field news ''on'') (tr_newsOn d),
          tr_newsMinutes = amount (field news ''minutes'') (tr_newsMinutes d) 1440,
          tr_coolOffLosses = amount (field coolOff ''losses'') (tr_coolOffLosses d) 100,
          tr_coolOffMinutes = amount (field coolOff ''minutes'') (tr_coolOffMinutes d) 1440,
          tr_revengeOn = flag (field revenge ''on'') (tr_revengeOn d),
          tr_revengeMinutes = amount (field revenge ''minutes'') (tr_revengeMinutes d) 1440,
          tr_revengeMode = one_of (field revenge ''mode'') REVENGE_MODES (tr_revengeMode d),
          tr_sizeCreepOn = flag (field sizeCreep ''on'') (tr_sizeCreepOn d),
          tr_sizeCreepFactor = amount (field sizeCreep ''factor'') (tr_sizeCreepFactor d) 100,
          tr_overtradingOn = flag (field overtrading ''on'') (tr_overtradingOn d),
          tr_overtradingFactor = amount (field overtrading ''factor'') (tr_overtradingFactor d) 100\<rparr>)"

definition rules_json :: "trading_rules \<Rightarrow> json" where
  "rules_json r =
     (let c = tr_challenge r; h = tr_hours r in
      JObj [(''preset'', JStr (name_of PRESETS (tr_preset r))), (''breach'', JStr (name_of BREACH_ACTIONS (tr_breach r))),
        (''challenge'', JObj [(''size'', num_json (ch_size c)), (''targetPct'', num_json (ch_targetPct c)),
           (''dailyPct'', num_json (ch_dailyPct c)), (''dailyFrom'', JStr (name_of DAILY_FROM (ch_dailyFrom c))),
           (''maxPct'', num_json (ch_maxPct c)), (''maxKind'', JStr (name_of MAX_KINDS (ch_maxKind c))),
           (''minDays'', num_json (ch_minDays c)), (''maxDays'', num_json (ch_maxDays c))]),
        (''tradeLoss'', JObj [(''pct'', num_json (tr_tradeLossPct r)),
           (''mode'', JStr (name_of STOP_MODES (tr_tradeLossMode r)))]),
        (''position'', JObj [(''usd'', num_json (tr_positionUsd r)), (''leverage'', num_json (tr_positionLeverage r))]),
        (''tradesPerDay'', num_json (tr_tradesPerDay r)),
        (''hours'', JObj [(''days'', JStr (name_of HOUR_DAYS (rh_days h))), (''from'', JStr (rh_from h)),
           (''to'', JStr (rh_to h))]),
        (''news'', JObj [(''on'', JBool (tr_newsOn r)), (''minutes'', num_json (tr_newsMinutes r))]),
        (''coolOff'', JObj [(''losses'', num_json (tr_coolOffLosses r)), (''minutes'', num_json (tr_coolOffMinutes r))]),
        (''tilt'', JObj [
           (''revenge'', JObj [(''on'', JBool (tr_revengeOn r)), (''minutes'', num_json (tr_revengeMinutes r)),
              (''mode'', JStr (name_of REVENGE_MODES (tr_revengeMode r)))]),
           (''sizeCreep'', JObj [(''on'', JBool (tr_sizeCreepOn r)), (''factor'', num_json (tr_sizeCreepFactor r))]),
           (''overtrading'', JObj [(''on'', JBool (tr_overtradingOn r)),
              (''factor'', num_json (tr_overtradingFactor r))])])])"

record rule_amounts =
  ra_target :: jsnum
  ra_daily :: jsnum
  ra_max :: jsnum
  ra_tradeLoss :: jsnum

definition amounts :: "trading_rules \<Rightarrow> rule_amounts" where
  "amounts r =
     (let c = tr_challenge r; size' = ch_size c
      in \<lparr>ra_target = size' * ch_targetPct c div Fin 100, ra_daily = size' * ch_dailyPct c div Fin 100,
          ra_max = size' * ch_maxPct c div Fin 100, ra_tradeLoss = size' * tr_tradeLossPct r div Fin 100\<rparr>)"

section \<open>The trading hours\<close>

definition minutesOf :: "string \<Rightarrow> jsnum" where
  "minutesOf s = to_number (take 2 s) * Fin 60 + to_number (drop 3 s)"

definition utc_minute :: "int \<Rightarrow> int" where
  "utc_minute t = (t div 3600000) mod 24 * 60 + (t div 60000) mod 60"

text \<open>The day of the week, 0 for Sunday: 1 January 1970 was a Thursday.\<close>

definition utc_day :: "int \<Rightarrow> int" where
  "utc_day t = (t div 86400000 + 4) mod 7"

definition openAt :: "rule_hours \<Rightarrow> int \<Rightarrow> bool" where
  "openAt h t =
     (let start = minutesOf (rh_from h); stop = minutesOf (rh_to h); m = Fin (of_int (utc_minute t));
          inside = (if start < stop then start \<le> m \<and> m < stop else start \<le> m \<or> m < stop)
      in if \<not> inside then False
         else if rh_days h = EveryDay then True
         else (let started = (if stop < start \<and> m < stop then t - 86400000 else t); day = utc_day started
               in 1 \<le> day \<and> day \<le> 5))"

definition hoursNow :: "rule_hours \<Rightarrow> int \<Rightarrow> bool \<times> nat option" where
  "hoursNow h now =
     (if js_eq (minutesOf (rh_from h)) (minutesOf (rh_to h)) then (False, None)
      else (openAt h now,
            List.find (\<lambda>ahead. openAt h (now + int ahead * 60000) \<noteq> openAt h now) [1..<7 * 1440 + 1]))"

record rules_account =
  ru_venue :: venue
  ru_id :: string

record rules_view =
  rv_name :: string
  rv_on :: bool
  rv_account :: rules_account
  rv_rules :: trading_rules
  rv_pending :: "(bool \<times> trading_rules \<times> jsnum) option"

definition sameAccount :: "rules_account option \<Rightarrow> rules_account option \<Rightarrow> bool" where
  "sameAccount a b = (case (a, b) of (Some x, Some y) \<Rightarrow> ru_venue x = ru_venue y \<and> ru_id x = ru_id y | _ \<Rightarrow> False)"

definition newRules :: "rules_account \<Rightarrow> rules_view" where
  "newRules a = \<lparr>rv_name = [], rv_on = False, rv_account = a, rv_rules = DEFAULT_RULES, rv_pending = None\<rparr>"

end
