(* ===== verification/Rules_Props.thy ===== *)
theory Rules_Props
  imports Trading_Rules
begin

text \<open>
  What the trader's rules promise on the page: saved rules read back within their bounds, and
  the trading hours say exactly when they next open or close.
\<close>

section \<open>Saved rules read back\<close>

definition in_bounds :: "jsnum \<Rightarrow> rat \<Rightarrow> bool" where
  "in_bounds x m = (is_finite x \<and> 0 \<le> x \<and> x \<le> Fin m)"

definition rules_ok :: "trading_rules \<Rightarrow> bool" where
  "rules_ok r =
     (let c = tr_challenge r; h = tr_hours r in
      in_bounds (ch_size c) 1000000000000 \<and> in_bounds (ch_targetPct c) 1000 \<and> in_bounds (ch_dailyPct c) 100 \<and>
      in_bounds (ch_maxPct c) 100 \<and> in_bounds (ch_minDays c) 365 \<and> in_bounds (ch_maxDays c) 3650 \<and>
      in_bounds (tr_tradeLossPct r) 100 \<and> in_bounds (tr_positionUsd r) 1000000000000 \<and>
      in_bounds (tr_positionLeverage r) 1000 \<and> in_bounds (tr_tradesPerDay r) 10000 \<and>
      clock_ok (rh_from h) \<and> clock_ok (rh_to h) \<and>
      in_bounds (tr_newsMinutes r) 1440 \<and> in_bounds (tr_coolOffLosses r) 100 \<and> in_bounds (tr_coolOffMinutes r) 1440 \<and>
      in_bounds (tr_revengeMinutes r) 1440 \<and> in_bounds (tr_sizeCreepFactor r) 100 \<and> in_bounds (tr_overtradingFactor r) 100)"

lemma amount_in_bounds: "in_bounds d m \<Longrightarrow> in_bounds (amount v d m) m"
  by (auto simp: in_bounds_def amount_def split: option.split)

lemma in_bounds_Fin: "0 \<le> q \<Longrightarrow> q \<le> m \<Longrightarrow> in_bounds (Fin q) m"
  by (simp add: in_bounds_def zero_Fin)

lemma clock_clock_ok: "clock_ok d \<Longrightarrow> clock_ok (clock v d)"
  by (auto simp: clock_def split: option.split)

lemma default_clocks: "clock_ok ''07:00''" "clock_ok ''20:00''"
  by code_simp+

lemma restore_rules_ok: "rules_ok (restoreRules j)"
  by (simp add: rules_ok_def restoreRules_def Let_def amount_in_bounds in_bounds_Fin clock_clock_ok default_clocks
      DEFAULT_RULES_def PRESET_TERMS_def)

lemma rule_names_back [simp]:
  "name_in PRESETS (Some (JStr (name_of PRESETS p))) = Some p"
  "name_in BREACH_ACTIONS (Some (JStr (name_of BREACH_ACTIONS b))) = Some b"
  "name_in DAILY_FROM (Some (JStr (name_of DAILY_FROM f))) = Some f"
  "name_in MAX_KINDS (Some (JStr (name_of MAX_KINDS k))) = Some k"
  "name_in HOUR_DAYS (Some (JStr (name_of HOUR_DAYS y))) = Some y"
  "name_in STOP_MODES (Some (JStr (name_of STOP_MODES s))) = Some s"
  "name_in REVENGE_MODES (Some (JStr (name_of REVENGE_MODES v))) = Some v"
  subgoal by (cases p) (simp_all add: name_in_def name_of_def PRESETS_def)
  subgoal by (cases b) (simp_all add: name_in_def name_of_def BREACH_ACTIONS_def)
  subgoal by (cases f) (simp_all add: name_in_def name_of_def DAILY_FROM_def)
  subgoal by (cases k) (simp_all add: name_in_def name_of_def MAX_KINDS_def)
  subgoal by (cases y) (simp_all add: name_in_def name_of_def HOUR_DAYS_def)
  subgoal by (cases s) (simp_all add: name_in_def name_of_def STOP_MODES_def)
  subgoal by (cases v) (simp_all add: name_in_def name_of_def REVENGE_MODES_def)
  done

lemma amount_back: "in_bounds x m \<Longrightarrow> amount (Some (num_json x)) d m = x"
  by (simp add: in_bounds_def amount_def num_json_def)

lemma clock_back: "clock_ok s \<Longrightarrow> clock (Some (JStr s)) d = s"
  by (simp add: clock_def)

lemma rules_back: "rules_ok r \<Longrightarrow> restoreRules (rules_json r) = r"
  by (simp add: rules_ok_def restoreRules_def rules_json_def Let_def sub_def obj_or_empty_def one_of_def flag_def
      or_else_def amount_back clock_back)

interpretation rules: persisted rules_json restoreRules rules_ok
  by unfold_locales (simp_all add: restore_rules_ok rules_back)

text \<open>C23: Whatever was stored, the rules read are within their bounds; any rules within the bounds
  are read back exactly as they were saved.\<close>

theorem rules_round_trip:
  "restoreRules (rules_json (restoreRules v)) = restoreRules v \<and> (rules_ok r = (\<exists>j. restoreRules j = r))"
  using rules.reload rules.ok_iff by simp

section \<open>The next change of the hours\<close>

lemma clock_minutes:
  assumes "clock_ok s"
  obtains k where "minutesOf s = Fin (of_int k)" "0 \<le> k" "k < 1440"
proof -
  from assms obtain a b d e where s: "s = [a, b, CHR '':'', d, e]"
    and h: "(a = CHR ''0'' \<or> a = CHR ''1'') \<and> is_digit b \<or> a = CHR ''2'' \<and> is_digit b \<and> digit_val b \<le> 3"
    and m: "is_digit d" "digit_val d \<le> 5" "is_digit e"
    by (auto simp: clock_ok_def split: list.splits)
  have range: "0 \<le> digit_val c \<and> digit_val c \<le> 9" if "is_digit c" for c
    using that by (auto simp: is_digit_def digit_val_def)
  define H where "H = 10 * digit_val a + digit_val b"
  define M where "M = 10 * digit_val d + digit_val e"
  have da: "is_digit a" "is_digit b" using h by (auto simp: is_digit_def)
  have HM: "0 \<le> H" "H \<le> 23" "0 \<le> M" "M \<le> 59"
    using h m range [of b] range [of d] range [of e] by (auto simp: H_def M_def digit_val_def)
  have "to_number [a, b] = num (of_int H)" "to_number [d, e] = num (of_int M)"
    using digits_number [of "[a, b]"] digits_number [of "[d, e]"] da m by (simp_all add: read_int_def H_def M_def)
  then have n: "to_number [a, b] = Fin (of_int H)" "to_number [d, e] = Fin (of_int M)"
    using HM num_of_int [of H] num_of_int [of M] by simp_all
  have "num (of_int (H * 60)) = Fin (of_int (H * 60))" by (rule num_of_int) (use HM in simp)
  moreover have "num (of_int (H * 60 + M)) = Fin (of_int (H * 60 + M))" by (rule num_of_int) (use HM in simp)
  ultimately have "minutesOf s = Fin (of_int (H * 60 + M))" using n by (simp add: s minutesOf_def)
  with HM show ?thesis by (intro that [of "H * 60 + M"]) auto
qed

text \<open>The hours by the minute, in integers.\<close>

definition open_minute :: "hour_days \<Rightarrow> int \<Rightarrow> int \<Rightarrow> int \<Rightarrow> bool" where
  "open_minute days F T n =
     (let m = n mod 1440; d = (if T < F \<and> m < T then n div 1440 - 1 else n div 1440)
      in (if F < T then F \<le> m \<and> m < T else F \<le> m \<or> m < T) \<and>
         (days = EveryDay \<or> 1 \<le> (d + 4) mod 7 \<and> (d + 4) mod 7 \<le> 5))"

lemma utc_minute_mod: "utc_minute t = t div 60000 mod 1440"
proof -
  have "t div 60000 mod (60 * 24) = 60 * (t div 60000 div 60 mod 24) + t div 60000 mod 60"
    by (rule zmod_zmult2_eq) simp
  moreover have "t div 60000 div 60 = t div (60000 * 60)" by (simp add: zdiv_zmult2_eq)
  ultimately show ?thesis by (simp add: utc_minute_def)
qed

lemma day_div: "t div 86400000 = t div 60000 div 1440" for t :: int
  using zdiv_zmult2_eq [of 1440 t 60000] by simp

lemma openAt_minute:
  assumes "minutesOf (rh_from h) = Fin (of_int F)" "minutesOf (rh_to h) = Fin (of_int T)"
  shows "openAt h t = open_minute (rh_days h) F T (t div 60000)"
proof -
  define m where "m = t div 60000 mod 1440"
  define today where "today = (t div 60000 div 1440 + 4) mod 7"
  define before where "before = (t div 60000 div 1440 - 1 + 4) mod 7"
  have bd: "(t - 86400000) div 86400000 = t div 86400000 - 1"
    using div_add_self2 [of 86400000 "t - 86400000"] by simp
  have u: "utc_minute t = m" "utc_day t = today" "utc_day (t - 86400000) = before"
    by (simp_all add: utc_minute_mod m_def today_def before_def utc_day_def bd flip: day_div)
  have "open_minute (rh_days h) F T (t div 60000) =
      ((if F < T then F \<le> m \<and> m < T else F \<le> m \<or> m < T) \<and>
       (rh_days h = EveryDay \<or> (if T < F \<and> m < T then 1 \<le> before \<and> before \<le> 5 else 1 \<le> today \<and> today \<le> 5)))"
    unfolding open_minute_def Let_def m_def [symmetric] today_def before_def
    by (cases "T < F"; cases "m < T") simp_all
  moreover have "openAt h t =
      ((if F < T then F \<le> m \<and> m < T else F \<le> m \<or> m < T) \<and>
       (rh_days h = EveryDay \<or> (if T < F \<and> m < T then 1 \<le> before \<and> before \<le> 5 else 1 \<le> today \<and> today \<le> 5)))"
    unfolding openAt_def assms Let_def by (cases "T < F \<and> m < T") (auto simp: u)
  ultimately show ?thesis by simp
qed

lemma open_minute_week: "open_minute days F T (n mod 10080) = open_minute days F T n"
proof -
  have m: "n mod 10080 mod 1440 = n mod 1440" by (rule mod_mod_cancel) simp
  have "n mod (1440 * 7) = 1440 * (n div 1440 mod 7) + n mod 1440" by (rule zmod_zmult2_eq) simp
  then have d: "n mod 10080 div 1440 = n div 1440 mod 7" by simp
  have "(x mod 7 - 1 + 4) mod 7 = (x - 1 + 4) mod 7" "(x mod 7 + 4) mod 7 = (x + 4) mod 7" for x :: int
    by (simp_all add: mod_simps)
  then show ?thesis by (simp add: open_minute_def m d Let_def)
qed

lemma open_minute_both:
  assumes "0 \<le> F" "F < 1440" "0 \<le> T" "T < 1440" "F \<noteq> T"
  shows "open_minute days F T (6 * 1440 + F) \<and> \<not> open_minute days F T (6 * 1440 + T)"
proof -
  have "(6 * 1440 + k) mod 1440 = k" "(6 * 1440 + k) div 1440 = 6" if "0 \<le> k" "k < 1440" for k :: int
    using that by (auto intro: int_mod_pos_eq [of _ _ 6] int_div_pos_eq)
  with assms show ?thesis by (simp only: open_minute_def Let_def) auto
qed

lemma week_reaches:
  obtains a :: nat where "1 \<le> a" "a \<le> 10080" "(n + int a) mod 10080 = p mod 10080"
proof (cases "(p - n) mod 10080 = 0")
  case True
  then have "n mod 10080 = p mod 10080" by (simp add: mod_eq_dvd_iff dvd_diff_commute mod_eq_0_iff_dvd)
  then show ?thesis by (intro that [of 10080]) simp_all
next
  case False
  let ?r = "(p - n) mod 10080"
  have r: "0 < ?r" "?r < 10080" using False pos_mod_sign [of 10080 "p - n"] by (linarith, simp)
  have "(n + ?r) mod 10080 = p mod 10080" by (simp add: mod_simps)
  with r show ?thesis by (intro that [of "nat ?r"]) simp_all
qed

text \<open>C22: The hours say exactly when they next change: where they have a length, the answer is a number
  of minutes from 1 to a week's, the hours are the same at every minute until then and different
  at it. Where they have none, they are closed and never change.\<close>

theorem hours_next_change:
  assumes "clock_ok (rh_from h)" "clock_ok (rh_to h)"
  shows "if minutesOf (rh_from h) = minutesOf (rh_to h) then hoursNow h now = (False, None)
    else \<exists>k. hoursNow h now = (openAt h now, Some k) \<and> 1 \<le> k \<and> k \<le> 10080 \<and>
      openAt h (now + int k * 60000) \<noteq> openAt h now \<and>
      (\<forall>j<k. openAt h (now + int j * 60000) = openAt h now)"
proof -
  obtain F where F: "minutesOf (rh_from h) = Fin (of_int F)" "0 \<le> F" "F < 1440" using clock_minutes [OF assms(1)] .
  obtain T where T: "minutesOf (rh_to h) = Fin (of_int T)" "0 \<le> T" "T < 1440" using clock_minutes [OF assms(2)] .
  show ?thesis
  proof (cases "F = T")
    case True
    then show ?thesis by (simp add: F T hoursNow_def js_eq_def)
  next
    case False
    let ?o = "\<lambda>n. open_minute (rh_days h) F T n" and ?n = "now div 60000"
    let ?P = "\<lambda>ahead. openAt h (now + int ahead * 60000) \<noteq> openAt h now"
    have at: "openAt h (now + int a * 60000) = ?o (?n + int a)" for a
      by (simp add: openAt_minute [OF F(1) T(1)] add.commute)
    have at0: "openAt h now = ?o ?n" using at [of 0] by simp
    obtain p where p: "?o p \<noteq> ?o ?n"
      using open_minute_both [OF F(2,3) T(2,3) False, of "rh_days h"] by metis
    obtain a where a: "1 \<le> a" "a \<le> 10080" "(?n + int a) mod 10080 = p mod 10080" using week_reaches .
    have "?o (?n + int a) = ?o p"
      using open_minute_week [of "rh_days h" F T "?n + int a"] open_minute_week [of "rh_days h" F T p] a(3) by simp
    with p at at0 have "?P a" by simp
    with a have "List.find ?P [1..<7 * 1440 + 1] \<noteq> None" unfolding find_None by auto
    then obtain k where k: "List.find ?P [1..<7 * 1440 + 1] = Some k" by blast
    then obtain i where i: "i < length [1..<7 * 1440 + 1]" "?P ([1..<7 * 1440 + 1] ! i)" "k = [1..<7 * 1440 + 1] ! i"
      "\<forall>j<i. \<not> ?P ([1..<7 * 1440 + 1] ! j)" unfolding find_Some_iff by blast
    then have ki: "k = Suc i" by (simp del: upt_Suc)
    have before: "\<not> ?P j" if "j < k" for j
    proof (cases j)
      case (Suc j')
      with that ki i(1,4) show ?thesis by (auto simp del: upt_Suc)
    qed simp
    have "hoursNow h now = (openAt h now, Some k)"
      using False k by (simp add: hoursNow_def js_eq_def F T)
    with before i ki show ?thesis using False by (simp add: F T del: upt_Suc)
  qed
qed

theorem hours_next_change_witness:
  "snd (hoursNow \<lparr>rh_days = Weekdays, rh_from = ''22:30'', rh_to = ''06:00''\<rparr> 0) \<noteq> None"
proof -
  let ?h = "\<lparr>rh_days = Weekdays, rh_from = ''22:30'', rh_to = ''06:00''\<rparr>"
  have c: "clock_ok (rh_from ?h)" "clock_ok (rh_to ?h)" by code_simp+
  have "minutesOf (rh_from ?h) \<noteq> minutesOf (rh_to ?h)" by code_simp
  with hours_next_change [OF c, of 0] show ?thesis by auto
qed

end
