(* ===== verification/Algos.thy ===== *)
theory Algos
  imports Js_Value Domain Interfaces
begin

text \<open>
  Algo orders on the page, \<^verbatim>\<open>apps/desktop/src/lib/algos.ts\<close>: what is sent to the
  engine, what is wrong with it before it is sent, and the list of what the engine reports. The
  types are those of \<^verbatim>\<open>packages/core/src/generated/domain.ts\<close>.
\<close>

section \<open>What is sent and reported\<close>

datatype distribution = Flat | MoreFar | MoreNear

datatype slice_style = StyleMarket | StyleChaser

datatype unfilled = UnfilledMarket | UnfilledSkip | UnfilledStop

datatype algo_kind =
    Chaser bool "jsnum option" bool                       \<comment> \<open>postOnly, giveUpBps, finishAtMarket\<close>
  | Twap jsnum jsnum bool slice_style unfilled            \<comment> \<open>durationMs, slices, randomize, style, unfilled\<close>
  | Scaled decimal decimal jsnum distribution bool        \<comment> \<open>from, to, count, distribution, postOnly\<close>

record algo_spec =
  sp_venue :: venue
  sp_account :: string
  sp_market :: string
  sp_side :: side
  sp_size :: decimal
  sp_reduceOnly :: bool
  sp_maxSlippageBps :: jsnum
  sp_preferNative :: bool
  sp_kind :: algo_kind

datatype algo_status = AlgoRunning | AlgoPaused | AlgoFinished | AlgoStopped | AlgoFailed

text \<open>Where it was started from and what runs it are names the page only shows.\<close>

record algo_view =
  av_id :: string
  av_spec :: algo_spec
  av_origin :: string
  av_status :: algo_status
  av_reason :: "string option"
  av_detail :: "string option"
  av_runsOn :: string
  av_filled :: decimal
  av_avgPrice :: "decimal option"
  av_fees :: "decimal option"
  av_startPrice :: "decimal option"
  av_openOrders :: jsnum
  av_startedAt :: jsnum
  av_endsAt :: "jsnum option"
  av_nextAt :: "jsnum option"
  av_updatedAt :: jsnum

record algo_target =
  ag_venue :: venue
  ag_account :: string
  ag_maxSlippageBps :: jsnum

definition NATIVE_MIN_MINUTES :: jsnum where
  "NATIVE_MIN_MINUTES = Fin 5"

definition NATIVE_MAX_MINUTES :: jsnum where
  "NATIVE_MAX_MINUTES = Fin 10080"

definition TWAP_MIN_MS :: jsnum where
  "TWAP_MIN_MS = Fin 10000"

definition TWAP_MAX_MS :: jsnum where
  "TWAP_MAX_MS = Fin 604800000"

definition MAX_SLICES :: jsnum where
  "MAX_SLICES = Fin 500"

definition MAX_LEVELS :: jsnum where
  "MAX_LEVELS = Fin 50"

definition runsOnVenue :: "algo_spec \<Rightarrow> bool" where
  "runsOnVenue spec =
     (case sp_kind spec of
        Twap durationMs slices randomize style unfilled \<Rightarrow>
          sp_preferNative spec \<and> sp_venue spec = Hyperliquid \<and> style = StyleMarket \<and>
          (let minutes = math_ceil (durationMs div Fin 60000)
           in NATIVE_MIN_MINUTES \<le> minutes \<and> minutes \<le> NATIVE_MAX_MINUTES)
      | _ \<Rightarrow> False)"

definition defaultSlices :: "jsnum \<Rightarrow> jsnum" where
  "defaultSlices durationMs = math_min (Fin 60) (math_max (Fin 2) (math_round (durationMs div Fin 60000)))"

section \<open>Durations\<close>

text \<open>The optional group \<open>(?:(\d+)u)?\<close> at the front of a text: its number, 0 without it, and the rest.\<close>

definition unit_group :: "char \<Rightarrow> string \<Rightarrow> jsnum \<times> string" where
  "unit_group u s =
     (let ds = takeWhile is_digit s; r = dropWhile is_digit s
      in if ds \<noteq> [] \<and> r \<noteq> [] \<and> hd r = u then (to_number ds, tl r) else (Fin 0, s))"

definition parseDuration :: "string option \<Rightarrow> jsnum option" where
  "parseDuration word =
     (case word of
        None \<Rightarrow> None
      | Some w \<Rightarrow>
          if w = [] then None
          else (let (d, r1) = unit_group CHR ''d'' (to_lower w); (h, r2) = unit_group CHR ''h'' r1;
                    (mn, r3) = unit_group CHR ''m'' r2; (s, r4) = unit_group CHR ''s'' r3;
                    ms = (((d * Fin 24 + h) * Fin 60 + mn) * Fin 60 + s) * Fin 1000
                in if r4 \<noteq> [] then None else if 0 < ms then Some ms else None))"

definition truthy_num :: "jsnum \<Rightarrow> bool" where
  "truthy_num x = (x \<noteq> NaN \<and> x \<noteq> 0)"

definition formatDuration :: "jsnum \<Rightarrow> string" where
  "formatDuration ms =
     (let t = math_max 0 (math_round (ms div Fin 1000));
          d = math_floor (t div Fin 86400); h = math_floor (js_rem t (Fin 86400) div Fin 3600);
          m = math_floor (js_rem t (Fin 3600) div Fin 60); s = js_rem t (Fin 60);
          parts = (if truthy_num d then [num_str d @ ''d''] else []) @
                  (if truthy_num h then [num_str h @ ''h''] else []) @
                  (if truthy_num m then [num_str m @ ''m''] else []) @
                  (if \<not> truthy_num d \<and> \<not> truthy_num h \<and> truthy_num s then [num_str s @ ''s''] else [])
      in case parts of
           [] \<Rightarrow> ''0s''
         | p # ps \<Rightarrow> p @ concat (map (\<lambda>q. '' '' @ q) ps))"

section \<open>Building a spec\<close>

record algo_input =
  in_side :: side
  in_market :: market
  in_size :: decimal
  in_reduceOnly :: "bool option"

definition base_spec :: "algo_input \<Rightarrow> algo_target \<Rightarrow> algo_kind \<Rightarrow> bool \<Rightarrow> algo_spec" where
  "base_spec i target kind preferNative =
     \<lparr>sp_venue = ag_venue target, sp_account = ag_account target, sp_market = m_id (in_market i), sp_side = in_side i,
      sp_size = in_size i, sp_reduceOnly = or_else (in_reduceOnly i) False,
      sp_maxSlippageBps = ag_maxSlippageBps target, sp_preferNative = preferNative, sp_kind = kind\<rparr>"

record chaser_input = algo_input +
  ci_postOnly :: "bool option"
  ci_giveUpPct :: "jsnum option"
  ci_finishAtMarket :: "bool option"

record twap_input = algo_input +
  ti_durationMs :: jsnum
  ti_slices :: "jsnum option"
  ti_randomize :: "bool option"
  ti_style :: "slice_style option"
  ti_unfilled :: "unfilled option"
  ti_native :: "bool option"

record scaled_input = algo_input +
  si_from :: decimal
  si_to :: decimal
  si_count :: jsnum
  si_distribution :: "distribution option"
  si_postOnly :: "bool option"

definition chaserSpec :: "chaser_input \<Rightarrow> algo_target \<Rightarrow> algo_spec" where
  "chaserSpec i target =
     base_spec (algo_input.truncate i) target
       (Chaser (or_else (ci_postOnly i) True) (map_option (\<lambda>p. math_round (p * Fin 100)) (ci_giveUpPct i))
          (or_else (ci_finishAtMarket i) False)) True"

definition twapSpec :: "twap_input \<Rightarrow> algo_target \<Rightarrow> algo_spec" where
  "twapSpec i target =
     base_spec (algo_input.truncate i) target
       (Twap (ti_durationMs i) (or_else (ti_slices i) (defaultSlices (ti_durationMs i))) (or_else (ti_randomize i) True)
          (or_else (ti_style i) StyleMarket) (or_else (ti_unfilled i) UnfilledMarket))
       (or_else (ti_native i) True)"

definition scaledSpec :: "scaled_input \<Rightarrow> algo_target \<Rightarrow> algo_spec" where
  "scaledSpec i target =
     base_spec (algo_input.truncate i) target
       (Scaled (si_from i) (si_to i) (si_count i) (or_else (si_distribution i) Flat) (or_else (si_postOnly i) True)) True"

datatype spec_problem = SizeProblem | MinSizeProblem | DurationProblem | SlicesProblem | SliceSizeProblem
  | PriceProblem | CountProblem

definition specProblem :: "algo_spec \<Rightarrow> market \<Rightarrow> spec_problem option" where
  "specProblem spec mk =
     (let sz = to_number (sp_size spec); mn = to_number (m_minSize mk)
      in if \<not> 0 < sz then Some SizeProblem
         else if sz < mn then Some MinSizeProblem
         else case sp_kind spec of
           Twap durationMs slices randomize style unfilled \<Rightarrow>
             if durationMs < TWAP_MIN_MS \<or> TWAP_MAX_MS < durationMs then Some DurationProblem
             else if runsOnVenue spec then None
             else if slices < 1 \<or> MAX_SLICES < slices then Some SlicesProblem
             else if sz div slices < mn then Some SliceSizeProblem
             else None
         | Scaled from to n distribution postOnly \<Rightarrow>
             if \<not> 0 < to_number from \<or> \<not> 0 < to_number to then Some PriceProblem
             else if n < Fin 2 \<or> MAX_LEVELS < n then Some CountProblem
             else if sz div n < mn then Some SliceSizeProblem
             else None
         | Chaser postOnly giveUpBps finishAtMarket \<Rightarrow> None)"

section \<open>What the engine reports\<close>

definition progressOf :: "algo_view \<Rightarrow> jsnum" where
  "progressOf v =
     (let sz = to_number (sp_size (av_spec v))
      in if 0 < sz then math_min 1 (to_number (av_filled v) div sz) else 0)"

definition timeLeft :: "algo_view \<Rightarrow> jsnum \<Rightarrow> jsnum option" where
  "timeLeft v now = map_option (\<lambda>e. math_max 0 (e - now)) (av_endsAt v)"

definition opt_number :: "decimal option \<Rightarrow> jsnum" where
  "opt_number d = (case d of Some s \<Rightarrow> to_number s | None \<Rightarrow> NaN)"

definition slippageOf :: "algo_view \<Rightarrow> jsnum option" where
  "slippageOf v =
     (let start = opt_number (av_startPrice v); avg = opt_number (av_avgPrice v)
      in if \<not> 0 < start \<or> \<not> 0 < avg then None
         else (let raw = (avg - start) div start * Fin 10000
               in Some (if sp_side (av_spec v) = Buy then raw else - raw)))"

definition isLive :: "algo_view \<Rightarrow> bool" where
  "isLive v = (av_status v = AlgoRunning \<or> av_status v = AlgoPaused)"

definition algo_before :: "algo_view \<Rightarrow> algo_view \<Rightarrow> bool" where
  "algo_before a b =
     (if isLive a \<noteq> isLive b then isLive a
      else if isLive a then av_startedAt b - av_startedAt a < 0
      else av_updatedAt b - av_updatedAt a < 0)"

definition sortAlgos :: "algo_view list \<Rightarrow> algo_view list" where
  "sortAlgos views = js_sort algo_before views"

definition withAlgo :: "algo_view list \<Rightarrow> algo_view \<Rightarrow> algo_view list" where
  "withAlgo views v = sortAlgos (v # filter (\<lambda>w. av_id w \<noteq> av_id v) views)"

text \<open>The slices of a TWAP run here. A number of slices that is not whole leaves the last as it is.\<close>

definition previewSlices :: "algo_spec \<Rightarrow> market \<Rightarrow> jsnum list" where
  "previewSlices spec mk =
     (case sp_kind spec of
        Twap durationMs slices randomize style unfilled \<Rightarrow>
          (let st = to_number (m_sizeStep mk); step = (if st = NaN then 0 else st); n = math_max 1 slices;
               down = (\<lambda>v. if 0 < step then math_floor (v div step + num (1 / 10 ^ 9)) * step else v);
               each = down (to_number (sp_size spec) div n)
           in if \<not> to_number (m_minSize mk) \<le> each then []
              else case n of
                Fin q \<Rightarrow>
                  (let k = nat \<lfloor>q\<rfloor>; sizes = replicate k each; rest = down (to_number (sp_size spec) - each * n)
                   in if q = of_nat k then sizes[k - 1 := each + rest] else sizes)
              | _ \<Rightarrow> [])
      | _ \<Rightarrow> [])"

section \<open>The list stays current\<close>

definition live_first :: "algo_view list \<Rightarrow> bool" where
  "live_first vs = sorted_wrt (\<lambda>a b. isLive b \<longrightarrow> isLive a) vs"

lemma set_insert_sorted: "set (insert_sorted lt x ys) = insert x (set ys)"
  by (metis mset_insert_sorted set_mset_add_mset_insert set_mset_mset)

lemma live_first_insert: "live_first vs \<Longrightarrow> live_first (insert_sorted algo_before v vs)"
proof (induction vs)
  case (Cons w ws)
  show ?case
  proof (cases "algo_before w v")
    case True
    then have "isLive v \<longrightarrow> isLive w" by (auto simp: algo_before_def split: if_splits)
    with True Cons show ?thesis by (simp add: live_first_def set_insert_sorted)
  next
    case False
    then have "isLive w \<longrightarrow> isLive v" by (auto simp: algo_before_def split: if_splits)
    with False Cons.prems show ?thesis by (auto simp: live_first_def)
  qed
qed (simp add: live_first_def)

lemma live_first_sortAlgos: "live_first (sortAlgos vs)"
  unfolding sortAlgos_def js_sort_def
  by (induction vs) (simp_all add: live_first_insert, simp add: live_first_def)

lemma sortAlgos_ids: "distinct (map av_id vs) \<Longrightarrow> distinct (map av_id (sortAlgos vs))"
  by (metis mset_js_sort mset_map mset_eq_imp_distinct_iff sortAlgos_def)

definition algos_ok :: "algo_view list \<Rightarrow> bool" where
  "algos_ok vs = (distinct (map av_id vs) \<and> live_first vs)"

lemma withAlgo_ok: "algos_ok vs \<Longrightarrow> algos_ok (withAlgo vs v)"
  by (auto simp: algos_ok_def withAlgo_def live_first_sortAlgos distinct_map_filter intro!: sortAlgos_ids)

lemma withAlgo_member:
  "w \<in> set (withAlgo vs v) \<longleftrightarrow> w = v \<or> w \<in> set vs \<and> av_id w \<noteq> av_id v"
  by (auto simp: withAlgo_def sortAlgos_def)

interpretation algos: machine "\<lambda>v vs. withAlgo vs v" "\<lambda>vs. vs = []" algos_ok
  by unfold_locales (simp_all add: withAlgo_ok, simp add: algos_ok_def live_first_def)

text \<open>After any sequence of the engine's reports the list has one entry per algo, its latest
  report, and the algos that still run come before those that ended.\<close>

theorem algo_list_current:
  "distinct (map av_id (fold (\<lambda>v l. withAlgo l v) vs [])) \<and> live_first (fold (\<lambda>v l. withAlgo l v) vs []) \<and>
   (w \<in> set (fold (\<lambda>v l. withAlgo l v) vs []) \<longleftrightarrow> List.find (\<lambda>v. av_id v = av_id w) (rev vs) = Some w)"
proof -
  have "w \<in> set (fold (\<lambda>v l. withAlgo l v) vs []) \<longleftrightarrow> List.find (\<lambda>v. av_id v = av_id w) (rev vs) = Some w"
  proof (induction vs rule: rev_induct)
    case (snoc v vs)
    then show ?case by (auto simp: withAlgo_member)
  qed simp
  with algos.reachable_inv [of "[]" vs] show ?thesis by (simp add: algos_ok_def)
qed

section \<open>Durations in words\<close>

text \<open>A duration in words: the parts that are not 0, each with its unit.\<close>

fun duration_word :: "(int \<times> char) list \<Rightarrow> string" where
  "duration_word [] = []"
| "duration_word ((n, u) # ps) = (if n = 0 then [] else int_str n @ [u]) @ duration_word ps"

lemma int_str_front:
  assumes "0 \<le> n" "\<not> is_digit u"
  shows "takeWhile is_digit (int_str n @ u # r) = int_str n" "dropWhile is_digit (int_str n @ u # r) = u # r"
  using int_str_digits [OF assms(1)] assms(2) by (simp_all add: list_all_iff)

lemma int_str_there: "int_str n \<noteq> []"
  by (subst int_str.simps) simp

lemma unit_group_there:
  assumes "0 \<le> n" "\<not> is_digit u"
  shows "unit_group u (int_str n @ u # r) = (num (of_int n), r)"
  using assms int_str_there
  by (simp add: unit_group_def int_str_front digits_number int_str_digits read_int_str)

lemma unit_group_absent:
  assumes "list_all (\<lambda>(n, v). 0 \<le> n \<and> v \<noteq> u \<and> \<not> is_digit v) ps"
  shows "unit_group u (duration_word ps) = (Fin 0, duration_word ps)"
  using assms
proof (induction ps rule: duration_word.induct)
  case (2 n v ps)
  show ?case
  proof (cases "n = 0")
    case False
    with 2(2) show ?thesis by (simp add: unit_group_def int_str_front)
  qed (use 2 in simp)
qed (simp add: unit_group_def)

lemma unit_group_word:
  assumes "0 \<le> n" "n \<le> 1000000" "\<not> is_digit u" "list_all (\<lambda>(n, v). 0 \<le> n \<and> v \<noteq> u \<and> \<not> is_digit v) ps"
  shows "unit_group u (duration_word ((n, u) # ps)) = (Fin (of_int n), duration_word ps)"
proof (cases "n = 0")
  case True
  with unit_group_absent [OF assms(4)] show ?thesis by simp
next
  case False
  have "num (of_int n) = Fin (of_int n)" by (rule num_of_int) (use assms in simp)
  with False unit_group_there [OF assms(1,3)] show ?thesis by simp
qed

lemma to_lower_word:
  assumes "list_all (\<lambda>(n, u). 0 \<le> n \<and> 97 \<le> (of_char u :: int)) ps"
  shows "to_lower (duration_word ps) = duration_word ps"
proof -
  have l: "to_lower xs = xs" if "list_all (\<lambda>c. is_digit c \<or> 97 \<le> (of_char c :: int)) xs" for xs
    using that by (auto simp: to_lower_def is_digit_def list_all_iff intro!: map_idI)
  have "list_all (\<lambda>c. is_digit c \<or> 97 \<le> (of_char c :: int)) (duration_word ps)"
    using assms
  proof (induction ps rule: duration_word.induct)
    case (2 n u ps)
    then have "list_all is_digit (int_str n)" by (simp add: int_str_digits)
    with 2 show ?case by (auto simp: list_all_iff)
  qed simp
  then show ?thesis by (rule l)
qed

lemma num_step:
  assumes "0 \<le> a" "0 \<le> k" "0 \<le> b" "a * k + b \<le> 2 ^ 53"
  shows "Fin (of_int a) * Fin (of_int k) + Fin (of_int b) = Fin (of_int (a * k + b))"
proof -
  have "a * k \<le> 2 ^ 53" "0 \<le> a * k" using assms by (linarith, simp)
  then have "num (of_int (a * k)) = Fin (of_int (a * k))" by (intro num_of_int) simp
  moreover have "num (of_int (a * k + b)) = Fin (of_int (a * k + b))" using assms by (intro num_of_int) simp
  ultimately show ?thesis by simp
qed

text \<open>A duration in days, hours, minutes and seconds (each up to a million, those that are 0 left
  out) is read as its milliseconds; a duration of nothing is none.\<close>

theorem duration_words_read:
  assumes "0 \<le> d" "d \<le> 1000000" "0 \<le> h" "h \<le> 1000000" "0 \<le> m" "m \<le> 1000000" "0 \<le> s" "s \<le> 1000000"
  shows "parseDuration (Some (duration_word [(d, CHR ''d''), (h, CHR ''h''), (m, CHR ''m''), (s, CHR ''s'')])) =
    (if ((d * 24 + h) * 60 + m) * 60 + s = 0 then None
     else Some (Fin (of_int ((((d * 24 + h) * 60 + m) * 60 + s) * 1000))))"
proof -
  let ?w = "duration_word [(d, CHR ''d''), (h, CHR ''h''), (m, CHR ''m''), (s, CHR ''s'')]"
  define a where "a = d * 24 + h"
  define b where "b = a * 60 + m"
  define c where "c = b * 60 + s"
  have bounds: "0 \<le> a" "a \<le> 25000000" "0 \<le> b" "b \<le> 1501000000" "0 \<le> c" "c \<le> 90061000000"
    using assms by (simp_all add: a_def b_def c_def)
  have u: "\<not> is_digit CHR ''d''" "\<not> is_digit CHR ''h''" "\<not> is_digit CHR ''m''" "\<not> is_digit CHR ''s''"
    by (simp_all add: is_digit_def)
  have low: "to_lower ?w = ?w" by (rule to_lower_word) (use assms in simp)
  have g1: "unit_group CHR ''d'' ?w =
      (Fin (of_int d), duration_word [(h, CHR ''h''), (m, CHR ''m''), (s, CHR ''s'')])"
    by (rule unit_group_word) (use assms u in simp_all)
  have g2: "unit_group CHR ''h'' (duration_word [(h, CHR ''h''), (m, CHR ''m''), (s, CHR ''s'')]) =
      (Fin (of_int h), duration_word [(m, CHR ''m''), (s, CHR ''s'')])"
    by (rule unit_group_word) (use assms u in simp_all)
  have g3: "unit_group CHR ''m'' (duration_word [(m, CHR ''m''), (s, CHR ''s'')]) =
      (Fin (of_int m), duration_word [(s, CHR ''s'')])"
    by (rule unit_group_word) (use assms u in simp_all)
  have g4: "unit_group CHR ''s'' (duration_word [(s, CHR ''s'')]) = (Fin (of_int s), [])"
    using unit_group_word [of s "CHR ''s''" "[]"] assms u by simp
  have n1: "Fin (of_int d) * Fin 24 + Fin (of_int h) = Fin (of_int a)"
    using num_step [of d 24 h] assms by (simp add: a_def)
  have n2: "Fin (of_int a) * Fin 60 + Fin (of_int m) = Fin (of_int b)"
    using num_step [of a 60 m] assms bounds by (simp add: b_def)
  have n3: "Fin (of_int b) * Fin 60 + Fin (of_int s) = Fin (of_int c)"
    using num_step [of b 60 s] assms bounds by (simp add: c_def)
  have n4: "Fin (of_int c) * Fin 1000 = Fin (of_int (c * 1000))"
    using num_of_int [of "c * 1000"] bounds by simp
  have e: "?w = [] \<longrightarrow> c = 0" using int_str_there by (simp add: a_def b_def c_def)
  have "parseDuration (Some ?w) = (if ?w = [] then None else if 0 < c then Some (Fin (of_int (c * 1000))) else None)"
    unfolding parseDuration_def option.case low g1 prod.case Let_def g2 g3 g4 n1 n2 n3 n4
    by (simp add: zero_Fin del: duration_word.simps)
  with e bounds(5) show ?thesis unfolding c_def b_def a_def by auto
qed

theorem duration_words_read_witness: "parseDuration (Some ''1h30m'') = Some (Fin 5400000)"
proof -
  have w: "duration_word [(0, CHR ''d''), (1, CHR ''h''), (30, CHR ''m''), (0, CHR ''s'')] = ''1h30m''" by code_simp
  show ?thesis using duration_words_read [of 0 1 30 0] unfolding w by simp
qed

end
