(* ===== verification/Pump_Watch.thy ===== *)
theory Pump_Watch
  imports Prelude Js_Num
begin

text \<open>
  The pump and dump watch, \<^verbatim>\<open>packages/ui/src/lib/pumpWatch.ts\<close>: what a market is doing, from
  its changes, funding, open interest, volume and the exchanges' notices.
\<close>

datatype watch_state =
    Squeeze | Leverage | SpotLed | PumpStarting | LongUnwind | ShortPileOn | DumpStarting | FadeRisk
  | ListingNews | DelistingNews

datatype watch_side = Pump | Dump

fun WATCH_SIDE :: "watch_state \<Rightarrow> watch_side" where
  "WATCH_SIDE Squeeze = Pump"
| "WATCH_SIDE Leverage = Pump"
| "WATCH_SIDE SpotLed = Pump"
| "WATCH_SIDE PumpStarting = Pump"
| "WATCH_SIDE ListingNews = Pump"
| "WATCH_SIDE LongUnwind = Dump"
| "WATCH_SIDE ShortPileOn = Dump"
| "WATCH_SIDE DumpStarting = Dump"
| "WATCH_SIDE FadeRisk = Dump"
| "WATCH_SIDE DelistingNews = Dump"

datatype notice_kind = Listing | Delisting | Warning | OtherNotice

record watch_notice =
  wn_kind :: notice_kind
  wn_time :: jsnum

record watch_input =
  wi_change4h :: "jsnum option"
  wi_change24h :: "jsnum option"
  wi_change7d :: "jsnum option"
  wi_fundingPerHour :: "jsnum option"
  wi_oiChange :: "jsnum option"
  wi_spike :: "jsnum option"
  wi_notice :: "watch_notice option"
  wi_now :: jsnum

record watch_read =
  wr_state :: watch_state
  wr_side :: watch_side
  wr_strength :: jsnum

definition MOVE_4H :: jsnum where
  "MOVE_4H = num (5 / 100)"

definition MOVE_24H :: jsnum where
  "MOVE_24H = num (8 / 100)"

definition WATCH_SPIKE :: jsnum where
  "WATCH_SPIKE = Fin (5 / 2)"

definition OI_FLAT :: jsnum where
  "OI_FLAT = num (5 / 100)"

definition OI_UNWIND :: jsnum where
  "OI_UNWIND = num (- 1 / 10)"

definition OI_PILE :: jsnum where
  "OI_PILE = num (1 / 10)"

definition OI_BUILD :: jsnum where
  "OI_BUILD = Fin (1 / 4)"

definition FADE_WEEK :: jsnum where
  "FADE_WEEK = Fin (1 / 2)"

definition FADE_DAY :: jsnum where
  "FADE_DAY = num (- 5 / 100)"

definition NOTICE_HOURS :: jsnum where
  "NOTICE_HOURS = Fin 48"

definition HOUR :: jsnum where
  "HOUR = Fin 3600000"

definition or_zero :: "jsnum option \<Rightarrow> jsnum" where
  "or_zero x = (case x of Some v \<Rightarrow> v | None \<Rightarrow> 0)"

definition opt_test :: "(jsnum \<Rightarrow> bool) \<Rightarrow> jsnum option \<Rightarrow> bool" where
  "opt_test p x = (case x of Some v \<Rightarrow> p v | None \<Rightarrow> False)"

definition read_as :: "jsnum \<Rightarrow> watch_state \<Rightarrow> watch_read" where
  "read_as strength state = \<lparr>wr_state = state, wr_side = WATCH_SIDE state, wr_strength = strength\<rparr>"

definition is_up :: "watch_input \<Rightarrow> bool" where
  "is_up m = (MOVE_4H \<le> or_zero (wi_change4h m) \<or> MOVE_24H \<le> or_zero (wi_change24h m))"

definition is_down :: "watch_input \<Rightarrow> bool" where
  "is_down m = (or_zero (wi_change4h m) \<le> - MOVE_4H \<or> or_zero (wi_change24h m) \<le> - MOVE_24H)"

definition is_heavy :: "watch_input \<Rightarrow> bool" where
  "is_heavy m = (WATCH_SPIKE \<le> or_zero (wi_spike m))"

definition pump_state :: "watch_input \<Rightarrow> watch_state" where
  "pump_state m =
     (let c24 = or_zero (wi_change24h m); oi = wi_oiChange m;
          oiUsd = map_option (\<lambda>o'. (1 + o') * (1 + c24) - 1) oi
      in if opt_test (\<lambda>f. f < 0) (wi_fundingPerHour m) then Squeeze
         else if opt_test (\<lambda>u. math_max OI_BUILD (c24 * Fin (3 / 2)) \<le> u) oiUsd \<and>
                 opt_test (\<lambda>f. 0 < f) (wi_fundingPerHour m) then Leverage
         else if opt_test (\<lambda>o'. o' \<le> OI_FLAT) oi then SpotLed
         else PumpStarting)"

definition dump_state :: "watch_input \<Rightarrow> watch_state" where
  "dump_state m =
     (if opt_test (\<lambda>f. 0 < f) (wi_fundingPerHour m) \<and> opt_test (\<lambda>o'. o' \<le> OI_UNWIND) (wi_oiChange m) then LongUnwind
      else if opt_test (\<lambda>f. f < 0) (wi_fundingPerHour m) \<and> opt_test (\<lambda>o'. OI_PILE \<le> o') (wi_oiChange m)
      then ShortPileOn
      else DumpStarting)"

definition notice_read :: "watch_input \<Rightarrow> watch_read option" where
  "notice_read m =
     (case wi_notice m of
        None \<Rightarrow> None
      | Some notice \<Rightarrow>
          if \<not> wi_now m - wn_time notice \<le> NOTICE_HOURS * HOUR then None
          else (let fresh = 1 - (wi_now m - wn_time notice) div (NOTICE_HOURS * HOUR)
                in case wn_kind notice of
                     Listing \<Rightarrow> Some (read_as (fresh * num (1 / 100)) ListingNews)
                   | Delisting \<Rightarrow> Some (read_as (fresh * num (1 / 100)) DelistingNews)
                   | Warning \<Rightarrow> Some (read_as (fresh * num (1 / 100)) DelistingNews)
                   | OtherNotice \<Rightarrow> None))"

definition watchRead :: "watch_input \<Rightarrow> watch_read option" where
  "watchRead m =
     (let c4 = or_zero (wi_change4h m); c24 = or_zero (wi_change24h m); week = or_zero (wi_change7d m);
          strength = math_max \<bar>c4\<bar> \<bar>c24\<bar> * math_min (or_zero (wi_spike m)) (Fin 10)
      in if is_up m \<and> is_heavy m then Some (read_as strength (pump_state m))
         else if is_down m \<and> is_heavy m then Some (read_as strength (dump_state m))
         else if FADE_WEEK \<le> week \<and> c24 \<le> FADE_DAY then Some (read_as (\<bar>c24\<bar> * (1 + week)) FadeRisk)
         else notice_read m)"

section \<open>What is flagged\<close>

lemma pump_state_side: "WATCH_SIDE (pump_state m) = Pump"
  by (simp add: pump_state_def Let_def)

lemma dump_state_side: "WATCH_SIDE (dump_state m) = Dump"
  by (simp add: dump_state_def)

text \<open>A market is flagged just where it moves with volume, fades after a good week or is in fresh news, and
  a heavy move up is always read as a pump, one down that is not also one up as a dump.\<close>

lemma flagged_sides:
  "(is_up m \<and> is_heavy m \<longrightarrow> map_option wr_side (watchRead m) = Some Pump) \<and>
   (\<not> is_up m \<and> is_down m \<and> is_heavy m \<longrightarrow> map_option wr_side (watchRead m) = Some Dump)"
  by (simp add: watchRead_def read_as_def pump_state_side dump_state_side Let_def)

lemma read_side: "watchRead m = Some r \<Longrightarrow> wr_side r = WATCH_SIDE (wr_state r)"
  by (auto simp: watchRead_def read_as_def notice_read_def Let_def split: if_splits option.splits notice_kind.splits)

end
