(* ===== verification/Position_Detail.thy ===== *)
theory Position_Detail
  imports Prelude Domain Indicators
begin

text \<open>
  What a position and a book are shown with: a position's fills, funding and PnL over time
  (\<^verbatim>\<open>packages/ui/src/lib/positionDetail.ts\<close>), the book's depth
  (\<^verbatim>\<open>depth.ts\<close>), funding by period (\<^verbatim>\<open>funding.ts\<close>) and the
  ticket's calculator (\<^verbatim>\<open>calculator.ts\<close>).
\<close>

section \<open>A position\<close>

definition EPSILON :: jsnum where
  "EPSILON = num (1 / 10 ^ 9)"

record position_fills =
  pf_fills :: "fill_record list"
  pf_openedAt :: "jsnum option"

text \<open>Walking back from the newest fill: the fills taken so far (newest first) and what is left to explain.\<close>

fun walk_fills :: "jsnum \<Rightarrow> fill_record list \<Rightarrow> jsnum \<Rightarrow> fill_record list \<Rightarrow> position_fills" where
  "walk_fills tol [] left out = \<lparr>pf_fills = out, pf_openedAt = None\<rparr>"
| "walk_fills tol (f # fs) left out =
     (let left' = left - to_number (f_size f) * (if f_side f = Buy then Fin 1 else Fin (- 1)); out' = f # out
      in if \<bar>left'\<bar> \<le> tol then \<lparr>pf_fills = out', pf_openedAt = map_option f_time (nth_opt out' 0)\<rparr>
         else walk_fills tol fs left' out')"

definition position_size :: "position \<Rightarrow> jsnum" where
  "position_size p = to_number (p_size p) * (if p_side p = Long then Fin 1 else Fin (- 1))"

definition own_fills :: "fill_record list \<Rightarrow> position \<Rightarrow> fill_record list" where
  "own_fills fills p =
     js_sort (\<lambda>a b. f_time b - f_time a < 0)
       (filter (\<lambda>f. f_market f = p_market p \<and> 0 < to_number (f_size f)) fills)"

definition positionFills :: "fill_record list \<Rightarrow> position \<Rightarrow> position_fills" where
  "positionFills fills p =
     walk_fills (EPSILON * math_max 1 (to_number (p_size p))) (own_fills fills p) (position_size p) []"

definition feesPaid :: "fill_record list \<Rightarrow> jsnum" where
  "feesPaid fills = foldl (\<lambda>s f. s + to_number (f_fee f)) 0 fills"

definition positionFunding :: "funding_payment list \<Rightarrow> string \<Rightarrow> jsnum \<Rightarrow> funding_payment list" where
  "positionFunding payments m since =
     js_sort (\<lambda>a b. fp_time b - fp_time a < 0) (filter (\<lambda>p. fp_market p = m \<and> since \<le> fp_time p) payments)"

definition intervalFor :: "jsnum \<Rightarrow> candle_interval" where
  "intervalFor ms =
     (let hour = Fin 3600000
      in if ms \<le> Fin 6 * hour then M1 else if ms \<le> Fin 24 * hour then M5
         else if ms \<le> Fin 96 * hour then M15 else if ms \<le> Fin 384 * hour then H1 else H4)"

definition pnlSeries :: "candle list \<Rightarrow> position \<Rightarrow> jsnum \<Rightarrow> jsnum \<Rightarrow> (jsnum \<times> jsnum) list" where
  "pnlSeries candles p since now =
     (let entry = to_number (p_entryPrice p); sz = to_number (p_size p);
          dir = (if p_side p = Long then Fin 1 else Fin (- 1))
      in map (\<lambda>c. (k_openTime c, (to_number (k_close c) - entry) * sz * dir))
           (filter (\<lambda>c. since - 1 \<le> k_openTime c \<and> 0 < to_number (k_close c)) candles) @
         [(now, to_number (p_unrealizedPnl p))])"

datatype close_how = CloseMarket jsnum | CloseLimit decimal

definition closeOrder :: "position \<Rightarrow> close_how \<Rightarrow> order_request" where
  "closeOrder p how =
     \<lparr>r_market = p_market p, r_side = (if p_side p = Long then Sell else Buy), r_size = p_size p, r_reduceOnly = True,
      r_collateral = None, r_clientId = None, r_takeProfit = None, r_stopLoss = None,
      r_kind = (case how of CloseMarket bps \<Rightarrow> MarketKind bps | CloseLimit price \<Rightarrow> LimitKind price None)\<rparr>"

text \<open>The path through a position's PnL: the line and its area to the zero line, as SVG texts.\<close>

record spark_path =
  sk_line :: string
  sk_area :: string
  sk_zero :: jsnum

definition spark_range :: "(jsnum \<times> jsnum) list \<Rightarrow> jsnum \<times> jsnum" where
  "spark_range points = fold (\<lambda>(time, pnl) (lo, hi). (math_min lo pnl, math_max hi pnl)) points (0, 0)"

definition sparkPath :: "(jsnum \<times> jsnum) list \<Rightarrow> jsnum \<Rightarrow> jsnum \<Rightarrow> spark_path option" where
  "sparkPath points width height =
     (if length points < 2 then None
      else let t0 = fst (hd points); span = math_max 1 (fst (last points) - t0); (lo, hi) = spark_range points;
               range' = (if js_eq (hi - lo) 0 \<or> hi - lo = NaN then 1 else hi - lo);
               x = (\<lambda>time. ((time - t0) div span) * width); y = (\<lambda>pnl. height - ((pnl - lo) div range') * height);
               dot = (\<lambda>(time, pnl). to_fixed 1 (x time) @ '','' @ to_fixed 1 (y pnl));
               line = ''M'' @ dot (hd points) @ concat (map (\<lambda>p. ''L'' @ dot p) (tl points)); zero = y 0
           in Some \<lparr>sk_line = line,
                     sk_area = line @ ''L'' @ num_str width @ '','' @ to_fixed 1 zero @ ''L0,'' @ to_fixed 1 zero @ ''Z'',
                     sk_zero = zero\<rparr>)"

definition heldParts :: "jsnum \<Rightarrow> jsnum \<times> jsnum \<times> jsnum" where
  "heldParts ms =
     (let minutes = math_max 0 (math_floor (ms div Fin 60000))
      in (math_floor (minutes div Fin 1440), math_floor (js_rem minutes (Fin 1440) div Fin 60), js_rem minutes (Fin 60)))"

section \<open>The book\<close>

record book_level =
  bl_price :: decimal
  bl_size :: decimal

record order_book =
  ob_market :: string
  ob_bids :: "book_level list"
  ob_asks :: "book_level list"
  ob_time :: jsnum

record depth_level =
  dl_price :: jsnum
  dl_size :: jsnum
  dl_notional :: jsnum
  dl_cumSize :: jsnum
  dl_cumulative :: jsnum
  dl_wall :: bool

definition WALL_FACTOR :: jsnum where
  "WALL_FACTOR = Fin 3"

definition median :: "jsnum list \<Rightarrow> jsnum" where
  "median vs =
     (let sorted = js_sort (\<lambda>a b. a - b < 0) vs; mid = length sorted div 2;
          item = (\<lambda>i. case nth_opt sorted i of Some v \<Rightarrow> v | None \<Rightarrow> 0)
      in if length sorted mod 2 = 1 then item mid
         else ((if mid = 0 then 0 else item (mid - 1)) + item mid) div Fin 2)"

fun depth_from :: "jsnum \<Rightarrow> jsnum \<Rightarrow> jsnum \<Rightarrow> book_level list \<Rightarrow> depth_level list" where
  "depth_from typical cumSize cumulative [] = []"
| "depth_from typical cumSize cumulative (l # ls) =
     (let price = to_number (bl_price l); sz = to_number (bl_size l); notional = price * sz;
          cumSize' = cumSize + sz; cumulative' = cumulative + notional
      in \<lparr>dl_price = price, dl_size = sz, dl_notional = notional, dl_cumSize = cumSize', dl_cumulative = cumulative',
          dl_wall = (0 < typical \<and> WALL_FACTOR * typical \<le> notional)\<rparr> # depth_from typical cumSize' cumulative' ls)"

definition depth_side :: "book_level list \<Rightarrow> depth_level list" where
  "depth_side ls = depth_from (median (map (\<lambda>l. to_number (bl_price l) * to_number (bl_size l)) ls)) 0 0 ls"

definition depthLevels :: "order_book \<Rightarrow> depth_level list \<times> depth_level list" where
  "depthLevels book = (depth_side (ob_bids book), depth_side (ob_asks book))"

definition depthWithin :: "depth_level list \<Rightarrow> jsnum \<Rightarrow> jsnum \<Rightarrow> jsnum" where
  "depthWithin ls mid band =
     foldl (\<lambda>s l. s + dl_notional l) 0 (filter (\<lambda>l. \<bar>dl_price l - mid\<bar> \<le> mid * band) ls)"

definition avgFillTo :: "depth_level \<Rightarrow> jsnum" where
  "avgFillTo l = (if 0 < dl_cumSize l then dl_cumulative l div dl_cumSize l else dl_price l)"

record book_imbalance =
  im_bidShare :: jsnum
  im_bids :: jsnum
  im_asks :: jsnum

definition imbalance :: "depth_level list \<Rightarrow> depth_level list \<Rightarrow> jsnum \<Rightarrow> jsnum \<Rightarrow> book_imbalance" where
  "imbalance bids asks mid range' =
     (let b = depthWithin bids mid range'; a = depthWithin asks mid range'
      in \<lparr>im_bidShare = (if 0 < b + a then b div (b + a) else Fin (1 / 2)), im_bids = b, im_asks = a\<rparr>)"

record book_wall =
  bw_bid :: bool
  bw_price :: jsnum
  bw_size :: jsnum
  bw_fromMid :: jsnum

definition largestWalls :: "depth_level list \<Rightarrow> depth_level list \<Rightarrow> jsnum \<Rightarrow> nat \<Rightarrow> book_wall list" where
  "largestWalls bids asks mid n =
     map (\<lambda>(bid, l). \<lparr>bw_bid = bid, bw_price = dl_price l, bw_size = dl_size l, bw_fromMid = (dl_price l - mid) div mid\<rparr>)
       (take n (js_sort (\<lambda>a b. dl_size (snd b) - dl_size (snd a) < 0)
                  (map (\<lambda>l. (True, l)) bids @ map (\<lambda>l. (False, l)) asks)))"

section \<open>Funding by period\<close>

datatype funding_resolution = Res1h | Res8h | Res1d

definition BUCKET_MS :: "funding_resolution \<Rightarrow> jsnum" where
  "BUCKET_MS r = (case r of Res1h \<Rightarrow> Fin 3600000 | Res8h \<Rightarrow> Fin 28800000 | Res1d \<Rightarrow> Fin 86400000)"

definition SETTLE_SLACK_MS :: jsnum where
  "SETTLE_SLACK_MS = Fin 60000"

definition annualised :: "jsnum \<Rightarrow> funding_resolution \<Rightarrow> jsnum" where
  "annualised rate r = rate * (Fin 31536000000 div BUCKET_MS r)"

record funding_rate =
  fr_market :: string
  fr_rate :: decimal
  fr_time :: jsnum

record funding_point =
  fq_time :: jsnum
  fq_rate :: jsnum
  fq_cumulative :: jsnum

text \<open>The points so far, newest first, and the total.\<close>

fun funding_from :: "jsnum \<Rightarrow> funding_rate list \<Rightarrow> jsnum \<Rightarrow> funding_point list \<Rightarrow> funding_point list" where
  "funding_from bucket [] cumulative points = rev points"
| "funding_from bucket (r # rs) cumulative points =
     (let rate = to_number (fr_rate r)
      in if \<not> is_finite rate then funding_from bucket rs cumulative points
         else (let time = math_floor ((fr_time r - SETTLE_SLACK_MS) div bucket) * bucket; cumulative' = cumulative + rate
               in funding_from bucket rs cumulative'
                    (case points of
                       p # ps \<Rightarrow>
                         if js_eq (fq_time p) time
                         then p\<lparr>fq_rate := fq_rate p + rate, fq_cumulative := cumulative'\<rparr> # ps
                         else \<lparr>fq_time = time, fq_rate = rate, fq_cumulative = cumulative'\<rparr> # points
                     | [] \<Rightarrow> [\<lparr>fq_time = time, fq_rate = rate, fq_cumulative = cumulative'\<rparr>])))"

definition fundingSeries :: "funding_rate list \<Rightarrow> funding_resolution \<Rightarrow> funding_point list" where
  "fundingSeries rates r = funding_from (BUCKET_MS r) rates 0 []"

section \<open>The ticket's calculator\<close>

definition direction :: "side \<Rightarrow> jsnum" where
  "direction sd = (if sd = Buy then Fin 1 else Fin (- 1))"

definition decimalsOf :: "decimal \<Rightarrow> nat" where
  "decimalsOf v = (case find_index (\<lambda>c. c = CHR ''.'') v of None \<Rightarrow> 0 | Some dot \<Rightarrow> length v - dot - 1)"

definition roundToStep :: "jsnum \<Rightarrow> decimal \<Rightarrow> jsnum \<times> string" where
  "roundToStep value step =
     (let s = to_number step; dp = decimalsOf step
      in if \<not> 0 < s \<or> \<not> 0 < value then (0, to_fixed dp 0)
         else (let steps = math_floor (value div s + num (1 / 10 ^ 9)); text = to_fixed dp (steps * s)
               in (to_number text, text)))"

record pnl_result =
  pl_margin :: jsnum
  pl_pnl :: jsnum
  pl_roi :: jsnum
  pl_fees :: jsnum

definition tradePnl :: "side \<Rightarrow> jsnum \<Rightarrow> jsnum \<Rightarrow> jsnum \<Rightarrow> jsnum \<Rightarrow> jsnum \<Rightarrow> pnl_result option" where
  "tradePnl sd leverage entry exit sz takerFee =
     (if \<not> 0 < leverage \<or> \<not> 0 < entry \<or> \<not> 0 < exit \<or> \<not> 0 < sz then None
      else let margin = (sz * entry) div leverage; pnl = (exit - entry) * sz * direction sd
           in Some \<lparr>pl_margin = margin, pl_pnl = pnl, pl_roi = pnl div margin,
                    pl_fees = math_max 0 takerFee * sz * (entry + exit)\<rparr>)"

definition targetPrice :: "side \<Rightarrow> jsnum \<Rightarrow> jsnum \<Rightarrow> jsnum \<Rightarrow> jsnum option" where
  "targetPrice sd leverage entry roiPercent =
     (if \<not> 0 < leverage \<or> \<not> 0 < entry \<or> \<not> is_finite roiPercent then None
      else let price = entry * (1 + (direction sd * roiPercent) div Fin 100 div leverage)
           in if 0 < price then Some price else None)"

definition liquidationEstimate :: "side \<Rightarrow> jsnum \<Rightarrow> jsnum \<Rightarrow> jsnum \<Rightarrow> jsnum option" where
  "liquidationEstimate sd leverage entry maxLeverage =
     (if \<not> 0 < leverage \<or> \<not> 0 < entry \<or> \<not> 0 < maxLeverage then None
      else let maintenance = 1 div (Fin 2 * maxLeverage);
               price = entry * (1 - direction sd * (1 div leverage - maintenance))
           in if 0 < price then Some price else None)"

definition maxOpen :: "jsnum \<Rightarrow> jsnum \<Rightarrow> jsnum \<Rightarrow> decimal \<Rightarrow> jsnum \<Rightarrow> (jsnum \<times> string \<times> jsnum) option" where
  "maxOpen balance leverage entry sizeStep takerFee =
     (if \<not> 0 < balance \<or> \<not> 0 < leverage \<or> \<not> 0 < entry then None
      else let raw = (balance * leverage) div (entry * (1 + leverage * math_max 0 takerFee));
               (sz, text) = roundToStep raw sizeStep
           in Some (sz, text, sz * entry))"

section \<open>What holds\<close>

text \<open>The fills found belong to the position's market, in the order of time they were walked; where an
  opening is given it is the time of the oldest.\<close>

lemma walk_fills_set: "set (pf_fills (walk_fills tol fs left out)) \<subseteq> set fs \<union> set out"
  by (induction tol fs left out rule: walk_fills.induct) (auto simp: Let_def)

lemma positionFills_own: "f \<in> set (pf_fills (positionFills fills p)) \<Longrightarrow> f_market f = p_market p \<and> f \<in> set fills"
  using walk_fills_set by (fastforce simp: positionFills_def own_fills_def)

lemma walk_fills_opened:
  "pf_openedAt (walk_fills tol fs left out) = Some t \<Longrightarrow>
   pf_fills (walk_fills tol fs left out) \<noteq> [] \<and> f_time (hd (pf_fills (walk_fills tol fs left out))) = t"
  by (induction tol fs left out rule: walk_fills.induct) (auto simp: Let_def nth_opt_def split: if_splits)

text \<open>Taken off the position's size one by one, the fills leave nothing more than the tolerance, where an
  opening is given.\<close>

definition take_off :: "jsnum \<Rightarrow> fill_record \<Rightarrow> jsnum" where
  "take_off left f = left - to_number (f_size f) * (if f_side f = Buy then Fin 1 else Fin (- 1))"

lemma walk_fills_explain:
  "left = foldl take_off sz (rev out) \<Longrightarrow> pf_openedAt (walk_fills tol fs left out) = Some t \<Longrightarrow>
   \<bar>foldl take_off sz (rev (pf_fills (walk_fills tol fs left out)))\<bar> \<le> tol"
  by (induction tol fs left out rule: walk_fills.induct) (auto simp: Let_def take_off_def split: if_splits)

lemma positionFills_explain:
  "pf_openedAt (positionFills fills p) = Some t \<Longrightarrow>
   \<bar>foldl take_off (position_size p) (rev (pf_fills (positionFills fills p)))\<bar> \<le> EPSILON * math_max 1 (to_number (p_size p))"
  unfolding positionFills_def by (rule walk_fills_explain) simp_all

text \<open>The depth has a level for each of the book's, and its last running total is the side's notional.\<close>

lemma length_depth [simp]: "length (depth_from typical cs cum ls) = length ls"
  by (induction typical cs cum ls rule: depth_from.induct) (simp_all add: Let_def)

lemma depth_total:
  "ls \<noteq> [] \<Longrightarrow> dl_cumulative (last (depth_from typical cs cum ls)) = foldl (+) cum (map dl_notional (depth_from typical cs cum ls))"
proof (induction typical cs cum ls rule: depth_from.induct)
  case (2 typical cs cum l ls)
  have ne: "depth_from typical cs' cum' ls = [] \<longleftrightarrow> ls = []" for cs' cum'
    using length_depth [of typical cs' cum' ls] by (metis length_0_conv)
  show ?case using 2 by (cases "ls = []") (simp_all add: Let_def ne)
qed simp

lemma heldParts_minutes: "heldParts ms = (d, h, m) \<Longrightarrow> m = Fin q \<Longrightarrow> 0 \<le> q \<and> q < 60"
proof -
  assume eq: "heldParts ms = (d, h, m)" "m = Fin q"
  define mins where "mins = math_max 0 (math_floor (ms div Fin 60000))"
  have m: "js_rem mins (Fin 60) = Fin q" using eq by (simp add: heldParts_def Let_def mins_def)
  then obtain a where a: "mins = Fin a" by (cases mins) auto
  then have "0 \<le> a" unfolding mins_def
    by (cases "math_floor (ms div Fin 60000)") (auto simp: math_max_def zero_Fin split: if_splits)
  moreover have "q = a - 60 * of_int \<lfloor>a / 60\<rfloor>" using m a \<open>0 \<le> a\<close> by simp
  moreover have "of_int \<lfloor>a / 60\<rfloor> \<le> a / 60" "a / 60 < of_int \<lfloor>a / 60\<rfloor> + 1" by linarith+
  ultimately show ?thesis by linarith
qed

text \<open>A position is closed by an order on the other side, of its whole size, that can only reduce.\<close>

lemma closeOrder_reduces:
  "r_reduceOnly (closeOrder p how) \<and> r_size (closeOrder p how) = p_size p \<and>
   (r_side (closeOrder p how) = Sell \<longleftrightarrow> p_side p = Long)"
  by (simp add: closeOrder_def)

end
