(* ===== verification/Workspace.thy ===== *)
theory Workspace
  imports Prelude Js_Num Js_Value "HOL-Library.Monad_Syntax"
begin

text \<open>
  The workspace's panels and their arrangement, \<^verbatim>\<open>apps/desktop/src/lib/panels.ts\<close> and
  \<^verbatim>\<open>workspace.ts\<close>, and how it is read at the start,
  \<^verbatim>\<open>hooks/useWorkspace.ts\<close>. Places and sizes are whole numbers: only sums with a height are
  ever large, and those from 2 ^ 32 on are refused by the grid. What is shown of these definitions is in
  \<^theory_text>\<open>Workspace_Props\<close>.
\<close>

section \<open>Panels\<close>

datatype panel_kind =
    MarketsPanel | OrderBookPanel | TradePanel | AccountPanel | PositionsPanel | CliPanel | CalendarPanel | WirePanel
  | AlgosPanel | PaperPanel

record panel_spec =
  sp_titleKey :: string
  sp_w :: int
  sp_h :: int
  sp_minW :: int
  sp_minH :: int

definition panel_names :: "(string \<times> panel_kind) list" where
  "panel_names =
     [(''markets'', MarketsPanel), (''orderBook'', OrderBookPanel), (''trade'', TradePanel), (''account'', AccountPanel),
      (''positions'', PositionsPanel), (''cli'', CliPanel), (''calendar'', CalendarPanel), (''wire'', WirePanel),
      (''algos'', AlgosPanel), (''paper'', PaperPanel)]"

definition panel_spec_of :: "string \<Rightarrow> int \<Rightarrow> int \<Rightarrow> int \<Rightarrow> int \<Rightarrow> panel_spec" where
  "panel_spec_of key w h minW minH = \<lparr>sp_titleKey = key, sp_w = w, sp_h = h, sp_minW = minW, sp_minH = minH\<rparr>"

fun PANELS :: "panel_kind \<Rightarrow> panel_spec" where
  "PANELS MarketsPanel = panel_spec_of ''panel.markets'' 12 12 6 5"
| "PANELS OrderBookPanel = panel_spec_of ''panel.orderBook'' 5 16 4 8"
| "PANELS TradePanel = panel_spec_of ''panel.trade'' 5 16 4 10"
| "PANELS AccountPanel = panel_spec_of ''panel.account'' 5 10 4 4"
| "PANELS PositionsPanel = panel_spec_of ''panel.positions'' 16 8 8 4"
| "PANELS CliPanel = panel_spec_of ''panel.cli'' 10 8 6 4"
| "PANELS CalendarPanel = panel_spec_of ''panel.calendar'' 8 12 5 5"
| "PANELS WirePanel = panel_spec_of ''panel.wire'' 7 14 5 6"
| "PANELS AlgosPanel = panel_spec_of ''panel.algos'' 9 12 6 6"
| "PANELS PaperPanel = panel_spec_of ''panel.paper'' 9 16 6 8"

definition PANEL_KINDS :: "panel_kind list" where
  "PANEL_KINDS = map snd panel_names"

definition FORMER :: "(string \<times> panel_kind) list" where
  "FORMER = [(''balances'', AccountPanel)]"

text \<open>\<open>id.slice(0, id.indexOf(":"))\<close>: without a colon the index is -1, and the last character goes.\<close>

definition kind_part :: "string \<Rightarrow> string" where
  "kind_part pid = (case find_index (\<lambda>c. c = CHR '':'') pid of Some n \<Rightarrow> take n pid | None \<Rightarrow> butlast pid)"

text \<open>The names every object has from its prototype. \<open>kind in PANELS\<close> finds them too, and the code goes on
  with a kind whose specification has no sizes.\<close>

definition inherited_names :: "string list" where
  "inherited_names =
     [''constructor'', ''toString'', ''toLocaleString'', ''valueOf'', ''hasOwnProperty'', ''isPrototypeOf'',
      ''propertyIsEnumerable'', ''__proto__'', ''__defineGetter__'', ''__defineSetter__'', ''__lookupGetter__'',
      ''__lookupSetter__'']"

definition inherited_kind :: "string \<Rightarrow> bool" where
  "inherited_kind pid = (kind_part pid \<in> set inherited_names)"

definition panelKindOf :: "string \<Rightarrow> panel_kind option" where
  "panelKindOf pid =
     (case obj_get panel_names (kind_part pid) of
        Some kind \<Rightarrow> Some kind
      | None \<Rightarrow> obj_get FORMER (kind_part pid))"

text \<open>\<open>suffix\<close> stands for the eight characters of a random id.\<close>

definition newPanelId :: "string \<Rightarrow> panel_kind \<Rightarrow> string" where
  "newPanelId suffix kind = name_of panel_names kind @ '':'' @ suffix"

section \<open>Layouts\<close>

definition GRID_cols :: int where "GRID_cols = 24"
definition GRID_rows :: int where "GRID_rows = 24"

record placement =
  pn_i :: string
  pn_x :: int
  pn_y :: int
  pn_w :: int
  pn_h :: int

type_synonym layout = "placement list"

text \<open>A layout as it is stored can hold a panel of an inherited kind. Its smallest sizes are undefined, so its \<open>x\<close>,
  \<open>w\<close> and \<open>h\<close> are NaN; its id and \<open>y\<close> are left.\<close>

datatype stored_panel = Sized placement | Unsized string int

type_synonym stored_layout = "stored_panel list"

fun panel_id :: "stored_panel \<Rightarrow> string" where
  "panel_id (Sized p) = pn_i p"
| "panel_id (Unsized i y) = i"

fun unsized :: "stored_panel \<Rightarrow> bool" where
  "unsized (Sized p) = False"
| "unsized (Unsized i y) = True"

definition sized_part :: "stored_layout \<Rightarrow> layout" where
  "sized_part l = List.map_filter (\<lambda>p. case p of Sized q \<Rightarrow> Some q | Unsized i y \<Rightarrow> None) l"

record saved_layout =
  sl_name :: string
  sl_layout :: stored_layout

record workspace_state =
  ws_layout :: layout
  ws_active :: string
  ws_saved :: "saved_layout list"

definition place :: "panel_kind \<Rightarrow> int \<Rightarrow> int \<Rightarrow> int \<Rightarrow> int \<Rightarrow> placement" where
  "place kind x y w h =
     (let nm = name_of panel_names kind in \<lparr>pn_i = nm @ '':'' @ nm, pn_x = x, pn_y = y, pn_w = w, pn_h = h\<rparr>)"

definition STATS_BAR_ID :: string where
  "STATS_BAR_ID = ''stats:bar''"

definition STATS_BAR_ROWS :: int where
  "STATS_BAR_ROWS = 2"

definition isStatsBar :: "string \<Rightarrow> bool" where
  "isStatsBar pid = (pid = STATS_BAR_ID)"

definition bar :: "int \<Rightarrow> placement" where
  "bar w = \<lparr>pn_i = STATS_BAR_ID, pn_x = 0, pn_y = 0, pn_w = w, pn_h = STATS_BAR_ROWS\<rparr>"

definition DEFAULT_PRESET :: saved_layout where
  "DEFAULT_PRESET =
     \<lparr>sl_name = ''Default'',
      sl_layout = map Sized [bar 19, place MarketsPanel 0 2 14 17, place OrderBookPanel 14 2 5 17, place TradePanel 19 0 5 19,
                   place PositionsPanel 0 19 19 12, place AccountPanel 19 19 5 12]\<rparr>"

definition PRESETS :: "saved_layout list" where
  "PRESETS =
     [DEFAULT_PRESET,
      \<lparr>sl_name = ''Scalping'',
       sl_layout = map Sized [bar 18, place OrderBookPanel 0 2 6 22, place MarketsPanel 6 2 12 12, place AccountPanel 18 0 6 14,
                    place PositionsPanel 6 14 18 10]\<rparr>,
      \<lparr>sl_name = ''Developer'', sl_layout = map Sized [bar 24, place CliPanel 0 2 9 22, place MarketsPanel 9 2 15 22]\<rparr>,
      \<lparr>sl_name = ''Swing'',
       sl_layout = map Sized [bar 16, place MarketsPanel 0 2 16 10, place PositionsPanel 0 12 16 12, place AccountPanel 16 0 8 10,
                    place OrderBookPanel 16 10 8 14]\<rparr>,
      \<lparr>sl_name = ''Fundamental'',
       sl_layout = map Sized [bar 19, place MarketsPanel 0 2 11 15, place WirePanel 11 2 8 15, place TradePanel 19 0 5 17,
                    place PositionsPanel 0 17 11 7, place CalendarPanel 11 17 8 7, place AccountPanel 19 17 5 7]\<rparr>]"

definition PREVIOUS_DEFAULTS :: "layout list" where
  "PREVIOUS_DEFAULTS =
     [[bar 19, place MarketsPanel 0 2 14 17, place OrderBookPanel 14 2 5 17, place TradePanel 19 0 5 19,
       place PositionsPanel 0 19 19 8, place AccountPanel 19 19 5 8],
      [bar 19, place MarketsPanel 0 2 14 17, place OrderBookPanel 14 2 5 17, place TradePanel 19 0 5 19,
       place PositionsPanel 0 19 19 5, place AccountPanel 19 19 5 5],
      [bar 19, place MarketsPanel 0 2 14 14, place OrderBookPanel 14 2 5 14, place TradePanel 19 0 5 16,
       place PositionsPanel 0 16 19 8, place AccountPanel 19 16 5 8],
      [bar 19, place MarketsPanel 0 2 14 18, place OrderBookPanel 14 2 5 18, place AccountPanel 19 0 5 20,
       place PositionsPanel 0 20 24 4],
      [bar 19, place MarketsPanel 0 2 14 14, place OrderBookPanel 14 2 5 14, place AccountPanel 19 0 5 16,
       place PositionsPanel 0 16 24 8],
      [bar 19, place MarketsPanel 0 2 14 16, place OrderBookPanel 14 2 5 16, place AccountPanel 19 0 5 18,
       place PositionsPanel 0 18 24 6]]"

text \<open>Two layouts are the same when the sorted texts of their places are.\<close>

fun joined :: "string \<Rightarrow> string list \<Rightarrow> string" where
  "joined sep [] = []"
| "joined sep [s] = s"
| "joined sep (s # ss) = s @ sep @ joined sep ss"

definition int_text :: "int \<Rightarrow> string" where
  "int_text n = num_str (Fin (of_int n))"

definition place_text :: "placement \<Rightarrow> string" where
  "place_text p =
     pn_i p @ ''@'' @ int_text (pn_x p) @ '','' @ int_text (pn_y p) @ '','' @ int_text (pn_w p) @ '','' @ int_text (pn_h p)"

definition layout_key :: "layout \<Rightarrow> string" where
  "layout_key l = joined ''|'' (js_sort str_less (map place_text l))"

definition sameLayout :: "layout \<Rightarrow> layout \<Rightarrow> bool" where
  "sameLayout a b = (layout_key a = layout_key b)"

definition upgradeDefault :: "layout \<Rightarrow> layout" where
  "upgradeDefault l = (if list_ex (\<lambda>old. sameLayout old l) PREVIOUS_DEFAULTS then sized_part (sl_layout DEFAULT_PRESET) else l)"

definition initialWorkspace :: workspace_state where
  "initialWorkspace = \<lparr>ws_layout = sized_part (sl_layout DEFAULT_PRESET), ws_active = sl_name DEFAULT_PRESET, ws_saved = []\<rparr>"

definition hasPanel :: "layout \<Rightarrow> panel_kind \<Rightarrow> bool" where
  "hasPanel l kind = list_ex (\<lambda>p. panelKindOf (pn_i p) = Some kind) l"

definition lowest :: "int \<Rightarrow> layout \<Rightarrow> int" where
  "lowest start l = foldl (\<lambda>m p. max m (pn_y p + pn_h p)) start l"

definition addPanel :: "string \<Rightarrow> layout \<Rightarrow> panel_kind \<Rightarrow> (int \<times> int) option \<Rightarrow> layout" where
  "addPanel suffix l kind spot =
     (if hasPanel l kind then l
      else let w = sp_w (PANELS kind); h = sp_h (PANELS kind); bottom = lowest 0 l;
               x = min (case spot of Some (x, y) \<Rightarrow> x | None \<Rightarrow> 0) (GRID_cols - w)
           in l @ [\<lparr>pn_i = newPanelId suffix kind, pn_x = max x 0,
                    pn_y = (case spot of Some (x, y) \<Rightarrow> y | None \<Rightarrow> bottom), pn_w = w, pn_h = h\<rparr>])"

definition removePanel :: "layout \<Rightarrow> string \<Rightarrow> layout" where
  "removePanel l pid = (if isStatsBar pid then l else filter (\<lambda>p. pn_i p \<noteq> pid) l)"

text \<open>The account panel found is told by its place in the list, as the code tells it by its identity.\<close>

definition top_right :: "stored_layout \<Rightarrow> nat option" where
  "top_right l =
     find_index (\<lambda>p. case p of
         Sized q \<Rightarrow> panelKindOf (pn_i q) = Some AccountPanel \<and> pn_y q = 0 \<and> pn_x q + pn_w q = GRID_cols
       | Unsized _ _ \<Rightarrow> False) l"

fun moved_down :: "int \<Rightarrow> stored_panel \<Rightarrow> stored_panel" where
  "moved_down width (Sized p) =
     Sized (if STATS_BAR_ROWS \<le> pn_y p \<or> width \<le> pn_x p then p
            else let minH = (case panelKindOf (pn_i p) of Some kind \<Rightarrow> sp_minH (PANELS kind) | None \<Rightarrow> 1)
                 in p\<lparr>pn_y := pn_y p + STATS_BAR_ROWS, pn_h := max (pn_h p - STATS_BAR_ROWS) minH\<rparr>)"
| "moved_down width (Unsized i y) = Unsized i (if STATS_BAR_ROWS \<le> y then y else y + STATS_BAR_ROWS)"

definition withStatsBar :: "stored_layout \<Rightarrow> stored_layout" where
  "withStatsBar l =
     (if list_ex (\<lambda>p. isStatsBar (panel_id p)) l then l
      else let tr = top_right l;
               width = (case tr of Some n \<Rightarrow> (case l ! n of Sized q \<Rightarrow> pn_x q | Unsized _ _ \<Rightarrow> GRID_cols) | None \<Rightarrow> GRID_cols)
           in Sized (bar width) # map (\<lambda>(n, p). if tr = Some n then p else moved_down width p) (zip [0..<length l] l))"

section \<open>Filling the gaps\<close>

datatype grow_direction = GrowLeft | GrowRight | GrowUp | GrowDown

type_synonym grid = "bool list list"

definition set_cell :: "bool \<Rightarrow> int \<times> int \<Rightarrow> grid \<Rightarrow> grid" where
  "set_cell v = (\<lambda>(x, y) taken.
     if 0 \<le> y \<and> y < int (length taken) \<and> 0 \<le> x \<and> x < GRID_cols
     then taken[nat y := (taken ! nat y)[nat x := v]] else taken)"

definition cells :: "placement \<Rightarrow> (int \<times> int) list" where
  "cells p = concat (map (\<lambda>y. map (\<lambda>x. (x, y)) [pn_x p..pn_x p + pn_w p - 1]) [pn_y p..pn_y p + pn_h p - 1])"

definition mark :: "placement \<Rightarrow> bool \<Rightarrow> grid \<Rightarrow> grid" where
  "mark p v taken = fold (set_cell v) (cells p) taken"

definition free :: "int \<Rightarrow> grid \<Rightarrow> int \<times> int \<Rightarrow> bool" where
  "free rows taken = (\<lambda>(x, y). 0 \<le> x \<and> x < GRID_cols \<and> 0 \<le> y \<and> y < rows \<and> \<not> taken ! nat y ! nat x)"

fun strip :: "placement \<Rightarrow> grow_direction \<Rightarrow> (int \<times> int) list" where
  "strip p GrowLeft = map (\<lambda>y. (pn_x p - 1, y)) [pn_y p..pn_y p + pn_h p - 1]"
| "strip p GrowRight = map (\<lambda>y. (pn_x p + pn_w p, y)) [pn_y p..pn_y p + pn_h p - 1]"
| "strip p GrowUp = map (\<lambda>x. (x, pn_y p - 1)) [pn_x p..pn_x p + pn_w p - 1]"
| "strip p GrowDown = map (\<lambda>x. (x, pn_y p + pn_h p)) [pn_x p..pn_x p + pn_w p - 1]"

definition canGrow :: "int \<Rightarrow> grid \<Rightarrow> placement \<Rightarrow> grow_direction \<Rightarrow> bool" where
  "canGrow rows taken p dir = list_all (free rows taken) (strip p dir)"

fun grown :: "grow_direction \<Rightarrow> placement \<Rightarrow> placement" where
  "grown GrowLeft p = p\<lparr>pn_x := pn_x p - 1, pn_w := pn_w p + 1\<rparr>"
| "grown GrowRight p = p\<lparr>pn_w := pn_w p + 1\<rparr>"
| "grown GrowUp p = p\<lparr>pn_y := pn_y p - 1, pn_h := pn_h p + 1\<rparr>"
| "grown GrowDown p = p\<lparr>pn_h := pn_h p + 1\<rparr>"

text \<open>The loop of one panel in one direction. \<open>None\<close>: it does not end.\<close>

partial_function (option) grow :: "int \<Rightarrow> grow_direction \<Rightarrow> placement \<Rightarrow> grid \<Rightarrow> (placement \<times> grid) option" where
  "grow rows dir p taken =
     (if canGrow rows taken p dir
      then grow rows dir (grown dir p) (mark (grown dir p) True (mark p False taken))
      else Some (p, taken))"

definition skips :: "placement \<Rightarrow> grow_direction \<Rightarrow> bool" where
  "skips p dir = (isStatsBar (pn_i p) \<and> (dir = GrowUp \<or> dir = GrowDown))"

text \<open>One panel of the list, by its place, taken as far as it goes in one direction.\<close>

definition grow_at :: "int \<Rightarrow> grow_direction \<Rightarrow> nat \<Rightarrow> layout \<times> grid \<Rightarrow> (layout \<times> grid) option" where
  "grow_at rows dir n = (\<lambda>(panels, taken).
     if skips (panels ! n) dir then Some (panels, taken)
     else map_option (\<lambda>(p, taken'). (panels[n := p], taken')) (grow rows dir (panels ! n) taken))"

fun grow_all :: "int \<Rightarrow> (grow_direction \<times> nat) list \<Rightarrow> layout \<times> grid \<Rightarrow> (layout \<times> grid) option" where
  "grow_all rows [] st = Some st"
| "grow_all rows ((dir, n) # steps) st = (case grow_at rows dir n st of None \<Rightarrow> None | Some st' \<Rightarrow> grow_all rows steps st')"

definition visit_order :: "layout \<Rightarrow> nat list" where
  "visit_order l =
     js_sort (\<lambda>a b. pn_y (l ! a) < pn_y (l ! b) \<or> pn_y (l ! a) = pn_y (l ! b) \<and> pn_x (l ! a) < pn_x (l ! b)) [0..<length l]"

definition grow_steps :: "layout \<Rightarrow> (grow_direction \<times> nat) list" where
  "grow_steps l = concat (map (\<lambda>dir. map (\<lambda>n. (dir, n)) (visit_order l)) [GrowLeft, GrowRight, GrowUp, GrowDown])"

definition start_grid :: "int \<Rightarrow> layout \<Rightarrow> grid" where
  "start_grid rows l = fold (\<lambda>p. mark p True) l (replicate (nat rows) (replicate (nat GRID_cols) False))"

text \<open>What can go wrong: a grid of 2 ^ 32 rows or more is a \<open>RangeError\<close>, and a loop may not end.\<close>

datatype trouble = RangeError | Endless

definition MAX_ROWS :: int where
  "MAX_ROWS = 2 ^ 32"

definition fillGaps :: "layout \<Rightarrow> trouble + layout" where
  "fillGaps l =
     (let rows = lowest GRID_rows l
      in if MAX_ROWS \<le> rows then Inl RangeError
         else case grow_all rows (grow_steps l) (l, start_grid rows l) of
                None \<Rightarrow> Inl Endless
              | Some (panels, taken) \<Rightarrow> Inr panels)"

text \<open>With a panel without sizes in the layout the number of rows is NaN: the grid has none, and no cell is free, as no
  \<open>y\<close> is below NaN; \<open>free 0 []\<close> is false of every cell too. The loops over the cells beside such a panel run
  to NaN and do not begin.\<close>

definition unsized_strip :: "(int \<times> int) list" where
  "unsized_strip = []"

partial_function (option) grow_unsized :: "grow_direction \<Rightarrow> int \<Rightarrow> int option" where
  "grow_unsized dir y =
     (if list_all (free 0 []) unsized_strip then grow_unsized dir (if dir = GrowUp then y - 1 else y) else Some y)"

fun grow_panel :: "grow_direction \<Rightarrow> stored_panel \<Rightarrow> stored_panel option" where
  "grow_panel dir (Sized p) =
     (if skips p dir then Some (Sized p) else map_option (\<lambda>(q, _). Sized q) (grow 0 dir p []))"
| "grow_panel dir (Unsized i y) = map_option (Unsized i) (grow_unsized dir y)"

definition grow_panels :: "grow_direction \<Rightarrow> stored_layout \<Rightarrow> stored_layout option" where
  "grow_panels dir l = those (map (grow_panel dir) l)"

definition fill_unsized :: "stored_layout \<Rightarrow> stored_layout option" where
  "fill_unsized l =
     do { l1 \<leftarrow> grow_panels GrowLeft l; l2 \<leftarrow> grow_panels GrowRight l1; l3 \<leftarrow> grow_panels GrowUp l2; grow_panels GrowDown l3 }"

text \<open>\<open>fillGaps\<close> of a stored layout. What would come after the loops of a panel without sizes does not matter: they do
  not end (\<open>fill_unsized_endless\<close>).\<close>

definition fill_stored :: "stored_layout \<Rightarrow> trouble + layout" where
  "fill_stored l =
     (if list_ex unsized l
      then (case fill_unsized l of None \<Rightarrow> Inl Endless | Some l' \<Rightarrow> Inr (sized_part l'))
      else fillGaps (sized_part l))"

section \<open>Reading what was stored\<close>

fun grid_int_of :: "jsnum \<Rightarrow> int option" where
  "grid_int_of (Fin q) = (if q = of_int \<lfloor>q\<rfloor> \<and> 0 \<le> q then Some \<lfloor>q\<rfloor> else None)"
| "grid_int_of x = None"

definition grid_int :: "json option \<Rightarrow> int option" where
  "grid_int v = (case as_num v of Some n \<Rightarrow> grid_int_of n | None \<Rightarrow> None)"

text \<open>One item of a stored layout, or nothing where it is left out.\<close>

definition read_bar :: "string \<Rightarrow> json \<Rightarrow> stored_panel option" where
  "read_bar i item =
     (case (grid_int (field item ''x''), grid_int (field item ''y''), grid_int (field item ''w'')) of
        (Some x, Some y, Some w) \<Rightarrow>
          if w < 1 then None
          else let width = min w GRID_cols
               in Some (Sized \<lparr>pn_i = i, pn_x = min x (GRID_cols - width), pn_y = y, pn_w = width, pn_h = STATS_BAR_ROWS\<rparr>)
      | _ \<Rightarrow> None)"

definition read_panel :: "string \<Rightarrow> json \<Rightarrow> stored_panel option" where
  "read_panel i item =
     (case (grid_int (field item ''x''), grid_int (field item ''y''), grid_int (field item ''w''), grid_int (field item ''h'')) of
        (Some x, Some y, Some w, Some h) \<Rightarrow>
          if inherited_kind i then Some (Unsized i y)
          else (case panelKindOf i of
                  None \<Rightarrow> None
                | Some kind \<Rightarrow>
                    let width = min (max w (sp_minW (PANELS kind))) GRID_cols
                    in Some (Sized \<lparr>pn_i = i, pn_x = min x (GRID_cols - width), pn_y = y, pn_w = width,
                                    pn_h = max h (sp_minH (PANELS kind))\<rparr>))
      | _ \<Rightarrow> None)"

definition read_place :: "string list \<Rightarrow> json \<Rightarrow> stored_panel option" where
  "read_place seen item =
     (case as_str (field item ''i'') of
        None \<Rightarrow> None
      | Some i \<Rightarrow> if i \<in> set seen then None else if isStatsBar i then read_bar i item else read_panel i item)"

fun sanitize_items :: "string list \<Rightarrow> json list \<Rightarrow> stored_layout" where
  "sanitize_items seen [] = []"
| "sanitize_items seen (item # items) =
     (case read_place seen item of
        None \<Rightarrow> sanitize_items seen items
      | Some p \<Rightarrow> p # sanitize_items (panel_id p # seen) items)"

definition sanitizeLayout :: "json option \<Rightarrow> stored_layout" where
  "sanitizeLayout raw = sanitize_items [] (arr_or_nil raw)"

definition saved_from :: "json list \<Rightarrow> saved_layout list" where
  "saved_from ss =
     List.map_filter (\<lambda>s. map_option
         (\<lambda>nm. \<lparr>sl_name = nm, sl_layout = withStatsBar (sanitizeLayout (field s ''layout''))\<rparr>) (as_str (field s ''name''))) ss"

definition current_layout :: "stored_layout \<Rightarrow> trouble + layout" where
  "current_layout current =
     (if current = [] then Inr (ws_layout initialWorkspace)
      else case fill_stored (withStatsBar current) of Inl e \<Rightarrow> Inl e | Inr l \<Rightarrow> Inr (upgradeDefault l))"

definition sanitizeWorkspace :: "json \<Rightarrow> trouble + workspace_state" where
  "sanitizeWorkspace raw =
     (case current_layout (sanitizeLayout (field raw ''layout'')) of
        Inl e \<Rightarrow> Inl e
      | Inr l \<Rightarrow>
          Inr \<lparr>ws_layout = l, ws_active = or_else (as_str (field raw ''active'')) (ws_active initialWorkspace),
               ws_saved = saved_from (arr_or_nil (field raw ''saved''))\<rparr>)"

text \<open>At the start: \<open>stored\<close> is \<open>None\<close> where nothing is stored, \<open>Some None\<close> where it does not parse. What the
  reading throws is caught; a loop that does not end is not.\<close>

definition load_workspace :: "json option option \<Rightarrow> trouble + workspace_state" where
  "load_workspace stored =
     (case stored of
        Some (Some raw) \<Rightarrow> (case sanitizeWorkspace raw of Inl RangeError \<Rightarrow> Inr initialWorkspace | res \<Rightarrow> res)
      | _ \<Rightarrow> Inr initialWorkspace)"

section \<open>Changing the workspace\<close>

definition isCustom :: "workspace_state \<Rightarrow> string \<Rightarrow> bool" where
  "isCustom state nm = list_ex (\<lambda>s. sl_name s = nm) (ws_saved state)"

text \<open>\<open>same\<close>: whether the layout is the very object the state holds.\<close>

definition withLayout :: "bool \<Rightarrow> workspace_state \<Rightarrow> layout \<Rightarrow> workspace_state" where
  "withLayout same state l =
     (if same then state
      else state\<lparr>ws_layout := l,
                 ws_saved := map (\<lambda>s. if sl_name s = ws_active state then s\<lparr>sl_layout := map Sized l\<rparr> else s) (ws_saved state)\<rparr>)"

definition isChanged :: "workspace_state \<Rightarrow> bool" where
  "isChanged state =
     (case List.find (\<lambda>p. sl_name p = ws_active state) PRESETS of
        None \<Rightarrow> False
      | Some preset \<Rightarrow> fill_stored (sl_layout preset) \<noteq> Inr (ws_layout state))"

definition newLayout :: "workspace_state \<Rightarrow> string \<Rightarrow> workspace_state" where
  "newLayout state name =
     (let trimmed = js_trim name;
          taken = (list_ex (\<lambda>p. sl_name p = trimmed) PRESETS \<or> list_ex (\<lambda>s. sl_name s = trimmed) (ws_saved state));
          l = withStatsBar []
      in if trimmed = [] \<or> taken then state
         else state\<lparr>ws_layout := sized_part l, ws_active := trimmed, ws_saved := ws_saved state @ [\<lparr>sl_name = trimmed, sl_layout = l\<rparr>]\<rparr>)"

definition saveAs :: "workspace_state \<Rightarrow> string \<Rightarrow> workspace_state" where
  "saveAs state name =
     (let trimmed = js_trim name
      in if trimmed = [] \<or> list_ex (\<lambda>p. sl_name p = trimmed) PRESETS then state
         else state\<lparr>ws_active := trimmed,
                    ws_saved := filter (\<lambda>s. sl_name s \<noteq> trimmed) (ws_saved state) @
                      [\<lparr>sl_name = trimmed, sl_layout = map Sized (ws_layout state)\<rparr>]\<rparr>)"

section \<open>An expanded panel\<close>

datatype expand_mode = Wide | Full

record expanded_area =
  ea_x :: int
  ea_y :: int
  ea_w :: int
  ea_h :: int
  ea_hidden :: "string list"

definition overlaps :: "placement \<Rightarrow> int \<times> int \<times> int \<times> int \<Rightarrow> bool" where
  "overlaps a = (\<lambda>(x, y, w, h). pn_x a < x + w \<and> x < pn_x a + pn_w a \<and> pn_y a < y + h \<and> y < pn_y a + pn_h a)"

definition center :: "placement \<Rightarrow> rat \<times> rat" where
  "center p = (of_int (pn_x p) + of_int (pn_w p) / 2, of_int (pn_y p) + of_int (pn_h p) / 2)"

text \<open>\<open>hypot\<close> is \<open>Math.hypot\<close>, whose rounding the language leaves open.\<close>

definition nearest_book :: "(rat \<Rightarrow> rat \<Rightarrow> rat) \<Rightarrow> layout \<Rightarrow> placement \<Rightarrow> placement option" where
  "nearest_book hypot l panel =
     (let dist = (\<lambda>p. hypot (fst (center p) - fst (center panel)) (snd (center p) - snd (center panel)))
      in nth_opt (js_sort (\<lambda>a b. dist a - dist b < 0)
                    (filter (\<lambda>p. panelKindOf (pn_i p) = Some OrderBookPanel) l)) 0)"

definition joint_box :: "placement \<Rightarrow> placement \<Rightarrow> int \<times> int \<times> int \<times> int" where
  "joint_box panel book =
     (let x = min (pn_x panel) (pn_x book); y = min (pn_y panel) (pn_y book)
      in (x, y, max (pn_x panel + pn_w panel) (pn_x book + pn_w book) - x,
          max (pn_y panel + pn_h panel) (pn_y book + pn_h book) - y))"

definition expandedArea :: "(rat \<Rightarrow> rat \<Rightarrow> rat) \<Rightarrow> layout \<Rightarrow> string \<Rightarrow> expand_mode \<Rightarrow> expanded_area option" where
  "expandedArea hypot l pid mode =
     (case List.find (\<lambda>p. pn_i p = pid) l of
        None \<Rightarrow> None
      | Some panel \<Rightarrow>
          let box = (case mode of
                       Full \<Rightarrow> (0, 0, GRID_cols, GRID_rows)
                     | Wide \<Rightarrow> (case nearest_book hypot l panel of
                                 None \<Rightarrow> (pn_x panel, pn_y panel, pn_w panel, pn_h panel)
                               | Some book \<Rightarrow> joint_box panel book));
              (x, y, w, h) = box
          in Some \<lparr>ea_x = x, ea_y = y, ea_w = w, ea_h = h,
                   ea_hidden = map pn_i (filter (\<lambda>p. pn_i p \<noteq> pid \<and> overlaps p box) l)\<rparr>)"

end
