(* ===== verification/Workspace_Props.thy ===== *)
theory Workspace_Props
  imports Workspace Interfaces
begin

text \<open>
  What holds of the workspace: filling the gaps ends, covers what was there, makes no overlap and leaves no
  panel that could still grow; reading what was stored never hangs; every operation keeps the layouts sound.
\<close>

section \<open>The grid as a set of cells\<close>

definition in_grid :: "int \<Rightarrow> (int \<times> int) set" where
  "in_grid rows = {(x, y). 0 \<le> x \<and> x < GRID_cols \<and> 0 \<le> y \<and> y < rows}"

definition grid_ok :: "int \<Rightarrow> grid \<Rightarrow> bool" where
  "grid_ok rows taken = (length taken = nat rows \<and> list_all (\<lambda>row. length row = nat GRID_cols) taken)"

definition taken_cells :: "grid \<Rightarrow> (int \<times> int) set" where
  "taken_cells taken = {(x, y) \<in> in_grid (int (length taken)). taken ! nat y ! nat x}"

lemma in_cells:
  "(x, y) \<in> set (cells p) \<longleftrightarrow> pn_x p \<le> x \<and> x < pn_x p + pn_w p \<and> pn_y p \<le> y \<and> y < pn_y p + pn_h p"
  by (auto simp: cells_def image_iff)

lemma set_cell_ok: "grid_ok rows taken \<Longrightarrow> grid_ok rows (set_cell v c taken)"
  by (cases c) (auto simp: grid_ok_def set_cell_def list_all_length nth_list_update)

lemma taken_set_cell:
  assumes "grid_ok rows taken"
  shows "taken_cells (set_cell v c taken) =
    (if v then taken_cells taken \<union> ({c} \<inter> in_grid (int (length taken))) else taken_cells taken - {c})"
proof -
  obtain a b where c: "c = (a, b)" by (cases c)
  have row: "length (taken ! nat y) = 24" if "0 \<le> y" "y < int (length taken)" for y
    proof -
    have "nat y < length taken" using that by linarith
    then show ?thesis using assms by (simp add: grid_ok_def list_all_length GRID_cols_def)
  qed
  show ?thesis
  proof (cases "0 \<le> b \<and> b < int (length taken) \<and> 0 \<le> a \<and> a < 24")
    case True
    then show ?thesis
      using row by (auto simp: c set_cell_def taken_cells_def in_grid_def GRID_cols_def nth_list_update nat_less_iff
          eq_nat_nat_iff split: if_splits)
  next
    case False
    then show ?thesis by (auto simp: c set_cell_def taken_cells_def in_grid_def GRID_cols_def)
  qed
qed

lemma length_set_cell [simp]: "length (set_cell v c taken) = length taken"
  by (cases c) (simp add: set_cell_def)

lemma fold_set_cell:
  "grid_ok rows taken \<Longrightarrow>
   grid_ok rows (fold (set_cell v) cs taken) \<and>
   taken_cells (fold (set_cell v) cs taken) =
     (if v then taken_cells taken \<union> (set cs \<inter> in_grid (int (length taken))) else taken_cells taken - set cs)"
proof (induction cs arbitrary: taken)
  case (Cons c cs)
  then show ?case
    using Cons.IH [OF set_cell_ok [OF Cons.prems]] by (auto simp: taken_set_cell [OF Cons.prems])
qed simp

lemma mark_ok: "grid_ok rows taken \<Longrightarrow> grid_ok rows (mark p v taken)"
  by (simp add: mark_def fold_set_cell)

lemma grid_length: "0 \<le> rows \<Longrightarrow> grid_ok rows taken \<Longrightarrow> int (length taken) = rows"
  by (simp add: grid_ok_def)

lemma taken_mark:
  "0 \<le> rows \<Longrightarrow> grid_ok rows taken \<Longrightarrow>
   taken_cells (mark p v taken) =
     (if v then taken_cells taken \<union> (set (cells p) \<inter> in_grid rows) else taken_cells taken - set (cells p))"
  using fold_set_cell [of rows taken v "cells p"] by (simp add: mark_def grid_length)

lemma taken_in_grid: "0 \<le> rows \<Longrightarrow> grid_ok rows taken \<Longrightarrow> taken_cells taken \<subseteq> in_grid rows"
  by (auto simp: taken_cells_def grid_length)

lemma free_iff: "0 \<le> rows \<Longrightarrow> grid_ok rows taken \<Longrightarrow> free rows taken c \<longleftrightarrow> c \<in> in_grid rows - taken_cells taken"
  by (cases c) (auto simp: free_def in_grid_def taken_cells_def grid_length)

lemma canGrow_iff:
  "0 \<le> rows \<Longrightarrow> grid_ok rows taken \<Longrightarrow> canGrow rows taken p dir \<longleftrightarrow> set (strip p dir) \<subseteq> in_grid rows - taken_cells taken"
  by (auto simp: canGrow_def list_all_iff free_iff)

section \<open>One panel grows\<close>

text \<open>Every panel has a height, and a width, which only the stats bar may lack.\<close>

definition sized :: "placement \<Rightarrow> bool" where
  "sized p = (0 < pn_h p \<and> 0 \<le> pn_w p \<and> (isStatsBar (pn_i p) \<or> 0 < pn_w p))"

text \<open>How far a panel can still go, and what its growing leaves alone.\<close>

fun room :: "int \<Rightarrow> grow_direction \<Rightarrow> placement \<Rightarrow> nat" where
  "room rows GrowLeft p = nat (pn_x p)"
| "room rows GrowRight p = nat (GRID_cols - (pn_x p + pn_w p))"
| "room rows GrowUp p = nat (pn_y p)"
| "room rows GrowDown p = nat (rows - (pn_y p + pn_h p))"

fun kept :: "grow_direction \<Rightarrow> placement \<Rightarrow> placement \<Rightarrow> bool" where
  "kept GrowLeft p q = (pn_y q = pn_y p \<and> pn_h q = pn_h p \<and> pn_x q + pn_w q = pn_x p + pn_w p \<and> pn_x q \<le> pn_x p)"
| "kept GrowRight p q = (pn_y q = pn_y p \<and> pn_h q = pn_h p \<and> pn_x q = pn_x p \<and> pn_w p \<le> pn_w q)"
| "kept GrowUp p q = (pn_x q = pn_x p \<and> pn_w q = pn_w p \<and> pn_y q + pn_h q = pn_y p + pn_h p \<and> pn_y q \<le> pn_y p)"
| "kept GrowDown p q = (pn_x q = pn_x p \<and> pn_w q = pn_w p \<and> pn_y q = pn_y p \<and> pn_h p \<le> pn_h q)"

definition in_bounds :: "int \<Rightarrow> placement \<Rightarrow> placement \<Rightarrow> bool" where
  "in_bounds rows p q =
     (min 0 (pn_x p) \<le> pn_x q \<and> min 0 (pn_y p) \<le> pn_y q \<and>
      pn_x q + pn_w q \<le> max GRID_cols (pn_x p + pn_w p) \<and> pn_y q + pn_h q \<le> max rows (pn_y p + pn_h p))"

fun front :: "placement \<Rightarrow> grow_direction \<Rightarrow> int \<times> int" where
  "front p GrowLeft = (pn_x p - 1, pn_y p)"
| "front p GrowRight = (pn_x p + pn_w p, pn_y p)"
| "front p GrowUp = (pn_x p, pn_y p - 1)"
| "front p GrowDown = (pn_x p, pn_y p + pn_h p)"

lemma front_in_strip: "sized p \<Longrightarrow> \<not> skips p dir \<Longrightarrow> front p dir \<in> set (strip p dir)"
  by (cases dir) (auto simp: sized_def skips_def)

lemma front_in_grid: "sized p \<Longrightarrow> \<not> skips p dir \<Longrightarrow> set (strip p dir) \<subseteq> in_grid rows \<Longrightarrow> front p dir \<in> in_grid rows"
  using front_in_strip by blast

lemma cells_grown: "sized p \<Longrightarrow> \<not> skips p dir \<Longrightarrow> set (cells (grown dir p)) = set (cells p) \<union> set (strip p dir)"
  by (cases dir) (auto simp: in_cells sized_def skips_def image_iff)

lemma grown_id [simp]: "pn_i (grown dir p) = pn_i p"
  by (cases dir) simp_all

lemma sized_grown: "sized p \<Longrightarrow> sized (grown dir p)"
  by (cases dir) (auto simp: sized_def)

lemma skips_grown [simp]: "skips (grown dir p) d = skips p d"
  by (simp add: skips_def)

lemma room_grown: "sized p \<Longrightarrow> \<not> skips p dir \<Longrightarrow> set (strip p dir) \<subseteq> in_grid rows \<Longrightarrow> room rows dir (grown dir p) < room rows dir p"
  using front_in_grid [of p dir rows] by (cases dir) (auto simp: in_grid_def sized_def)

lemma kept_refl: "kept dir p p" by (cases dir) simp_all

lemma kept_grown: "kept dir (grown dir p) q \<Longrightarrow> kept dir p q"
  by (cases dir) auto

lemma in_bounds_grown:
  "sized p \<Longrightarrow> \<not> skips p dir \<Longrightarrow> set (strip p dir) \<subseteq> in_grid rows \<Longrightarrow> in_bounds rows (grown dir p) q \<Longrightarrow> in_bounds rows p q"
  using front_in_grid [of p dir rows] by (cases dir) (auto simp: in_grid_def sized_def in_bounds_def)

definition grown_to :: "int \<Rightarrow> grow_direction \<Rightarrow> placement \<Rightarrow> grid \<Rightarrow> placement \<Rightarrow> grid \<Rightarrow> bool" where
  "grown_to rows dir p taken q taken' =
     (grid_ok rows taken' \<and> sized q \<and> pn_i q = pn_i p \<and> kept dir p q \<and> in_bounds rows p q \<and> set (cells p) \<subseteq> set (cells q) \<and>
      set (cells q) - set (cells p) \<subseteq> in_grid rows - taken_cells taken \<and>
      taken_cells taken' = taken_cells taken \<union> (set (cells q) \<inter> in_grid rows) \<and> \<not> canGrow rows taken' q dir)"

text \<open>The loop ends, and where.\<close>

lemma grow_ends:
  assumes "0 \<le> rows" "grid_ok rows taken" "sized p" "\<not> skips p dir" "set (cells p) \<inter> in_grid rows \<subseteq> taken_cells taken"
  shows "\<exists>q taken'. grow rows dir p taken = Some (q, taken') \<and> grown_to rows dir p taken q taken'"
  using assms(2-)
proof (induction "room rows dir p" arbitrary: p taken rule: less_induct)
  case less
  show ?case
  proof (cases "canGrow rows taken p dir")
    case False
    then have "grow rows dir p taken = Some (p, taken)" by (simp add: grow.simps)
    moreover have "grown_to rows dir p taken p taken"
      using less.prems False by (auto simp: grown_to_def kept_refl in_bounds_def)
    ultimately show ?thesis by blast
  next
    case True
    define g where "g = mark (grown dir p) True (mark p False taken)"
    have strip: "set (strip p dir) \<subseteq> in_grid rows - taken_cells taken"
      using True assms(1) less.prems(1) by (simp add: canGrow_iff)
    have ok: "grid_ok rows g" using less.prems(1) by (simp add: g_def mark_ok)
    have tk: "taken_cells g = taken_cells taken \<union> (set (cells (grown dir p)) \<inter> in_grid rows)"
      using less.prems assms(1) taken_in_grid [OF assms(1) less.prems(1)]
      by (auto simp: g_def taken_mark mark_ok cells_grown)
    have "\<exists>q taken'. grow rows dir (grown dir p) g = Some (q, taken') \<and> grown_to rows dir (grown dir p) g q taken'"
      by (rule less.hyps) (use less.prems strip ok tk in \<open>auto intro: room_grown simp: sized_grown\<close>)
    then obtain q g' where q: "grow rows dir (grown dir p) g = Some (q, g')" "grown_to rows dir (grown dir p) g q g'"
      by blast
    have "grow rows dir p taken = Some (q, g')" using True q(1) by (simp add: grow.simps [of rows dir p] g_def)
    moreover have "grown_to rows dir p taken q g'"
      using q(2) strip less.prems(2,3) in_bounds_grown [of p dir rows q] kept_grown [of dir p q]
      unfolding grown_to_def tk by (auto simp: cells_grown)
    ultimately show ?thesis by blast
  qed
qed

text \<open>Without a height a panel would grow for ever: the sizes matter.\<close>

lemma grow_endless:
  assumes "pn_h p \<le> 0"
  shows "grow rows GrowLeft p taken = None"
proof -
  have "dir = GrowLeft \<longrightarrow> 0 < pn_h p" if "grow rows dir p taken = Some r" for dir p taken r
  proof (rule grow.raw_induct [where P = "\<lambda>rows dir p taken r. dir = GrowLeft \<longrightarrow> 0 < pn_h p", OF _ that])
    fix g rows dir p taken r
    assume ih: "\<And>rows dir p taken r. g rows dir p taken = Some r \<Longrightarrow> dir = GrowLeft \<longrightarrow> 0 < pn_h p"
      and eq: "(if canGrow rows taken p dir
                then g rows dir (grown dir p) (mark (grown dir p) True (mark p False taken)) else Some (p, taken)) = Some r"
    show "dir = GrowLeft \<longrightarrow> 0 < pn_h p"
    proof (cases "canGrow rows taken p dir")
      case True
      with eq have "g rows dir (grown dir p) (mark (grown dir p) True (mark p False taken)) = Some r" by simp
      from ih [OF this] show ?thesis by auto
    next
      case False
      then show ?thesis by (cases "0 < pn_h p") (auto simp: canGrow_def)
    qed
  qed
  with assms show ?thesis by (metis not_le option.exhaust)
qed

section \<open>All panels grow\<close>

definition covered :: "layout \<Rightarrow> (int \<times> int) set" where
  "covered l = (\<Union>n < length l. set (cells (l ! n)))"

definition state_ok :: "int \<Rightarrow> layout \<times> grid \<Rightarrow> bool" where
  "state_ok rows st =
     (grid_ok rows (snd st) \<and> list_all sized (fst st) \<and> taken_cells (snd st) = covered (fst st) \<inter> in_grid rows)"

text \<open>A layout grown from another: panel by panel the same, larger, and overlapping no more than before.\<close>

definition overlap :: "placement \<Rightarrow> placement \<Rightarrow> bool" where
  "overlap p q = (set (cells p) \<inter> set (cells q) \<noteq> {})"

definition grown_panel :: "int \<Rightarrow> placement \<Rightarrow> placement \<Rightarrow> bool" where
  "grown_panel rows p q =
     (pn_i q = pn_i p \<and> pn_x q \<le> pn_x p \<and> pn_y q \<le> pn_y p \<and> pn_x p + pn_w p \<le> pn_x q + pn_w q \<and>
      pn_y p + pn_h p \<le> pn_y q + pn_h q \<and> in_bounds rows p q \<and>
      (isStatsBar (pn_i p) \<longrightarrow> pn_y q = pn_y p \<and> pn_h q = pn_h p))"

definition grown_layout :: "int \<Rightarrow> layout \<Rightarrow> layout \<Rightarrow> bool" where
  "grown_layout rows l l' =
     (list_all2 (grown_panel rows) l l' \<and>
      (\<forall>i < length l. \<forall>j < length l. i \<noteq> j \<longrightarrow> \<not> overlap (l ! i) (l ! j) \<longrightarrow> \<not> overlap (l' ! i) (l' ! j)))"

lemma grown_panel_refl: "grown_panel rows p p"
  by (auto simp: grown_panel_def in_bounds_def)

lemma bound_trans:
  "min 0 a \<le> b \<Longrightarrow> min 0 b \<le> c \<Longrightarrow> min 0 a \<le> c" "b \<le> max k a \<Longrightarrow> c \<le> max k b \<Longrightarrow> c \<le> max k a" for a b c k :: int
  by linarith+

lemma in_bounds_trans: "in_bounds rows p q \<Longrightarrow> in_bounds rows q r \<Longrightarrow> in_bounds rows p r"
  unfolding in_bounds_def by (blast intro: bound_trans)

lemma grown_panel_trans: "grown_panel rows p q \<Longrightarrow> grown_panel rows q r \<Longrightarrow> grown_panel rows p r"
  using in_bounds_trans [of rows p q r] by (simp add: grown_panel_def)

lemma grown_layout_refl: "grown_layout rows l l"
  by (auto simp: grown_layout_def intro: list_all2_refl grown_panel_refl)

lemma grown_layout_trans: "grown_layout rows l m \<Longrightarrow> grown_layout rows m n \<Longrightarrow> grown_layout rows l n"
  using list_all2_trans [of "grown_panel rows" "grown_panel rows" "grown_panel rows" l m n] grown_panel_trans
  by (auto simp: grown_layout_def list_all2_lengthD)

lemma grown_panel_kept:
  "kept dir p q \<Longrightarrow> in_bounds rows p q \<Longrightarrow> pn_i q = pn_i p \<Longrightarrow> \<not> skips p dir \<Longrightarrow> grown_panel rows p q"
  by (cases dir) (auto simp: grown_panel_def skips_def)

lemma strip_kept: "kept d p q \<Longrightarrow> d \<noteq> dir \<Longrightarrow> set (strip p dir) \<subseteq> set (strip q dir)"
  by (cases d; cases dir) auto

definition blocked :: "int \<Rightarrow> layout \<times> grid \<Rightarrow> grow_direction \<times> nat \<Rightarrow> bool" where
  "blocked rows st s =
     (skips (fst st ! snd s) (fst s) \<or> \<not> set (strip (fst st ! snd s) (fst s)) \<subseteq> in_grid rows - covered (fst st))"

lemma canGrow_state:
  "0 \<le> rows \<Longrightarrow> state_ok rows (l, g) \<Longrightarrow> canGrow rows g p dir \<longleftrightarrow> set (strip p dir) \<subseteq> in_grid rows - covered l"
  by (auto simp: state_ok_def canGrow_iff)

lemma covered_update:
  "n < length l \<Longrightarrow> set (cells (l ! n)) \<subseteq> set (cells q) \<Longrightarrow> covered (l[n := q]) = covered l \<union> set (cells q)"
proof (intro equalityI subsetI)
  fix c assume n: "n < length l" and sub: "set (cells (l ! n)) \<subseteq> set (cells q)" and "c \<in> covered l \<union> set (cells q)"
  then consider k where "k < length l" "k \<noteq> n" "c \<in> set (cells (l ! k))" | "c \<in> set (cells q)"
    by (auto simp: covered_def)
  then show "c \<in> covered (l[n := q])"
    using n by cases (auto simp: covered_def nth_list_update)
qed (auto simp: covered_def nth_list_update split: if_splits)

lemma grow_at_ends:
  assumes "0 \<le> rows" "state_ok rows (l, g)" "n < length l"
  shows "\<exists>l' g'. grow_at rows dir n (l, g) = Some (l', g') \<and> state_ok rows (l', g') \<and> grown_layout rows l l' \<and>
    covered l \<subseteq> covered l' \<and> blocked rows (l', g') (dir, n) \<and>
    (\<forall>s. snd s < length l \<longrightarrow> blocked rows (l, g) s \<longrightarrow> blocked rows (l', g') s)"
proof (cases "skips (l ! n) dir")
  case True
  then have "grow_at rows dir n (l, g) = Some (l, g)" by (simp add: grow_at_def)
  with True assms(2) show ?thesis by (auto simp: grown_layout_refl blocked_def)
next
  case False
  let ?p = "l ! n"
  have p: "grid_ok rows g" "sized ?p" "\<not> skips ?p dir" "set (cells ?p) \<inter> in_grid rows \<subseteq> taken_cells g"
    using assms(2,3) False by (auto simp: state_ok_def covered_def list_all_length)
  obtain q g' where q: "grow rows dir ?p g = Some (q, g')" "grown_to rows dir ?p g q g'"
    using grow_ends [OF assms(1) p] by blast
  let ?l = "l[n := q]"
  have at: "grow_at rows dir n (l, g) = Some (?l, g')" using False q(1) by (simp add: grow_at_def)
  have cov: "covered ?l = covered l \<union> set (cells q)"
    using q(2) assms(3) by (intro covered_update) (auto simp: grown_to_def)
  have ok: "state_ok rows (?l, g')"
    using q(2) assms(2) by (auto simp: state_ok_def cov grown_to_def list_all_iff dest!: set_update_subset_insert [THEN subsetD])
  have gp: "grown_panel rows ?p q"
    using q(2) False by (intro grown_panel_kept [of dir]) (auto simp: grown_to_def)
  have new: "set (cells q) - set (cells ?p) \<subseteq> in_grid rows - covered l"
    using q(2) assms(2) by (auto simp: grown_to_def state_ok_def)
  have ov: "\<not> overlap (?l ! i) (?l ! j)"
    if "i < length l" "j < length l" "i \<noteq> j" "\<not> overlap (l ! i) (l ! j)" for i j
  proof -
    have "set (cells (l ! k)) \<subseteq> covered l" if "k < length l" for k using that by (auto simp: covered_def)
    with that new assms(3) show ?thesis
      by (cases "i = n"; cases "j = n") (fastforce simp: overlap_def)+
  qed
  have gl: "grown_layout rows l ?l"
    unfolding grown_layout_def list_all2_conv_all_nth
  proof (intro conjI allI impI)
    fix i assume "i < length l"
    then show "grown_panel rows (l ! i) (?l ! i)" using gp by (cases "i = n") (simp_all add: grown_panel_refl)
  qed (use ov in auto)
  have bl: "blocked rows (?l, g') (dir, n)"
    using q(2) assms(1,3) canGrow_state [OF assms(1) ok, of q dir] by (auto simp: blocked_def grown_to_def)
  have "blocked rows (?l, g') s" if "snd s < length l" "blocked rows (l, g) s" for s
  proof (cases "snd s = n")
    case True
    show ?thesis
    proof (cases "fst s = dir")
      case True
      with bl \<open>snd s = n\<close> show ?thesis by (metis prod.collapse)
    next
      case False
      have "kept dir ?p q" "pn_i q = pn_i ?p" using q(2) by (simp_all add: grown_to_def)
      with strip_kept [of dir ?p q "fst s"] that True False assms(3) show ?thesis
        by (auto simp: blocked_def cov skips_def)
    qed
  next
    case False
    with that show ?thesis by (auto simp: blocked_def cov)
  qed
  with at ok gl bl cov show ?thesis by blast
qed

lemma grow_all_ends:
  assumes "0 \<le> rows" "state_ok rows (l, g)" "list_all (\<lambda>s. snd s < length l) steps"
  shows "\<exists>l' g'. grow_all rows steps (l, g) = Some (l', g') \<and> state_ok rows (l', g') \<and> grown_layout rows l l' \<and>
    (\<forall>s. snd s < length l \<longrightarrow> s \<in> set steps \<or> blocked rows (l, g) s \<longrightarrow> blocked rows (l', g') s)"
  using assms(2,3)
proof (induction steps arbitrary: l g)
  case Nil
  then show ?case by (auto simp: grown_layout_refl)
next
  case (Cons s steps)
  obtain dir n where s: "s = (dir, n)" by (cases s)
  from Cons.prems(2) have n: "n < length l" by (simp add: s)
  obtain m h where m: "grow_at rows dir n (l, g) = Some (m, h)" "state_ok rows (m, h)" "grown_layout rows l m"
      "blocked rows (m, h) (dir, n)" "\<And>s. snd s < length l \<Longrightarrow> blocked rows (l, g) s \<Longrightarrow> blocked rows (m, h) s"
    using grow_at_ends [OF assms(1) Cons.prems(1) n, of dir] by blast
  have len: "length m = length l" using m(3) by (auto simp: grown_layout_def dest: list_all2_lengthD)
  have steps: "list_all (\<lambda>s. snd s < length m) steps" using Cons.prems(2) len by simp
  obtain l' g' where l': "grow_all rows steps (m, h) = Some (l', g')" "state_ok rows (l', g')" "grown_layout rows m l'"
      "\<And>s. snd s < length m \<Longrightarrow> s \<in> set steps \<or> blocked rows (m, h) s \<Longrightarrow> blocked rows (l', g') s"
    using Cons.IH [OF m(2) steps] by blast
  have "grow_all rows (s # steps) (l, g) = Some (l', g')" using m(1) l'(1) by (simp add: s)
  moreover have "blocked rows (l', g') t" if "snd t < length l" "t \<in> set (s # steps) \<or> blocked rows (l, g) t" for t
  proof -
    have "t \<in> set steps \<or> blocked rows (m, h) t" using that(2) m(4) m(5) [OF that(1)] s by auto
    with that(1) len show ?thesis by (intro l'(4)) simp_all
  qed
  ultimately show ?case using l'(2) grown_layout_trans [OF m(3) l'(3)] by blast
qed

lemma lowest_ge: "start \<le> lowest start l" "p \<in> set l \<Longrightarrow> pn_y p + pn_h p \<le> lowest start l"
proof -
  have ge: "s \<le> foldl (\<lambda>m p. max m (pn_y p + pn_h p)) s l" for s and l :: layout
  proof (induction l arbitrary: s)
    case (Cons p l)
    have "s \<le> max s (pn_y p + pn_h p)" by simp
    also have "\<dots> \<le> foldl (\<lambda>m p. max m (pn_y p + pn_h p)) (max s (pn_y p + pn_h p)) l" by (rule Cons.IH)
    finally show ?case by simp
  qed simp
  then show "start \<le> lowest start l" by (simp add: lowest_def)
  show "p \<in> set l \<Longrightarrow> pn_y p + pn_h p \<le> lowest start l"
    unfolding lowest_def
  proof (induction l arbitrary: start)
    case (Cons q l)
    then show ?case using ge [of "max start (pn_y q + pn_h q)" l] by auto
  qed simp
qed

lemma lowest_le: "start \<le> b \<Longrightarrow> (\<And>p. p \<in> set l \<Longrightarrow> pn_y p + pn_h p \<le> b) \<Longrightarrow> lowest start l \<le> b"
  unfolding lowest_def by (induction l arbitrary: start) simp_all

lemma lowest_rows: "0 \<le> lowest GRID_rows l"
  using lowest_ge(1) [of GRID_rows l] by (simp add: GRID_rows_def)

lemma start_grid_ok:
  assumes "0 \<le> rows" "list_all sized l"
  shows "state_ok rows (l, start_grid rows l)"
proof -
  have "grid_ok rows (fold (\<lambda>p. mark p True) l g) \<and>
        taken_cells (fold (\<lambda>p. mark p True) l g) = taken_cells g \<union> ((\<Union>p \<in> set l. set (cells p)) \<inter> in_grid rows)"
    if "grid_ok rows g" for g
    using that
  proof (induction l arbitrary: g)
    case (Cons p l)
    show ?case using Cons.IH [OF mark_ok [OF Cons.prems]] by (auto simp: taken_mark [OF assms(1) Cons.prems])
  qed simp
  moreover have "grid_ok rows (replicate (nat rows) (replicate (nat GRID_cols) False))"
    by (simp add: grid_ok_def list_all_iff)
  moreover have "taken_cells (replicate (nat rows) (replicate (nat GRID_cols) False)) = {}"
    by (auto simp: taken_cells_def in_grid_def nat_less_iff)
  moreover have "covered l = (\<Union>p \<in> set l. set (cells p))"
    unfolding covered_def set_conv_nth by auto
  ultimately show ?thesis using assms(2) by (simp add: state_ok_def start_grid_def)
qed

lemma set_visit_order [simp]: "set (visit_order l) = {..<length l}"
  by (auto simp: visit_order_def)

lemma set_grow_steps: "set (grow_steps l) = UNIV \<times> {..<length l}"
proof -
  have "dir \<in> {GrowLeft, GrowRight, GrowUp, GrowDown}" for dir by (cases dir) simp_all
  then show ?thesis by (fastforce simp: grow_steps_def)
qed

text \<open>No panel can grow: beside each, in each direction it may take, lies the edge of the grid or a panel.\<close>

definition settled :: "layout \<Rightarrow> bool" where
  "settled l =
     (\<forall>p \<in> set l. \<forall>dir. skips p dir \<or>
        (\<exists>c \<in> set (strip p dir). c \<notin> in_grid (lowest GRID_rows l) \<or> (\<exists>q \<in> set l. c \<in> set (cells q))))"

lemma lowest_grown:
  assumes "grown_layout (lowest GRID_rows l) l l'"
  shows "lowest GRID_rows l' = lowest GRID_rows l"
proof (rule antisym)
  have l2: "list_all2 (grown_panel (lowest GRID_rows l)) l l'" using assms by (simp add: grown_layout_def)
  show "lowest GRID_rows l' \<le> lowest GRID_rows l"
  proof (rule lowest_le)
    fix q assume "q \<in> set l'"
    with l2 obtain p where "p \<in> set l" "grown_panel (lowest GRID_rows l) p q"
      by (metis list_all2_conv_all_nth in_set_conv_nth nth_mem)
    with lowest_ge(2) [of p l GRID_rows] show "pn_y q + pn_h q \<le> lowest GRID_rows l"
      by (auto simp: grown_panel_def in_bounds_def)
  qed (rule lowest_ge)
  show "lowest GRID_rows l \<le> lowest GRID_rows l'"
  proof (rule lowest_le)
    fix p assume "p \<in> set l"
    with l2 obtain q where "q \<in> set l'" "grown_panel (lowest GRID_rows l) p q"
      by (metis list_all2_conv_all_nth in_set_conv_nth nth_mem)
    with lowest_ge(2) [of q l' GRID_rows] show "pn_y p + pn_h p \<le> lowest GRID_rows l'"
      by (auto simp: grown_panel_def)
  qed (rule lowest_ge)
qed

lemma fillGaps_outcome:
  assumes "list_all sized l" "lowest GRID_rows l < MAX_ROWS"
  obtains l' where "fillGaps l = Inr l'" "grown_layout (lowest GRID_rows l) l l'" "settled l'" "list_all sized l'"
    "lowest GRID_rows l' = lowest GRID_rows l"
proof -
  let ?rows = "lowest GRID_rows l"
  have "list_all (\<lambda>s. snd s < length l) (grow_steps l)" by (auto simp: list_all_iff set_grow_steps)
  then obtain l' g' where r: "grow_all ?rows (grow_steps l) (l, start_grid ?rows l) = Some (l', g')"
      "state_ok ?rows (l', g')" "grown_layout ?rows l l'"
      "\<And>s. snd s < length l \<Longrightarrow> s \<in> set (grow_steps l) \<Longrightarrow> blocked ?rows (l', g') s"
    using grow_all_ends [OF lowest_rows start_grid_ok [OF lowest_rows assms(1)]] by meson
  have same: "lowest GRID_rows l' = ?rows" by (rule lowest_grown) (rule r(3))
  have len: "length l' = length l" using r(3) by (auto simp: grown_layout_def dest: list_all2_lengthD)
  have "settled l'"
    unfolding settled_def same
  proof (intro ballI allI)
    fix p dir assume "p \<in> set l'"
    then obtain n where n: "n < length l'" "p = l' ! n" by (auto simp: in_set_conv_nth)
    then have "blocked ?rows (l', g') (dir, n)" using r(4) [of "(dir, n)"] len by (simp add: set_grow_steps)
    then show "skips p dir \<or> (\<exists>c \<in> set (strip p dir). c \<notin> in_grid ?rows \<or> (\<exists>q \<in> set l'. c \<in> set (cells q)))"
      using n(2) unfolding blocked_def covered_def by (fastforce simp: in_set_conv_nth)
  qed
  moreover have "fillGaps l = Inr l'" using assms(2) r(1) by (simp add: fillGaps_def Let_def)
  moreover have "list_all sized l'" using r(2) by (simp add: state_ok_def)
  ultimately show thesis using that r(3) same by blast
qed

lemma grow_all_blocked:
  assumes "0 \<le> rows" "state_ok rows (l, g)" "\<And>s. s \<in> set steps \<Longrightarrow> snd s < length l \<and> blocked rows (l, g) s"
  shows "grow_all rows steps (l, g) = Some (l, g)"
  using assms(3)
proof (induction steps)
  case (Cons s steps)
  obtain dir n where s: "s = (dir, n)" by (cases s)
  have b: "n < length l" "blocked rows (l, g) (dir, n)" using Cons.prems [of s] s by simp_all
  have "grow_at rows dir n (l, g) = Some (l, g)"
  proof (cases "skips (l ! n) dir")
    case False
    then have "\<not> canGrow rows g (l ! n) dir" using b canGrow_state [OF assms(1,2)] by (auto simp: blocked_def)
    then show ?thesis using False by (simp add: grow_at_def grow.simps)
  qed (simp add: grow_at_def)
  then show ?case using Cons.IH Cons.prems by (simp add: s)
qed simp

lemma fillGaps_settled:
  assumes "list_all sized l" "lowest GRID_rows l < MAX_ROWS" "settled l"
  shows "fillGaps l = Inr l"
proof -
  let ?rows = "lowest GRID_rows l"
  have "blocked ?rows (l, start_grid ?rows l) s" if "s \<in> set (grow_steps l)" for s
  proof -
    from that have n: "snd s < length l" by (auto simp: set_grow_steps)
    then have "l ! snd s \<in> set l" by simp
    with assms(3) have "skips (l ! snd s) (fst s) \<or>
        (\<exists>c \<in> set (strip (l ! snd s) (fst s)). c \<notin> in_grid ?rows \<or> (\<exists>q \<in> set l. c \<in> set (cells q)))"
      unfolding settled_def by blast
    then show ?thesis unfolding blocked_def covered_def by (fastforce simp: in_set_conv_nth)
  qed
  then have "grow_all ?rows (grow_steps l) (l, start_grid ?rows l) = Some (l, start_grid ?rows l)"
    by (intro grow_all_blocked start_grid_ok lowest_rows assms(1)) (auto simp: set_grow_steps)
  then show ?thesis using assms(2) by (simp add: fillGaps_def Let_def)
qed

end
