(* ===== verification/Workspace_State.thy ===== *)
theory Workspace_State
  imports Workspace_Props
begin

text \<open>
  The workspace's state: what a sound layout is, that reading what was stored ends in one unless a panel
  stored for the screen has a name every object inherits, and that every operation of the page keeps it. Each operation of the page (\<^verbatim>\<open>App.tsx\<close>) is an event here; what the
  grid of \<^verbatim>\<open>react-grid-layout\<close> reports when a panel is dragged or resized
  (\<^verbatim>\<open>WorkspaceGrid.tsx\<close>) is an event with what that library promises of it.
\<close>

section \<open>Sound layouts\<close>

definition place_ok :: "placement \<Rightarrow> bool" where
  "place_ok p =
     (0 \<le> pn_x p \<and> 0 \<le> pn_y p \<and> 0 \<le> pn_w p \<and> pn_x p + pn_w p \<le> GRID_cols \<and>
      (if isStatsBar (pn_i p) then pn_h p = STATS_BAR_ROWS
       else case panelKindOf (pn_i p) of
              Some kind \<Rightarrow> sp_minW (PANELS kind) \<le> pn_w p \<and> sp_minH (PANELS kind) \<le> pn_h p
            | None \<Rightarrow> False))"

definition layout_ok :: "layout \<Rightarrow> bool" where
  "layout_ok l = (list_all place_ok l \<and> distinct (map pn_i l) \<and> STATS_BAR_ID \<in> pn_i ` set l)"

text \<open>A layout that was stored may hold panels of inherited kinds, which have no sizes.\<close>

fun panel_ok :: "stored_panel \<Rightarrow> bool" where
  "panel_ok (Sized p) = place_ok p"
| "panel_ok (Unsized i y) = (inherited_kind i \<and> 0 \<le> y)"

definition stored_ok :: "stored_layout \<Rightarrow> bool" where
  "stored_ok l = (list_all panel_ok l \<and> distinct (map panel_id l) \<and> STATS_BAR_ID \<in> panel_id ` set l)"

definition workspace_ok :: "workspace_state \<Rightarrow> bool" where
  "workspace_ok s = (layout_ok (ws_layout s) \<and> list_all (\<lambda>sl. stored_ok (sl_layout sl)) (ws_saved s))"

lemma sized_simps [simp]:
  "sized_part [] = []" "sized_part (Sized p # l) = p # sized_part l" "sized_part (Unsized i y # l) = sized_part l"
  by (simp_all add: sized_part_def List.map_filter_simps)

lemma sized_part_map [simp]: "sized_part (map Sized l) = l"
  by (induction l) simp_all

lemma map_sized_part: "\<not> list_ex unsized l \<Longrightarrow> map Sized (sized_part l) = l"
proof (induction l)
  case (Cons p l)
  then show ?case by (cases p) simp_all
qed simp

lemma no_unsized [simp]: "\<not> list_ex unsized (map Sized l)"
  by (induction l) simp_all

lemma stored_ok_map [simp]: "stored_ok (map Sized l) = layout_ok l"
  by (simp add: stored_ok_def layout_ok_def list_all_iff comp_def image_image)

lemma stored_ok_sized: "stored_ok l \<Longrightarrow> \<not> list_ex unsized l \<Longrightarrow> layout_ok (sized_part l)"
  by (metis map_sized_part stored_ok_map)

lemma spec_bounds:
  "1 \<le> sp_minW (PANELS kind)" "1 \<le> sp_minH (PANELS kind)" "sp_minW (PANELS kind) \<le> sp_w (PANELS kind)"
  "sp_minH (PANELS kind) \<le> sp_h (PANELS kind)" "sp_w (PANELS kind) \<le> GRID_cols"
  by (cases kind; simp add: panel_spec_of_def GRID_cols_def)+

lemma minW_cols: "sp_minW (PANELS kind) \<le> 24"
  by (cases kind) (simp_all add: panel_spec_of_def)

lemma place_ok_sized: "place_ok p \<Longrightarrow> sized p"
proof (cases "panelKindOf (pn_i p)")
  case (Some kind)
  assume "place_ok p"
  with Some spec_bounds(1,2) [of kind] show ?thesis
    by (auto simp: place_ok_def sized_def STATS_BAR_ROWS_def split: if_splits)
qed (auto simp: place_ok_def sized_def STATS_BAR_ROWS_def split: if_splits)

lemma layout_ok_sized: "list_all place_ok l \<Longrightarrow> list_all sized l"
  by (auto simp: list_all_iff place_ok_sized)

lemma place_ok_grown: "place_ok p \<Longrightarrow> grown_panel rows p q \<Longrightarrow> place_ok q"
  by (auto simp: place_ok_def grown_panel_def in_bounds_def split: if_splits option.splits)

lemma grown_layout_ids: "grown_layout rows l l' \<Longrightarrow> map pn_i l' = map pn_i l"
  by (rule nth_equalityI) (simp_all add: grown_layout_def grown_panel_def list_all2_conv_all_nth)

lemma layout_ok_grown: "layout_ok l \<Longrightarrow> grown_layout rows l l' \<Longrightarrow> layout_ok l'"
proof -
  assume ok: "layout_ok l" and g: "grown_layout rows l l'"
  have ids: "map pn_i l' = map pn_i l" using g by (rule grown_layout_ids)
  have l2: "list_all2 (grown_panel rows) l l'" using g by (simp add: grown_layout_def)
  have "list_all place_ok l'"
    unfolding list_all_length
  proof (intro allI impI)
    fix n assume n: "n < length l'"
    with l2 have "grown_panel rows (l ! n) (l' ! n)" by (simp add: list_all2_conv_all_nth)
    moreover have "place_ok (l ! n)"
      using ok n l2 by (simp add: layout_ok_def list_all_length list_all2_lengthD)
    ultimately show "place_ok (l' ! n)" by (rule place_ok_grown [rotated])
  qed
  moreover have "pn_i ` set l' = pn_i ` set l" using ids by (metis list.set_map)
  ultimately show "layout_ok l'" using ok ids by (simp add: layout_ok_def)
qed

text \<open>Filling the gaps of a sound layout: too tall a grid is refused, else the result is sound.\<close>

lemma fillGaps_ok: "layout_ok l \<Longrightarrow> fillGaps l = Inl RangeError \<or> (\<exists>l'. fillGaps l = Inr l' \<and> layout_ok l')"
proof (cases "lowest GRID_rows l < MAX_ROWS")
  case True
  assume ok: "layout_ok l"
  then have "list_all sized l" by (simp add: layout_ok_def layout_ok_sized)
  from fillGaps_outcome [OF this True] ok show ?thesis by (metis layout_ok_grown)
qed (simp add: fillGaps_def Let_def)

text \<open>A panel without sizes grows for ever, so filling the gaps of a layout that holds one does not end.\<close>

lemma grow_unsized_endless: "grow_unsized dir y = None"
proof -
  have False if "grow_unsized dir y = Some r" for r
    by (rule grow_unsized.raw_induct [where P = "\<lambda>_ _ _. False", OF _ that])
      (simp add: unsized_strip_def)
  then show ?thesis by (cases "grow_unsized dir y") auto
qed

lemma those_None: "those xs = None \<longleftrightarrow> None \<in> set xs"
  by (induction xs) (auto split: option.splits)

lemma fill_unsized_endless: "list_ex unsized l \<Longrightarrow> fill_unsized l = None"
proof -
  assume "list_ex unsized l"
  then obtain p where p: "p \<in> set l" "unsized p" by (auto simp: list_ex_iff)
  from p(2) have "grow_panel GrowLeft p = None" by (cases p) (simp_all add: grow_unsized_endless)
  with p(1) have "None \<in> set (map (grow_panel GrowLeft) l)" by (metis image_eqI list.set_map)
  then have "grow_panels GrowLeft l = None" by (simp add: grow_panels_def those_None)
  then show ?thesis by (simp add: fill_unsized_def)
qed

lemma fill_stored_map [simp]: "fill_stored (map Sized l) = fillGaps l"
  by (simp add: fill_stored_def)

lemma fill_stored_endless: "list_ex unsized l \<Longrightarrow> fill_stored l = Inl Endless"
  by (simp add: fill_stored_def fill_unsized_endless)

lemma fill_stored_ok:
  "stored_ok l \<Longrightarrow> \<not> list_ex unsized l \<Longrightarrow>
   fill_stored l = Inl RangeError \<or> (\<exists>l'. fill_stored l = Inr l' \<and> layout_ok l')"
  using fillGaps_ok [OF stored_ok_sized] by (simp add: fill_stored_def)

section \<open>What was stored\<close>

lemma read_bar_ok: "read_bar i item = Some p \<Longrightarrow> isStatsBar i \<Longrightarrow> panel_ok p \<and> panel_id p = i \<and> \<not> unsized p"
  by (auto simp: read_bar_def place_ok_def GRID_cols_def grid_int_def Let_def
      split: option.splits if_splits elim!: grid_int_of.elims)

lemma grid_int_nonneg: "grid_int v = Some n \<Longrightarrow> 0 \<le> n"
  by (auto simp: grid_int_def split: option.splits if_splits elim!: grid_int_of.elims)

text \<open>An item read as a panel without sizes: of an inherited kind, and in whole numbers itself.\<close>

definition unsized_item :: "json \<Rightarrow> bool" where
  "unsized_item item =
     ((case as_str (field item ''i'') of Some i \<Rightarrow> inherited_kind i | None \<Rightarrow> False) \<and>
      list_all (\<lambda>k. grid_int (field item k) \<noteq> None) [''x'', ''y'', ''w'', ''h''])"

lemma inherited_not_bar: "inherited_kind i \<Longrightarrow> \<not> isStatsBar i"
  by (auto simp: inherited_kind_def isStatsBar_def STATS_BAR_ID_def kind_part_def inherited_names_def)

lemma read_panel_ok:
  assumes r: "read_panel i item = Some p" and i: "\<not> isStatsBar i"
  shows "panel_ok p \<and> panel_id p = i \<and> (unsized p \<longleftrightarrow> inherited_kind i)"
proof -
  from r obtain x y w h where g: "grid_int (field item ''x'') = Some x" "grid_int (field item ''y'') = Some y"
    by (auto simp: read_panel_def split: option.splits)
  then have xy: "0 \<le> x" "0 \<le> y" by (auto dest: grid_int_nonneg)
  show ?thesis
  proof (cases "inherited_kind i")
    case True
    with r g xy show ?thesis by (auto simp: read_panel_def split: option.splits)
  next
    case False
    with r g obtain w h kind where k: "panelKindOf i = Some kind"
      and p: "p = Sized (let width = min (max w (sp_minW (PANELS kind))) GRID_cols
                   in \<lparr>pn_i = i, pn_x = min x (GRID_cols - width), pn_y = y, pn_w = width, pn_h = max h (sp_minH (PANELS kind))\<rparr>)"
      by (auto simp: read_panel_def Let_def split: option.splits if_splits)
    then show ?thesis
      using i k p xy False minW_cols [of kind] spec_bounds(1) [of kind] by (auto simp: place_ok_def GRID_cols_def Let_def)
  qed
qed

lemma read_place_ok: "read_place seen item = Some p \<Longrightarrow> panel_ok p \<and> panel_id p \<notin> set seen"
  using read_bar_ok read_panel_ok by (fastforce simp: read_place_def split: option.splits if_splits)

lemma read_place_unsized:
  "read_place seen item = Some p \<Longrightarrow> unsized p = unsized_item item \<and> as_str (field item ''i'') = Some (panel_id p) \<and>
   (unsized p \<longleftrightarrow> inherited_kind (panel_id p))"
proof -
  assume r: "read_place seen item = Some p"
  then obtain i where i: "as_str (field item ''i'') = Some i" "i \<notin> set seen"
    and p: "(if isStatsBar i then read_bar i item else read_panel i item) = Some p"
    by (auto simp: read_place_def split: option.splits if_splits)
  show ?thesis
  proof (cases "isStatsBar i")
    case True
    with i p read_bar_ok [of i item p] inherited_not_bar [of i] show ?thesis by (auto simp: unsized_item_def)
  next
    case False
    moreover have "inherited_kind i \<longrightarrow> list_all (\<lambda>k. grid_int (field item k) \<noteq> None) [''x'', ''y'', ''w'', ''h'']"
      using p False by (auto simp: read_panel_def split: option.splits)
    ultimately show ?thesis using i p read_panel_ok [of i item p] by (auto simp: unsized_item_def)
  qed
qed

lemma read_place_None:
  "read_place seen item = None \<Longrightarrow> unsized_item item \<Longrightarrow> \<exists>i \<in> set seen. as_str (field item ''i'') = Some i"
  by (auto simp: read_place_def unsized_item_def read_panel_def inherited_not_bar split: option.splits if_splits)

lemma sanitize_items_ok:
  "list_all panel_ok (sanitize_items seen items) \<and> distinct (map panel_id (sanitize_items seen items)) \<and>
   panel_id ` set (sanitize_items seen items) \<inter> set seen = {}"
proof (induction seen items rule: sanitize_items.induct)
  case (2 seen item items)
  show ?case
  proof (cases "read_place seen item")
    case None
    with 2 show ?thesis by simp
  next
    case (Some p)
    with 2(2) [OF Some] read_place_ok [OF Some] show ?thesis by auto
  qed
qed simp

text \<open>A stored layout is read with a panel without sizes exactly when an item has one.\<close>

lemma sanitize_items_unsized:
  "list_ex unsized (sanitize_items seen items) \<longleftrightarrow>
   list_ex (\<lambda>item. unsized_item item \<and> as_str (field item ''i'') \<notin> Some ` set seen) items"
proof (induction seen items rule: sanitize_items.induct)
  case (2 seen item items)
  show ?case
  proof (cases "read_place seen item")
    case None
    with 2(1) read_place_None [OF None] show ?thesis by auto
  next
    case (Some p)
    note r = read_place_unsized [OF Some]
    have "inherited_kind (panel_id p)" if "unsized_item x" "as_str (field x ''i'') = Some (panel_id p)" for x
      using that by (simp add: unsized_item_def)
    with r have "unsized p \<or> list_ex (\<lambda>x. unsized_item x \<and> as_str (field x ''i'') \<notin> Some ` set (panel_id p # seen)) items \<longleftrightarrow>
        unsized p \<or> list_ex (\<lambda>x. unsized_item x \<and> as_str (field x ''i'') \<notin> Some ` set seen) items"
      by (auto simp: list_ex_iff)
    with 2(2) [OF Some] r Some read_place_ok [OF Some] show ?thesis by auto
  qed
qed simp

lemma sanitizeLayout_unsized: "list_ex unsized (sanitizeLayout raw) \<longleftrightarrow> list_ex unsized_item (arr_or_nil raw)"
  by (simp add: sanitizeLayout_def sanitize_items_unsized)

lemma sanitizeLayout_ok: "list_all panel_ok (sanitizeLayout raw) \<and> distinct (map panel_id (sanitizeLayout raw))"
  using sanitize_items_ok by (simp add: sanitizeLayout_def)

lemma top_right_Some:
  "top_right l = Some n \<Longrightarrow> n < length l \<and> (\<exists>q. l ! n = Sized q \<and> pn_x q + pn_w q = GRID_cols)"
proof -
  assume "top_right l = Some n"
  note f = find_index_Some [OF this [unfolded top_right_def]]
  then show ?thesis by (cases "l ! n") auto
qed

lemma moved_down_ok: "panel_ok p \<Longrightarrow> \<not> isStatsBar (panel_id p) \<Longrightarrow> panel_ok (moved_down width p)"
  by (cases p) (auto simp: place_ok_def STATS_BAR_ROWS_def Let_def split: option.splits)

lemma moved_down_id [simp]: "panel_id (moved_down width p) = panel_id p" "unsized (moved_down width p) = unsized p"
  by (cases p; simp add: Let_def)+

lemma place_ok_bar: "0 \<le> w \<Longrightarrow> w \<le> GRID_cols \<Longrightarrow> place_ok (bar w)"
  by (simp add: place_ok_def bar_def isStatsBar_def)

lemma withStatsBar_ok:
  assumes "list_all panel_ok l" "distinct (map panel_id l)"
  shows "stored_ok (withStatsBar l)"
proof (cases "list_ex (\<lambda>p. isStatsBar (panel_id p)) l")
  case True
  then obtain p where "p \<in> set l" "panel_id p = STATS_BAR_ID" by (auto simp: list_ex_iff isStatsBar_def)
  then have "STATS_BAR_ID \<in> panel_id ` set l" by (metis image_eqI)
  with True assms show ?thesis by (simp add: withStatsBar_def stored_ok_def)
next
  case False
  define width where "width = (case top_right l of Some n \<Rightarrow> (case l ! n of Sized q \<Rightarrow> pn_x q | Unsized _ _ \<Rightarrow> GRID_cols) | None \<Rightarrow> GRID_cols)"
  define rest where "rest = map (\<lambda>(n, p). if top_right l = Some n then p else moved_down width p) (zip [0..<length l] l)"
  have ids: "map panel_id rest = map panel_id l"
    by (rule nth_equalityI) (simp_all add: rest_def split: prod.splits)
  have "0 \<le> width \<and> width \<le> GRID_cols"
  proof (cases "top_right l")
    case (Some n)
    with top_right_Some [OF Some] obtain q where q: "n < length l" "l ! n = Sized q" "pn_x q + pn_w q = GRID_cols" by blast
    moreover from this assms(1) have "panel_ok (Sized q)" by (metis list_all_length)
    ultimately show ?thesis using Some by (simp add: width_def place_ok_def)
  qed (simp add: width_def GRID_cols_def)
  then have "panel_ok (Sized (bar width))" by (simp add: place_ok_bar)
  moreover have "panel_ok q" if "q \<in> set rest" for q
  proof -
    from that obtain n where n: "n < length l" "q = (if top_right l = Some n then l ! n else moved_down width (l ! n))"
      by (auto simp: rest_def set_zip)
    have "panel_ok (l ! n)" "\<not> isStatsBar (panel_id (l ! n))"
      using assms(1) False n(1) by (simp_all add: list_all_length list_ex_length)
    with n(2) show ?thesis by (simp add: moved_down_ok)
  qed
  moreover have "STATS_BAR_ID \<notin> panel_id ` set rest"
  proof -
    have "panel_id ` set rest = panel_id ` set l" using ids by (metis list.set_map)
    with False show ?thesis by (auto simp: list_ex_iff isStatsBar_def)
  qed
  moreover have "distinct (map panel_id rest)" using ids assms(2) by simp
  ultimately have "stored_ok (Sized (bar width) # rest)"
    by (auto simp: stored_ok_def list_all_iff bar_def)
  moreover have "withStatsBar l = Sized (bar width) # rest"
    unfolding withStatsBar_def width_def rest_def Let_def using False by simp
  ultimately show ?thesis by simp
qed

text \<open>A built-in layout is sound: every panel in its place, checked one by one.\<close>

lemmas preset_simps = place_ok_def bar_def place_def name_of_def panel_names_def panelKindOf_def kind_part_def FORMER_def
  isStatsBar_def STATS_BAR_ID_def STATS_BAR_ROWS_def GRID_cols_def panel_spec_of_def Let_def

lemma presets_stored: "s \<in> set PRESETS \<Longrightarrow> \<exists>l. sl_layout s = map Sized l"
  by (auto simp: PRESETS_def DEFAULT_PRESET_def simp del: list.map)

lemma presets_ok: "s \<in> set PRESETS \<Longrightarrow> layout_ok (sized_part (sl_layout s))"
  by (auto simp: PRESETS_def DEFAULT_PRESET_def layout_ok_def preset_simps)

lemma default_ok: "layout_ok (sized_part (sl_layout DEFAULT_PRESET))"
  by (rule presets_ok) (simp add: PRESETS_def)

lemma preset_sized: "s \<in> set PRESETS \<Longrightarrow> \<not> list_ex unsized (sl_layout s) \<and> stored_ok (sl_layout s)"
  using presets_ok presets_stored by fastforce

lemma initial_ok: "workspace_ok initialWorkspace"
  by (simp add: workspace_ok_def initialWorkspace_def default_ok)

lemma upgradeDefault_ok: "layout_ok l \<Longrightarrow> layout_ok (upgradeDefault l)"
  by (simp add: upgradeDefault_def default_ok)

lemma list_ex_of_map: "list_ex P (map f xs) = list_ex (P \<circ> f) xs"
  by (induction xs) simp_all

lemma withStatsBar_unsized: "list_ex unsized (withStatsBar l) = list_ex unsized l"
proof -
  have "unsized ((\<lambda>(n, p). if tr = Some n then p else moved_down w p) x) = unsized (snd x)" for tr w and x :: "nat \<times> stored_panel"
    by (cases x) simp
  then have "list_ex unsized (map (\<lambda>(n, p). if tr = Some n then p else moved_down w p) (zip [0..<length l] l)) =
      list_ex unsized (map snd (zip [0..<length l] l))" for tr w
    by (simp only: list_ex_of_map comp_def)
  moreover have "map snd (zip [0..<length l] l) = l" by simp
  ultimately have "list_ex unsized (map (\<lambda>(n, p). if tr = Some n then p else moved_down w p) (zip [0..<length l] l)) =
      list_ex unsized l" for tr w by (simp only:)
  then show ?thesis by (simp add: withStatsBar_def Let_def)
qed

lemma saved_layout_ok:
  "stored_ok (withStatsBar (sanitizeLayout raw))"
  using sanitizeLayout_ok by (intro withStatsBar_ok) blast+

lemma saved_from_ok: "list_all (\<lambda>sl. stored_ok (sl_layout sl)) (saved_from ss)"
  by (auto simp: saved_from_def list_all_iff List.map_filter_def saved_layout_ok)

lemma saved_from_unsized:
  "sl \<in> set (saved_from ss) \<Longrightarrow> list_ex unsized (sl_layout sl) \<Longrightarrow>
   list_ex (\<lambda>x. list_ex unsized_item (arr_or_nil (field x ''layout''))) ss"
proof -
  assume "sl \<in> set (saved_from ss)" and u: "list_ex unsized (sl_layout sl)"
  then obtain s nm where s: "s \<in> set ss" "sl = \<lparr>sl_name = nm, sl_layout = withStatsBar (sanitizeLayout (field s ''layout''))\<rparr>"
    by (auto simp: saved_from_def List.map_filter_def)
  with u have "list_ex unsized_item (arr_or_nil (field s ''layout''))"
    by (simp add: withStatsBar_unsized sanitizeLayout_unsized)
  with s(1) show ?thesis by (auto simp: list_ex_iff)
qed

text \<open>Whether a stored value has a panel without sizes in the layout on screen, and whether anywhere.\<close>

definition odd_current :: "json option option \<Rightarrow> bool" where
  "odd_current stored =
     (case stored of Some (Some raw) \<Rightarrow> list_ex unsized_item (arr_or_nil (field raw ''layout'')) | _ \<Rightarrow> False)"

definition odd_stored :: "json option option \<Rightarrow> bool" where
  "odd_stored stored =
     (odd_current stored \<or>
      (case stored of
         Some (Some raw) \<Rightarrow>
           list_ex (\<lambda>s. list_ex unsized_item (arr_or_nil (field s ''layout''))) (arr_or_nil (field raw ''saved''))
       | _ \<Rightarrow> False))"

lemma current_layout_endless:
  "list_ex unsized_item (arr_or_nil raw) \<Longrightarrow> current_layout (sanitizeLayout raw) = Inl Endless"
proof -
  assume "list_ex unsized_item (arr_or_nil raw)"
  then have "list_ex unsized (sanitizeLayout raw)" by (simp add: sanitizeLayout_unsized)
  then show ?thesis by (auto simp: current_layout_def fill_stored_endless withStatsBar_unsized)
qed

lemma current_layout_ok:
  assumes "\<not> list_ex unsized_item (arr_or_nil raw)"
  shows "current_layout (sanitizeLayout raw) = Inl RangeError \<or>
    (\<exists>l. current_layout (sanitizeLayout raw) = Inr l \<and> layout_ok l)"
proof (cases "sanitizeLayout raw = []")
  case True
  then show ?thesis by (simp add: current_layout_def initialWorkspace_def default_ok)
next
  case False
  have "\<not> list_ex unsized (withStatsBar (sanitizeLayout raw))"
    using assms by (simp add: withStatsBar_unsized sanitizeLayout_unsized)
  from fill_stored_ok [OF saved_layout_ok this] False show ?thesis by (auto simp: current_layout_def upgradeDefault_ok)
qed

lemma load_workspace_cases:
  "if odd_current stored then load_workspace stored = Inl Endless
   else \<exists>s. load_workspace stored = Inr s \<and> workspace_ok s \<and>
          (\<forall>sl \<in> set (ws_saved s). list_ex unsized (sl_layout sl) \<longrightarrow> odd_stored stored)"
proof -
  have init: "workspace_ok initialWorkspace" "ws_saved initialWorkspace = []"
    using initial_ok by (simp_all add: initialWorkspace_def)
  consider (none) "stored = None \<or> stored = Some None" | (raw) raw where "stored = Some (Some raw)"
    by (cases stored) auto
  then show ?thesis
  proof cases
    case none
    then show ?thesis using init by (auto simp: load_workspace_def odd_current_def)
  next
    case (raw raw)
    let ?current = "arr_or_nil (field raw ''layout'')"
    show ?thesis
    proof (cases "list_ex unsized_item ?current")
      case True
      then show ?thesis
        by (simp add: load_workspace_def odd_current_def raw sanitizeWorkspace_def current_layout_endless)
    next
      case False
      from current_layout_ok [OF False] saved_from_ok [of "arr_or_nil (field raw ''saved'')"]
        saved_from_unsized [of _ "arr_or_nil (field raw ''saved'')"] init False
      show ?thesis
        by (auto simp: load_workspace_def odd_current_def odd_stored_def raw sanitizeWorkspace_def workspace_ok_def)
    qed
  qed
qed

section \<open>The page's operations\<close>

text \<open>What can happen to the workspace. \<open>Moved\<close> is a layout the grid reports.\<close>

datatype workspace_event =
    FillAll
  | AddPanel string panel_kind "(nat \<times> nat) option"
  | RemovePanel string
  | Moved layout
  | ShowBuiltIn nat
  | ShowSaved nat
  | NewLayout string
  | SaveLayout string
  | DeleteLayout string
  | ResetLayout

definition DROPPING_ID :: string where
  "DROPPING_ID = ''__dropping__''"

definition shown :: "workspace_state \<Rightarrow> saved_layout option \<Rightarrow> trouble + workspace_state" where
  "shown s choice =
     (case choice of
        None \<Rightarrow> Inr s
      | Some sl \<Rightarrow> (case fill_stored (sl_layout sl) of
                      Inl e \<Rightarrow> Inl e
                    | Inr l \<Rightarrow> Inr (s\<lparr>ws_layout := l, ws_active := sl_name sl\<rparr>)))"

definition filled :: "workspace_state \<Rightarrow> layout \<Rightarrow> trouble + workspace_state" where
  "filled s l = (case fillGaps l of Inl e \<Rightarrow> Inl e | Inr l' \<Rightarrow> Inr (withLayout False s l'))"

definition reported :: "layout \<Rightarrow> layout" where
  "reported l = filter (\<lambda>p. pn_i p \<noteq> DROPPING_ID) l"

definition deleteLayout :: "workspace_state \<Rightarrow> string \<Rightarrow> workspace_state" where
  "deleteLayout s nm = s\<lparr>ws_saved := filter (\<lambda>sl. sl_name sl \<noteq> nm) (ws_saved s)\<rparr>"

definition resetLayout :: "workspace_state \<Rightarrow> workspace_state" where
  "resetLayout s = s\<lparr>ws_layout := sized_part (sl_layout DEFAULT_PRESET), ws_active := sl_name DEFAULT_PRESET\<rparr>"

fun workspace_step :: "workspace_event \<Rightarrow> workspace_state \<Rightarrow> trouble + workspace_state" where
  "workspace_step FillAll s = filled s (ws_layout s)"
| "workspace_step (AddPanel suffix kind spot) s =
     Inr (withLayout (hasPanel (ws_layout s) kind) s
            (addPanel suffix (ws_layout s) kind (map_option (\<lambda>(x, y). (int x, int y)) spot)))"
| "workspace_step (RemovePanel pid) s = filled s (removePanel (ws_layout s) pid)"
| "workspace_step (Moved l) s = Inr (withLayout False s (reported l))"
| "workspace_step (ShowBuiltIn n) s = shown s (nth_opt PRESETS n)"
| "workspace_step (ShowSaved n) s = shown s (nth_opt (ws_saved s) n)"
| "workspace_step (NewLayout nm) s = Inr (newLayout s nm)"
| "workspace_step (SaveLayout nm) s = Inr (saveAs s nm)"
| "workspace_step (DeleteLayout nm) s = Inr (deleteLayout s nm)"
| "workspace_step ResetLayout s = Inr (resetLayout s)"

text \<open>What \<^verbatim>\<open>react-grid-layout\<close> promises of a layout it reports, beside the item being dropped: the items
  it was given, somewhere in the columns, a static one of the size it had, and any other, where its size was changed, at
  least of the smallest one given for it.\<close>

definition moved_item :: "placement \<Rightarrow> placement \<Rightarrow> bool" where
  "moved_item p q =
     (pn_i q = pn_i p \<and> 0 \<le> pn_x q \<and> 0 \<le> pn_y q \<and> pn_x q + pn_w q \<le> GRID_cols \<and>
      (if isStatsBar (pn_i p) then pn_w q = pn_w p \<and> pn_h q = pn_h p
       else (case panelKindOf (pn_i p) of
               Some kind \<Rightarrow> (pn_w q = pn_w p \<or> sp_minW (PANELS kind) \<le> pn_w q) \<and> (pn_h q = pn_h p \<or> sp_minH (PANELS kind) \<le> pn_h q)
             | None \<Rightarrow> True)))"

definition grid_reports :: "layout \<Rightarrow> layout \<Rightarrow> bool" where
  "grid_reports l l' = (\<exists>m. mset m = mset l \<and> list_all2 moved_item m (reported l'))"

definition can_happen :: "workspace_state \<Rightarrow> workspace_event \<Rightarrow> bool" where
  "can_happen s e = (case e of Moved l \<Rightarrow> grid_reports (ws_layout s) l | _ \<Rightarrow> True)"

text \<open>The workspaces reached from what is stored.\<close>

inductive workspace_reached :: "json option option \<Rightarrow> trouble + workspace_state \<Rightarrow> bool" for stored where
  read: "workspace_reached stored (load_workspace stored)"
| event: "workspace_reached stored (Inr s) \<Longrightarrow> can_happen s e \<Longrightarrow> workspace_reached stored (workspace_step e s)"

lemma kind_part_new: "kind_part (newPanelId suffix kind) = name_of panel_names kind"
  by (cases kind) (simp_all add: newPanelId_def kind_part_def name_of_def panel_names_def)

lemma panelKindOf_new: "panelKindOf (newPanelId suffix kind) = Some kind"
  unfolding panelKindOf_def kind_part_new by (cases kind) (simp_all add: name_of_def panel_names_def)

lemma new_not_bar: "newPanelId suffix kind \<noteq> STATS_BAR_ID"
proof
  assume "newPanelId suffix kind = STATS_BAR_ID"
  with panelKindOf_new [of suffix kind] show False
    by (simp add: panelKindOf_def kind_part_def STATS_BAR_ID_def panel_names_def FORMER_def)
qed

lemma addPanel_ok:
  assumes "layout_ok l" "\<And>x y. spot = Some (x, y) \<Longrightarrow> 0 \<le> y"
  shows "layout_ok (addPanel suffix l kind spot)"
proof (cases "hasPanel l kind")
  case True
  with assms(1) show ?thesis by (simp add: addPanel_def)
next
  case False
  then have new: "newPanelId suffix kind \<notin> pn_i ` set l"
    using panelKindOf_new [of suffix kind] by (auto simp: hasPanel_def list_ex_iff)
  have "0 \<le> (case spot of Some (x, y) \<Rightarrow> y | None \<Rightarrow> lowest 0 l)"
    using assms(2) lowest_ge(1) [of 0 l] by (auto split: option.splits)
  with assms(1) new False show ?thesis
    using spec_bounds [of kind]
    by (auto simp: addPanel_def layout_ok_def place_ok_def panelKindOf_new new_not_bar isStatsBar_def Let_def)
qed

lemma removePanel_ok: "layout_ok l \<Longrightarrow> layout_ok (removePanel l pid)"
  by (auto simp: removePanel_def layout_ok_def list_all_iff isStatsBar_def image_iff intro: distinct_map_filter)

lemma withLayout_ok: "workspace_ok s \<Longrightarrow> layout_ok l \<Longrightarrow> workspace_ok (withLayout same s l)"
  by (auto simp: withLayout_def workspace_ok_def list_all_iff)

lemma filled_ok: "workspace_ok s \<Longrightarrow> layout_ok l \<Longrightarrow> filled s l = Inl RangeError \<or> (\<exists>s'. filled s l = Inr s' \<and> workspace_ok s')"
  using fillGaps_ok [of l] by (auto simp: filled_def withLayout_ok)

lemma shown_ok:
  "workspace_ok s \<Longrightarrow> (\<And>sl. choice = Some sl \<Longrightarrow> stored_ok (sl_layout sl) \<and> \<not> list_ex unsized (sl_layout sl)) \<Longrightarrow>
   shown s choice = Inl RangeError \<or> (\<exists>s'. shown s choice = Inr s' \<and> workspace_ok s' \<and> ws_saved s' = ws_saved s)"
  using fill_stored_ok by (fastforce simp: shown_def workspace_ok_def split: option.splits)

lemma newLayout_ok: "workspace_ok s \<Longrightarrow> workspace_ok (newLayout s nm)"
  using withStatsBar_ok [of "[]"] withStatsBar_unsized [of "[]"] stored_ok_sized [of "withStatsBar []"]
  by (auto simp: newLayout_def workspace_ok_def Let_def)

lemma saveAs_ok: "workspace_ok s \<Longrightarrow> workspace_ok (saveAs s nm)"
  by (auto simp: saveAs_def workspace_ok_def list_all_iff Let_def)

lemma deleteLayout_ok: "workspace_ok s \<Longrightarrow> workspace_ok (deleteLayout s nm)"
  by (auto simp: deleteLayout_def workspace_ok_def list_all_iff)

lemma resetLayout_ok: "workspace_ok s \<Longrightarrow> workspace_ok (resetLayout s)"
  by (simp add: resetLayout_def workspace_ok_def default_ok)

lemma moved_item_ok: "moved_item p q \<Longrightarrow> place_ok p \<Longrightarrow> place_ok q"
proof (cases "isStatsBar (pn_i p)")
  case False
  assume m: "moved_item p q" and p: "place_ok p"
  with False obtain kind where k: "panelKindOf (pn_i p) = Some kind"
    by (auto simp: place_ok_def split: option.splits)
  with m p False spec_bounds(1) [of kind] show ?thesis by (auto simp: place_ok_def moved_item_def)
qed (auto simp: moved_item_def place_ok_def)

lemma reported_ok: "layout_ok l \<Longrightarrow> grid_reports l l' \<Longrightarrow> layout_ok (reported l')"
proof -
  assume l: "layout_ok l" and "grid_reports l l'"
  then obtain m where m: "mset m = mset l" "list_all2 moved_item m (reported l')" by (auto simp: grid_reports_def)
  have ids: "map pn_i (reported l') = map pn_i m"
    using m(2) by (induction rule: list_all2_induct) (simp_all add: moved_item_def)
  have same: "mset (map pn_i m) = mset (map pn_i l)" using m(1) by simp
  have "list_all place_ok m" using l m(1) by (metis layout_ok_def list_all_iff mset_eq_setD)
  with m(2) have "list_all place_ok (reported l')"
    by (induction rule: list_all2_induct) (auto simp: moved_item_ok)
  moreover have "distinct (map pn_i (reported l'))"
    using l mset_eq_imp_distinct_iff [OF same] by (simp add: ids layout_ok_def)
  moreover have "STATS_BAR_ID \<in> set (map pn_i (reported l'))"
    using l mset_eq_setD [OF same] unfolding ids by (simp add: layout_ok_def)
  ultimately show ?thesis by (simp add: layout_ok_def)
qed

text \<open>What holds of every outcome: a sound workspace, whose saved layouts all have sizes if that was so of what was
  stored; or a grid too tall; or, if it was not so, a loop that does not end.\<close>

definition outcome_ok :: "bool \<Rightarrow> trouble + workspace_state \<Rightarrow> bool" where
  "outcome_ok odd' r =
     (case r of
        Inl t \<Rightarrow> t = RangeError \<or> odd'
      | Inr s \<Rightarrow> workspace_ok s \<and> (\<forall>sl \<in> set (ws_saved s). list_ex unsized (sl_layout sl) \<longrightarrow> odd'))"

lemma outcome_Inr: "outcome_ok odd' (Inr s) \<longleftrightarrow>
  workspace_ok s \<and> (\<forall>sl \<in> set (ws_saved s). list_ex unsized (sl_layout sl) \<longrightarrow> odd')"
  by (simp add: outcome_ok_def)

lemma filled_outcome: "outcome_ok odd' (Inr s) \<Longrightarrow> layout_ok l \<Longrightarrow> outcome_ok odd' (filled s l)"
  using fillGaps_ok [of l] withLayout_ok [of s _ False]
  by (auto simp: filled_def outcome_ok_def withLayout_def split: if_splits)

lemma withLayout_outcome: "outcome_ok odd' (Inr s) \<Longrightarrow> layout_ok l \<Longrightarrow> outcome_ok odd' (Inr (withLayout same s l))"
  using withLayout_ok [of s l same] by (auto simp: outcome_Inr withLayout_def split: if_splits)

lemma shown_outcome:
  assumes "outcome_ok odd' (Inr s)" "\<And>sl. choice = Some sl \<Longrightarrow> stored_ok (sl_layout sl) \<and> (list_ex unsized (sl_layout sl) \<longrightarrow> odd')"
  shows "outcome_ok odd' (shown s choice)"
proof (cases choice)
  case (Some sl)
  show ?thesis
  proof (cases "list_ex unsized (sl_layout sl)")
    case True
    with assms(2) [OF Some] Some show ?thesis by (simp add: shown_def fill_stored_endless outcome_ok_def)
  next
    case False
    with shown_ok [of s choice] assms Some show ?thesis by (auto simp: outcome_ok_def)
  qed
qed (use assms(1) in \<open>simp add: shown_def\<close>)

lemma workspace_step_ok:
  assumes ok: "outcome_ok odd' (Inr s)" and "can_happen s e"
  shows "outcome_ok odd' (workspace_step e s)"
proof (cases e)
  case (Moved l)
  with assms reported_ok [of "ws_layout s" l] have "layout_ok (reported l)"
    by (simp add: can_happen_def outcome_Inr workspace_ok_def)
  with ok Moved show ?thesis by (simp add: withLayout_outcome)
next
  case (ShowSaved n)
  have "stored_ok (sl_layout sl) \<and> (list_ex unsized (sl_layout sl) \<longrightarrow> odd')" if "nth_opt (ws_saved s) n = Some sl" for sl
    using ok nth_opt_mem [OF that] by (auto simp: outcome_Inr workspace_ok_def list_all_iff)
  with ok ShowSaved show ?thesis by (simp add: shown_outcome)
next
  case (ShowBuiltIn n)
  with ok preset_sized show ?thesis by (auto intro!: shown_outcome dest: nth_opt_mem)
next
  case (NewLayout nm)
  with ok newLayout_ok [of s nm] withStatsBar_unsized [of "[]"] show ?thesis
    by (auto simp: outcome_Inr newLayout_def Let_def)
next
  case (SaveLayout nm)
  with ok saveAs_ok [of s nm] show ?thesis by (auto simp: outcome_Inr saveAs_def Let_def)
next
  case (DeleteLayout nm)
  with ok deleteLayout_ok [of s nm] show ?thesis by (auto simp: outcome_Inr deleteLayout_def)
next
  case ResetLayout
  with ok resetLayout_ok [of s] show ?thesis by (auto simp: outcome_Inr resetLayout_def)
next
  case (AddPanel suffix kind spot)
  have "layout_ok (addPanel suffix (ws_layout s) kind (map_option (\<lambda>(x, y). (int x, int y)) spot))"
    using ok by (intro addPanel_ok) (auto simp: outcome_Inr workspace_ok_def)
  with ok AddPanel show ?thesis by (simp add: withLayout_outcome)
qed (use ok in \<open>auto simp: outcome_Inr workspace_ok_def intro!: filled_outcome removePanel_ok\<close>)

lemma reached_ok: "workspace_reached stored r \<Longrightarrow> outcome_ok (odd_stored stored) r"
proof (induction rule: workspace_reached.induct)
  case read
  then show ?case
    using load_workspace_cases [of stored]
    by (cases "odd_current stored") (auto simp: outcome_ok_def odd_stored_def)
next
  case (event s e)
  then show ?case by (intro workspace_step_ok)
qed

section \<open>Names\<close>

text \<open>The user's own layouts have names of their own, none of a built-in one.\<close>

definition names_apart :: "workspace_state \<Rightarrow> bool" where
  "names_apart s =
     (distinct (map sl_name (ws_saved s)) \<and> list_all (\<lambda>sl. sl_name sl \<noteq> [] \<and> sl_name sl \<notin> sl_name ` set PRESETS) (ws_saved s))"

lemma newLayout_names: "names_apart s \<Longrightarrow> names_apart (newLayout s nm)"
  by (auto simp: newLayout_def names_apart_def list_ex_iff Let_def image_iff)

lemma saveAs_names: "names_apart s \<Longrightarrow> names_apart (saveAs s nm)"
  by (auto simp: saveAs_def names_apart_def list_ex_iff list_all_iff Let_def image_iff intro: distinct_map_filter)

lemma withLayout_names: "names_apart (withLayout same s l) = names_apart s"
proof -
  have "map sl_name (ws_saved (withLayout same s l)) = map sl_name (ws_saved s)"
    by (simp add: withLayout_def)
  then show ?thesis unfolding names_apart_def list_all_iff by (metis (no_types, lifting) list.set_map image_iff)
qed

lemma deleteLayout_names: "names_apart s \<Longrightarrow> names_apart (deleteLayout s nm)"
  by (auto simp: deleteLayout_def names_apart_def list_all_iff intro: distinct_map_filter)

section \<open>What holds of the workspace\<close>

text \<open>The built-in layouts have no gaps: it is enough to look at one cell beside each panel.\<close>

definition in_box :: "int \<times> int \<Rightarrow> placement \<Rightarrow> bool" where
  "in_box = (\<lambda>(x, y) p. pn_x p \<le> x \<and> x < pn_x p + pn_w p \<and> pn_y p \<le> y \<and> y < pn_y p + pn_h p)"

definition settled_check :: "layout \<Rightarrow> bool" where
  "settled_check l =
     list_all (\<lambda>p. list_all (\<lambda>dir. skips p dir \<or> \<not> in_box (front p dir) \<lparr>pn_i = [], pn_x = 0, pn_y = 0, pn_w = GRID_cols, pn_h = lowest GRID_rows l\<rparr> \<or>
                 list_ex (in_box (front p dir)) l) [GrowLeft, GrowRight, GrowUp, GrowDown]) l"

lemma settled_check:
  assumes "settled_check l" "list_all sized l"
  shows "settled l"
  unfolding settled_def
proof (intro ballI allI)
  fix p dir
  assume p: "p \<in> set l"
  show "skips p dir \<or> (\<exists>c \<in> set (strip p dir). c \<notin> in_grid (lowest GRID_rows l) \<or> (\<exists>q \<in> set l. c \<in> set (cells q)))"
  proof (cases "skips p dir")
    case False
    have "dir \<in> set [GrowLeft, GrowRight, GrowUp, GrowDown]" by (cases dir) simp_all
    with assms(1) p False
    have "\<not> in_box (front p dir) \<lparr>pn_i = [], pn_x = 0, pn_y = 0, pn_w = GRID_cols, pn_h = lowest GRID_rows l\<rparr> \<or>
          list_ex (in_box (front p dir)) l"
      unfolding settled_check_def list_all_iff by blast
    then have "front p dir \<notin> in_grid (lowest GRID_rows l) \<or> (\<exists>q \<in> set l. front p dir \<in> set (cells q))"
      by (cases "front p dir") (auto simp: in_box_def in_grid_def in_cells list_ex_iff)
    moreover have "front p dir \<in> set (strip p dir)"
      using assms(2) p False by (intro front_in_strip) (auto simp: list_all_iff)
    ultimately show ?thesis by blast
  qed simp
qed

lemma presets_check:
  "list_all (\<lambda>s. settled_check (sized_part (sl_layout s)) \<and> lowest GRID_rows (sized_part (sl_layout s)) < MAX_ROWS) PRESETS"
  by code_simp

lemma presets_filled:
  assumes s: "s \<in> set PRESETS"
  shows "fill_stored (sl_layout s) = Inr (sized_part (sl_layout s))"
proof -
  let ?l = "sized_part (sl_layout s)"
  have sz: "list_all sized ?l" using presets_ok [OF s] by (simp add: layout_ok_def layout_ok_sized)
  have "lowest GRID_rows ?l < MAX_ROWS" "settled ?l"
    using presets_check s sz by (auto simp: list_all_iff intro!: settled_check)
  then have "fillGaps ?l = Inr ?l" using sz by (intro fillGaps_settled)
  then show ?thesis using preset_sized [OF s] by (simp add: fill_stored_def)
qed

lemma default_filled: "fill_stored (sl_layout DEFAULT_PRESET) = Inr (sized_part (sl_layout DEFAULT_PRESET))"
  by (rule presets_filled) (simp add: PRESETS_def)

text \<open>C25: Filling the gaps of a layout that fits a grid ends, and gives every panel at least the cells it
  had, inside the grid, with no two panels overlapping that did not; afterwards no panel can grow in
  any direction it may take, the edge or another panel lying beside it, so filling the gaps again changes
  nothing. The stats bar keeps its height.\<close>

theorem gaps_filled:
  assumes "list_all sized l" "lowest GRID_rows l < MAX_ROWS"
  shows "\<exists>l'. fillGaps l = Inr l' \<and> grown_layout (lowest GRID_rows l) l l' \<and> settled l' \<and> fillGaps l' = Inr l'"
proof -
  from fillGaps_outcome [OF assms] obtain l' where l': "fillGaps l = Inr l'" "grown_layout (lowest GRID_rows l) l l'"
      "settled l'" "list_all sized l'" "lowest GRID_rows l' = lowest GRID_rows l" .
  then have "fillGaps l' = Inr l'" using assms(2) by (intro fillGaps_settled) simp_all
  with l'(1-3) show ?thesis by blast
qed

definition sample_layout :: layout where
  "sample_layout = [place MarketsPanel 2 3 4 5, place OrderBookPanel 10 3 4 5]"

theorem gaps_filled_witness:
  "\<exists>l'. fillGaps sample_layout = Inr l' \<and> grown_layout (lowest GRID_rows sample_layout) sample_layout l' \<and> settled l' \<and>
     fillGaps l' = Inr l'"
  by (rule gaps_filled)
    (simp_all add: sample_layout_def place_def sized_def lowest_def GRID_rows_def MAX_ROWS_def Let_def)

text \<open>A workspace as it first opens is not shown as changed.\<close>

lemma initial_unchanged: "\<not> isChanged initialWorkspace"
  by (simp add: isChanged_def initialWorkspace_def PRESETS_def default_filled)

lemma preset_by_name: "list_all (\<lambda>p. List.find (\<lambda>q. sl_name q = sl_name p) PRESETS = Some p) PRESETS"
  by code_simp

lemma built_in_unchanged: "workspace_step (ShowBuiltIn n) s = Inr s' \<Longrightarrow> n < length PRESETS \<Longrightarrow> \<not> isChanged s'"
proof -
  assume st: "workspace_step (ShowBuiltIn n) s = Inr s'" and n: "n < length PRESETS"
  then obtain p where p: "nth_opt PRESETS n = Some p" "p \<in> set PRESETS" using nth_opt_in [OF n] by blast
  with st presets_filled [OF p(2)] have s': "ws_layout s' = sized_part (sl_layout p)" "ws_active s' = sl_name p"
    by (auto simp: shown_def)
  have "List.find (\<lambda>q. sl_name q = sl_name p) PRESETS = Some p"
    using preset_by_name p(2) by (simp add: list_all_iff)
  with s' presets_filled [OF p(2)] show ?thesis by (simp add: isChanged_def)
qed

text \<open>C26: Reading the workspace ends, in a sound one, unless the layout stored as the current one has a panel named like
  something every object has, with whole numbers for its place and size: that panel is read without sizes, and filling
  the gaps then grows it for ever.\<close>

theorem workspace_reading_ends:
  "if odd_current stored then load_workspace stored = Inl Endless
   else \<exists>s. load_workspace stored = Inr s \<and> workspace_ok s"
  using load_workspace_cases [of stored] by (auto split: if_splits)

text \<open>A stored panel that hangs the page.\<close>

lemma inherited_name_hangs:
  "load_workspace (Some (Some (JObj [(''layout'', JArr [JObj [(''i'', JStr ''constructor:1''), (''x'', JNum 0), (''y'', JNum 0),
     (''w'', JNum 1), (''h'', JNum 1)]])]))) = Inl Endless"
proof -
  have "odd_current (Some (Some (JObj [(''layout'', JArr [JObj [(''i'', JStr ''constructor:1''), (''x'', JNum 0), (''y'', JNum 0),
     (''w'', JNum 1), (''h'', JNum 1)]])])))" by code_simp
  with load_workspace_cases show ?thesis by (metis (full_types))
qed

text \<open>C27: Whatever was stored, and however panels are then added, removed, dragged and resized, gaps filled, layouts shown,
  made, saved and deleted and the layout reset: the layout on screen keeps its panels within the columns, at least of
  their smallest size, each id once, and exactly one stats bar, and so does every saved one, but for stored panels
  without sizes. The only errors are a grid too tall and, where a stored layout has a panel without sizes, a loop
  that does not end. Of the grid it is supposed that it reports the panels it was given, within the columns, the stats bar
  of the size it had and none smaller than it may be.\<close>

theorem workspace_stays_sound:
  assumes "workspace_reached stored r"
  shows "case r of
      Inr s \<Rightarrow> layout_ok (ws_layout s) \<and> list_all (\<lambda>sl. stored_ok (sl_layout sl)) (ws_saved s) \<and>
               (\<not> odd_stored stored \<longrightarrow> list_all (\<lambda>sl. layout_ok (sized_part (sl_layout sl))) (ws_saved s))
    | Inl t \<Rightarrow> t = RangeError \<or> odd_stored stored"
  using reached_ok [OF assms] stored_ok_sized
  by (auto simp: outcome_ok_def workspace_ok_def list_all_iff split: sum.splits)

lemma workspace_stays_sound_witness:
  "\<exists>s. workspace_reached None (Inr s) \<and> layout_ok (ws_layout s) \<and> ws_layout s = reported (rev (ws_layout initialWorkspace))"
proof -
  let ?s = "initialWorkspace"
  have start: "workspace_reached None (Inr ?s)"
    using workspace_reached.read [of None] by (simp add: load_workspace_def)
  have "reported (ws_layout ?s) = ws_layout ?s"
    by (simp add: reported_def initialWorkspace_def DEFAULT_PRESET_def DROPPING_ID_def preset_simps)
  then have "reported (rev (ws_layout ?s)) = rev (ws_layout ?s)"
    unfolding reported_def rev_filter [symmetric] by simp
  moreover have "moved_item p p" if "place_ok p" for p using that by (auto simp: moved_item_def place_ok_def split: option.splits)
  then have "list_all2 moved_item (rev (ws_layout ?s)) (rev (ws_layout ?s))"
    using initial_ok by (intro list.rel_refl_strong) (auto simp: workspace_ok_def layout_ok_def list_all_iff)
  ultimately have "can_happen ?s (Moved (rev (ws_layout ?s)))"
    unfolding can_happen_def grid_reports_def by (auto intro: exI [of _ "rev (ws_layout ?s)"])
  from workspace_reached.event [OF start this]
  have "workspace_reached None (Inr (withLayout False ?s (reported (rev (ws_layout ?s)))))" by simp
  from this workspace_stays_sound [OF this] show ?thesis by (auto simp: withLayout_def)
qed

text \<open>Under an account panel over the whole width the stats bar is made without a width.\<close>

lemma bar_lost:
  "withStatsBar [Sized (place AccountPanel 0 0 24 4)] = [Sized (bar 0), Sized (place AccountPanel 0 0 24 4)]"
  by (simp add: withStatsBar_def top_right_def preset_simps)

section \<open>An expanded panel\<close>

text \<open>An expanded panel's area covers the panel (in the wide view, with the order book it was joined to; in the
  full view it is the window) and hides exactly the other panels that reach into it.\<close>

lemma expanded_hides_overlaps:
  assumes "expandedArea hypot l pid mode = Some a"
  shows "\<exists>panel \<in> set l. pn_i panel = pid \<and>
    ea_hidden a = map pn_i (filter (\<lambda>p. pn_i p \<noteq> pid \<and> overlaps p (ea_x a, ea_y a, ea_w a, ea_h a)) l) \<and>
    (mode = Wide \<longrightarrow> ea_x a \<le> pn_x panel \<and> ea_y a \<le> pn_y panel \<and>
       pn_x panel + pn_w panel \<le> ea_x a + ea_w a \<and> pn_y panel + pn_h panel \<le> ea_y a + ea_h a) \<and>
    (mode = Full \<longrightarrow> (ea_x a, ea_y a, ea_w a, ea_h a) = (0, 0, GRID_cols, GRID_rows))"
proof -
  from assms obtain panel where f: "List.find (\<lambda>p. pn_i p = pid) l = Some panel"
    by (auto simp: expandedArea_def split: option.splits)
  with assms find_SomeD [OF f] show ?thesis
    by (intro bexI [of _ panel])
      (auto simp: expandedArea_def joint_box_def Let_def split: option.splits expand_mode.splits prod.splits)
qed

end
