(* ===== verification/Commands.thy ===== *)
theory Commands
  imports Algos Position_Detail
begin

text \<open>
  Lines typed into the command palette, \<^verbatim>\<open>apps/desktop/src/lib/commands.ts\<close>: what a line asks for,
  the requests it comes to, the markets a search finds and the commands last run. What is shown of them is in
  \<^theory_text>\<open>Commands_Props\<close>.
\<close>

section \<open>What a line asks for\<close>

text \<open>A side as the table of words gives it. The table finds what every object has, too: for the words
  \<open>constructor\<close> and \<open>__proto__\<close> the code goes on with a side that is none.\<close>

datatype word_side = ASide side | NotASide

record order_intent =
  io_side :: word_side
  io_market :: market
  io_size :: string
  io_price :: "string option"
  io_to :: "string option"
  io_count :: "nat option"
  io_stopLoss :: "string option"
  io_takeProfit :: "string option"

record chase_intent =
  ic_side :: word_side
  ic_market :: market
  ic_size :: string
  ic_giveUpPct :: "jsnum option"
  ic_finish :: bool

record twap_intent =
  iw_side :: word_side
  iw_market :: market
  iw_size :: string
  iw_durationMs :: jsnum
  iw_slices :: "jsnum option"
  iw_chase :: bool

datatype exit_word = TpExit | SlExit

datatype intent =
    OrderIntent order_intent
  | ReduceIntent position market jsnum "string option"
  | ProtectIntent position market exit_word "string option"
  | CloseIntent position "market option"
  | CancelIntent "order list" "market option"
  | ChaseIntent chase_intent
  | TwapIntent twap_intent
  | HaltIntent

record command_context =
  cx_markets :: "market list"
  cx_current :: "market option"
  cx_positions :: "position list"
  cx_orders :: "order list"

definition SIDES :: "string \<Rightarrow> word_side option" where
  "SIDES w =
     (if w = ''buy'' \<or> w = ''long'' then Some (ASide Buy)
      else if w = ''sell'' \<or> w = ''short'' then Some (ASide Sell)
      else if w = ''constructor'' \<or> w = ''__proto__'' then Some NotASide
      else None)"

definition DEFAULT_SCALE :: nat where
  "DEFAULT_SCALE = 5"

definition MAX_SCALE :: nat where
  "MAX_SCALE = 10"

text \<open>\<open>/^\d*\.?\d+$/\<close>\<close>

definition plain_number :: "string \<Rightarrow> bool" where
  "plain_number s =
     (case dropWhile is_digit s of
        [] \<Rightarrow> s \<noteq> []
      | c # ds \<Rightarrow> c = CHR ''.'' \<and> ds \<noteq> [] \<and> list_all is_digit ds)"

definition amount_of :: "string option \<Rightarrow> string option" where
  "amount_of word =
     (case word of
        None \<Rightarrow> None
      | Some w \<Rightarrow>
          if w = [] then None
          else (let plain = filter (\<lambda>c. c \<noteq> CHR '','') w
                in if plain_number plain \<and> 0 < to_number plain then Some plain else None))"

definition is_amount :: "string \<Rightarrow> bool" where
  "is_amount w = (amount_of (Some w) \<noteq> None)"

text \<open>\<open>a ?? b\<close> over lookups.\<close>

definition or_find :: "'a option \<Rightarrow> 'a option \<Rightarrow> 'a option" where
  "or_find x y = (case x of Some v \<Rightarrow> Some v | None \<Rightarrow> y)"

definition coin_market :: "market list \<Rightarrow> market option \<Rightarrow> market option" where
  "coin_market coins current =
     or_find (List.find (\<lambda>m. Some (m_id m) = map_option m_id current) coins)
       (or_find (List.find (\<lambda>m. m_quote m = ''USDT'' \<and> CHR ''-'' \<notin> set (m_id m)) coins)
          (or_find (List.find (\<lambda>m. m_quote m = ''USDT'') coins)
             (or_find (List.find (\<lambda>m. m_quote m = ''USDC'') coins) (nth_opt coins 0))))"

definition findMarket :: "string \<Rightarrow> market list \<Rightarrow> market option \<Rightarrow> market option" where
  "findMarket word markets current =
     (let w = to_upper word;
          named = or_find (List.find (\<lambda>m. to_upper (m_id m) = w) markets)
                    (List.find (\<lambda>m. to_upper (m_symbol m) = w) markets)
      in case named of
           Some m \<Rightarrow> Some m
         | None \<Rightarrow> coin_market (filter (\<lambda>m. to_upper (m_base m) = w) markets) current)"

text \<open>\<open>word ? findMarket(word) : current\<close>\<close>

definition market_of :: "string option \<Rightarrow> command_context \<Rightarrow> market option" where
  "market_of word ctx =
     (case word of
        None \<Rightarrow> cx_current ctx
      | Some w \<Rightarrow> if w = [] then cx_current ctx else findMarket w (cx_markets ctx) (cx_current ctx))"

text \<open>The size a word asks for on a market: cut to its step, and at least its minimum.\<close>

definition sized_on :: "market \<Rightarrow> string option \<Rightarrow> string option" where
  "sized_on m word =
     (let (sz, text) = roundToStep (opt_number word) (m_sizeStep m)
      in if sz \<le> 0 \<or> sz < to_number (m_minSize m) then None else Some text)"

definition one_of_each :: "string list \<Rightarrow> string option \<Rightarrow> string option \<Rightarrow> bool" where
  "one_of_each words szWord coinWord =
     (szWord \<noteq> None \<and> length words - (if coinWord = None \<or> coinWord = Some [] then 0 else 1) = 1)"

definition sizeAndMarket :: "string list \<Rightarrow> command_context \<Rightarrow> (string \<times> market) option" where
  "sizeAndMarket words ctx =
     (let szWord = List.find is_amount words; coinWord = List.find (\<lambda>w. \<not> is_amount w) words
      in if words = [] \<or> 2 < length words \<or> \<not> one_of_each words szWord coinWord then None
         else case market_of coinWord ctx of
                None \<Rightarrow> None
              | Some m \<Rightarrow> map_option (\<lambda>text. (text, m)) (sized_on m (amount_of szWord)))"

text \<open>\<open>rest.splice(i, n)\<close>\<close>

definition splice :: "nat \<Rightarrow> nat \<Rightarrow> 'a list \<Rightarrow> 'a list" where
  "splice i n xs = take i xs @ drop (i + n) xs"

definition side_at :: "string list \<Rightarrow> nat \<Rightarrow> word_side option" where
  "side_at words i = SIDES (or_else (nth_opt words i) [])"

definition before_percent :: "string option \<Rightarrow> string option" where
  "before_percent word =
     (case word of None \<Rightarrow> None | Some w \<Rightarrow> if w \<noteq> [] \<and> last w = CHR ''%'' then Some (butlast w) else None)"

section \<open>Chasers and TWAPs\<close>

definition chase_finish :: "string list \<Rightarrow> (bool \<times> string list) option" where
  "chase_finish rest =
     (case find_index (\<lambda>w. w = ''then'') rest of
        None \<Rightarrow> Some (False, rest)
      | Some i \<Rightarrow> if nth_opt rest (i + 1) \<noteq> Some ''market'' then None else Some (True, splice i 2 rest))"

definition chase_give_up :: "string list \<Rightarrow> (jsnum option \<times> string list) option" where
  "chase_give_up rest =
     (case find_index (\<lambda>w. w = ''to'') rest of
        None \<Rightarrow> Some (None, rest)
      | Some i \<Rightarrow>
          let pct = (case before_percent (nth_opt rest (i + 1)) of None \<Rightarrow> NaN | Some w \<Rightarrow> opt_number (amount_of (Some w)))
          in if \<not> (0 < pct \<and> pct \<le> Fin 50) then None else Some (Some pct, splice i 2 rest))"

definition parseChase :: "string list \<Rightarrow> command_context \<Rightarrow> intent option" where
  "parseChase words ctx =
     (case side_at words 0 of
        None \<Rightarrow> None
      | Some sd \<Rightarrow>
          (case chase_finish (drop 1 words) of
             None \<Rightarrow> None
           | Some (finish, rest) \<Rightarrow>
               (case chase_give_up rest of
                  None \<Rightarrow> None
                | Some (giveUp, rest') \<Rightarrow>
                    if finish \<and> giveUp = None then None
                    else map_option
                           (\<lambda>(sz, m). ChaseIntent \<lparr>ic_side = sd, ic_market = m, ic_size = sz, ic_giveUpPct = giveUp, ic_finish = finish\<rparr>)
                           (sizeAndMarket rest' ctx))))"

definition is_duration :: "string \<Rightarrow> bool" where
  "is_duration w = (parseDuration (Some w) \<noteq> None \<and> \<not> is_amount w)"

definition is_slices :: "string \<Rightarrow> bool" where
  "is_slices w = (w \<noteq> [] \<and> hd w = CHR ''x'' \<and> tl w \<noteq> [] \<and> list_all is_digit (tl w))"

definition is_integer :: "jsnum \<Rightarrow> bool" where
  "is_integer n = (case n of Fin q \<Rightarrow> q = of_int \<lfloor>q\<rfloor> | _ \<Rightarrow> False)"

definition twap_duration :: "string list \<Rightarrow> (jsnum \<times> string list) option" where
  "twap_duration kept =
     (case find_index is_duration kept of
        None \<Rightarrow> None
      | Some i \<Rightarrow>
          let ms = or_else (parseDuration (nth_opt kept i)) 0
          in if ms < TWAP_MIN_MS \<or> TWAP_MAX_MS < ms then None else Some (ms, splice i 1 kept))"

definition twap_slices :: "string list \<Rightarrow> (jsnum option \<times> string list) option" where
  "twap_slices kept =
     (case find_index is_slices kept of
        None \<Rightarrow> Some (None, kept)
      | Some i \<Rightarrow>
          let n = opt_number (map_option (drop 1) (nth_opt kept i))
          in if \<not> is_integer n \<or> n < 1 \<or> MAX_SLICES < n then None else Some (Some n, splice i 1 kept))"

definition parseTwap :: "string list \<Rightarrow> command_context \<Rightarrow> intent option" where
  "parseTwap words ctx =
     (case side_at words 0 of
        None \<Rightarrow> None
      | Some sd \<Rightarrow>
          let rest = filter (\<lambda>w. w \<noteq> ''over'' \<and> w \<noteq> ''in'') (drop 1 words); chase = (''chase'' \<in> set rest);
              kept = filter (\<lambda>w. w \<noteq> ''chase'') rest
          in (case twap_duration kept of
                None \<Rightarrow> None
              | Some (ms, kept') \<Rightarrow>
                  (case twap_slices kept' of
                     None \<Rightarrow> None
                   | Some (slices, kept'') \<Rightarrow>
                       map_option
                         (\<lambda>(sz, m). TwapIntent \<lparr>iw_side = sd, iw_market = m, iw_size = sz, iw_durationMs = ms, iw_slices = slices,
                                               iw_chase = chase\<rparr>)
                         (sizeAndMarket kept'' ctx))))"

section \<open>Orders\<close>

definition percent :: "string option \<Rightarrow> jsnum option" where
  "percent word =
     (case before_percent word of
        None \<Rightarrow> None
      | Some w \<Rightarrow>
          (case amount_of (Some w) of
             None \<Rightarrow> None
           | Some v \<Rightarrow> if to_number v \<le> Fin 100 then Some (to_number v div Fin 100) else None))"

definition scaleCount :: "string list \<Rightarrow> nat option" where
  "scaleCount words =
     (if words = [] then Some DEFAULT_SCALE
      else let with_in = (nth_opt words 0 = Some ''in''); ws = (if with_in then drop 1 words else words);
               first = nth_opt ws 0; second = nth_opt ws 1
           in if (if with_in then 3 else 2) < length words then None
              else if second \<noteq> None \<and> second \<noteq> Some ''orders'' then None
              else case opt_number (map_option (\<lambda>w. if starts_with w ''x'' then drop 1 w else w) first) of
                     Fin q \<Rightarrow> if q = of_int \<lfloor>q\<rfloor> \<and> 2 \<le> q \<and> q \<le> of_nat MAX_SCALE then Some (nat \<lfloor>q\<rfloor>) else None
                   | _ \<Rightarrow> None)"

definition is_sl :: "string \<Rightarrow> bool" where "is_sl w = (w = ''sl'')"
definition is_tp :: "string \<Rightarrow> bool" where "is_tp w = (w = ''tp'')"

definition take_exit :: "(string \<Rightarrow> bool) \<Rightarrow> string list \<Rightarrow> (string option \<times> string list) option" where
  "take_exit named rest =
     (case find_index named rest of
        None \<Rightarrow> Some (None, rest)
      | Some i \<Rightarrow>
          (case amount_of (nth_opt rest (i + 1)) of None \<Rightarrow> None | Some price \<Rightarrow> Some (Some price, splice i 2 rest)))"

record price_words =
  pw_price :: "string option"
  pw_to :: "string option"
  pw_count :: "nat option"

definition range_of :: "string \<Rightarrow> string list \<Rightarrow> price_words option" where
  "range_of price after =
     (if length after \<le> 1 then Some \<lparr>pw_price = Some price, pw_to = None, pw_count = None\<rparr>
      else case (if nth_opt after 1 = Some ''to'' then amount_of (nth_opt after 2) else None, scaleCount (drop 3 after)) of
             (Some to, Some n) \<Rightarrow>
               if to = price then None else Some \<lparr>pw_price = Some price, pw_to = Some to, pw_count = Some n\<rparr>
           | _ \<Rightarrow> None)"

text \<open>The price: whatever follows \<open>at\<close> or \<open>@\<close>, and the words before it.\<close>

definition take_price :: "string list \<Rightarrow> (price_words \<times> string list) option" where
  "take_price rest =
     (case find_index (\<lambda>w. w = ''at'' \<or> starts_with w ''@'') rest of
        None \<Rightarrow> Some (\<lparr>pw_price = None, pw_to = None, pw_count = None\<rparr>, rest)
      | Some i \<Rightarrow>
          let tail = concat (map (\<lambda>w. if starts_with w ''@'' then [''at'', drop 1 w] else [w]) (drop i rest));
              after = drop 1 (filter (\<lambda>w. w \<noteq> []) tail)
          in (case amount_of (nth_opt after 0) of
                None \<Rightarrow> None
              | Some price \<Rightarrow> map_option (\<lambda>pw. (pw, take i rest)) (range_of price after)))"

text \<open>The parts of a scaled order: the size of each and their prices.\<close>

definition scaled_parts :: "order_intent \<Rightarrow> (string \<times> string list) option" where
  "scaled_parts io =
     (let m = io_market io; n = or_else (io_count io) DEFAULT_SCALE; from = opt_number (io_price io);
          until = opt_number (io_to io); tick = to_number (m_tickSize m);
          (psz, ptext) = roundToStep (to_number (io_size io) div Fin (of_nat n)) (m_sizeStep m);
          places = decimalsOf (m_tickSize m)
      in if \<not> 0 < from \<or> \<not> 0 < until \<or> \<not> 0 < tick \<or> n < 2 then None
         else if psz \<le> 0 \<or> psz < to_number (m_minSize m) then None
         else Some (ptext,
                map (\<lambda>i. let raw = from + ((until - from) * Fin (of_nat i)) div Fin (of_nat (n - 1))
                         in to_fixed places (math_round (raw div tick + num (1 / 10 ^ 9)) * tick)) [0..<n]))"

definition opposite :: "position_side \<Rightarrow> side" where
  "opposite s = (if s = Long then Sell else Buy)"

definition position_on :: "command_context \<Rightarrow> market \<Rightarrow> position option" where
  "position_on ctx m = List.find (\<lambda>p. p_market p = m_id m) (cx_positions ctx)"

definition is_size :: "string \<Rightarrow> bool" where
  "is_size w = (is_amount w \<or> percent (Some w) \<noteq> None)"

text \<open>A share of the position: only on the side that takes it off, never scaled, with no exits.\<close>

definition reduce_intent :: "word_side \<Rightarrow> market \<Rightarrow> jsnum \<Rightarrow> price_words \<Rightarrow> bool \<Rightarrow> command_context \<Rightarrow> intent option" where
  "reduce_intent sd m fraction pw withExits ctx =
     (case position_on ctx m of
        None \<Rightarrow> None
      | Some p \<Rightarrow>
          if ASide (opposite (p_side p)) = sd \<and> pw_to pw = None \<and> \<not> withExits
          then Some (ReduceIntent p m fraction (pw_price pw)) else None)"

definition sized_order :: "order_intent \<Rightarrow> intent option" where
  "sized_order io = (if io_to io \<noteq> None \<and> scaled_parts io = None then None else Some (OrderIntent io))"

definition parse_order :: "word_side \<Rightarrow> string list \<Rightarrow> command_context \<Rightarrow> intent option" where
  "parse_order sd words ctx =
     (case take_exit is_sl words of None \<Rightarrow> None | Some (sl, ws1) \<Rightarrow>
     (case take_exit is_tp ws1 of None \<Rightarrow> None | Some (tp, ws2) \<Rightarrow>
     (case take_price ws2 of None \<Rightarrow> None | Some (pw, rest) \<Rightarrow>
        (let szWord = List.find is_size rest; coinWord = List.find (\<lambda>w. \<not> is_size w) rest
         in if rest = [] \<or> 2 < length rest \<or> \<not> one_of_each rest szWord coinWord then None
            else case market_of coinWord ctx of
                   None \<Rightarrow> None
                 | Some m \<Rightarrow>
                     (case percent szWord of
                        Some fraction \<Rightarrow> reduce_intent sd m fraction pw (sl \<noteq> None \<or> tp \<noteq> None) ctx
                      | None \<Rightarrow>
                          (case sized_on m (amount_of szWord) of
                             None \<Rightarrow> None
                           | Some text \<Rightarrow>
                               sized_order \<lparr>io_side = sd, io_market = m, io_size = text, io_price = pw_price pw, io_to = pw_to pw,
                                            io_count = pw_count pw, io_stopLoss = sl, io_takeProfit = tp\<rparr>))))))"

section \<open>The other commands\<close>

definition parse_protect :: "exit_word \<Rightarrow> string list \<Rightarrow> command_context \<Rightarrow> intent option" where
  "parse_protect exit words ctx =
     (let value = (if words = [] then [] else last words);
          market = (if length words = 3 then findMarket (or_else (nth_opt words 1) []) (cx_markets ctx) (cx_current ctx)
                    else cx_current ctx)
      in case market of
           None \<Rightarrow> None
         | Some m \<Rightarrow>
             (case position_on ctx m of
                None \<Rightarrow> None
              | Some p \<Rightarrow>
                  if value = ''off'' \<or> value = ''remove'' then Some (ProtectIntent p m exit None)
                  else (case amount_of (Some value) of
                          None \<Rightarrow> None | Some price \<Rightarrow> Some (ProtectIntent p m exit (Some price)))))"

definition parse_close :: "string list \<Rightarrow> command_context \<Rightarrow> intent option" where
  "parse_close words ctx =
     (case market_of (nth_opt words 1) ctx of
        None \<Rightarrow> None
      | Some m \<Rightarrow> map_option (\<lambda>p. CloseIntent p (Some m)) (position_on ctx m))"

definition parse_cancel :: "string list \<Rightarrow> command_context \<Rightarrow> intent option" where
  "parse_cancel words ctx =
     (let all = (nth_opt words 1 = Some ''all'');
          coin = (if all then nth_opt words 2 else if length words = 2 then nth_opt words 1 else None);
          named = (coin \<noteq> None \<and> coin \<noteq> Some []);
          market = (if named then findMarket (the coin) (cx_markets ctx) (cx_current ctx) else None);
          orders = (case market of Some m \<Rightarrow> filter (\<lambda>o'. o_market o' = m_id m) (cx_orders ctx) | None \<Rightarrow> cx_orders ctx)
      in if \<not> all \<and> \<not> named then None
         else if named \<and> market = None then None
         else if orders = [] then None else Some (CancelIntent orders market))"

definition parse_words :: "string list \<Rightarrow> command_context \<Rightarrow> intent option" where
  "parse_words words ctx =
     (case words of
        [] \<Rightarrow> None
      | verb # rest \<Rightarrow>
          if verb = ''halt'' \<and> rest = [] then Some HaltIntent
          else if verb = ''chase'' then parseChase rest ctx
          else if verb = ''twap'' then parseTwap rest ctx
          else case SIDES verb of
                 Some sd \<Rightarrow> parse_order sd rest ctx
               | None \<Rightarrow>
                   if (verb = ''tp'' \<or> verb = ''sl'') \<and> 2 \<le> length words \<and> length words \<le> 3
                   then parse_protect (if verb = ''tp'' then TpExit else SlExit) words ctx
                   else if verb = ''close'' \<and> length words \<le> 2 then parse_close words ctx
                   else if verb = ''cancel'' \<and> 2 \<le> length words \<and> length words \<le> 3 then parse_cancel words ctx
                   else None)"

definition parseCommand :: "string \<Rightarrow> command_context \<Rightarrow> intent option" where
  "parseCommand text ctx = parse_words (words_of (to_lower text)) ctx"

section \<open>What an order comes to\<close>

definition kept_exit :: "string option \<Rightarrow> string option" where
  "kept_exit v = (case v of Some s \<Rightarrow> if s = [] then None else Some s | None \<Rightarrow> None)"

definition request_of :: "order_intent \<Rightarrow> side \<Rightarrow> string \<Rightarrow> order_kind \<Rightarrow> order_request" where
  "request_of io sd sz kind =
     \<lparr>r_market = m_id (io_market io), r_side = sd, r_size = sz, r_reduceOnly = False, r_collateral = None,
      r_clientId = None, r_takeProfit = kept_exit (io_takeProfit io), r_stopLoss = kept_exit (io_stopLoss io), r_kind = kind\<rparr>"

text \<open>The request of an order on a side; \<open>atMarket\<close> as the code's default has it is \<open>io_price io = None\<close>.\<close>

definition orderFor :: "order_intent \<Rightarrow> side \<Rightarrow> jsnum \<Rightarrow> bool \<Rightarrow> order_request" where
  "orderFor io sd maxSlippageBps atMarket =
     (case io_price io of
        Some price \<Rightarrow> request_of io sd (io_size io) (if atMarket then MarketKind maxSlippageBps else LimitKind price None)
      | None \<Rightarrow> request_of io sd (io_size io) (MarketKind maxSlippageBps))"

definition scaledOrders :: "order_intent \<Rightarrow> side \<Rightarrow> order_request list option" where
  "scaledOrders io sd =
     map_option (\<lambda>(part, prices). map (\<lambda>price. request_of io sd part (LimitKind price None)) prices) (scaled_parts io)"

definition protectionFor :: "exit_word \<Rightarrow> string option \<Rightarrow> position_protection" where
  "protectionFor exit price =
     (let change = (case kept_exit price of Some p \<Rightarrow> SetExit p | None \<Rightarrow> RemoveExit)
      in \<lparr>pr_takeProfit = (if exit = TpExit then change else KeepExit),
          pr_stopLoss = (if exit = SlExit then change else KeepExit), pr_trailingStop = KeepExit,
          pr_trailingActivation = None\<rparr>)"

section \<open>Searching markets, and the commands last run\<close>

fun has_part :: "string \<Rightarrow> string \<Rightarrow> bool" where
  "has_part [] q = (q = [])"
| "has_part (c # cs) q = (starts_with (c # cs) q \<or> has_part cs q)"

definition search_rank :: "string \<Rightarrow> market \<Rightarrow> nat option" where
  "search_rank q m =
     (let names = [to_upper (m_base m), to_upper (m_id m), to_upper (m_symbol m)]
      in if to_upper (m_base m) = q then Some 0
         else if list_ex (\<lambda>n. n = q) names then Some 1
         else if starts_with (to_upper (m_base m)) q then Some 2
         else if list_ex (\<lambda>n. starts_with n q) names then Some 3
         else if list_ex (\<lambda>n. has_part n q) names then Some 4 else None)"

definition ranked :: "string \<Rightarrow> market list \<Rightarrow> (nat \<times> nat \<times> market) list" where
  "ranked q markets =
     List.map_filter (\<lambda>(i, m). map_option (\<lambda>r. (r, i, m)) (search_rank q m)) (zip [0..<length markets] markets)"

definition searchMarkets :: "string \<Rightarrow> market list \<Rightarrow> nat \<Rightarrow> market list" where
  "searchMarkets query markets limit =
     (let q = to_upper (js_trim query)
      in if q = [] \<or> list_ex is_space q then []
         else map (\<lambda>x. snd (snd x))
                (take limit (js_sort (\<lambda>a b. fst a < fst b \<or> fst a = fst b \<and> fst (snd a) < fst (snd b)) (ranked q markets))))"

definition MAX_RECENT :: nat where
  "MAX_RECENT = 6"

record recent_command =
  rc_text :: string
  rc_time :: jsnum

definition recent_from :: "json \<Rightarrow> recent_command option" where
  "recent_from r =
     (case (as_str (field r ''text''), as_num (field r ''time'')) of
        (Some text, Some time) \<Rightarrow> if length text \<le> 80 then Some \<lparr>rc_text = text, rc_time = time\<rparr> else None
      | _ \<Rightarrow> None)"

text \<open>\<open>stored\<close>: what the stored text parses to; nothing stored is an empty list, and \<open>None\<close> does not parse.\<close>

definition loadRecent :: "json option \<Rightarrow> recent_command list" where
  "loadRecent stored = take MAX_RECENT (List.map_filter recent_from (arr_or_nil stored))"

definition withRecent :: "recent_command list \<Rightarrow> string \<Rightarrow> jsnum \<Rightarrow> recent_command list" where
  "withRecent recent text time =
     (let line = to_lower (js_trim text)
      in if line = [] then recent
         else take MAX_RECENT (\<lparr>rc_text = line, rc_time = time\<rparr> # filter (\<lambda>r. rc_text r \<noteq> line) recent))"

definition saveRecent :: "recent_command list \<Rightarrow> json" where
  "saveRecent recent = JArr (map (\<lambda>r. JObj [(''text'', JStr (rc_text r)), (''time'', num_json (rc_time r))]) recent)"

end
