(* ===== verification/Cli.thy ===== *)
theory Cli
  imports Commands Tabs
begin

text \<open>
  The command line panel, \<^verbatim>\<open>apps/desktop/src/lib/cli.ts\<close>, and the closing requests and risk
  warning it shares with the floating widget, \<^verbatim>\<open>float.ts\<close>: what a line asks for and what is sent.
\<close>

section \<open>The widget's requests\<close>

definition RISK_WITHIN :: jsnum where
  "RISK_WITHIN = num (2 / 100)"

definition RISK_CLEAR :: jsnum where
  "RISK_CLEAR = num (3 / 100)"

definition HOLD_MS :: jsnum where
  "HOLD_MS = Fin 400"

definition positionKey :: "position \<Rightarrow> string" where
  "positionKey p = p_market p @ '':'' @ (if p_side p = Long then ''long'' else ''short'')"

definition liquidationDistance :: "position \<Rightarrow> jsnum option" where
  "liquidationDistance p =
     (let mark = to_number (p_markPrice p); liq = opt_number (p_liquidationPrice p)
      in if p_liquidationPrice p = None \<or> p_liquidationPrice p = Some [] \<or> \<not> 0 < mark \<or> \<not> 0 < liq then None
         else Some (\<bar>mark - liq\<bar> div mark))"

text \<open>\<open>snoozed\<close> gives until when a position's alert is snoozed, 0 where it is not.\<close>

fun riskiest_from :: "(string \<Rightarrow> jsnum) \<Rightarrow> jsnum \<Rightarrow> position list \<Rightarrow> (position \<times> jsnum) option \<Rightarrow> (position \<times> jsnum) option" where
  "riskiest_from snoozed now [] worst = worst"
| "riskiest_from snoozed now (p # ps) worst =
     (case liquidationDistance p of
        None \<Rightarrow> riskiest_from snoozed now ps worst
      | Some d \<Rightarrow>
          if RISK_WITHIN < d \<or> now < snoozed (positionKey p) then riskiest_from snoozed now ps worst
          else riskiest_from snoozed now ps
                 (case worst of None \<Rightarrow> Some (p, d) | Some (q, e) \<Rightarrow> if d < e then Some (p, d) else worst))"

definition riskiest :: "position list \<Rightarrow> (string \<Rightarrow> jsnum option) \<Rightarrow> jsnum \<Rightarrow> (position \<times> jsnum) option" where
  "riskiest ps snoozed now = riskiest_from (\<lambda>k. or_else (snoozed k) 0) now ps None"

text \<open>\<open>step.includes(".") ? step.split(".")[1].length : 0\<close>: the digits up to a second point, if there is one.\<close>

definition places_in :: "decimal \<Rightarrow> nat" where
  "places_in step =
     (case dropWhile (\<lambda>c. c \<noteq> CHR ''.'') step of
        [] \<Rightarrow> 0
      | c # rest \<Rightarrow> length (takeWhile (\<lambda>c. c \<noteq> CHR ''.'') rest))"

definition closeRequest :: "position \<Rightarrow> market option \<Rightarrow> jsnum \<Rightarrow> jsnum \<Rightarrow> order_request" where
  "closeRequest p mk fraction maxSlippageBps =
     (let whole = p_size p;
          sz = (case mk of
                  None \<Rightarrow> whole
                | Some m \<Rightarrow>
                    let step = to_number (m_sizeStep m);
                        part = math_floor ((to_number whole * fraction) div step + num (1 / 10 ^ 9)) * step
                    in if fraction < 1 \<and> 0 < step \<and> to_number (m_minSize m) \<le> part \<and> 0 < part
                       then to_fixed (places_in (m_sizeStep m)) part else whole)
      in \<lparr>r_market = p_market p, r_side = opposite (p_side p), r_size = sz, r_reduceOnly = True, r_collateral = None,
          r_clientId = None, r_takeProfit = None, r_stopLoss = None, r_kind = MarketKind maxSlippageBps\<rparr>)"

definition slippageBps :: "jsnum \<Rightarrow> jsnum" where
  "slippageBps maxSlippage = math_min (Fin 1000) (math_max 1 (math_round (maxSlippage * Fin 10000)))"

section \<open>Lines\<close>

datatype plain_word = HelpWord | ClearWord | PositionsWord | OrdersWord | BalanceWord

text \<open>\<open>OddWord\<close>: the table of words found what every object has, for the lines \<open>constructor\<close> and \<open>__proto__\<close>.\<close>

datatype cli_command =
    PlainCommand plain_word
  | OddWord
  | PriceCommand market
  | MarketCommand market
  | PageCommand page
  | TradeCommand intent
  | MissingMarket string
  | MissingPage string
  | UnknownCommand

definition WORDS :: "(string \<times> plain_word) list" where
  "WORDS =
     [(''help'', HelpWord), (''?'', HelpWord), (''clear'', ClearWord), (''cls'', ClearWord), (''positions'', PositionsWord),
      (''pos'', PositionsWord), (''orders'', OrdersWord), (''balance'', BalanceWord), (''bal'', BalanceWord),
      (''equity'', BalanceWord)]"

definition plain_command :: "string \<Rightarrow> cli_command option" where
  "plain_command w =
     (case obj_get WORDS w of
        Some word \<Rightarrow> Some (PlainCommand word)
      | None \<Rightarrow> if w = ''constructor'' \<or> w = ''__proto__'' then Some OddWord else None)"

definition pageNamed :: "string \<Rightarrow> page option" where
  "pageNamed w = obj_get PAGES w"

definition parseLine :: "string \<Rightarrow> command_context \<Rightarrow> cli_command option" where
  "parseLine text ctx =
     (let words = words_of (to_lower text); second = nth_opt words 1
      in case words of
           [] \<Rightarrow> None
         | first # rest \<Rightarrow>
             (case (if rest = [] then plain_command first else None) of
                Some c \<Rightarrow> Some c
              | None \<Rightarrow>
                  if first \<in> {''price'', ''p'', ''market'', ''m''}
                  then (case market_of second ctx of
                          None \<Rightarrow> Some (MissingMarket (or_else second []))
                        | Some m \<Rightarrow> Some (if first = ''price'' \<or> first = ''p'' then PriceCommand m else MarketCommand m))
                  else if first \<in> {''go'', ''page''}
                  then (case (case second of Some w \<Rightarrow> pageNamed w | None \<Rightarrow> None) of
                          None \<Rightarrow> Some (MissingPage (or_else second []))
                        | Some p \<Rightarrow> Some (PageCommand p))
                  else (case parseCommand text ctx of Some i \<Rightarrow> Some (TradeCommand i) | None \<Rightarrow> Some UnknownCommand)))"

section \<open>What is sent\<close>

text \<open>\<open>OddSide\<close>: an order or algo whose side is none.\<close>

datatype cli_action =
    SendOrders "order_request list"
  | SendCancel "order list"
  | SendProtect position position_protection
  | StartAlgo "algo_spec option"
  | OddSide
  | HaltAlgos

definition chase_input :: "side \<Rightarrow> chase_intent \<Rightarrow> chaser_input" where
  "chase_input sd i =
     \<lparr>in_side = sd, in_market = ic_market i, in_size = ic_size i, in_reduceOnly = None, ci_postOnly = None,
      ci_giveUpPct = ic_giveUpPct i, ci_finishAtMarket = Some (ic_finish i)\<rparr>"

definition twap_input_of :: "side \<Rightarrow> twap_intent \<Rightarrow> twap_input" where
  "twap_input_of sd i =
     \<lparr>in_side = sd, in_market = iw_market i, in_size = iw_size i, in_reduceOnly = None, ti_durationMs = iw_durationMs i,
      ti_slices = iw_slices i, ti_randomize = None,
      ti_style = Some (if iw_chase i then StyleChaser else StyleMarket), ti_unfilled = None, ti_native = None\<rparr>"

definition order_requests :: "order_intent \<Rightarrow> side \<Rightarrow> jsnum \<Rightarrow> order_request list" where
  "order_requests io sd maxSlippageBps =
     (case (if io_to io = None \<or> io_to io = Some [] then None else scaledOrders io sd) of
        Some rs \<Rightarrow> rs
      | None \<Rightarrow> [orderFor io sd maxSlippageBps (io_price io = None)])"

definition reduce_request :: "position \<Rightarrow> market \<Rightarrow> jsnum \<Rightarrow> string option \<Rightarrow> jsnum \<Rightarrow> order_request" where
  "reduce_request p m fraction price maxSlippageBps =
     (let base = closeRequest p (Some m) fraction maxSlippageBps
      in case kept_exit price of
           None \<Rightarrow> base
         | Some limit \<Rightarrow> base\<lparr>r_kind := LimitKind limit None\<rparr>)"

definition actionFor :: "intent \<Rightarrow> jsnum \<Rightarrow> algo_target option \<Rightarrow> cli_action" where
  "actionFor i maxSlippageBps target =
     (case i of
        ChaseIntent c \<Rightarrow>
          (case ic_side c of
             NotASide \<Rightarrow> OddSide | ASide sd \<Rightarrow> StartAlgo (map_option (chaserSpec (chase_input sd c)) target))
      | TwapIntent w \<Rightarrow>
          (case iw_side w of
             NotASide \<Rightarrow> OddSide | ASide sd \<Rightarrow> StartAlgo (map_option (twapSpec (twap_input_of sd w)) target))
      | HaltIntent \<Rightarrow> HaltAlgos
      | OrderIntent io \<Rightarrow>
          (case io_side io of NotASide \<Rightarrow> OddSide | ASide sd \<Rightarrow> SendOrders (order_requests io sd maxSlippageBps))
      | ReduceIntent p m fraction price \<Rightarrow> SendOrders [reduce_request p m fraction price maxSlippageBps]
      | CloseIntent p m \<Rightarrow> SendOrders [closeOrder p (CloseMarket maxSlippageBps)]
      | ProtectIntent p m exit price \<Rightarrow> SendProtect p (protectionFor exit price)
      | CancelIntent orders m \<Rightarrow> SendCancel orders)"

section \<open>The panel's screen\<close>

definition withHistory :: "string list \<Rightarrow> string \<Rightarrow> nat \<Rightarrow> string list" where
  "withHistory history line maxLines =
     (let text = js_trim line
      in if text = [] \<or> (history \<noteq> [] \<and> last history = text) then history
         else take_last maxLines (history @ [text]))"

datatype line_tone = ToneIn | ToneOut | ToneOk | ToneWarn | ToneErr | ToneDim

definition TONES :: "(string \<times> line_tone) list" where
  "TONES = [(''in'', ToneIn), (''out'', ToneOut), (''ok'', ToneOk), (''warn'', ToneWarn), (''err'', ToneErr), (''dim'', ToneDim)]"

record cli_line =
  cl_id :: nat
  cl_tone :: line_tone
  cl_text :: string

record cli_session =
  cs_lines :: "cli_line list"
  cs_history :: "string list"
  cs_input :: string
  cs_pending :: bool

definition line_from :: "nat \<times> json \<Rightarrow> cli_line option" where
  "line_from = (\<lambda>(n, l).
     case (name_in TONES (field l ''tone''), as_str (field l ''text'')) of
       (Some tone, Some text) \<Rightarrow> Some \<lparr>cl_id = n, cl_tone = tone, cl_text = text\<rparr>
     | _ \<Rightarrow> None)"

definition restoreSession :: "json \<Rightarrow> cli_session option" where
  "restoreSession saved =
     (case field saved ''lines'' of
        Some (JArr ls) \<Rightarrow>
          Some \<lparr>cs_lines = List.map_filter line_from (zip [0..<length ls] ls),
                cs_history = List.map_filter (\<lambda>h. as_str (Some h)) (arr_or_nil (field saved ''history'')),
                cs_input = or_else (as_str (field saved ''input'')) [],
                cs_pending = (as_bool (field saved ''pending'') = Some True)\<rparr>
      | _ \<Rightarrow> None)"

text \<open>\<open>stored\<close>: what the session's storage parses to; \<open>None\<close> where nothing is stored or it does not parse.\<close>

definition loadSession :: "json option \<Rightarrow> cli_session option" where
  "loadSession stored = (case stored of None \<Rightarrow> None | Some v \<Rightarrow> restoreSession v)"

definition line_json :: "cli_line \<Rightarrow> json" where
  "line_json l = JObj [(''id'', JNum (Fin (of_nat (cl_id l)))), (''tone'', JStr (name_of TONES (cl_tone l))), (''text'', JStr (cl_text l))]"

definition saveSession :: "cli_session \<Rightarrow> json" where
  "saveSession s =
     JObj [(''lines'', JArr (map line_json (cs_lines s))), (''history'', JArr (map JStr (cs_history s))),
           (''input'', JStr (cs_input s)), (''pending'', JBool (cs_pending s))]"

end
