(* ===== verification/Commands_Props.thy ===== *)
theory Commands_Props
  imports Cli Paper_Account Interfaces
begin

text \<open>
  What holds of typed commands: what is understood is only ever about the market named or on screen, open positions
  and orders, with sizes the market takes and prices above nothing; a scaled order is its parts, evenly spread; a line that closes or takes
  off only makes a position of the paper account smaller.
\<close>

section \<open>Words and amounts\<close>

lemma amount_positive: "amount_of w = Some v \<Longrightarrow> plain_number v \<and> 0 < to_number v"
  by (auto simp: amount_of_def Let_def split: option.splits if_splits)

lemma take_exit_positive: "take_exit named rest = Some (Some v, rest') \<Longrightarrow> 0 < to_number v"
  by (auto simp: take_exit_def dest!: amount_positive split: option.splits)

text \<open>The size a market takes for an amount: the whole steps that fit into it, give or take a rounding error, written
  with the decimals of the step, and no less than the market's minimum.\<close>

definition size_fits :: "market \<Rightarrow> jsnum \<Rightarrow> string \<Rightarrow> bool" where
  "size_fits m amount text =
     (let step = to_number (m_sizeStep m); steps = math_floor (amount div step + num (1 / 10 ^ 9))
      in 0 < step \<and> 0 < amount \<and> text = to_fixed (decimalsOf (m_sizeStep m)) (steps * step) \<and>
         \<not> to_number text \<le> 0 \<and> \<not> to_number text < to_number (m_minSize m))"

lemma roundToStep_fits:
  assumes "roundToStep v (m_sizeStep m) = (sz, text)" "\<not> sz \<le> 0" "\<not> sz < to_number (m_minSize m)"
  shows "size_fits m v text"
  using assms by (auto simp: roundToStep_def size_fits_def Let_def zero_Fin split: if_splits)

lemma sized_on_fits: "sized_on m word = Some text \<Longrightarrow> size_fits m (opt_number word) text"
  by (auto simp: sized_on_def split: prod.splits if_splits intro: roundToStep_fits)

text \<open>The size is that of an amount among the words of the line.\<close>

definition typed_size :: "string list \<Rightarrow> market \<Rightarrow> string \<Rightarrow> bool" where
  "typed_size ws m text = (\<exists>w \<in> set ws. \<exists>a. amount_of (Some w) = Some a \<and> size_fits m (to_number a) text)"

lemma sized_on_typed: "sized_on m (amount_of word) = Some text \<Longrightarrow> set_option word \<subseteq> set ws \<Longrightarrow> typed_size ws m text"
proof -
  assume sz: "sized_on m (amount_of word) = Some text" and ws: "set_option word \<subseteq> set ws"
  from sized_on_fits [OF sz] obtain a where a: "amount_of word = Some a"
    by (cases "amount_of word") (auto simp: size_fits_def opt_number_def Let_def)
  then obtain w where "word = Some w" by (cases word) (auto simp: amount_of_def)
  with a ws sized_on_fits [OF sz] show ?thesis by (auto simp: typed_size_def opt_number_def)
qed

text \<open>A market that is found is the listed one that a word of the line names, or the one on screen.\<close>

definition known_market :: "string list \<Rightarrow> command_context \<Rightarrow> market \<Rightarrow> bool" where
  "known_market ws ctx m =
     (cx_current ctx = Some m \<or>
      m \<in> set (cx_markets ctx) \<and> (\<exists>w \<in> set ws. findMarket w (cx_markets ctx) (cx_current ctx) = Some m))"

lemma or_find_cases: "or_find x y = Some v \<Longrightarrow> x = Some v \<or> y = Some v"
  by (cases x) (simp_all add: or_find_def)

lemma coin_market_mem: "coin_market coins current = Some m \<Longrightarrow> m \<in> set coins"
  unfolding coin_market_def by (auto dest!: or_find_cases find_SomeD nth_opt_mem)

lemma findMarket_mem: "findMarket word markets current = Some m \<Longrightarrow> m \<in> set markets"
  unfolding findMarket_def Let_def
  by (auto dest!: or_find_cases find_SomeD coin_market_mem split: option.splits)

lemma named_known: "findMarket w (cx_markets ctx) (cx_current ctx) = Some m \<Longrightarrow> w \<in> set ws \<Longrightarrow> known_market ws ctx m"
  by (auto simp: known_market_def dest: findMarket_mem)

lemma market_of_known: "market_of word ctx = Some m \<Longrightarrow> set_option word \<subseteq> set ws \<Longrightarrow> known_market ws ctx m"
  by (auto simp: market_of_def intro: named_known split: option.splits if_splits) (auto simp: known_market_def)

lemma set_find: "set_option (List.find P xs) \<subseteq> set xs"
  by (auto dest: find_SomeD)

lemma set_nth_opt: "set_option (nth_opt xs n) \<subseteq> set xs"
  by (auto dest: nth_opt_mem)

lemma set_splice: "set (splice i n xs) \<subseteq> set xs"
  by (auto simp: splice_def dest: in_set_takeD in_set_dropD)

lemma position_on_mem: "position_on ctx m = Some p \<Longrightarrow> p \<in> set (cx_positions ctx) \<and> p_market p = m_id m"
  by (auto simp: position_on_def dest: find_SomeD)

lemma sizeAndMarket_ok: "sizeAndMarket words ctx = Some (text, m) \<Longrightarrow> known_market words ctx m \<and> typed_size words m text"
  using sized_on_typed [OF _ set_find] market_of_known [OF _ set_find]
  by (auto simp: sizeAndMarket_def Let_def split: if_splits option.splits)

section \<open>What is understood\<close>

definition order_ok :: "string list \<Rightarrow> command_context \<Rightarrow> order_intent \<Rightarrow> bool" where
  "order_ok ws ctx io =
     (known_market ws ctx (io_market io) \<and> typed_size ws (io_market io) (io_size io) \<and>
      (\<forall>v \<in> {io_price io, io_to io, io_stopLoss io, io_takeProfit io}. case v of None \<Rightarrow> True | Some s \<Rightarrow> 0 < to_number s) \<and>
      (case io_to io of
         None \<Rightarrow> io_count io = None
       | Some t \<Rightarrow> io_price io \<noteq> None \<and> io_price io \<noteq> Some t \<and> scaled_parts io \<noteq> None \<and>
                  (\<exists>n. io_count io = Some n \<and> 2 \<le> n \<and> n \<le> MAX_SCALE)))"

definition intent_ok :: "string list \<Rightarrow> command_context \<Rightarrow> intent \<Rightarrow> bool" where
  "intent_ok ws ctx i =
     (case i of
        OrderIntent io \<Rightarrow> order_ok ws ctx io
      | ReduceIntent p m fraction price \<Rightarrow>
          p \<in> set (cx_positions ctx) \<and> p_market p = m_id m \<and> known_market ws ctx m \<and> 0 \<le> fraction \<and> fraction \<le> 1 \<and>
          (case price of None \<Rightarrow> True | Some s \<Rightarrow> 0 < to_number s)
      | ProtectIntent p m exit price \<Rightarrow>
          p \<in> set (cx_positions ctx) \<and> p_market p = m_id m \<and> known_market ws ctx m \<and>
          (case price of None \<Rightarrow> True | Some s \<Rightarrow> 0 < to_number s)
      | CloseIntent p mo \<Rightarrow>
          p \<in> set (cx_positions ctx) \<and> (\<exists>m. mo = Some m \<and> p_market p = m_id m \<and> known_market ws ctx m)
      | CancelIntent orders mo \<Rightarrow>
          orders \<noteq> [] \<and> set orders \<subseteq> set (cx_orders ctx) \<and>
          (case mo of None \<Rightarrow> orders = cx_orders ctx | Some m \<Rightarrow> known_market ws ctx m \<and> (\<forall>o' \<in> set orders. o_market o' = m_id m))
      | ChaseIntent c \<Rightarrow>
          known_market ws ctx (ic_market c) \<and> typed_size ws (ic_market c) (ic_size c) \<and>
          (case ic_giveUpPct c of None \<Rightarrow> \<not> ic_finish c | Some pct \<Rightarrow> 0 < pct \<and> pct \<le> Fin 50)
      | TwapIntent w \<Rightarrow>
          known_market ws ctx (iw_market w) \<and> typed_size ws (iw_market w) (iw_size w) \<and>
          TWAP_MIN_MS \<le> iw_durationMs w \<and> iw_durationMs w \<le> TWAP_MAX_MS \<and>
          (case iw_slices w of None \<Rightarrow> True | Some n \<Rightarrow> is_integer n \<and> 1 \<le> n \<and> n \<le> MAX_SLICES)
      | HaltIntent \<Rightarrow> True)"

lemma typed_size_mono: "typed_size ws m text \<Longrightarrow> set ws \<subseteq> set ws' \<Longrightarrow> typed_size ws' m text"
  by (auto simp: typed_size_def)

lemma known_market_mono: "known_market ws ctx m \<Longrightarrow> set ws \<subseteq> set ws' \<Longrightarrow> known_market ws' ctx m"
  by (auto simp: known_market_def)

lemma intent_ok_mono: "intent_ok ws ctx i \<Longrightarrow> set ws \<subseteq> set ws' \<Longrightarrow> intent_ok ws' ctx i"
  by (cases i) (auto simp: intent_ok_def order_ok_def intro: typed_size_mono known_market_mono split: option.splits)

lemma chase_give_up_ok:
  "chase_give_up rest = Some (g, rest') \<Longrightarrow>
   (case g of None \<Rightarrow> True | Some pct \<Rightarrow> 0 < pct \<and> pct \<le> Fin 50) \<and> set rest' \<subseteq> set rest"
  using set_splice by (fastforce simp: chase_give_up_def Let_def split: option.splits if_splits)

lemma chase_finish_words: "chase_finish rest = Some (f, rest') \<Longrightarrow> set rest' \<subseteq> set rest"
  using set_splice by (fastforce simp: chase_finish_def split: option.splits if_splits)

lemma parseChase_ok:
  assumes "parseChase words ctx = Some i"
  shows "intent_ok words ctx i"
proof -
  from assms obtain finish rest giveUp rest' where
      p: "chase_finish (drop 1 words) = Some (finish, rest)" "chase_give_up rest = Some (giveUp, rest')"
    and i: "intent_ok rest' ctx i"
    by (fastforce simp: parseChase_def intent_ok_def dest: chase_give_up_ok dest!: sizeAndMarket_ok split: option.splits if_splits)
  have "set rest' \<subseteq> set words"
    using chase_finish_words [OF p(1)] chase_give_up_ok [OF p(2)] set_drop_subset [of 1 words] by blast
  with i show ?thesis by (rule intent_ok_mono)
qed

lemma duration_not_NaN: "parseDuration w = Some ms \<Longrightarrow> ms \<noteq> NaN"
  by (auto simp: parseDuration_def Let_def zero_Fin split: option.splits if_splits prod.splits)

lemma twap_duration_ok:
  "twap_duration kept = Some (ms, rest) \<Longrightarrow> TWAP_MIN_MS \<le> ms \<and> ms \<le> TWAP_MAX_MS \<and> set rest \<subseteq> set kept"
proof -
  assume t: "twap_duration kept = Some (ms, rest)"
  then obtain i where ms: "ms = or_else (parseDuration (nth_opt kept i)) 0" "\<not> ms < TWAP_MIN_MS" "\<not> TWAP_MAX_MS < ms"
      and rest: "rest = splice i 1 kept"
    by (auto simp: twap_duration_def Let_def split: option.splits if_splits)
  have "ms \<noteq> NaN" using ms(1) duration_not_NaN by (auto simp: or_else_def zero_Fin split: option.splits)
  with ms(2,3) have "TWAP_MIN_MS \<le> ms \<and> ms \<le> TWAP_MAX_MS" by (cases ms) (auto simp: TWAP_MIN_MS_def TWAP_MAX_MS_def)
  with set_splice [of i 1 kept] show ?thesis unfolding rest by blast
qed

lemma twap_slices_ok:
  "twap_slices kept = Some (n, rest) \<Longrightarrow>
   (case n of None \<Rightarrow> True | Some k \<Rightarrow> is_integer k \<and> 1 \<le> k \<and> k \<le> MAX_SLICES) \<and> set rest \<subseteq> set kept"
  using set_splice
  by (fastforce simp: twap_slices_def Let_def is_integer_def one_Fin MAX_SLICES_def split: option.splits if_splits jsnum.splits)

lemma parseTwap_ok:
  assumes "parseTwap words ctx = Some i"
  shows "intent_ok words ctx i"
proof -
  let ?kept = "filter (\<lambda>w. w \<noteq> ''chase'') (filter (\<lambda>w. w \<noteq> ''over'' \<and> w \<noteq> ''in'') (drop 1 words))"
  from assms obtain ms rest slices rest' where
      p: "twap_duration ?kept = Some (ms, rest)" "twap_slices rest = Some (slices, rest')"
    and i: "intent_ok rest' ctx i"
    by (fastforce simp: parseTwap_def Let_def intent_ok_def dest: twap_duration_ok twap_slices_ok dest!: sizeAndMarket_ok
        split: option.splits)
  have "set rest' \<subseteq> set words"
    using twap_duration_ok [OF p(1)] twap_slices_ok [OF p(2)] set_drop_subset [of 1 words] by auto
  with i show ?thesis by (rule intent_ok_mono)
qed

lemma scaleCount_bounds: "scaleCount words = Some n \<Longrightarrow> 2 \<le> n \<and> n \<le> MAX_SCALE"
  by (auto simp: scaleCount_def Let_def DEFAULT_SCALE_def MAX_SCALE_def split: if_splits jsnum.splits)

lemma range_of_ok:
  "range_of price after = Some pw \<Longrightarrow> 0 < to_number price \<Longrightarrow>
   pw_price pw = Some price \<and>
   (case pw_to pw of
      None \<Rightarrow> pw_count pw = None
    | Some t \<Rightarrow> 0 < to_number t \<and> t \<noteq> price \<and> (\<exists>n. pw_count pw = Some n \<and> 2 \<le> n \<and> n \<le> MAX_SCALE))"
  by (auto simp: range_of_def dest: amount_positive scaleCount_bounds split: if_splits option.splits)

lemma take_price_ok:
  "take_price rest = Some (pw, rest') \<Longrightarrow>
   set rest' \<subseteq> set rest \<and>
   (case pw_price pw of None \<Rightarrow> pw_to pw = None | Some p \<Rightarrow> 0 < to_number p) \<and>
   (case pw_to pw of
      None \<Rightarrow> pw_count pw = None
    | Some t \<Rightarrow> 0 < to_number t \<and> pw_price pw \<noteq> Some t \<and> (\<exists>n. pw_count pw = Some n \<and> 2 \<le> n \<and> n \<le> MAX_SCALE))"
  by (auto simp: take_price_def Let_def dest!: range_of_ok amount_positive dest: in_set_takeD split: option.splits)

lemma percent_fraction: "percent w = Some f \<Longrightarrow> 0 \<le> f \<and> f \<le> 1"
proof -
  assume "percent w = Some f"
  then obtain v where v: "0 < to_number v" "to_number v \<le> Fin 100" "f = to_number v div Fin 100"
    by (auto simp: percent_def dest: amount_positive split: option.splits if_splits)
  then obtain q where q: "to_number v = Fin q" "0 < q" "q \<le> 100"
    by (cases "to_number v") (auto simp: zero_Fin)
  have "num 0 \<le> num (q / 100)" "num (q / 100) \<le> num 1" using q by (intro num_mono; simp)+
  then show ?thesis using v(3) q(1) num_of_int [of 0] num_of_int [of 1] by (simp add: zero_Fin one_Fin)
qed

lemma reduce_intent_ok:
  "reduce_intent sd m fraction pw we ctx = Some i \<Longrightarrow> known_market ws ctx m \<Longrightarrow> 0 \<le> fraction \<and> fraction \<le> 1 \<Longrightarrow>
   (case pw_price pw of None \<Rightarrow> True | Some s \<Rightarrow> 0 < to_number s) \<Longrightarrow> intent_ok ws ctx i"
  by (auto simp: reduce_intent_def intent_ok_def dest: position_on_mem split: option.splits if_splits)

lemma take_exit_ok:
  "take_exit named rest = Some (v, rest') \<Longrightarrow> (case v of None \<Rightarrow> True | Some s \<Rightarrow> 0 < to_number s) \<and> set rest' \<subseteq> set rest"
  using set_splice by (fastforce simp: take_exit_def dest: amount_positive split: option.splits)

lemma parse_order_ok:
  assumes "parse_order sd words ctx = Some i"
  shows "intent_ok words ctx i"
proof -
  obtain sl ws1 tp ws2 pw rest where
      ex: "take_exit is_sl words = Some (sl, ws1)" "take_exit is_tp ws1 = Some (tp, ws2)"
    and pw: "take_price ws2 = Some (pw, rest)"
    using assms by (auto simp: parse_order_def split: option.splits)
  define szWord where "szWord = List.find is_size rest"
  define coinWord where "coinWord = List.find (\<lambda>w. \<not> is_size w) rest"
  obtain m where m: "market_of coinWord ctx = Some m"
    and rest: "(case percent szWord of
           Some fraction \<Rightarrow> reduce_intent sd m fraction pw (sl \<noteq> None \<or> tp \<noteq> None) ctx
         | None \<Rightarrow> (case sized_on m (amount_of szWord) of
                      None \<Rightarrow> None
                    | Some text \<Rightarrow>
                        sized_order \<lparr>io_side = sd, io_market = m, io_size = text, io_price = pw_price pw, io_to = pw_to pw,
                                     io_count = pw_count pw, io_stopLoss = sl, io_takeProfit = tp\<rparr>)) = Some i"
    using assms ex pw
    by (auto simp: parse_order_def szWord_def coinWord_def Let_def split: if_splits option.splits)
  have known: "known_market rest ctx m" using m by (rule market_of_known) (unfold coinWord_def, rule set_find)
  note P = take_price_ok [OF pw]
  note E = take_exit_ok [OF ex(1)] take_exit_ok [OF ex(2)]
  have "intent_ok rest ctx i"
  proof (cases "percent szWord")
    case (Some fraction)
    then have "reduce_intent sd m fraction pw (sl \<noteq> None \<or> tp \<noteq> None) ctx = Some i" using rest by simp
    then show ?thesis
      by (rule reduce_intent_ok) (use known percent_fraction [OF Some] P in \<open>auto split: option.splits\<close>)
  next
    case None
    with rest obtain sz where t: "sized_on m (amount_of szWord) = Some sz"
        "sized_order \<lparr>io_side = sd, io_market = m, io_size = sz, io_price = pw_price pw, io_to = pw_to pw,
            io_count = pw_count pw, io_stopLoss = sl, io_takeProfit = tp\<rparr> = Some i"
      by (auto split: option.splits)
    have "typed_size rest m sz" using t(1) by (rule sized_on_typed) (unfold szWord_def, rule set_find)
    with known t(2) P E show ?thesis
      by (auto simp: sized_order_def intent_ok_def order_ok_def split: if_splits option.splits)
  qed
  then show ?thesis using P E by (elim intent_ok_mono) blast
qed

lemma parse_protect_ok: "parse_protect exit words ctx = Some i \<Longrightarrow> intent_ok words ctx i"
proof -
  assume p: "parse_protect exit words ctx = Some i"
  then obtain m where
      m: "(if length words = 3 then findMarket (or_else (nth_opt words 1) []) (cx_markets ctx) (cx_current ctx) else cx_current ctx) = Some m"
    and i: "\<exists>p price. position_on ctx m = Some p \<and> i = ProtectIntent p m exit price \<and> (case price of None \<Rightarrow> True | Some s \<Rightarrow> 0 < to_number s)"
    by (auto simp: parse_protect_def Let_def dest!: amount_positive split: option.splits if_splits)
  have "known_market words ctx m"
  proof (cases "length words = 3")
    case True
    then have "nth_opt words 1 = Some (words ! 1)" by (simp add: nth_opt_def)
    with m True show ?thesis by (auto simp: or_else_def intro!: named_known [of "words ! 1"])
  qed (use m in \<open>simp add: known_market_def\<close>)
  with i show ?thesis by (auto simp: intent_ok_def dest: position_on_mem)
qed

lemma parse_close_ok: "parse_close words ctx = Some i \<Longrightarrow> intent_ok words ctx i"
  using market_of_known [OF _ set_nth_opt [of words 1], of ctx]
  by (auto simp: parse_close_def intent_ok_def dest!: position_on_mem split: option.splits)

lemma parse_cancel_ok: "parse_cancel words ctx = Some i \<Longrightarrow> intent_ok words ctx i"
  using set_nth_opt [of words 1] set_nth_opt [of words 2]
  by (auto simp: parse_cancel_def intent_ok_def Let_def intro: named_known split: if_splits option.splits)

lemma intent_ok_Cons: "intent_ok ws ctx i \<Longrightarrow> intent_ok (w # ws) ctx i"
  by (erule intent_ok_mono) auto

lemma parse_words_ok: "parse_words words ctx = Some i \<Longrightarrow> intent_ok words ctx i"
  by (auto simp: parse_words_def intent_ok_def [of _ _ HaltIntent]
      dest: parseChase_ok parseTwap_ok parse_order_ok parse_protect_ok parse_close_ok parse_cancel_ok
      intro: intent_ok_Cons split: list.splits if_splits option.splits)

text \<open>An order that is read does not depend on the side it is read with.\<close>

lemma parse_order_sized:
  assumes "parse_order sd words ctx = Some (OrderIntent io)"
  shows "io_side io = sd \<and> sized_order io = Some (OrderIntent io) \<and> parse_order sd' words ctx = sized_order (io\<lparr>io_side := sd'\<rparr>)"
proof -
  obtain sl ws1 tp ws2 pw rest where
      ex: "take_exit is_sl words = Some (sl, ws1)" "take_exit is_tp ws1 = Some (tp, ws2)" "take_price ws2 = Some (pw, rest)"
    using assms by (auto simp: parse_order_def split: option.splits)
  define szWord where "szWord = List.find is_size rest"
  define coinWord where "coinWord = List.find (\<lambda>w. \<not> is_size w) rest"
  have ok: "\<not> (rest = [] \<or> 2 < length rest \<or> \<not> one_of_each rest szWord coinWord)"
    using assms ex by (auto simp: parse_order_def szWord_def coinWord_def Let_def split: if_splits)
  have eq: "parse_order s words ctx =
      (case market_of coinWord ctx of
         None \<Rightarrow> None
       | Some m \<Rightarrow>
           (case percent szWord of
              Some fraction \<Rightarrow> reduce_intent s m fraction pw (sl \<noteq> None \<or> tp \<noteq> None) ctx
            | None \<Rightarrow>
                (case sized_on m (amount_of szWord) of
                   None \<Rightarrow> None
                 | Some sz \<Rightarrow>
                     sized_order \<lparr>io_side = s, io_market = m, io_size = sz, io_price = pw_price pw, io_to = pw_to pw,
                                  io_count = pw_count pw, io_stopLoss = sl, io_takeProfit = tp\<rparr>)))" for s
    using ex ok unfolding parse_order_def szWord_def coinWord_def Let_def by simp
  from assms eq [of sd] obtain m sz where
      m: "market_of coinWord ctx = Some m" "percent szWord = None" "sized_on m (amount_of szWord) = Some sz"
    and io: "sized_order \<lparr>io_side = sd, io_market = m, io_size = sz, io_price = pw_price pw, io_to = pw_to pw,
               io_count = pw_count pw, io_stopLoss = sl, io_takeProfit = tp\<rparr> = Some (OrderIntent io)"
    by (auto simp: reduce_intent_def split: option.splits if_splits)
  then have "io = \<lparr>io_side = sd, io_market = m, io_size = sz, io_price = pw_price pw, io_to = pw_to pw,
               io_count = pw_count pw, io_stopLoss = sl, io_takeProfit = tp\<rparr>"
    by (simp add: sized_order_def split: if_splits)
  with io m eq [of sd'] show ?thesis by simp
qed

lemma other_no_order:
  "parseChase words ctx \<noteq> Some (OrderIntent io)" "parseTwap words ctx \<noteq> Some (OrderIntent io)"
  "parse_protect exit words ctx \<noteq> Some (OrderIntent io)" "parse_close words ctx \<noteq> Some (OrderIntent io)"
  "parse_cancel words ctx \<noteq> Some (OrderIntent io)"
  by (auto simp: parseChase_def parseTwap_def parse_protect_def parse_close_def parse_cancel_def Let_def
      split: option.splits if_splits)

lemma parse_words_side:
  "parse_words words ctx = Some (OrderIntent io) \<Longrightarrow> words \<noteq> [] \<and> SIDES (hd words) = Some (io_side io)"
  by (cases words)
    (auto simp: parse_words_def other_no_order dest: parse_order_sized [THEN conjunct1] split: if_splits option.splits)

section \<open>What holds of typed lines\<close>

definition usd_market :: "string \<Rightarrow> market" where
  "usd_market coin =
     \<lparr>m_venue = Bybit, m_id = coin @ ''USDT'', m_symbol = coin @ ''-USDT'', m_base = coin, m_quote = ''USDT'', m_tickSize = ''1'',
      m_sizeStep = ''1'', m_minSize = ''2'', m_maxLeverage = Fin 10, m_listedBy = None, m_category = None, m_listedAt = None\<rparr>"

definition sample_context :: command_context where
  "sample_context =
     \<lparr>cx_markets = [usd_market ''SOL'', usd_market ''ETH''], cx_current = None, cx_positions = [], cx_orders = []\<rparr>"

text \<open>C28: Whatever line is understood, it is about the listed market one of its words names or the market on screen,
  and about open positions and orders of it: a size is an amount typed, cut to whole steps of the market and at least its
  minimum, prices are above nothing, shares at most the whole, a scaled order has 2 to 10 parts the market takes, a
  TWAP's time and slices are within their bounds, and an order is on the side of its first word.\<close>

theorem typed_line_grounded:
  assumes "parseCommand text ctx = Some i"
  shows "intent_ok (words_of (to_lower text)) ctx i \<and>
    (\<forall>io. i = OrderIntent io \<longrightarrow> SIDES (hd (words_of (to_lower text))) = Some (io_side io))"
  using assms parse_words_ok parse_words_side by (auto simp: parseCommand_def)

text \<open>Any order that can be typed with \<open>buy\<close> can be typed with a word every object has: its side is then none.\<close>

lemma odd_side_order:
  assumes "parse_order (ASide Buy) words ctx = Some (OrderIntent io)"
  shows "parse_words (''constructor'' # words) ctx = Some (OrderIntent (io\<lparr>io_side := NotASide\<rparr>))"
proof -
  from parse_order_sized [OF assms, of NotASide]
  have "parse_order NotASide words ctx = Some (OrderIntent (io\<lparr>io_side := NotASide\<rparr>))"
    by (auto simp: sized_order_def scaled_parts_def split: if_splits)
  then show ?thesis by (simp add: parse_words_def SIDES_def)
qed

text \<open>The prices of a scaled order, evenly from one to the other before they are put on the tick.\<close>

definition rung :: "jsnum \<Rightarrow> jsnum \<Rightarrow> nat \<Rightarrow> nat \<Rightarrow> jsnum" where
  "rung a b n k = a + ((b - a) * Fin (of_nat k)) div Fin (of_nat (n - 1))"

definition on_tick :: "market \<Rightarrow> jsnum \<Rightarrow> string" where
  "on_tick m x =
     (let tick = to_number (m_tickSize m)
      in to_fixed (decimalsOf (m_tickSize m)) (math_round (x div tick + num (1 / 10 ^ 9)) * tick))"

text \<open>Between finite prices the first is the one typed, and the others go from it in order.\<close>

lemma finite_diff:
  assumes "canonical (Fin a)" "canonical (Fin b)" "0 \<le> a" "0 \<le> b"
  obtains d where "Fin b - Fin a = Fin d"
proof -
  have "num (- a) \<le> num (b - a)" "num (b - a) \<le> num b" using assms by (intro num_mono; simp)+
  moreover have "num (- a) = Fin (- a)" "num b = Fin b"
    using canonical_fixed [OF assms(1)] canonical_fixed [OF assms(2)] by simp_all
  ultimately have "num (b - a) \<in> range Fin" by (cases "num (b - a)") auto
  then show thesis using that by (auto simp: minus_jsnum_def)
qed

lemma rung_first:
  assumes "canonical (Fin a)" "canonical (Fin b)" "0 \<le> a" "0 \<le> b"
  shows "rung (Fin a) (Fin b) n 0 = Fin a \<or> n \<le> 1"
proof -
  obtain d where d: "Fin b - Fin a = Fin d" using finite_diff [OF assms] .
  then show ?thesis using canonical_fixed [OF assms(1)]
    by (cases "n \<le> 1") (simp_all add: rung_def zero_Fin)
qed

lemma js_div_mono: "x \<le> y \<Longrightarrow> 0 < m \<Longrightarrow> x div Fin m \<le> y div (Fin m :: jsnum)"
  by (cases x; cases y) (auto simp: divide_right_mono intro: num_mono)

lemma js_add_mono: "x \<le> y \<Longrightarrow> Fin a + x \<le> Fin a + (y :: jsnum)"
  by (cases x; cases y) (auto intro: num_mono)

lemma rung_mono:
  assumes "canonical (Fin a)" "canonical (Fin b)" "0 \<le> a" "0 \<le> b" "2 \<le> n" "k \<le> l"
  shows "a \<le> b \<Longrightarrow> rung (Fin a) (Fin b) n k \<le> rung (Fin a) (Fin b) n l"
    and "b \<le> a \<Longrightarrow> rung (Fin a) (Fin b) n l \<le> rung (Fin a) (Fin b) n k"
proof -
  obtain d where d: "Fin b - Fin a = Fin d" using finite_diff [OF assms(1-4)] .
  have n: "0 < (of_nat (n - 1) :: rat)" using assms(5) by simp
  have kl: "(of_nat k :: rat) \<le> of_nat l" using assms(6) by simp
  show "rung (Fin a) (Fin b) n k \<le> rung (Fin a) (Fin b) n l" if "a \<le> b"
  proof -
    have "num 0 \<le> num (b - a)" using that by (intro num_mono) simp
    with d have "0 \<le> d" by (simp add: minus_jsnum_def zero_Fin)
    then have "Fin d * Fin (of_nat k) \<le> Fin d * Fin (of_nat l)"
      unfolding times_jsnum.simps using kl by (intro num_mono mult_left_mono)
    then show ?thesis unfolding rung_def d by (intro js_add_mono js_div_mono n)
  qed
  show "rung (Fin a) (Fin b) n l \<le> rung (Fin a) (Fin b) n k" if "b \<le> a"
  proof -
    have "num (b - a) \<le> num 0" using that by (intro num_mono) simp
    with d have "d \<le> 0" by (simp add: minus_jsnum_def zero_Fin)
    then have "Fin d * Fin (of_nat l) \<le> Fin d * Fin (of_nat k)"
      unfolding times_jsnum.simps using kl by (intro num_mono mult_left_mono_neg)
    then show ?thesis unfolding rung_def d by (intro js_add_mono js_div_mono n)
  qed
qed

text \<open>Where the prices are whole and the steps between them too, nothing is rounded and the last is the other price.\<close>

lemma rung_whole:
  assumes "\<bar>a\<bar> \<le> 2 ^ 50" "\<bar>d * int (n - 1) * int k\<bar> \<le> 2 ^ 50" "\<bar>d * int (n - 1)\<bar> \<le> 2 ^ 50" "\<bar>d * int k\<bar> \<le> 2 ^ 50" "2 \<le> n"
  shows "rung (Fin (of_int a)) (Fin (of_int (a + d * int (n - 1)))) n k = Fin (of_int (a + d * int k))"
proof -
  have "Fin (of_int (a + d * int (n - 1))) - Fin (of_int a) = num (of_int (d * int (n - 1)))"
    by (simp add: minus_jsnum_def)
  moreover have "num (of_int (d * int (n - 1))) * Fin (of_nat k) = num (of_int (d * int (n - 1) * int k))"
    using num_of_int [of "d * int (n - 1)"] assms(3) by simp
  moreover have "num (of_int (d * int (n - 1) * int k)) div Fin (of_nat (n - 1)) = num (of_int (d * int k))"
    using num_of_int [of "d * int (n - 1) * int k"] assms(2,5) by simp
  moreover have "Fin (of_int a) + num (of_int (d * int k)) = num (of_int (a + d * int k))"
    using num_of_int [of "d * int k"] assms(4) by simp
  ultimately show ?thesis using num_of_int [of "a + d * int k"] assms(1,4) by (simp add: rung_def)
qed

text \<open>C30: A scaled order is as many limit orders as asked for, all on its market and side, none reduce-only, with the
  order's exits. Each has that share of the typed size, cut to whole steps and at least the market's minimum, and its
  price lies evenly between the two typed, put on the market's tick. Before the tick, the first price is the one typed and
  the others go from it to the other in order.\<close>

theorem scaled_order_parts:
  assumes "scaledOrders io sd = Some rs"
  shows "let n = or_else (io_count io) DEFAULT_SCALE; a = opt_number (io_price io); b = opt_number (io_to io)
    in 2 \<le> n \<and> length rs = n \<and> 0 < a \<and> 0 < b \<and>
       (\<forall>k < n. r_market (rs ! k) = m_id (io_market io) \<and> r_side (rs ! k) = sd \<and> \<not> r_reduceOnly (rs ! k) \<and>
          r_takeProfit (rs ! k) = kept_exit (io_takeProfit io) \<and> r_stopLoss (rs ! k) = kept_exit (io_stopLoss io) \<and>
          size_fits (io_market io) (to_number (io_size io) div Fin (of_nat n)) (r_size (rs ! k)) \<and>
          r_kind (rs ! k) = LimitKind (on_tick (io_market io) (rung a b n k)) None) \<and>
       (a \<noteq> PInf \<and> b \<noteq> PInf \<longrightarrow> rung a b n 0 = a \<and>
          (\<forall>k l. k \<le> l \<longrightarrow> (a \<le> b \<longrightarrow> rung a b n k \<le> rung a b n l) \<and> (b \<le> a \<longrightarrow> rung a b n l \<le> rung a b n k)))"
proof -
  define n where "n = or_else (io_count io) DEFAULT_SCALE"
  define a where "a = opt_number (io_price io)"
  define b where "b = opt_number (io_to io)"
  obtain psz ptext where rt: "roundToStep (to_number (io_size io) div Fin (of_nat n)) (m_sizeStep (io_market io)) = (psz, ptext)"
    by (cases "roundToStep (to_number (io_size io) div Fin (of_nat n)) (m_sizeStep (io_market io))") simp
  from assms obtain part prices where sp: "scaled_parts io = Some (part, prices)"
      and rs: "rs = map (\<lambda>price. request_of io sd part (LimitKind price None)) prices"
    by (auto simp: scaledOrders_def)
  from sp rt have ok: "0 < a" "0 < b" "2 \<le> n" "\<not> psz \<le> 0" "\<not> psz < to_number (m_minSize (io_market io))"
      and part: "part = ptext" and prices: "prices = map (\<lambda>k. on_tick (io_market io) (rung a b n k)) [0..<n]"
    by (auto simp: scaled_parts_def on_tick_def rung_def a_def b_def n_def Let_def split: if_splits)
  have parts: "length rs = n \<and> (\<forall>k < n. rs ! k = request_of io sd part (LimitKind (on_tick (io_market io) (rung a b n k)) None))"
    unfolding rs prices by simp
  moreover have "size_fits (io_market io) (to_number (io_size io) div Fin (of_nat n)) part"
    unfolding part using rt ok(4,5) by (rule roundToStep_fits)
  moreover have "rung a b n 0 = a \<and>
      (\<forall>k l. k \<le> l \<longrightarrow> (a \<le> b \<longrightarrow> rung a b n k \<le> rung a b n l) \<and> (b \<le> a \<longrightarrow> rung a b n l \<le> rung a b n k))"
    if "a \<noteq> PInf" "b \<noteq> PInf"
  proof -
    have "canonical a" "canonical b" by (auto simp: a_def b_def opt_number_def split: option.splits)
    with that ok(1,2) obtain p q where "a = Fin p" "b = Fin q" "0 \<le> p" "0 \<le> q" "canonical (Fin p)" "canonical (Fin q)"
      by (cases a; cases b) (auto simp: zero_Fin)
    then show ?thesis using rung_first [of p q n] rung_mono [of p q n] ok(3) by auto
  qed
  ultimately show ?thesis using ok(1-3)
    unfolding Let_def n_def [symmetric] a_def [symmetric] b_def [symmetric] by (simp add: request_of_def)
qed

definition sample_scale :: order_intent where
  "sample_scale =
     \<lparr>io_side = ASide Buy, io_market = usd_market ''ETH'', io_size = ''4'', io_price = Some ''20'', io_to = Some ''10'',
      io_count = Some 2, io_stopLoss = None, io_takeProfit = Some ''30''\<rparr>"

theorem scaled_order_parts_witness:
  "\<exists>rs. scaledOrders sample_scale Buy = Some rs \<and> length rs = 2 \<and>
     map r_kind rs = [LimitKind ''20'' None, LimitKind ''10'' None] \<and> (\<forall>r \<in> set rs. r_takeProfit r = Some ''30'')"
proof -
  have n: "to_number ''1'' = Fin 1" "to_number ''2'' = Fin 2" "to_number ''4'' = Fin 4" "to_number ''10'' = Fin 10"
      "to_number ''20'' = Fin 20" "decimalsOf ''1'' = 0" "fixed_digits 0 2 = ''2''" "fixed_digits 0 20 = ''20''"
      "fixed_digits 0 10 = ''10''" by code_simp+
  have "roundToStep (Fin 2) ''1'' = (Fin 2, ''2'')"
    using floor_tolerance [of 2] by (simp add: roundToStep_def n zero_Fin Let_def)
  then have "scaledOrders sample_scale Buy \<noteq> None"
    by (simp add: scaledOrders_def scaled_parts_def sample_scale_def usd_market_def or_else_def opt_number_def n zero_Fin Let_def
        del: plus_jsnum.simps)
  then obtain rs where rs: "scaledOrders sample_scale Buy = Some rs" by blast
  have "rung (Fin 20) (Fin 10) 2 0 = Fin 20" "rung (Fin 20) (Fin 10) 2 1 = Fin 10"
    using rung_whole [of 20 "- 10" 2 0] rung_whole [of 20 "- 10" 2 1] by simp_all
  then have p: "on_tick (usd_market ''ETH'') (rung (Fin 20) (Fin 10) 2 0) = ''20''"
      "on_tick (usd_market ''ETH'') (rung (Fin 20) (Fin 10) 2 1) = ''10''"
    using round_tolerance [of 20] round_tolerance [of 10] by (simp_all add: on_tick_def usd_market_def n Let_def)
  have k: "(\<forall>k < 2. P k) \<longleftrightarrow> P 0 \<and> P (1::nat)" for P by (auto simp: less_2_cases_iff)
  from scaled_order_parts [OF rs] p have l: "length rs = 2" "r_kind (rs ! 0) = LimitKind ''20'' None" "r_kind (rs ! 1) = LimitKind ''10'' None"
      "r_takeProfit (rs ! 0) = Some ''30''" "r_takeProfit (rs ! 1) = Some ''30''"
    unfolding Let_def by (simp_all add: sample_scale_def or_else_def kept_exit_def opt_number_def n k)
  then obtain x y where "rs = [x, y]" by (auto simp: numeral_2_eq_2 length_Suc_conv)
  with l rs show ?thesis by simp
qed

text \<open>The lines that close a position or take some of it off, and the position meant.\<close>

definition closes_position :: "intent \<Rightarrow> position option" where
  "closes_position i = (case i of CloseIntent p m \<Rightarrow> Some p | ReduceIntent p m fraction price \<Rightarrow> Some p | _ \<Rightarrow> None)"

lemma closing_requests:
  "closes_position i = Some p \<Longrightarrow> actionFor i bps target = SendOrders rs \<Longrightarrow> req \<in> set rs \<Longrightarrow>
   r_reduceOnly req \<and> r_market req = p_market p \<and> r_side req = opposite (p_side p)"
  by (auto simp: closes_position_def actionFor_def closeOrder_def opposite_def reduce_request_def closeRequest_def Let_def
      split: intent.splits option.splits)

text \<open>C29: A line that closes an open position or takes a share of it off is sent as reduce-only orders on
  the other side of that position's market; where the paper account accepts one, the market's position
  is gone afterwards, or is on the same side and no larger.\<close>

theorem closing_lines_shrink:
  assumes "parseLine text ctx = Some (TradeCommand i)" "closes_position i = Some p"
    and "actionFor i bps target = SendOrders rs" "req \<in> set rs"
    and "paper_ok s" "placeOrder s req mk quotes fees now = (s', None)"
  shows "p \<in> set (cx_positions ctx) \<and> r_reduceOnly req \<and> r_market req = p_market p \<and> r_side req = opposite (p_side p) \<and>
    (case pos_in (m_id mk) s' of
       None \<Rightarrow> True
     | Some q \<Rightarrow> (\<exists>q0. pos_in (m_id mk) s = Some q0 \<and> pp_side q = pp_side q0 \<and> pp_size q \<le> pp_size q0))"
proof -
  have "parseCommand text ctx = Some i"
    using assms(1) by (auto simp: parseLine_def plain_command_def Let_def split: list.splits if_splits option.splits)
  then have "intent_ok (words_of (to_lower text)) ctx i" by (auto simp: parseCommand_def intro: parse_words_ok)
  with assms(2) have "p \<in> set (cx_positions ctx)"
    by (auto simp: closes_position_def intent_ok_def split: intent.splits)
  moreover note closing_requests [OF assms(2-4)]
  ultimately show ?thesis using reduce_only_shrinks [OF assms(5) _ assms(6)] by blast
qed

definition held_btc :: position where
  "held_btc =
     \<lparr>p_venue = Hyperliquid, p_market = ''BTC'', p_side = Long, p_size = ''1'', p_entryPrice = ''100'', p_markPrice = ''100'',
      p_liquidationPrice = None, p_unrealizedPnl = ''0'', p_margin = ''50'', p_realizedPnl = None, p_takeProfit = None,
      p_stopLoss = None, p_trailingStop = None, p_leverage = None, p_marginMode = None\<rparr>"

definition btc_context :: command_context where
  "btc_context = \<lparr>cx_markets = [btc], cx_current = Some btc, cx_positions = [held_btc], cx_orders = []\<rparr>"

theorem typed_line_grounded_witness:
  "\<exists>p m f. parseCommand ''sell 50% btc at 90'' btc_context = Some (ReduceIntent p m f (Some ''90'')) \<and> p_market p = m_id m \<and> f \<le> 1"
proof -
  have "(case parseCommand ''sell 50% btc at 90'' btc_context of Some (ReduceIntent p m f price) \<Rightarrow> price = Some ''90'' | _ \<Rightarrow> False)"
    by code_simp
  then obtain p m f where i: "parseCommand ''sell 50% btc at 90'' btc_context = Some (ReduceIntent p m f (Some ''90''))"
    by (auto split: option.splits intent.splits)
  from typed_line_grounded [OF i] i show ?thesis by (simp add: intent_ok_def)
qed

theorem closing_lines_shrink_witness:
  "\<exists>s'. placeOrder btc_account (closeOrder held_btc (CloseMarket (Fin 10000))) btc btc_quotes no_fees (Fin 5) = (s', None) \<and>
    (case pos_in ''BTC'' s' of None \<Rightarrow> True | Some p' \<Rightarrow> pp_side p' = Long \<and> pp_size p' \<le> Fin 2)"
proof -
  let ?req = "closeOrder held_btc (CloseMarket (Fin 10000))" and ?i = "CloseIntent held_btc (Some btc)"
  have req: "?req = btc_request Sell True (MarketKind (Fin 10000))"
    by (simp add: closeOrder_def held_btc_def btc_request_def)
  let ?r = "placeOrder btc_account ?req btc btc_quotes no_fees (Fin 5)"
  have "?r = (fst ?r, None)" unfolding req by (simp add: place_eval)
  moreover have "pos_in ''BTC'' btc_account = Some btc_long" by (simp add: sample_simps pos_in_def)
  moreover have "parseLine ''close btc'' btc_context = Some (TradeCommand ?i)" by code_simp
  moreover have "closes_position ?i = Some held_btc" by (simp add: closes_position_def)
  moreover have "actionFor ?i (Fin 10000) None = SendOrders [?req]" by (simp add: actionFor_def)
  ultimately show ?thesis
    using closing_lines_shrink [of "''close btc''" btc_context ?i held_btc "Fin 10000" None "[?req]" ?req btc_account btc btc_quotes
        no_fees "Fin 5" "fst ?r"] btc_account_ok
    by (intro exI [of _ "fst ?r"]) (simp add: btc_def btc_long_def split: option.splits)
qed

section \<open>The commands last run and the kept session\<close>

lemma recent_commands:
  "withRecent recent line time \<noteq> recent \<Longrightarrow>
   length (withRecent recent line time) \<le> MAX_RECENT \<and> rc_text (hd (withRecent recent line time)) = to_lower (js_trim line) \<and>
   rc_text (hd (withRecent recent line time)) \<notin> rc_text ` set (tl (withRecent recent line time))"
  by (auto simp: withRecent_def MAX_RECENT_def Let_def split: if_splits dest: in_set_takeD)

text \<open>A kept session comes back as it was, its lines numbered from 0 on.\<close>

lemma session_round_trip:
  "restoreSession (saveSession s) = Some (s\<lparr>cs_lines := map (\<lambda>(n, l). l\<lparr>cl_id := n\<rparr>) (zip [0..<length (cs_lines s)] (cs_lines s))\<rparr>)"
proof -
  have tones: "name_in TONES (Some (JStr (name_of TONES t))) = Some t" for t
    by (rule name_in_of) (cases t; simp add: names_ok_def TONES_def)+
  have "line_from (n, line_json l) = Some (l\<lparr>cl_id := n\<rparr>)" for n l
    by (simp add: line_from_def line_json_def tones)
  then have "List.map_filter line_from (zip ns (map line_json ls)) = map (\<lambda>(n, l). l\<lparr>cl_id := n\<rparr>) (zip ns ls)" for ns ls
    by (induction ns ls rule: list_induct2') (simp_all add: map_filter_simps)
  moreover have "List.map_filter (\<lambda>h. as_str (Some h)) (map JStr hs) = hs" for hs
    by (rule map_filter_Some) simp
  ultimately show ?thesis by (simp add: restoreSession_def saveSession_def or_else_def arr_or_nil_def)
qed

end
