(* ===== verification/Accounts.thy ===== *)
theory Accounts
  imports Js_Value Domain Interfaces
begin

text \<open>
  The connected accounts, \<^verbatim>\<open>apps/desktop/src/lib/account.ts\<close>: any number per venue, one
  of them active, kept in the page's storage; and which of them live trading is on for,
  \<^verbatim>\<open>apps/desktop/src/lib/liveTrading.ts\<close>. An object keyed by venue is an association
  list under the venues' ids; a stored text stands as the value it parses to, \<open>None\<close> where it does
  not parse. Rust, which keeps the list of live accounts, answers a switch with yes or no.
\<close>

definition ACCOUNT_NAME_MAX :: nat where
  "ACCOUNT_NAME_MAX = 32"

definition ACCOUNT_VENUES :: "(string \<times> venue) list" where
  "ACCOUNT_VENUES = [(''hyperliquid'', Hyperliquid), (''aster'', Aster), (''bybit'', Bybit), (''binance'', Binance),
     (''blofin'', Blofin)]"

definition venue_id :: "venue \<Rightarrow> string" where
  "venue_id v = name_of ACCOUNT_VENUES v"

record venue_account =
  va_venue :: venue
  va_id :: string
  va_name :: string

record accounts_state =
  acc_list :: "venue_account list"
  acc_active :: "string obj"

definition NO_ACCOUNTS :: accounts_state where
  "NO_ACCOUNTS = \<lparr>acc_list = [], acc_active = []\<rparr>"

section \<open>Account ids\<close>

definition isUidVenue :: "venue \<Rightarrow> bool" where
  "isUidVenue v = (v = Bybit \<or> v = Binance \<or> v = Blofin)"

definition is_hex :: "char \<Rightarrow> bool" where
  "is_hex c = (is_digit c \<or> 97 \<le> (of_char c :: int) \<and> (of_char c :: int) \<le> 102)"

text \<open>\<open>/^\d{1,20}$/\<close>\<close>

definition is_uid :: "string \<Rightarrow> bool" where
  "is_uid s = (s \<noteq> [] \<and> length s \<le> 20 \<and> list_all is_digit s)"

definition isAccountId :: "venue \<Rightarrow> string \<Rightarrow> bool" where
  "isAccountId v i =
     (if isUidVenue v then is_uid (if starts_with i ''demo:'' then drop 5 i else i)
      else starts_with i ''0x'' \<and> length i = 42 \<and> list_all is_hex (drop 2 i))"

definition isDemoAccount :: "venue \<Rightarrow> string \<Rightarrow> bool" where
  "isDemoAccount v i = (isUidVenue v \<and> starts_with i ''demo:'')"

definition liveId :: "venue \<Rightarrow> string \<Rightarrow> string" where
  "liveId v i =
     (if v = Bybit then i
      else if v = Binance \<or> v = Blofin then venue_id v @ '':'' @ js_trim i
      else venue_id v @ '':'' @ to_lower (js_trim i))"

definition canTrade :: "venue_account option \<Rightarrow> string list \<Rightarrow> bool" where
  "canTrade account liveUids =
     (case account of None \<Rightarrow> False
      | Some a \<Rightarrow> isDemoAccount (va_venue a) (va_id a) \<or> liveId (va_venue a) (va_id a) \<in> set liveUids)"

definition cleanAccountName :: "string \<Rightarrow> string" where
  "cleanAccountName name = take ACCOUNT_NAME_MAX (one_space (js_trim name))"

section \<open>Reading what was stored\<close>

definition is_account :: "venue \<Rightarrow> string \<Rightarrow> venue_account \<Rightarrow> bool" where
  "is_account v i a = (va_venue a = v \<and> va_id a = i)"

definition take_account :: "json \<Rightarrow> venue_account list \<Rightarrow> venue_account list" where
  "take_account j accounts =
     (case (name_in ACCOUNT_VENUES (field j ''venue''), as_str (field j ''id''), as_str (field j ''name'')) of
        (Some v, Some i, Some n) \<Rightarrow>
          if isAccountId v i \<and> \<not> list_ex (is_account v i) accounts
          then accounts @ [\<lparr>va_venue = v, va_id = i, va_name = cleanAccountName n\<rparr>] else accounts
      | _ \<Rightarrow> accounts)"

definition take_active :: "venue_account list \<Rightarrow> string \<times> json \<Rightarrow> string obj \<Rightarrow> string obj" where
  "take_active accounts kv active =
     (case (obj_get ACCOUNT_VENUES (fst kv), snd kv) of
        (Some v, JStr i) \<Rightarrow> if list_ex (is_account v i) accounts then obj_set active (fst kv) i else active
      | _ \<Rightarrow> active)"

text \<open>\<open>active[a.venue] ??= a.id\<close>\<close>

definition first_active :: "venue_account \<Rightarrow> string obj \<Rightarrow> string obj" where
  "first_active a active =
     (case obj_get active (venue_id (va_venue a)) of
        None \<Rightarrow> obj_set active (venue_id (va_venue a)) (va_id a) | Some _ \<Rightarrow> active)"

definition withActive :: "accounts_state \<Rightarrow> accounts_state" where
  "withActive s = s\<lparr>acc_active := fold first_active (acc_list s) (acc_active s)\<rparr>"

definition parseAccounts :: "json option option \<Rightarrow> accounts_state" where
  "parseAccounts raw =
     (case raw of
        Some (Some v) \<Rightarrow>
          (let accounts = fold take_account (arr_or_nil (field v ''accounts'')) [];
               entries = (case field v ''active'' of Some (JObj m) \<Rightarrow> m | _ \<Rightarrow> [])
           in withActive \<lparr>acc_list = accounts, acc_active = fold (take_active accounts) entries []\<rparr>)
      | _ \<Rightarrow> NO_ACCOUNTS)"

definition account_json :: "venue_account \<Rightarrow> json" where
  "account_json a = JObj [(''venue'', JStr (venue_id (va_venue a))), (''id'', JStr (va_id a)), (''name'', JStr (va_name a))]"

definition accounts_json :: "accounts_state \<Rightarrow> json" where
  "accounts_json s =
     JObj [(''accounts'', JArr (map account_json (acc_list s))),
           (''active'', JObj (map (\<lambda>kv. (fst kv, JStr (snd kv))) (acc_active s)))]"

section \<open>Changes\<close>

definition withAccount :: "accounts_state \<Rightarrow> venue \<Rightarrow> string \<Rightarrow> string \<Rightarrow> accounts_state" where
  "withAccount s v i name =
     \<lparr>acc_list = (if list_ex (is_account v i) (acc_list s) then acc_list s
                  else acc_list s @ [\<lparr>va_venue = v, va_id = i, va_name = cleanAccountName name\<rparr>]),
      acc_active = obj_set (acc_active s) (venue_id v) i\<rparr>"

definition withoutAccount :: "accounts_state \<Rightarrow> venue \<Rightarrow> string \<Rightarrow> accounts_state" where
  "withoutAccount s v i =
     withActive
       \<lparr>acc_list = filter (\<lambda>a. \<not> is_account v i a) (acc_list s),
        acc_active = (if obj_get (acc_active s) (venue_id v) = Some i then obj_del (acc_active s) (venue_id v)
                      else acc_active s)\<rparr>"

definition withName :: "accounts_state \<Rightarrow> venue \<Rightarrow> string \<Rightarrow> string \<Rightarrow> accounts_state" where
  "withName s v i name =
     (let next' = cleanAccountName name
      in s\<lparr>acc_list := map (\<lambda>a. if is_account v i a then a\<lparr>va_name := next'\<rparr> else a) (acc_list s)\<rparr>)"

text \<open>What earlier versions stored: one wallet, as a value, and one Bybit UID, as a plain text.\<close>

definition migrateLegacy :: "json option option \<Rightarrow> string option \<Rightarrow> accounts_state" where
  "migrateLegacy wallet bybit =
     (let s = (case wallet of
                 Some (Some w) \<Rightarrow>
                   (case (name_in ACCOUNT_VENUES (field w ''venue''), as_str (field w ''address'')) of
                      (Some v, Some a) \<Rightarrow> if isAccountId v a then withAccount NO_ACCOUNTS v a [] else NO_ACCOUNTS
                    | _ \<Rightarrow> NO_ACCOUNTS)
               | _ \<Rightarrow> NO_ACCOUNTS)
      in case bybit of Some u \<Rightarrow> if isAccountId Bybit u then withAccount s Bybit u [] else s | None \<Rightarrow> s)"

definition selectAccount :: "accounts_state \<Rightarrow> venue \<Rightarrow> string \<Rightarrow> accounts_state option" where
  "selectAccount s v i =
     (if list_ex (is_account v i) (acc_list s) then Some (s\<lparr>acc_active := obj_set (acc_active s) (venue_id v) i\<rparr>)
      else None)"

definition venueAccounts :: "accounts_state \<Rightarrow> venue \<Rightarrow> venue_account list" where
  "venueAccounts s v = filter (\<lambda>a. va_venue a = v) (acc_list s)"

text \<open>\<open>accountLabel\<close>: the name, or the account's place among the venue's (0 where it is not one of them).\<close>

definition accountLabel :: "accounts_state \<Rightarrow> venue_account \<Rightarrow> string + nat" where
  "accountLabel s a =
     (if va_name a \<noteq> [] then Inl (va_name a)
      else Inr (case find_index (\<lambda>b. va_id b = va_id a) (venueAccounts s (va_venue a)) of Some i \<Rightarrow> i + 1 | None \<Rightarrow> 0))"

definition activeAccount :: "accounts_state \<Rightarrow> venue \<Rightarrow> venue_account option" where
  "activeAccount s v =
     (case obj_get (acc_active s) (venue_id v) of
        None \<Rightarrow> None | Some i \<Rightarrow> List.find (is_account v i) (acc_list s))"

definition connectedWallet :: "accounts_state \<Rightarrow> (venue \<times> string) option" where
  "connectedWallet s = map_option (\<lambda>a. (va_venue a, va_id a)) (activeAccount s Hyperliquid)"

section \<open>The store\<close>

text \<open>What the page's storage does: it works, it takes no more writes, or it cannot be used at all.\<close>

datatype storage_mode = Works | Full | Off

record accounts_store =
  sr_raw :: "json option option"
  sr_wallet :: "json option option"
  sr_bybit :: "string option"
  sr_cachedRaw :: "json option option option"
  sr_cached :: accounts_state

definition read_key :: "storage_mode \<Rightarrow> 'a option \<Rightarrow> 'a option" where
  "read_key m v = (if m = Off then None else v)"

definition save_accounts :: "storage_mode \<Rightarrow> accounts_state \<Rightarrow> accounts_store \<Rightarrow> accounts_store" where
  "save_accounts m s st =
     (if m = Works then st\<lparr>sr_raw := Some (Some (accounts_json s)), sr_wallet := None, sr_bybit := None\<rparr>
      else st\<lparr>sr_cachedRaw := Some (Some (Some (accounts_json s))), sr_cached := s\<rparr>)"

definition accountsState :: "storage_mode \<Rightarrow> accounts_store \<Rightarrow> accounts_store" where
  "accountsState m st =
     (let st1 = (if read_key m (sr_raw st) = None \<and>
                    (read_key m (sr_wallet st) \<noteq> None \<or> read_key m (sr_bybit st) \<noteq> None)
                 then save_accounts m (migrateLegacy (read_key m (sr_wallet st)) (read_key m (sr_bybit st))) st
                 else st);
          raw = read_key m (sr_raw st1)
      in if sr_cachedRaw st1 = Some raw then st1
         else st1\<lparr>sr_cachedRaw := Some raw, sr_cached := parseAccounts raw\<rparr>)"

datatype account_event =
    AddAccount venue string string
  | RemoveAccount venue string
  | RenameAccount venue string string
  | SelectAccount venue string

text \<open>The state an event saves; \<open>None\<close> where it saves nothing.\<close>

fun next_accounts :: "account_event \<Rightarrow> accounts_state \<Rightarrow> accounts_state option" where
  "next_accounts (AddAccount v i name) s = Some (withAccount s v i name)"
| "next_accounts (RemoveAccount v i) s = Some (withoutAccount s v i)"
| "next_accounts (RenameAccount v i name) s = Some (withName s v i name)"
| "next_accounts (SelectAccount v i) s = selectAccount s v i"

definition account_step :: "account_event \<Rightarrow> accounts_state \<Rightarrow> accounts_state" where
  "account_step e s = (case next_accounts e s of Some s' \<Rightarrow> s' | None \<Rightarrow> s)"

definition update_accounts :: "storage_mode \<times> account_event \<Rightarrow> accounts_store \<Rightarrow> accounts_store" where
  "update_accounts me st =
     (let st' = accountsState (fst me) st
      in case next_accounts (snd me) (sr_cached st') of Some s \<Rightarrow> save_accounts (fst me) s st' | None \<Rightarrow> st')"

section \<open>Live trading\<close>

definition live_read :: "json option option \<Rightarrow> string list" where
  "live_read saved =
     (case saved of Some (Some v) \<Rightarrow> List.map_filter (\<lambda>u. as_str (Some u)) (arr_or_nil (Some v)) | _ \<Rightarrow> [])"

text \<open>The page's copy of the list after it was asked for: what Rust answers replaces it, no answer leaves it.\<close>

definition refreshLiveTrading :: "string list option \<Rightarrow> string list \<Rightarrow> string list" where
  "refreshLiveTrading answer uids = or_else answer uids"

text \<open>The page's copy of the list after a switch; \<open>None\<close> where it throws, the list left as it was. \<open>accepted\<close> is Rust's answer; a BloFin account is
  refused before Rust is asked.\<close>

definition setLiveTrading :: "bool \<Rightarrow> venue_account \<Rightarrow> bool \<Rightarrow> string list \<Rightarrow> string list option" where
  "setLiveTrading accepted a on uids =
     (if va_venue a = Blofin then None
      else if \<not> accepted then None
      else (let i = liveId (va_venue a) (va_id a); rest = filter (\<lambda>u. u \<noteq> i) uids
            in Some (if on then rest @ [i] else rest)))"

section \<open>Every venue with accounts has an active one\<close>

definition account_keys :: "accounts_state \<Rightarrow> (venue \<times> string) list" where
  "account_keys s = map (\<lambda>a. (va_venue a, va_id a)) (acc_list s)"

definition active_ok :: "(venue \<times> string) set \<Rightarrow> string obj \<Rightarrow> bool" where
  "active_ok keys active = (\<forall>v i. obj_get active (venue_id v) = Some i \<longrightarrow> (v, i) \<in> keys)"

definition accounts_ok :: "accounts_state \<Rightarrow> bool" where
  "accounts_ok s =
     (distinct (account_keys s) \<and> active_ok (set (account_keys s)) (acc_active s) \<and>
      (\<forall>(v, i) \<in> set (account_keys s). obj_get (acc_active s) (venue_id v) \<noteq> None) \<and>
      (\<forall>a \<in> set (acc_list s). length (va_name a) \<le> ACCOUNT_NAME_MAX))"

lemma names_ACCOUNT_VENUES [simp]: "names_ok ACCOUNT_VENUES"
  by (simp add: names_ok_def ACCOUNT_VENUES_def)

lemma venue_id_simps:
  "venue_id Hyperliquid = ''hyperliquid''" "venue_id Aster = ''aster''" "venue_id Bybit = ''bybit''"
  "venue_id Binance = ''binance''" "venue_id Blofin = ''blofin''"
  by (simp_all add: venue_id_def name_of_def ACCOUNT_VENUES_def)

lemma venue_id_inj [simp]: "venue_id v = venue_id w \<longleftrightarrow> v = w"
  by (cases v; cases w) (simp_all add: venue_id_simps)

lemma venue_named [simp]: "obj_get ACCOUNT_VENUES (venue_id v) = Some v"
  by (cases v) (simp_all add: venue_id_simps, simp_all add: ACCOUNT_VENUES_def)

lemma venue_named_back: "obj_get ACCOUNT_VENUES k = Some v \<Longrightarrow> k = venue_id v"
  by (auto simp: ACCOUNT_VENUES_def venue_id_simps split: if_splits)

lemma key_known [simp]: "list_ex (is_account v i) as \<longleftrightarrow> (v, i) \<in> (\<lambda>a. (va_venue a, va_id a)) ` set as"
  by (auto simp: list_ex_iff is_account_def)

lemma cleanAccountName_length: "length (cleanAccountName n) \<le> ACCOUNT_NAME_MAX"
  by (simp add: cleanAccountName_def)

lemma active_ok_set: "active_ok keys m \<Longrightarrow> (v, i) \<in> keys \<Longrightarrow> active_ok keys (obj_set m (venue_id v) i)"
  by (auto simp: active_ok_def split: if_splits)

lemma active_ok_mono: "active_ok keys m \<Longrightarrow> keys \<subseteq> keys' \<Longrightarrow> active_ok keys' m"
  by (auto simp: active_ok_def)

lemma first_active_ok:
  "active_ok keys m \<Longrightarrow> (\<lambda>a. (va_venue a, va_id a)) ` set as \<subseteq> keys \<Longrightarrow> active_ok keys (fold first_active as m)"
  by (induction as arbitrary: m) (auto simp: first_active_def active_ok_set split: option.split)

lemma first_active_keeps: "obj_get m k \<noteq> None \<Longrightarrow> obj_get (fold first_active as m) k = obj_get m k"
  by (induction as arbitrary: m) (auto simp: first_active_def split: option.splits)

lemma first_active_all: "a \<in> set as \<Longrightarrow> obj_get (fold first_active as m) (venue_id (va_venue a)) \<noteq> None"
proof (induction as arbitrary: m)
  case (Cons b as)
  show ?case
  proof (cases "a = b")
    case True
    have "obj_get (first_active b m) (venue_id (va_venue b)) \<noteq> None"
      by (auto simp: first_active_def split: option.split)
    with True show ?thesis using first_active_keeps [of "first_active b m"] by simp
  qed (use Cons in auto)
qed simp

text \<open>Whatever was active, with the first of every venue filled in the state is well formed.\<close>

lemma withActive_ok:
  assumes "distinct (account_keys s)" "active_ok (set (account_keys s)) (acc_active s)"
    "\<forall>a \<in> set (acc_list s). length (va_name a) \<le> ACCOUNT_NAME_MAX"
  shows "accounts_ok (withActive s)"
proof -
  have keys: "account_keys (withActive s) = account_keys s" by (simp add: account_keys_def withActive_def)
  have "active_ok (set (account_keys s)) (acc_active (withActive s))"
    using assms(2) unfolding withActive_def by (simp add: first_active_ok account_keys_def)
  moreover have "\<forall>(v, i) \<in> set (account_keys s). obj_get (acc_active (withActive s)) (venue_id v) \<noteq> None"
    using first_active_all by (fastforce simp: account_keys_def withActive_def)
  moreover have "acc_list (withActive s) = acc_list s" by (simp add: withActive_def)
  ultimately show ?thesis using assms(1,3) by (simp add: accounts_ok_def keys)
qed

lemma parseAccounts_keys:
  assumes "distinct (map (\<lambda>a. (va_venue a, va_id a)) as)" "\<forall>a \<in> set as. length (va_name a) \<le> ACCOUNT_NAME_MAX"
  shows "distinct (map (\<lambda>a. (va_venue a, va_id a)) (fold take_account js as)) \<and>
     (\<forall>a \<in> set (fold take_account js as). length (va_name a) \<le> ACCOUNT_NAME_MAX)"
  using assms
proof (induction js arbitrary: as)
  case (Cons j js)
  have "distinct (map (\<lambda>a. (va_venue a, va_id a)) (take_account j as)) \<and>
      (\<forall>a \<in> set (take_account j as). length (va_name a) \<le> ACCOUNT_NAME_MAX)"
    using Cons.prems cleanAccountName_length by (auto simp: take_account_def split: option.split)
  with Cons.IH [of "take_account j as"] show ?case by simp
qed simp

lemma take_active_ok:
  "active_ok ((\<lambda>a. (va_venue a, va_id a)) ` set as) m \<Longrightarrow>
   active_ok ((\<lambda>a. (va_venue a, va_id a)) ` set as) (fold (take_active as) entries m)"
proof (induction entries arbitrary: m)
  case (Cons kv entries)
  have "active_ok ((\<lambda>a. (va_venue a, va_id a)) ` set as) (take_active as kv m)"
    using Cons.prems active_ok_set venue_named_back [of "fst kv"]
    by (auto simp: take_active_def split: option.split json.split)
  then show ?case using Cons.IH by simp
qed simp

lemma NO_ACCOUNTS_ok [simp]: "accounts_ok NO_ACCOUNTS"
  by (simp add: accounts_ok_def NO_ACCOUNTS_def account_keys_def active_ok_def)

lemma parseAccounts_ok: "accounts_ok (parseAccounts raw)"
proof -
  have "accounts_ok (withActive \<lparr>acc_list = fold take_account js [],
      acc_active = fold (take_active (fold take_account js [])) entries []\<rparr>)" for js entries
    using parseAccounts_keys [of "[]" js] take_active_ok [of "fold take_account js []" "[]" entries]
    by (intro withActive_ok) (simp_all add: account_keys_def active_ok_def)
  then show ?thesis by (auto simp: parseAccounts_def Let_def split: option.split)
qed

lemma withAccount_ok: "accounts_ok s \<Longrightarrow> accounts_ok (withAccount s v i name)"
proof -
  assume ok: "accounts_ok s"
  have keys: "set (account_keys (withAccount s v i name)) = insert (v, i) (set (account_keys s))"
    by (auto simp: account_keys_def withAccount_def)
  have "active_ok (insert (v, i) (set (account_keys s))) (acc_active (withAccount s v i name))"
    using ok unfolding withAccount_def accounts_ok_def
    by (auto intro!: active_ok_set intro: active_ok_mono)
  moreover have "distinct (account_keys (withAccount s v i name))"
    using ok by (auto simp: accounts_ok_def account_keys_def withAccount_def)
  moreover have "\<forall>a \<in> set (acc_list (withAccount s v i name)). length (va_name a) \<le> ACCOUNT_NAME_MAX"
    using ok cleanAccountName_length by (auto simp: accounts_ok_def withAccount_def)
  moreover have "\<forall>(w, j) \<in> set (account_keys (withAccount s v i name)).
      obj_get (acc_active (withAccount s v i name)) (venue_id w) \<noteq> None"
    using ok by (auto simp: accounts_ok_def keys) (auto simp: withAccount_def)
  ultimately show ?thesis by (simp add: accounts_ok_def keys)
qed

lemma withoutAccount_ok: "accounts_ok s \<Longrightarrow> accounts_ok (withoutAccount s v i)"
proof -
  assume ok: "accounts_ok s"
  have keys: "account_keys \<lparr>acc_list = filter (\<lambda>a. \<not> is_account v i a) (acc_list s), acc_active = m\<rparr> =
      filter (\<lambda>k. k \<noteq> (v, i)) (account_keys s)" for m
    by (simp add: account_keys_def filter_map o_def is_account_def)
  show ?thesis unfolding withoutAccount_def
  proof (rule withActive_ok)
    show "active_ok (set (account_keys \<lparr>acc_list = filter (\<lambda>a. \<not> is_account v i a) (acc_list s),
        acc_active = if obj_get (acc_active s) (venue_id v) = Some i then obj_del (acc_active s) (venue_id v)
                     else acc_active s\<rparr>))
      (acc_active \<lparr>acc_list = filter (\<lambda>a. \<not> is_account v i a) (acc_list s),
        acc_active = if obj_get (acc_active s) (venue_id v) = Some i then obj_del (acc_active s) (venue_id v)
                     else acc_active s\<rparr>)"
      using ok unfolding keys by (auto simp: accounts_ok_def active_ok_def)
  qed (use ok in \<open>simp_all only: keys\<close>, auto simp: accounts_ok_def)
qed

lemma withName_ok: "accounts_ok s \<Longrightarrow> accounts_ok (withName s v i name)"
proof -
  assume ok: "accounts_ok s"
  have "account_keys (withName s v i name) = account_keys s"
    by (simp add: account_keys_def withName_def Let_def o_def if_distrib cong: if_cong)
  with ok cleanAccountName_length show ?thesis
    by (auto simp: accounts_ok_def withName_def Let_def)
qed

lemma account_step_ok: "accounts_ok s \<Longrightarrow> accounts_ok (account_step e s)"
proof (cases e)
  case (SelectAccount v i)
  assume ok: "accounts_ok s"
  have "active_ok (set (account_keys s)) (obj_set (acc_active s) (venue_id v) i)"
    if "(v, i) \<in> set (account_keys s)"
    using ok that by (intro active_ok_set) (simp_all add: accounts_ok_def)
  with ok show ?thesis
    by (auto simp: SelectAccount account_step_def selectAccount_def accounts_ok_def account_keys_def)
qed (simp_all add: account_step_def withAccount_ok withoutAccount_ok withName_ok)

definition accounts_start :: "accounts_state \<Rightarrow> bool" where
  "accounts_start s = (\<exists>raw. s = parseAccounts raw)"

interpretation connected: machine account_step accounts_start accounts_ok
  by unfold_locales (auto simp: accounts_start_def parseAccounts_ok account_step_ok)

lemma accountsState_ok:
  assumes "accounts_ok (sr_cached st)"
  shows "accounts_ok (sr_cached (accountsState m st))"
proof -
  have "accounts_ok (migrateLegacy w b)" for w b
    by (auto simp: migrateLegacy_def Let_def withAccount_ok split: option.split)
  with assms have "accounts_ok (sr_cached (save_accounts m (migrateLegacy w b) st))" for w b
    by (simp add: save_accounts_def)
  with assms show ?thesis
    by (simp add: accountsState_def Let_def parseAccounts_ok)
qed

lemma update_accounts_ok: "accounts_ok (sr_cached st) \<Longrightarrow> accounts_ok (sr_cached (update_accounts me st))"
proof -
  assume "accounts_ok (sr_cached st)"
  then have ok: "accounts_ok (sr_cached (accountsState (fst me) st))" by (rule accountsState_ok)
  with account_step_ok [OF ok, of "snd me"] show ?thesis
    by (auto simp: update_accounts_def Let_def save_accounts_def account_step_def split: option.split)
qed

lemma updates_accounts_ok:
  "accounts_ok (sr_cached st) \<Longrightarrow> accounts_ok (sr_cached (fold update_accounts es st))"
  by (induction es arbitrary: st) (simp_all add: update_accounts_ok)

text \<open>In a well-formed state a venue has an active account exactly where it has one at all.\<close>

lemma active_of_own:
  assumes ok: "accounts_ok s"
  shows "case activeAccount s v of None \<Rightarrow> venueAccounts s v = [] | Some a \<Rightarrow> a \<in> set (venueAccounts s v)"
proof (cases "activeAccount s v")
  case (Some a)
  then show ?thesis
    by (auto simp: activeAccount_def venueAccounts_def is_account_def dest!: find_SomeD split: option.splits)
next
  case None
  have "va_venue a \<noteq> v" if a: "a \<in> set (acc_list s)" for a
  proof
    assume v: "va_venue a = v"
    with ok a obtain i where i: "obj_get (acc_active s) (venue_id v) = Some i"
      by (fastforce simp: accounts_ok_def account_keys_def)
    with ok have "(v, i) \<in> set (account_keys s)" by (auto simp: accounts_ok_def active_ok_def)
    with None i show False by (auto simp: activeAccount_def find_None is_account_def account_keys_def)
  qed
  with None show ?thesis by (auto simp: venueAccounts_def filter_empty_conv)
qed

text \<open>C31: However the accounts are used, whatever was stored before, now or by an earlier version, and whether or not the
  page's storage works, every account is there once, and a venue has an active account, one of its own, exactly
  where it has any.\<close>

theorem accounts_have_active:
  "let s = sr_cached (accountsState m (fold update_accounts es
        \<lparr>sr_raw = raw, sr_wallet = wallet, sr_bybit = bybit, sr_cachedRaw = None, sr_cached = NO_ACCOUNTS\<rparr>))
   in distinct (account_keys s) \<and>
      (case activeAccount s v of None \<Rightarrow> venueAccounts s v = [] | Some a \<Rightarrow> a \<in> set (venueAccounts s v))"
proof -
  let ?s = "sr_cached (accountsState m (fold update_accounts es
        \<lparr>sr_raw = raw, sr_wallet = wallet, sr_bybit = bybit, sr_cachedRaw = None, sr_cached = NO_ACCOUNTS\<rparr>))"
  have "accounts_ok ?s" by (intro accountsState_ok updates_accounts_ok) simp
  then show ?thesis using active_of_own [of ?s v] by (simp add: accounts_ok_def)
qed

section \<open>A switch of live trading is for one account\<close>

lemma no_space_trim: "list_all (\<lambda>c. \<not> is_space c) s \<Longrightarrow> js_trim s = s"
  by (simp add: js_trim_def dropWhile_none)

lemma hex_not_space: "is_hex c \<Longrightarrow> \<not> is_space c"
proof -
  assume h: "is_hex c"
  have "(of_char c :: int) = int (of_char c)" by (simp add: of_nat_of_char)
  with h have "is_digit c \<or> 97 \<le> (of_char c :: nat) \<and> (of_char c :: nat) \<le> 102"
    by (simp add: is_hex_def)
  then show ?thesis using digit_not_space by (auto simp: is_space_def)
qed

lemma starts_with_split: "starts_with s p \<Longrightarrow> s = p @ drop (length p) s"
  by (metis append_take_drop_id starts_with_def)

lemma hex_lower: "list_all is_hex s \<Longrightarrow> to_lower s = s"
  by (induction s) (auto simp: to_lower_def is_hex_def is_digit_def)

text \<open>A valid id as a text: a UID, perhaps with \<open>demo:\<close> in front, or a wallet's address.\<close>

lemma account_id_cases:
  assumes "isAccountId v i"
  obtains (uid) d where "isUidVenue v" "is_uid d" "i = d \<or> i = ''demo:'' @ d"
  | (wallet) h where "\<not> isUidVenue v" "i = ''0x'' @ h" "list_all is_hex h"
proof (cases "isUidVenue v")
  case True
  let ?d = "if starts_with i ''demo:'' then drop 5 i else i"
  have "is_uid ?d" using assms True by (simp add: isAccountId_def)
  moreover have "i = ?d \<or> i = ''demo:'' @ ?d"
    using starts_with_split [of i "''demo:''"] by (auto simp: eval_nat_numeral)
  ultimately show ?thesis using True uid by blast
next
  case False
  then show ?thesis
    using assms starts_with_split [of i "''0x''"] wallet [of "drop 2 i"] by (simp add: isAccountId_def numeral_2_eq_2)
qed

lemma account_id_plain: "isAccountId v i \<Longrightarrow> list_all (\<lambda>c. \<not> is_space c) i"
proof (erule account_id_cases)
  fix d assume "is_uid d" "i = d \<or> i = ''demo:'' @ d"
  moreover from this have "list_all (\<lambda>c. \<not> is_space c) d"
    using digit_not_space by (auto simp: is_uid_def list_all_iff)
  ultimately show ?thesis by (auto simp: is_space_def)
next
  fix h assume "i = ''0x'' @ h" "list_all is_hex h"
  then show ?thesis using hex_not_space by (auto simp: list_all_iff is_space_def)
qed

lemma wallet_lower: "isAccountId v i \<Longrightarrow> \<not> isUidVenue v \<Longrightarrow> to_lower i = i"
proof (erule account_id_cases)
  fix h assume h: "i = ''0x'' @ h" "list_all is_hex h"
  have "to_lower (''0x'' @ h) = to_lower ''0x'' @ to_lower h" by (simp add: to_lower_def)
  moreover have "to_lower ''0x'' = ''0x''" by code_simp
  ultimately show "to_lower i = i" using h by (simp add: hex_lower)
qed simp

lemma liveId_plain: "isAccountId v i \<Longrightarrow> liveId v i = (if v = Bybit then i else venue_id v @ '':'' @ i)"
  by (cases v) (auto simp: liveId_def no_space_trim account_id_plain wallet_lower isUidVenue_def)

lemma bybit_id_start: "isAccountId Bybit i \<Longrightarrow> i \<noteq> [] \<and> (is_digit (hd i) \<or> hd i = CHR ''d'')"
  by (erule account_id_cases) (auto simp: isUidVenue_def is_uid_def neq_Nil_conv)

lemma liveId_inj:
  assumes "isAccountId v i" "isAccountId w j" "liveId v i = liveId w j"
  shows "v = w \<and> i = j"
proof -
  have other: "liveId w j \<noteq> i" if "isAccountId Bybit i" "isAccountId w j" "w \<noteq> Bybit" for i j w
    using bybit_id_start [OF that(1)] that(2,3)
    by (cases w) (auto simp: liveId_plain venue_id_simps is_digit_def)
  show ?thesis
  proof (cases "v = Bybit \<or> w = Bybit")
    case True
    then show ?thesis
    proof
      assume "v = Bybit"
      with other [where i = i and j = j and w = w] assms show ?thesis by (cases "w = Bybit") (auto simp: liveId_plain [of Bybit])
    next
      assume "w = Bybit"
      with other [where i = j and j = i and w = v] assms show ?thesis by (cases "v = Bybit") (auto simp: liveId_plain [of Bybit])
    qed
  next
    case False
    with assms show ?thesis by (cases v; cases w) (auto simp: liveId_plain venue_id_simps)
  qed
qed

lemma live_switch:
  assumes "isAccountId (va_venue a) (va_id a)" "isAccountId (va_venue b) (va_id b)"
    "setLiveTrading accepted a on uids = Some uids'"
  shows "liveId (va_venue b) (va_id b) \<in> set uids' \<longleftrightarrow>
    (if va_venue b = va_venue a \<and> va_id b = va_id a then on else liveId (va_venue b) (va_id b) \<in> set uids)"
  using assms liveId_inj [OF assms(1,2)]
  by (auto simp: setLiveTrading_def Let_def split: if_splits)

text \<open>C32: Live trading is switched for a connected account exactly where it is not on BloFin and Rust accepts it, else nothing
  is switched. A switch decides whether that account can trade and changes nothing for any other. A Demo Trading
  account can always trade.\<close>

theorem live_switch_is_for_one_account:
  assumes "isAccountId (va_venue a) (va_id a)" "isAccountId (va_venue b) (va_id b)"
  shows "if va_venue a = Blofin \<or> \<not> accepted then setLiveTrading accepted a on uids = None
    else \<exists>uids'. setLiveTrading accepted a on uids = Some uids' \<and>
      (canTrade (Some b) uids' \<longleftrightarrow>
        isDemoAccount (va_venue b) (va_id b) \<or>
        (if va_venue b = va_venue a \<and> va_id b = va_id a then on else canTrade (Some b) uids))"
proof (cases "va_venue a = Blofin \<or> \<not> accepted")
  case True
  then show ?thesis by (auto simp: setLiveTrading_def)
next
  case False
  then obtain uids' where u: "setLiveTrading accepted a on uids = Some uids'" by (auto simp: setLiveTrading_def Let_def)
  from False live_switch [OF assms u] u show ?thesis by (auto simp: canTrade_def)
qed

theorem live_switch_is_for_one_account_witness:
  "\<exists>uids'. setLiveTrading True \<lparr>va_venue = Bybit, va_id = ''7'', va_name = []\<rparr> True [] = Some uids' \<and>
     \<not> canTrade (Some \<lparr>va_venue = Binance, va_id = ''7'', va_name = []\<rparr>) uids'"
proof -
  have "isAccountId Bybit ''7''" "isAccountId Binance ''7''" by code_simp+
  then show ?thesis
    using live_switch_is_for_one_account
      [of "\<lparr>va_venue = Bybit, va_id = ''7'', va_name = []\<rparr>" "\<lparr>va_venue = Binance, va_id = ''7'', va_name = []\<rparr>" True True "[]"]
    by (auto simp: isDemoAccount_def starts_with_def canTrade_def)
qed

section \<open>What is read back\<close>

text \<open>Accounts saved and read again are the same but for names, which are cleaned once more.\<close>

lemma take_accounts_back:
  assumes "distinct (map (\<lambda>a. (va_venue a, va_id a)) (as @ bs))" "\<forall>b \<in> set bs. isAccountId (va_venue b) (va_id b)"
  shows "fold take_account (map account_json bs) as = as @ map (\<lambda>b. b\<lparr>va_name := cleanAccountName (va_name b)\<rparr>) bs"
  using assms
proof (induction bs arbitrary: as)
  case (Cons b bs)
  have n: "name_in ACCOUNT_VENUES (Some (JStr (venue_id v))) = Some v" for v
    by (simp add: name_in_def)
  have b: "take_account (account_json b) as = as @ [b\<lparr>va_name := cleanAccountName (va_name b)\<rparr>]"
    using Cons.prems by (auto simp: take_account_def account_json_def n)
  show ?case
    using Cons.prems Cons.IH [of "as @ [b\<lparr>va_name := cleanAccountName (va_name b)\<rparr>]"] by (simp add: b)
qed simp

lemma accounts_list_back:
  assumes "accounts_ok s" "\<forall>a \<in> set (acc_list s). isAccountId (va_venue a) (va_id a)"
  shows "acc_list (parseAccounts (Some (Some (accounts_json s)))) =
    map (\<lambda>b. b\<lparr>va_name := cleanAccountName (va_name b)\<rparr>) (acc_list s)"
proof -
  have "fold take_account (map account_json (acc_list s)) [] =
      map (\<lambda>b. b\<lparr>va_name := cleanAccountName (va_name b)\<rparr>) (acc_list s)"
    using assms take_accounts_back [of "[]" "acc_list s"] by (simp add: accounts_ok_def account_keys_def)
  then show ?thesis by (simp add: parseAccounts_def accounts_json_def withActive_def Let_def)
qed

text \<open>A change the store refuses is gone at the next read, which goes by what is stored.\<close>

lemma refused_account_change_lost:
  assumes "m \<noteq> Works" "next_accounts e (sr_cached (accountsState m st)) = Some s"
    "read_key m (sr_raw st) \<noteq> Some (Some (accounts_json s))"
  shows "sr_cached (accountsState m (update_accounts (m, e) st)) = parseAccounts (read_key m (sr_raw st))"
  using assms by (auto simp: update_accounts_def accountsState_def save_accounts_def Let_def read_key_def)

end
