(* ===== verification/Avatars.thy ===== *)
theory Avatars
  imports Accounts "HOL-Library.Word"
begin

text \<open>
  The accounts' pictures, \<^verbatim>\<open>apps/desktop/src/lib/avatars.ts\<close>: which stored texts are taken
  back as a picture, and the identicon drawn from an account's id where it has none. The hash works
  on 32 bits: \<open>Math.imul\<close> and the unsigned right shift are multiplication and shift of a word.
\<close>

unbundle bit_operations_syntax

definition AVATAR_PREFIX :: string where
  "AVATAR_PREFIX = ''pd.avatar:''"

definition AVATAR_MAX_CHARS :: nat where
  "AVATAR_MAX_CHARS = 60000"

definition avatar_key :: "venue \<Rightarrow> string \<Rightarrow> string" where
  "avatar_key v i = AVATAR_PREFIX @ venue_id v @ '':'' @ i"

definition is_base64 :: "char \<Rightarrow> bool" where
  "is_base64 c =
     (is_digit c \<or> 65 \<le> (of_char c :: int) \<and> (of_char c :: int) \<le> 90 \<or>
      97 \<le> (of_char c :: int) \<and> (of_char c :: int) \<le> 122 \<or> c = CHR ''+'' \<or> c = CHR ''/'')"

text \<open>\<open>/^data:image\/(png|jpeg|webp);base64,[A-Za-z0-9+/]+=*$/\<close>\<close>

definition is_image_url :: "string \<Rightarrow> bool" where
  "is_image_url u =
     list_ex (\<lambda>kind. let p = ''data:image/'' @ kind @ '';base64,''; body = drop (length p) u
                     in starts_with u p \<and> takeWhile is_base64 body \<noteq> [] \<and>
                        list_all (\<lambda>c. c = CHR ''='') (dropWhile is_base64 body))
       [''png'', ''jpeg'', ''webp'']"

definition isAvatarUrl :: "string option \<Rightarrow> bool" where
  "isAvatarUrl value = (case value of None \<Rightarrow> False | Some u \<Rightarrow> length u < AVATAR_MAX_CHARS \<and> is_image_url u)"

definition avatarFor :: "string obj \<Rightarrow> venue \<Rightarrow> string \<Rightarrow> string option" where
  "avatarFor st v i = (let value = obj_get st (avatar_key v i) in if isAvatarUrl value then value else None)"

text \<open>\<open>accepts\<close>: whether the page's storage takes the write.\<close>

definition setAvatar :: "bool \<Rightarrow> venue \<Rightarrow> string \<Rightarrow> string \<Rightarrow> string obj \<Rightarrow> bool \<times> string obj" where
  "setAvatar accepts v i url st =
     (if \<not> isAvatarUrl (Some url) then (False, st)
      else if \<not> accepts then (False, st)
      else (True, obj_set st (avatar_key v i) url))"

definition removeAvatar :: "bool \<Rightarrow> venue \<Rightarrow> string \<Rightarrow> string obj \<Rightarrow> string obj" where
  "removeAvatar accepts v i st = (if accepts then obj_del st (avatar_key v i) else st)"

section \<open>The identicon\<close>

definition fnv_hash :: "string \<Rightarrow> 32 word" where
  "fnv_hash s = foldl (\<lambda>h c. (h XOR of_char c) * 0x01000193) 0x811c9dc5 s"

definition icon_cell :: "32 word \<Rightarrow> 32 word \<Rightarrow> nat \<Rightarrow> nat" where
  "icon_cell ones shade i = (if ones AND 1 = 1 then unat (drop_bit i shade AND 1) + 1 else 0)"

fun icon_half :: "32 word \<Rightarrow> 32 word \<Rightarrow> nat \<Rightarrow> nat \<Rightarrow> nat list \<times> 32 word" where
  "icon_half ones shade i 0 = ([], ones)"
| "icon_half ones shade i (Suc n) =
     (let (cells, rest) = icon_half (drop_bit 1 ones) shade (i + 1) n in (icon_cell ones shade i # cells, rest))"

fun icon_halves :: "32 word \<Rightarrow> 32 word \<Rightarrow> nat \<Rightarrow> nat \<Rightarrow> nat list list" where
  "icon_halves ones shade r 0 = []"
| "icon_halves ones shade r (Suc n) =
     (let (half, rest) = icon_half ones shade (r * 3) 3 in half # icon_halves rest shade (r + 1) n)"

definition mirror_half :: "nat list \<Rightarrow> nat list" where
  "mirror_half half = [half ! 0, half ! 1, half ! 2, half ! 1, half ! 0]"

definition identicon :: "string \<Rightarrow> nat list list" where
  "identicon i =
     (let halves = icon_halves (fnv_hash i) (fnv_hash (i @ '':shade'')) 0 5;
          filled = length (filter (\<lambda>c. c \<noteq> 0) (concat halves));
          rows = map mirror_half halves
      in if filled = 0 then map (\<lambda>row. row[2 := 2]) rows else rows)"

section \<open>Every account has a picture\<close>

lemma icon_cell_le: "icon_cell ones shade i \<le> 2"
proof -
  have "drop_bit i shade AND 1 = of_bool (bit shade i)"
    by (simp add: and_one_eq bit_iff_odd_drop_bit flip: odd_iff_mod_2_eq_one of_bool_odd_eq_mod_2)
  then have "unat (drop_bit i shade AND 1) \<le> 1" by simp
  then show ?thesis by (simp add: icon_cell_def)
qed

lemma icon_half_shape:
  "length (fst (icon_half ones shade i n)) = n \<and> list_all (\<lambda>c. c \<le> 2) (fst (icon_half ones shade i n))"
  by (induction n arbitrary: ones i) (simp_all add: icon_cell_le split_def Let_def)

lemma icon_halves_shape:
  "length (icon_halves ones shade r n) = n \<and>
   list_all (\<lambda>h. length h = 3 \<and> list_all (\<lambda>c. c \<le> 2) h) (icon_halves ones shade r n)"
proof (induction n arbitrary: ones r)
  case (Suc n)
  then show ?case using icon_half_shape [of ones shade "r * 3" 3]
    by (simp add: split_def Let_def del: icon_half.simps)
qed simp

lemma mirror_half_shape:
  "length (mirror_half h) = 5" "rev (mirror_half h) = mirror_half h"
  "length h = 3 \<Longrightarrow> set (mirror_half h) = set h"
  by (auto simp: mirror_half_def eval_nat_numeral length_Suc_conv)

text \<open>An identicon is five rows of five cells, each empty, dim or bright, the same left to right as right to
  left, and never blank.\<close>

theorem identicon_drawn:
  "length (identicon i) = 5 \<and>
   list_all (\<lambda>row. length row = 5 \<and> rev row = row \<and> list_all (\<lambda>c. c \<le> 2) row) (identicon i) \<and>
   list_ex (list_ex (\<lambda>c. 0 < c)) (identicon i)"
proof -
  define hs where "hs = icon_halves (fnv_hash i) (fnv_hash (i @ '':shade'')) 0 5"
  have hs: "length hs = 5" "list_all (\<lambda>h. length h = 3 \<and> list_all (\<lambda>c. c \<le> 2) h) hs"
    using icon_halves_shape by (simp_all add: hs_def)
  have icon: "identicon i = (if \<forall>h \<in> set hs. \<forall>c \<in> set h. c = 0 then map (\<lambda>h. (mirror_half h)[2 := 2]) hs
      else map mirror_half hs)"
    by (auto simp: identicon_def Let_def hs_def filter_empty_conv)
  have mid: "length ((mirror_half h)[2 := 2]) = 5" "rev ((mirror_half h)[2 := 2]) = (mirror_half h)[2 := 2]"
    "(2::nat) \<in> set ((mirror_half h)[2 := 2])" "set ((mirror_half h)[2 := 2]) \<subseteq> insert 2 (set (mirror_half h))" for h
    by (auto simp: mirror_half_def eval_nat_numeral)
  show ?thesis
  proof (cases "\<forall>h \<in> set hs. \<forall>c \<in> set h. c = 0")
    case True
    have "hs \<noteq> []" using hs(1) by auto
    moreover have "list_ex (\<lambda>c. 0 < c) ((mirror_half h)[2 := 2])" for h
      using mid(3) [of h] unfolding list_ex_iff by (intro bexI [of _ 2]) simp_all
    ultimately have "list_ex (list_ex (\<lambda>c. 0 < c)) (identicon i)"
      unfolding icon if_P [OF True] by (cases hs) simp_all
    moreover have "list_all (\<lambda>c. c \<le> 2) ((mirror_half h)[2 := 2])" if "h \<in> set hs" for h
      using mid(4) [of h] mirror_half_shape(3) [of h] that hs(2) by (fastforce simp: list_all_iff)
    ultimately show ?thesis using hs(1) mid(1,2) unfolding icon if_P [OF True] by (auto simp: list_all_iff)
  next
    case False
    then have "list_ex (list_ex (\<lambda>c. 0 < c)) (identicon i)"
      using hs(2) mirror_half_shape(3) by (fastforce simp: icon if_not_P [OF False] list_ex_iff list_all_iff)
    with hs show ?thesis using mirror_half_shape unfolding icon if_not_P [OF False]
      by (auto simp: list_all_iff)
  qed
qed

text \<open>Pictures of different accounts are kept apart, and only a picture is taken back.\<close>

lemma avatar_key_inj [simp]: "avatar_key v i = avatar_key w j \<longleftrightarrow> v = w \<and> i = j"
  by (cases v; cases w) (auto simp: avatar_key_def AVATAR_PREFIX_def venue_id_simps)

lemma avatar_kept:
  "snd (setAvatar accepts v i url st) = st' \<Longrightarrow>
   avatarFor st' w j = (if fst (setAvatar accepts v i url st) \<and> w = v \<and> j = i then Some url else avatarFor st w j)"
  by (auto simp: setAvatar_def avatarFor_def Let_def)

lemma avatar_removed: "avatarFor (removeAvatar True v i st) w j = (if w = v \<and> j = i then None else avatarFor st w j)"
  by (auto simp: removeAvatar_def avatarFor_def isAvatarUrl_def Let_def)

end
