(* ===== verification/Screener.thy ===== *)
theory Screener
  imports Indicators Js_Value
begin

text \<open>
  The screener, \<^verbatim>\<open>packages/ui/src/lib/screener.ts\<close>: what is shown of a market, the one signal
  picked out, filters and sorting, the signals between two looks at the markets and the change of open interest; and
  the bottom bar's movement, \<^verbatim>\<open>packages/ui/src/lib/movement.ts\<close>. A \<open>Map\<close> keyed by
  market is an association list in insertion order. Comparing names is the browser's: a parameter.
\<close>

record market_history =
  mh_market :: string
  mh_interval :: candle_interval
  mh_candles :: "candle list"

section \<open>Figures\<close>

definition close_at :: "jsnum list \<Rightarrow> nat \<Rightarrow> jsnum" where
  "close_at closes i = (case nth_opt closes i of Some c \<Rightarrow> c | None \<Rightarrow> 0)"

definition first_moves :: "jsnum list \<Rightarrow> nat \<Rightarrow> jsnum \<times> jsnum" where
  "first_moves closes period =
     fold (\<lambda>i (gain, loss). let d = close_at closes i - close_at closes (i - 1)
                            in if 0 < d then (gain + d, loss) else (gain, loss - d)) [1..<period + 1] (0, 0)"

definition smoothed_moves :: "jsnum list \<Rightarrow> nat \<Rightarrow> jsnum \<times> jsnum \<Rightarrow> jsnum \<times> jsnum" where
  "smoothed_moves closes period start =
     fold (\<lambda>i (gain, loss). let d = close_at closes i - close_at closes (i - 1)
                            in ((gain * (num (of_nat period) - 1) + math_max d 0) / num (of_nat period),
                                (loss * (num (of_nat period) - 1) + math_max (- d) 0) / num (of_nat period)))
       [period + 1..<length closes] start"

definition rsi_now :: "jsnum list \<Rightarrow> nat \<Rightarrow> jsnum option" where
  "rsi_now closes period =
     (if length closes < period + 1 then None
      else (case first_moves closes period of (gain0, loss0) \<Rightarrow>
            case smoothed_moves closes period (gain0 / num (of_nat period), loss0 / num (of_nat period)) of
              (gain, loss) \<Rightarrow>
                Some (if js_eq loss 0 then (if js_eq gain 0 then Fin 50 else Fin 100)
                      else Fin 100 - Fin 100 / (1 + gain / loss))))"

text \<open>\<open>xs.at(-1 - n)\<close>\<close>

definition from_end :: "'a list \<Rightarrow> nat \<Rightarrow> 'a option" where
  "from_end xs n = (if n < length xs then Some (xs ! (length xs - 1 - n)) else None)"

definition changeOver :: "jsnum list \<Rightarrow> nat \<Rightarrow> jsnum option" where
  "changeOver closes steps =
     (case (from_end closes 0, from_end closes steps) of
        (Some last', Some then') \<Rightarrow> if 0 < then' then Some (last' / then' - 1) else None
      | _ \<Rightarrow> None)"

definition fundingApr :: "jsnum \<Rightarrow> jsnum \<Rightarrow> jsnum" where
  "fundingApr rate intervalSecs = (if 0 < intervalSecs then rate * (Fin (365 * 24 * 3600) / intervalSecs) else 0)"

section \<open>Rows\<close>

datatype signal = Overbought | Oversold | OiSpike | CrowdedLong | NegativeFunding | Momentum

record signal_rules =
  ru_overbought :: jsnum
  ru_oversold :: jsnum
  ru_oiSpike :: jsnum
  ru_crowdedLongApr :: jsnum
  ru_negativeFundingApr :: jsnum
  ru_momentum24h :: jsnum
  ru_topMover24h :: jsnum
  ru_fundingExtremeApr :: jsnum
  ru_volumeSurge :: jsnum

definition SIGNAL_RULES :: signal_rules where
  "SIGNAL_RULES = \<lparr>ru_overbought = Fin 70, ru_oversold = Fin 30, ru_oiSpike = num (3 / 100),
     ru_crowdedLongApr = num (1 / 2), ru_negativeFundingApr = num (- 1 / 10), ru_momentum24h = num (3 / 100),
     ru_topMover24h = num (3 / 100), ru_fundingExtremeApr = num (1 / 2), ru_volumeSurge = Fin 2\<rparr>"

definition OI_WINDOW_MS :: jsnum where
  "OI_WINDOW_MS = Fin (15 * 60000)"

definition HL_ECOSYSTEM :: "string set" where
  "HL_ECOSYSTEM = {''HYPE'', ''PURR''}"

record screener_row =
  sc_market :: market
  sc_price :: jsnum
  sc_rawPrice :: string
  sc_change1h :: "jsnum option"
  sc_change24h :: jsnum
  sc_change7d :: "jsnum option"
  sc_spark :: "jsnum list option"
  sc_volume :: jsnum
  sc_openInterest :: jsnum
  sc_funding :: jsnum
  sc_fundingApr :: jsnum
  sc_rsi1h :: "jsnum option"
  sc_oiChange :: "jsnum option"
  sc_signal :: "signal option"

text \<open>An optional figure at or past a bound: nothing where there is no figure.\<close>

definition at_least :: "jsnum option \<Rightarrow> jsnum \<Rightarrow> bool" where
  "at_least v b = (case v of Some x \<Rightarrow> b \<le> x | None \<Rightarrow> False)"

definition at_most :: "jsnum option \<Rightarrow> jsnum \<Rightarrow> bool" where
  "at_most v b = (case v of Some x \<Rightarrow> x \<le> b | None \<Rightarrow> False)"

definition signalFor :: "screener_row \<Rightarrow> signal option" where
  "signalFor row =
     (let r = SIGNAL_RULES in
      if at_least (sc_rsi1h row) (ru_overbought r) then Some Overbought
      else if at_most (sc_rsi1h row) (ru_oversold r) then Some Oversold
      else if at_least (sc_oiChange row) (ru_oiSpike r) then Some OiSpike
      else if ru_crowdedLongApr r \<le> sc_fundingApr row then Some CrowdedLong
      else if sc_fundingApr row \<le> ru_negativeFundingApr r then Some NegativeFunding
      else if ru_momentum24h r \<le> sc_change24h row then Some Momentum
      else None)"

definition screener_row_of :: "market \<Rightarrow> market_summary \<Rightarrow> market_history option \<Rightarrow> jsnum option \<Rightarrow> screener_row" where
  "screener_row_of mk s history oiChange =
     (let price = to_number (s_markPrice s);
          prev = to_number (s_prevDayPrice s);
          closes = map_option (\<lambda>h. map (\<lambda>c. to_number (k_close c)) (mh_candles h)) history;
          funding = to_number (s_fundingRate s);
          week = (case closes of
                    Some (c # cs) \<Rightarrow> if c \<noteq> 0 \<and> c \<noteq> NaN then Some (last (c # cs) / c - 1) else None
                  | _ \<Rightarrow> None);
          row = \<lparr>sc_market = mk, sc_price = price, sc_rawPrice = s_markPrice s,
                 sc_change1h = (case closes of Some cs \<Rightarrow> changeOver cs 1 | None \<Rightarrow> None),
                 sc_change24h = (if 0 < prev then (price - prev) / prev else 0),
                 sc_change7d = week, sc_spark = closes, sc_volume = to_number (s_dayVolume s),
                 sc_openInterest = to_number (s_openInterest s) * price, sc_funding = funding,
                 sc_fundingApr = fundingApr funding (s_fundingIntervalSecs s),
                 sc_rsi1h = (case closes of Some cs \<Rightarrow> rsi_now cs 14 | None \<Rightarrow> None),
                 sc_oiChange = oiChange, sc_signal = None\<rparr>
      in row\<lparr>sc_signal := signalFor row\<rparr>)"

definition screenerRows ::
    "market list \<Rightarrow> market_summary list \<Rightarrow> market_history obj \<Rightarrow> jsnum obj \<Rightarrow> screener_row list" where
  "screenerRows markets summaries histories oiChanges =
     (let byId = fold (\<lambda>s m. obj_set m (s_market s) s) summaries []
      in List.map_filter
           (\<lambda>mk. map_option (\<lambda>s. screener_row_of mk s (obj_get histories (m_id mk)) (obj_get oiChanges (m_id mk)))
                  (obj_get byId (m_id mk))) markets)"

section \<open>Search, filters and order\<close>

datatype screener_filter = AllMarkets | Movers | FundingFilter | OiFilter | HlFilter | BuilderFilter | StarredFilter

definition FILTERS :: "(string \<times> screener_filter) list" where
  "FILTERS = [(''all'', AllMarkets), (''movers'', Movers), (''funding'', FundingFilter), (''oi'', OiFilter),
     (''hl'', HlFilter), (''builder'', BuilderFilter), (''starred'', StarredFilter)]"

text \<open>\<open>s.includes(t)\<close>\<close>

fun has_text :: "string \<Rightarrow> string \<Rightarrow> bool" where
  "has_text [] t = (t = [])"
| "has_text (c # s) t = (starts_with (c # s) t \<or> has_text s t)"

definition matchesSearch :: "market \<Rightarrow> string \<Rightarrow> bool" where
  "matchesSearch mk needle =
     (if needle = [] then True
      else let upper = to_upper needle
           in has_text (to_upper (m_symbol mk)) upper \<or>
              (case m_listedBy mk of Some l \<Rightarrow> has_text (to_upper l) upper | None \<Rightarrow> False))"

definition listed_by_other :: "market \<Rightarrow> bool" where
  "listed_by_other mk = (case m_listedBy mk of Some l \<Rightarrow> l \<noteq> [] | None \<Rightarrow> False)"

fun matchesFilter :: "screener_row \<Rightarrow> screener_filter \<Rightarrow> string set \<Rightarrow> bool" where
  "matchesFilter row AllMarkets starred = True"
| "matchesFilter row Movers starred = (ru_topMover24h SIGNAL_RULES \<le> \<bar>sc_change24h row\<bar>)"
| "matchesFilter row FundingFilter starred = (ru_fundingExtremeApr SIGNAL_RULES \<le> \<bar>sc_fundingApr row\<bar>)"
| "matchesFilter row OiFilter starred = at_least (sc_oiChange row) (ru_oiSpike SIGNAL_RULES)"
| "matchesFilter row HlFilter starred = (\<not> listed_by_other (sc_market row) \<and> m_base (sc_market row) \<in> HL_ECOSYSTEM)"
| "matchesFilter row BuilderFilter starred = listed_by_other (sc_market row)"
| "matchesFilter row StarredFilter starred = (m_id (sc_market row) \<in> starred)"

datatype screener_sort =
  ByMarket | ByPrice | ByChange1h | ByChange24h | ByChange7d | ByVolume | ByOpenInterest | ByFunding | ByRsi1h

text \<open>What a column holds: a name, or a figure that may be missing.\<close>

fun column_value :: "screener_sort \<Rightarrow> screener_row \<Rightarrow> (string + jsnum) option" where
  "column_value ByMarket r = Some (Inl (m_symbol (sc_market r)))"
| "column_value ByPrice r = Some (Inr (sc_price r))"
| "column_value ByChange1h r = map_option Inr (sc_change1h r)"
| "column_value ByChange24h r = Some (Inr (sc_change24h r))"
| "column_value ByChange7d r = map_option Inr (sc_change7d r)"
| "column_value ByVolume r = Some (Inr (sc_volume r))"
| "column_value ByOpenInterest r = Some (Inr (sc_openInterest r))"
| "column_value ByFunding r = Some (Inr (sc_funding r))"
| "column_value ByRsi1h r = map_option Inr (sc_rsi1h r)"

text \<open>Whether the comparison of two columns is below zero. \<open>localeCompare\<close> is the browser's.\<close>

definition column_before ::
    "(string \<Rightarrow> string \<Rightarrow> jsnum) \<Rightarrow> bool \<Rightarrow> (string + jsnum) option \<Rightarrow> (string + jsnum) option \<Rightarrow> bool" where
  "column_before localeCompare descending va vb =
     (case (va, vb) of
        (Some (Inl a), Some (Inl b)) \<Rightarrow>
          (if descending then - localeCompare a b else localeCompare a b) < 0
      | (Some (Inr a), Some (Inr b)) \<Rightarrow> (if descending then - (a - b) else a - b) < 0
      | (Some _, None) \<Rightarrow> True
      | _ \<Rightarrow> False)"

definition sortRows ::
    "(string \<Rightarrow> string \<Rightarrow> jsnum) \<Rightarrow> screener_row list \<Rightarrow> screener_sort \<Rightarrow> bool \<Rightarrow> screener_row list" where
  "sortRows localeCompare rows by' descending =
     js_sort (\<lambda>a b. column_before localeCompare descending (column_value by' a) (column_value by' b)) rows"

section \<open>Signals between two looks\<close>

datatype signal_event_kind =
  EvOverbought | EvOversold | EvFundingNegative | EvFundingPositive | EvOiSpike | EvBreakout | EvVolume

definition SIGNAL_EVENT_KINDS :: "(string \<times> signal_event_kind) list" where
  "SIGNAL_EVENT_KINDS = [(''overbought'', EvOverbought), (''oversold'', EvOversold),
     (''fundingNegative'', EvFundingNegative), (''fundingPositive'', EvFundingPositive), (''oiSpike'', EvOiSpike),
     (''breakout'', EvBreakout), (''volume'', EvVolume)]"

record signal_event =
  ev_id :: string
  ev_time :: jsnum
  ev_market :: string
  ev_kind :: signal_event_kind
  ev_value :: "jsnum option"

record market_state =
  mst_rsi1h :: "jsnum option"
  mst_fundingSign :: int
  mst_oiSpike :: bool
  mst_aboveHigh :: bool
  mst_high24h :: "jsnum option"
  mst_volumeSurge :: "jsnum option"

definition marketState :: "screener_row \<Rightarrow> market_history option \<Rightarrow> market_state" where
  "marketState row history =
     (let candles = (case history of Some h \<Rightarrow> mh_candles h | None \<Rightarrow> []);
          closed = butlast candles;
          day = take_last 24 closed;
          high24h = (if day = [] then None else Some (foldl math_max NInf (map (\<lambda>c. to_number (k_high c)) day)));
          volumes = map (\<lambda>c. to_number (k_volume c)) closed;
          lastVolume = from_end volumes 0;
          average = (if 1 < length volumes
                     then foldl (+) 0 (butlast volumes) / num (of_nat (length volumes - 1)) else 0);
          multiple = (case lastVolume of Some v \<Rightarrow> if 0 < average then v / average else 0 | None \<Rightarrow> 0)
      in \<lparr>mst_rsi1h = sc_rsi1h row,
          mst_fundingSign = (if 0 < sc_funding row then 1 else if sc_funding row < 0 then - 1 else 0),
          mst_oiSpike = at_least (sc_oiChange row) (ru_oiSpike SIGNAL_RULES),
          mst_aboveHigh = (case high24h of Some h \<Rightarrow> h < sc_price row | None \<Rightarrow> False),
          mst_high24h = high24h,
          mst_volumeSurge = (if ru_volumeSurge SIGNAL_RULES \<le> multiple then Some multiple else None)\<rparr>)"

definition signal_event_of :: "jsnum \<Rightarrow> string \<Rightarrow> signal_event_kind \<times> jsnum option \<Rightarrow> signal_event" where
  "signal_event_of now mk kv =
     \<lparr>ev_id = num_str now @ '':'' @ mk @ '':'' @ name_of SIGNAL_EVENT_KINDS (fst kv), ev_time = now, ev_market = mk,
      ev_kind = fst kv, ev_value = snd kv\<rparr>"

definition told :: "bool \<Rightarrow> signal_event_kind \<Rightarrow> jsnum option \<Rightarrow> (signal_event_kind \<times> jsnum option) list" where
  "told c k v = (if c then [(k, v)] else [])"

text \<open>What came about for one market, in the order it is told.\<close>

definition crossings :: "market_state \<Rightarrow> market_state \<Rightarrow> screener_row option \<Rightarrow> (signal_event_kind \<times> jsnum option) list" where
  "crossings prev next' row =
     (let r = SIGNAL_RULES in
      (case (mst_rsi1h prev, mst_rsi1h next') of
         (Some p, Some n) \<Rightarrow>
           told (p < ru_overbought r \<and> ru_overbought r \<le> n) EvOverbought (Some n) @
           told (ru_oversold r < p \<and> n \<le> ru_oversold r) EvOversold (Some n)
       | _ \<Rightarrow> []) @
      told (0 \<le> mst_fundingSign prev \<and> mst_fundingSign next' < 0) EvFundingNegative None @
      told (mst_fundingSign prev < 0 \<and> 0 < mst_fundingSign next') EvFundingPositive None @
      told (\<not> mst_oiSpike prev \<and> mst_oiSpike next') EvOiSpike
        (case row of Some w \<Rightarrow> sc_oiChange w | None \<Rightarrow> None) @
      told (\<not> mst_aboveHigh prev \<and> mst_aboveHigh next') EvBreakout (mst_high24h next') @
      told (mst_volumeSurge prev = None \<and> mst_volumeSurge next' \<noteq> None) EvVolume (mst_volumeSurge next'))"

definition signalEvents ::
    "market_state obj \<Rightarrow> market_state obj \<Rightarrow> screener_row obj \<Rightarrow> jsnum \<Rightarrow> signal_event list" where
  "signalEvents before after rows now =
     concat (map (\<lambda>(mk, next').
       case obj_get before mk of
         None \<Rightarrow> []
       | Some prev \<Rightarrow> map (signal_event_of now mk) (crossings prev next' (obj_get rows mk))) after)"

section \<open>Open interest over the window\<close>

text \<open>The samples that no longer matter are dropped from the front, the last always kept.\<close>

fun drop_old :: "jsnum \<Rightarrow> (jsnum \<times> jsnum) list \<Rightarrow> (jsnum \<times> jsnum) list" where
  "drop_old limit (a # b # xs) = (if fst b \<le> limit then drop_old limit (b # xs) else a # b # xs)"
| "drop_old limit xs = xs"

definition track_market ::
    "jsnum \<Rightarrow> market_summary \<Rightarrow> (jsnum \<times> jsnum) list obj \<times> jsnum obj \<Rightarrow> (jsnum \<times> jsnum) list obj \<times> jsnum obj" where
  "track_market now s state =
     (case state of (samples, changes) \<Rightarrow>
        let oi = to_number (s_openInterest s);
            list = (case obj_get samples (s_market s) of Some xs \<Rightarrow> xs | None \<Rightarrow> []) @ [(now, oi)];
            list = drop_old (now - OI_WINDOW_MS) list;
            first = hd list
        in (obj_set samples (s_market s) list,
            if OI_WINDOW_MS * num (9 / 10) \<le> now - fst first \<and> 0 < snd first
            then obj_set changes (s_market s) (oi / snd first - 1) else changes))"

definition trackOpenInterest ::
    "(jsnum \<times> jsnum) list obj \<Rightarrow> market_summary list \<Rightarrow> jsnum \<Rightarrow> (jsnum \<times> jsnum) list obj \<times> jsnum obj" where
  "trackOpenInterest samples summaries now = fold (track_market now) summaries (samples, [])"

section \<open>Movement\<close>

record venue_movement =
  mv_volume :: jsnum
  mv_openInterest :: jsnum
  mv_up :: nat
  mv_down :: nat
  mv_flat :: nat
  mv_change :: jsnum

definition changeOf :: "market_summary \<Rightarrow> jsnum option" where
  "changeOf s =
     (let prev = to_number (s_prevDayPrice s)
      in if 0 < prev then Some ((to_number (s_markPrice s) - prev) / prev) else None)"

text \<open>\<open>Number(x) || 0\<close>\<close>

definition number_or_0 :: "string \<Rightarrow> jsnum" where
  "number_or_0 x = (let n = to_number x in if n = NaN then 0 else n)"

text \<open>The totals after one more market: volume, open interest, weighted change, and the counts.\<close>

definition count_market :: "market_summary \<Rightarrow> venue_movement \<times> jsnum \<Rightarrow> venue_movement \<times> jsnum" where
  "count_market s acc =
     (case acc of (m, weighted) \<Rightarrow>
        let vol = number_or_0 (s_dayVolume s);
            m = m\<lparr>mv_volume := mv_volume m + vol,
                  mv_openInterest := mv_openInterest m + number_or_0 (s_openInterest s) * number_or_0 (s_markPrice s)\<rparr>
        in case changeOf s of
             None \<Rightarrow> (m, weighted)
           | Some c \<Rightarrow>
               (if 0 < c then m\<lparr>mv_up := mv_up m + 1\<rparr> else if c < 0 then m\<lparr>mv_down := mv_down m + 1\<rparr>
                else m\<lparr>mv_flat := mv_flat m + 1\<rparr>, weighted + c * vol))"

definition venueMovement :: "market_summary list \<Rightarrow> venue_movement" where
  "venueMovement summaries =
     (case fold count_market summaries
             (\<lparr>mv_volume = 0, mv_openInterest = 0, mv_up = 0, mv_down = 0, mv_flat = 0, mv_change = 0\<rparr>, 0) of
        (m, weighted) \<Rightarrow> m\<lparr>mv_change := (if 0 < mv_volume m then weighted / mv_volume m else 0)\<rparr>)"

record 'v mover =
  mo_venue :: 'v
  mo_market :: string
  mo_change :: jsnum
  mo_volume :: jsnum

definition moving_markets :: "('v \<times> market_summary list) list \<Rightarrow> jsnum \<Rightarrow> 'v mover list" where
  "moving_markets venues minVolume =
     concat (map (\<lambda>(v, summaries).
       List.map_filter
         (\<lambda>s. case changeOf s of
               None \<Rightarrow> None
             | Some change \<Rightarrow>
                 if number_or_0 (s_dayVolume s) < minVolume then None
                 else Some \<lparr>mo_venue = v, mo_market = s_market s, mo_change = change,
                            mo_volume = number_or_0 (s_dayVolume s)\<rparr>) summaries) venues)"

definition topMovers :: "('v \<times> market_summary list) list \<Rightarrow> nat \<Rightarrow> jsnum \<Rightarrow> 'v mover list \<times> 'v mover list" where
  "topMovers venues most minVolume =
     (let byChange = js_sort (\<lambda>a b. mo_change b - mo_change a < 0) (moving_markets venues minVolume)
      in (take most (filter (\<lambda>m. 0 < mo_change m) byChange),
          take most (rev (filter (\<lambda>m. mo_change m < 0) byChange))))"

section \<open>The screener's RSI is the chart's\<close>

lemma close_at_nth [simp]: "i < length closes \<Longrightarrow> close_at closes i = closes ! i"
  by (simp add: close_at_def nth_opt_def)

lemma first_moves_seed:
  "period < length closes \<Longrightarrow>
   rsi_seed closes period =
     (case first_moves closes period of (g, l) \<Rightarrow> (g / num (of_nat period), l / num (of_nat period)))"
proof -
  assume p: "period < length closes"
  have "first_moves closes period =
      fold (\<lambda>i (g, l). let d = closes ! i - closes ! (i - 1) in if 0 < d then (g + d, l) else (g, l - d))
        [1..<period + 1] (0, 0)"
    unfolding first_moves_def using p by (intro fold_cong refl ext) (auto simp: Let_def)
  then show ?thesis by (simp add: rsi_seed_def)
qed

lemma rsi_from_last:
  assumes "k < length closes"
  shows "last (Some (rsi_value (fst gl) (snd gl)) # rsi_from (num (of_nat period)) (drop k closes) gl) =
    (case fold (\<lambda>i. rsi_next (num (of_nat period)) (closes ! i - closes ! (i - 1))) [k + 1..<length closes] gl of
       (g, l) \<Rightarrow> Some (rsi_value g l))"
  using assms
proof (induction "length closes - k" arbitrary: k gl)
  case (Suc n)
  show ?case
  proof (cases "k + 1 < length closes")
    case True
    let ?gl = "rsi_next (num (of_nat period)) (closes ! (k + 1) - closes ! k) gl"
    have "drop k closes = closes ! k # closes ! (k + 1) # drop (k + 2) closes"
      using True by (simp add: Cons_nth_drop_Suc [symmetric])
    moreover have "drop (k + 1) closes = closes ! (k + 1) # drop (k + 2) closes"
      using True by (simp add: Cons_nth_drop_Suc [symmetric])
    moreover have "[k + 1..<length closes] = (k + 1) # [k + 2..<length closes]"
      using True by (simp add: upt_conv_Cons)
    ultimately show ?thesis using Suc(1) [of "k + 1" ?gl] Suc(2) True by (simp add: Let_def)
  next
    case False
    with Suc have k: "length closes = k + 1" by simp
    then have "drop k closes = [closes ! k]" by (simp add: Cons_nth_drop_Suc [symmetric])
    then show ?thesis by (simp add: k split_def)
  qed
qed simp

text \<open>C33: The one relative strength the screener shows of a market is the last value of the chart's indicator, for
  every history and period.\<close>

theorem screener_rsi_is_charts:
  "rsi_now closes period = (if closes = [] then None else last (rsi closes period))"
proof (cases "length closes \<le> period")
  case True
  then show ?thesis by (auto simp: rsi_now_def rsi_def)
next
  case False
  define gl where "gl = rsi_seed closes period"
  have "smoothed_moves closes period gl =
      fold (\<lambda>i. rsi_next (num (of_nat period)) (closes ! i - closes ! (i - 1))) [period + 1..<length closes] gl"
    unfolding smoothed_moves_def by (intro fold_cong refl ext) (auto simp: rsi_next_def Let_def)
  with rsi_from_last [of period closes gl period] first_moves_seed [of period closes] False show ?thesis
    by (auto simp: rsi_now_def rsi_def gl_def [symmetric] rsi_value_def Let_def split_def)
qed

section \<open>A signal is told when it comes about\<close>

definition kinds_told :: "market_state \<Rightarrow> market_state \<Rightarrow> signal_event_kind set" where
  "kinds_told prev next' = fst ` set (crossings prev next' None)"

lemma told_kinds [simp]: "fst ` set (told c k v) = (if c then {k} else {})"
  by (simp add: told_def)

lemma crossings_kinds: "fst ` set (crossings prev next' row) = kinds_told prev next'"
  by (cases "mst_rsi1h prev"; cases "mst_rsi1h next'")
    (simp_all add: kinds_told_def crossings_def Let_def image_Un)

lemma crossing_iff:
  "EvOverbought \<in> kinds_told p n \<longleftrightarrow> (\<exists>a b. mst_rsi1h p = Some a \<and> mst_rsi1h n = Some b \<and> a < Fin 70 \<and> Fin 70 \<le> b)"
  "EvOversold \<in> kinds_told p n \<longleftrightarrow> (\<exists>a b. mst_rsi1h p = Some a \<and> mst_rsi1h n = Some b \<and> Fin 30 < a \<and> b \<le> Fin 30)"
  "EvFundingNegative \<in> kinds_told p n \<longleftrightarrow> 0 \<le> mst_fundingSign p \<and> mst_fundingSign n < 0"
  "EvFundingPositive \<in> kinds_told p n \<longleftrightarrow> mst_fundingSign p < 0 \<and> 0 < mst_fundingSign n"
  "EvOiSpike \<in> kinds_told p n \<longleftrightarrow> \<not> mst_oiSpike p \<and> mst_oiSpike n"
  "EvBreakout \<in> kinds_told p n \<longleftrightarrow> \<not> mst_aboveHigh p \<and> mst_aboveHigh n"
  "EvVolume \<in> kinds_told p n \<longleftrightarrow> mst_volumeSurge p = None \<and> mst_volumeSurge n \<noteq> None"
  by (cases "mst_rsi1h p"; cases "mst_rsi1h n";
      simp add: kinds_told_def crossings_def Let_def SIGNAL_RULES_def image_Un)+

lemma not_told_again: "k \<in> kinds_told a b \<Longrightarrow> k \<notin> kinds_told b c"
  by (cases k) (auto simp: crossing_iff dest: js_less_le_trans js_le_less_trans)

lemma signalEvents_from:
  assumes "e \<in> set (signalEvents before after rows now)" "distinct (map fst after)"
  shows "\<exists>p n. obj_get before (ev_market e) = Some p \<and> obj_get after (ev_market e) = Some n \<and>
    ev_kind e \<in> kinds_told p n \<and> ev_time e = now"
proof -
  from assms(1) obtain mk n where a: "(mk, n) \<in> set after"
    "e \<in> set (case obj_get before mk of None \<Rightarrow> []
        | Some prev \<Rightarrow> map (signal_event_of now mk) (crossings prev n (obj_get rows mk)))"
    unfolding signalEvents_def by auto
  then obtain p where p: "obj_get before mk = Some p" by (cases "obj_get before mk") simp_all
  with a(2) obtain kv where "kv \<in> set (crossings p n (obj_get rows mk))" "e = signal_event_of now mk kv" by auto
  note m = a(1) p this
  have "obj_get after mk = Some n" using m(1) assms(2) by (rule obj_get_distinct [rotated])
  moreover have "fst kv \<in> kinds_told p n" using m(3) crossings_kinds [of p n "obj_get rows mk"] by blast
  ultimately show ?thesis using m(2,4) by (auto simp: signal_event_of_def)
qed

text \<open>C34: A signal is told of a market only where it was there at the look before, and one told at a look is not told
  again at the next, so a lasting state is told once.\<close>

theorem signals_told_once:
  assumes "distinct (map fst second)" "distinct (map fst third)"
    "e \<in> set (signalEvents first second rows now)"
  shows "obj_get first (ev_market e) \<noteq> None \<and>
    \<not> list_ex (\<lambda>e'. ev_market e' = ev_market e \<and> ev_kind e' = ev_kind e) (signalEvents second third rows' now')"
proof -
  obtain p n where p: "obj_get first (ev_market e) = Some p" "obj_get second (ev_market e) = Some n"
    "ev_kind e \<in> kinds_told p n"
    using signalEvents_from [OF assms(3,1)] by blast
  have "ev_kind e' \<noteq> ev_kind e" if "e' \<in> set (signalEvents second third rows' now')" "ev_market e' = ev_market e" for e'
    using signalEvents_from [OF that(1) assms(2)] p that(2) not_told_again [OF p(3)] by auto
  with p(1) show ?thesis by (auto simp: list_ex_iff)
qed

definition quiet_market :: "bool \<Rightarrow> market_state" where
  "quiet_market high = \<lparr>mst_rsi1h = None, mst_fundingSign = 0, mst_oiSpike = False, mst_aboveHigh = high,
     mst_high24h = Some (Fin 9), mst_volumeSurge = None\<rparr>"

lemma signals_told_once_witness:
  "\<not> list_ex (\<lambda>e. ev_market e = ''A'' \<and> ev_kind e = EvBreakout)
     (signalEvents [(''A'', quiet_market True)] [(''A'', quiet_market True)] [] 1)"
proof -
  let ?e = "signal_event_of 0 ''A'' (EvBreakout, Some (Fin 9))"
  have "?e \<in> set (signalEvents [(''A'', quiet_market False)] [(''A'', quiet_market True)] [] 0)"
    by (simp add: signalEvents_def crossings_def told_def quiet_market_def Let_def)
  from signals_told_once [OF _ _ this, of "[(''A'', quiet_market True)]" "[]" 1] show ?thesis
    by (simp add: signal_event_of_def)
qed

section \<open>Rows without a figure come last\<close>

lemma insert_sorted_missing_last:
  assumes "\<And>a b. f a \<noteq> None \<Longrightarrow> f b = None \<Longrightarrow> lt a b" "\<And>a b. f a = None \<Longrightarrow> \<not> lt a b"
    "sorted_wrt (\<lambda>a b. f a = None \<longrightarrow> f b = None) ys"
  shows "sorted_wrt (\<lambda>a b. f a = None \<longrightarrow> f b = None) (insert_sorted lt x ys)"
  using assms(3)
proof (induction ys)
  case (Cons y ys)
  have s: "set (insert_sorted lt x ys) = insert x (set ys)"
    by (metis mset_insert_sorted set_mset_add_mset_insert set_mset_mset)
  show ?case
  proof (cases "lt y x")
    case True
    with assms(2) [of y x] Cons show ?thesis by (auto simp: s)
  next
    case False
    with assms(1) [of y x] have "f x = None \<longrightarrow> f y = None" by blast
    then show ?thesis
      using False Cons.prems by (cases "f x") simp_all
  qed
qed simp

lemma column_before_missing:
  "va \<noteq> None \<Longrightarrow> vb = None \<Longrightarrow> column_before lc descending va vb"
  "va = None \<Longrightarrow> \<not> column_before lc descending va vb"
  by (auto simp: column_before_def split: sum.split)

lemma sortRows_missing_last:
  "mset (sortRows lc rows by' descending) = mset rows \<and>
   sorted_wrt (\<lambda>a b. column_value by' a = None \<longrightarrow> column_value by' b = None) (sortRows lc rows by' descending)"
proof -
  let ?lt = "\<lambda>a b. column_before lc descending (column_value by' a) (column_value by' b)"
  have "sorted_wrt (\<lambda>a b. column_value by' a = None \<longrightarrow> column_value by' b = None) (js_sort ?lt rows)"
  proof (induction rows)
    case (Cons r rows)
    show ?case unfolding js_sort_def foldr_Cons o_apply
    proof (rule insert_sorted_missing_last [OF column_before_missing])
      show "sorted_wrt (\<lambda>a b. column_value by' a = None \<longrightarrow> column_value by' b = None)
          (foldr (insert_sorted ?lt) rows [])"
        using Cons by (simp add: js_sort_def)
    qed
  qed (simp add: js_sort_def)
  then show ?thesis by (simp add: sortRows_def)
qed

text \<open>What is kept of a market's open interest: the last sample, and before it only one older than the window.\<close>

lemma drop_old_window:
  "xs \<noteq> [] \<Longrightarrow> drop_old limit xs \<noteq> [] \<and> last (drop_old limit xs) = last xs \<and>
   (\<forall>b bs a. drop_old limit xs = a # b # bs \<longrightarrow> \<not> fst b \<le> limit)"
  by (induction limit xs rule: drop_old.induct) auto

end
