(* ===== verification/Price_Levels.thy ===== *)
theory Price_Levels
  imports Indicators
begin

text \<open>
  Volume and liquidations by price. The volume profile, \<^verbatim>\<open>packages/ui/src/lib/volumeProfile.ts\<close>:
  a run of bars shared out over equal bands of price, with its busiest band and the bands around it that hold a
  share of the volume. The liquidation map, \<^verbatim>\<open>packages/ui/src/lib/liqModel.ts\<close>: where new positions
  of every hour would be liquidated, until the price gets there. A row is found by a number that is a whole one or
  NaN, for which there is no row.
\<close>

record bar =
  br_open :: jsnum
  br_high :: jsnum
  br_low :: jsnum
  br_close :: jsnum
  br_volume :: "jsnum option"

record profile_row =
  vr_low :: jsnum
  vr_high :: jsnum
  vr_up :: jsnum
  vr_down :: jsnum

record volume_profile =
  vp_rows :: "profile_row list"
  vp_poc :: nat
  vp_valueLow :: int
  vp_valueHigh :: int
  vp_max :: jsnum

section \<open>The rows\<close>

definition row_count :: "jsnum \<Rightarrow> nat" where
  "row_count rowCount = (case math_max 1 (math_round rowCount) of Fin q \<Rightarrow> nat \<lfloor>q\<rfloor> | _ \<Rightarrow> 0)"

definition widen :: "bar \<Rightarrow> jsnum \<times> jsnum \<Rightarrow> jsnum \<times> jsnum" where
  "widen b extent =
     (if \<not> is_finite (br_low b) \<or> \<not> is_finite (br_high b) then extent
      else (math_min (fst extent) (br_low b), math_max (snd extent) (br_high b)))"

definition price_span :: "bar list \<Rightarrow> jsnum \<times> jsnum" where
  "price_span bars = fold widen bars (PInf, NInf)"

definition empty_rows :: "jsnum \<Rightarrow> jsnum \<Rightarrow> jsnum \<Rightarrow> nat \<Rightarrow> profile_row list" where
  "empty_rows lo hi step n =
     map (\<lambda>i. \<lparr>vr_low = lo + num (of_nat i) * step,
               vr_high = (if i = n - 1 then hi else lo + num (of_nat (i + 1)) * step), vr_up = 0, vr_down = 0\<rparr>) [0..<n]"

definition row_at :: "jsnum \<Rightarrow> jsnum \<Rightarrow> nat \<Rightarrow> jsnum \<Rightarrow> jsnum" where
  "row_at lo step n price = math_min (num (of_nat n) - 1) (math_max 0 (math_floor ((price - lo) / step)))"

definition row_index :: "jsnum \<Rightarrow> nat option" where
  "row_index j = (case j of Fin q \<Rightarrow> Some (nat \<lfloor>q\<rfloor>) | _ \<Rightarrow> None)"

text \<open>\<open>row[side] += amount\<close>\<close>

definition add_to :: "bool \<Rightarrow> jsnum \<Rightarrow> profile_row \<Rightarrow> profile_row" where
  "add_to up amount row = (if up then row\<lparr>vr_up := vr_up row + amount\<rparr> else row\<lparr>vr_down := vr_down row + amount\<rparr>)"

text \<open>One row's part of a bar that covers several.\<close>

definition share_row :: "bar \<Rightarrow> jsnum \<Rightarrow> bool \<Rightarrow> profile_row \<Rightarrow> profile_row" where
  "share_row b volume up row =
     (let overlap = math_min (br_high b) (vr_high row) - math_max (br_low b) (vr_low row)
      in if 0 < overlap then add_to up (volume * overlap / (br_high b - br_low b)) row else row)"

definition update_at :: "nat \<Rightarrow> ('a \<Rightarrow> 'a) \<Rightarrow> 'a list \<Rightarrow> 'a list" where
  "update_at i f xs = (if i < length xs then xs[i := f (xs ! i)] else xs)"

definition add_bar :: "jsnum \<Rightarrow> jsnum \<Rightarrow> nat \<Rightarrow> bar \<Rightarrow> profile_row list \<times> jsnum \<Rightarrow> profile_row list \<times> jsnum" where
  "add_bar lo step n b acc =
     (case acc of (rows, whole) \<Rightarrow>
        let volume = (case br_volume b of Some v \<Rightarrow> v | None \<Rightarrow> 0)
        in if \<not> 0 < volume \<or> \<not> is_finite (br_low b) \<or> \<not> is_finite (br_high b) then (rows, whole)
           else
             (let up = br_open b \<le> br_close b; extent = br_high b - br_low b;
                  first = row_at lo step n (br_low b); last' = row_at lo step n (br_high b);
                  rows' = (if extent \<le> 0 \<or> js_eq first last'
                           then (case row_index first of Some i \<Rightarrow> update_at i (add_to up volume) rows | None \<Rightarrow> rows)
                           else (case (row_index first, row_index last') of
                                   (Some i, Some j) \<Rightarrow> fold (\<lambda>k. update_at k (share_row b volume up)) [i..<j + 1] rows
                                 | _ \<Rightarrow> rows))
              in (rows', whole + volume)))"

definition row_size :: "profile_row list \<Rightarrow> int \<Rightarrow> jsnum" where
  "row_size rows i =
     (if 0 \<le> i \<and> i < int (length rows) then vr_up (rows ! nat i) + vr_down (rows ! nat i) else 0)"

definition busiest :: "profile_row list \<Rightarrow> nat \<Rightarrow> nat" where
  "busiest rows n = fold (\<lambda>i poc. if row_size rows (int poc) < row_size rows (int i) then i else poc) [1..<n] 0"

section \<open>The value area\<close>

text \<open>The area grows a row at a time towards the busier side. With volumes that are not numbers it may go on for ever:
  the result is then \<open>None\<close>.\<close>

partial_function (option) grow_area ::
    "(int \<Rightarrow> jsnum) \<Rightarrow> int \<Rightarrow> jsnum \<Rightarrow> jsnum \<Rightarrow> int \<Rightarrow> int \<Rightarrow> (int \<times> int) option" where
  "grow_area vol n target held low high =
     (if held < target \<and> (0 < low \<or> high < n - 1) then
        (let below = (if 0 < low then vol (low - 1) else - 1);
             above = (if high < n - 1 then vol (high + 1) else - 1)
         in if below \<le> above then grow_area vol n target (held + vol (high + 1)) low (high + 1)
            else grow_area vol n target (held + vol (low - 1)) (low - 1) high)
      else Some (low, high))"

definition volumeProfile :: "bar list \<Rightarrow> jsnum \<Rightarrow> jsnum \<Rightarrow> volume_profile option option" where
  "volumeProfile bars rowCount valueArea =
     (let n = row_count rowCount
      in case price_span bars of (lo, hi) \<Rightarrow>
        if \<not> lo < hi then Some None
        else
          (let step = (hi - lo) / num (of_nat n)
           in case fold (add_bar lo step n) bars (empty_rows lo hi step n, 0) of (rows, whole) \<Rightarrow>
             if whole \<le> 0 then Some None
             else
               (let vol = row_size rows; poc = busiest rows n;
                    target = whole * math_min 1 (math_max 0 valueArea)
                in map_option
                     (\<lambda>(low, high). Some \<lparr>vp_rows = rows, vp_poc = poc, vp_valueLow = low, vp_valueHigh = high,
                                          vp_max = vol (int poc)\<rparr>)
                     (grow_area vol (int n) target (vol (int poc)) (int poc) (int poc)))))"

section \<open>The liquidation map\<close>

record leverage_share =
  lv_leverage :: jsnum
  lv_share :: jsnum

definition LEVERAGE_MIX :: "leverage_share list" where
  "LEVERAGE_MIX =
     [\<lparr>lv_leverage = Fin 10, lv_share = num (35 / 100)\<rparr>, \<lparr>lv_leverage = Fin 25, lv_share = num (3 / 10)\<rparr>,
      \<lparr>lv_leverage = Fin 50, lv_share = num (2 / 10)\<rparr>, \<lparr>lv_leverage = Fin 100, lv_share = num (15 / 100)\<rparr>]"

definition MAINTENANCE :: jsnum where
  "MAINTENANCE = num (5 / 1000)"

record oi_point =
  op_time :: jsnum
  op_openInterest :: decimal

record liq_map =
  lm_times :: "jsnum list"
  lm_prices :: "jsnum list"
  lm_cells :: "jsnum list list"
  lm_max :: jsnum
  lm_candles :: "drawn_candle list"

text \<open>The running sums of the volumes, each as its share of the open interest there is now.\<close>

fun points_from :: "jsnum \<Rightarrow> jsnum \<Rightarrow> jsnum \<Rightarrow> candle list \<Rightarrow> oi_point list" where
  "points_from now whole seen [] = []"
| "points_from now whole seen (c # cs) =
     (let seen' = seen + math_max (to_number (k_volume c)) 0
      in \<lparr>op_time = k_openTime c, op_openInterest = num_str (now * seen' / whole)\<rparr> # points_from now whole seen' cs)"

definition openInterestFromVolume :: "candle list \<Rightarrow> jsnum \<Rightarrow> oi_point list" where
  "openInterestFromVolume candles openInterestNow =
     (let whole = foldl (+) 0 (map (\<lambda>c. math_max (to_number (k_volume c)) 0) candles)
      in if \<not> 0 < whole \<or> \<not> 0 < openInterestNow then []
         else \<lparr>op_time = (case candles of c # cs \<Rightarrow> k_openTime c | [] \<Rightarrow> 0) - Fin 3600000, op_openInterest = ''0''\<rparr>
              # points_from openInterestNow whole 0 candles)"

definition liquidationPrices :: "jsnum \<Rightarrow> jsnum \<Rightarrow> jsnum \<times> jsnum" where
  "liquidationPrices price leverage =
     (price * (1 - 1 / leverage + MAINTENANCE), price * (1 + 1 / leverage - MAINTENANCE))"

definition oi_at :: "oi_point list \<Rightarrow> jsnum \<Rightarrow> jsnum option" where
  "oi_at points time =
     (case takeWhile (\<lambda>p. op_time p \<le> time) points of [] \<Rightarrow> None | ps \<Rightarrow> Some (to_number (op_openInterest (last ps))))"

definition liq_row :: "jsnum \<Rightarrow> jsnum \<Rightarrow> nat \<Rightarrow> jsnum \<Rightarrow> nat option" where
  "liq_row lo step rows price =
     row_index (math_min (math_max (math_floor ((price - lo) / step)) 0) (num (of_nat rows) - 1))"

definition add_at :: "nat option \<Rightarrow> jsnum \<Rightarrow> jsnum list \<Rightarrow> jsnum list" where
  "add_at i amount xs = (case i of Some k \<Rightarrow> update_at k (\<lambda>v. v + amount) xs | None \<Rightarrow> xs)"

record liq_state =
  lq_longs :: "jsnum list"
  lq_shorts :: "jsnum list"
  lq_prevOi :: "jsnum option"
  lq_cells :: "jsnum list list"
  lq_max :: jsnum

text \<open>The share of new positions at one leverage, half of them long and half short.\<close>

definition open_lot :: "jsnum \<Rightarrow> jsnum \<Rightarrow> nat \<Rightarrow> jsnum \<Rightarrow> jsnum \<Rightarrow> leverage_share \<Rightarrow> liq_state \<Rightarrow> liq_state" where
  "open_lot lo step rows typical notional l s =
     (case liquidationPrices typical (lv_leverage l) of (atLong, atShort) \<Rightarrow>
        s\<lparr>lq_longs := add_at (liq_row lo step rows atLong) (notional * lv_share l / Fin 2) (lq_longs s),
          lq_shorts := add_at (liq_row lo step rows atShort) (notional * lv_share l / Fin 2) (lq_shorts s)\<rparr>)"

text \<open>An hour's open interest: what it adds is spread over the leverages, what it takes shrinks every level.\<close>

definition open_positions :: "jsnum \<Rightarrow> jsnum \<Rightarrow> nat \<Rightarrow> candle \<Rightarrow> jsnum option \<Rightarrow> liq_state \<Rightarrow> liq_state" where
  "open_positions lo step rows c oi s =
     (let close = to_number (k_close c); low = to_number (k_low c); high = to_number (k_high c)
      in case (oi, lq_prevOi s) of
           (Some now, Some prev) \<Rightarrow>
             if \<not> 0 < prev then s
             else
               (let delta = now - prev
                in if 0 < delta then
                     (let typical = (high + low + close) / Fin 3; notional = delta * typical
                      in fold (open_lot lo step rows typical notional) LEVERAGE_MIX s)
                   else if delta < 0 then
                     s\<lparr>lq_longs := map (\<lambda>v. v * (now / prev)) (lq_longs s),
                       lq_shorts := map (\<lambda>v. v * (now / prev)) (lq_shorts s)\<rparr>
                   else s)
         | _ \<Rightarrow> s)"

text \<open>The levels the hour's range reached are gone; what is left is the hour's column.\<close>

definition clear_reached :: "jsnum list \<Rightarrow> candle \<Rightarrow> liq_state \<Rightarrow> liq_state" where
  "clear_reached prices c s =
     s\<lparr>lq_longs := map2 (\<lambda>price v. if to_number (k_low c) \<le> price then 0 else v) prices (lq_longs s),
       lq_shorts := map2 (\<lambda>price v. if price \<le> to_number (k_high c) then 0 else v) prices (lq_shorts s)\<rparr>"

definition liq_hour ::
    "jsnum \<Rightarrow> jsnum \<Rightarrow> nat \<Rightarrow> jsnum list \<Rightarrow> oi_point list \<Rightarrow> candle \<Rightarrow> liq_state \<Rightarrow> liq_state" where
  "liq_hour lo step rows prices points c s =
     (let oi = (case oi_at points (k_openTime c + Fin 3600000 - 1) of
                  Some v \<Rightarrow> Some v | None \<Rightarrow> oi_at points (k_openTime c));
          s = open_positions lo step rows c oi s;
          s = (case oi of Some v \<Rightarrow> s\<lparr>lq_prevOi := Some v\<rparr> | None \<Rightarrow> s);
          s = clear_reached prices c s;
          column = map2 (+) (lq_longs s) (lq_shorts s)
      in s\<lparr>lq_cells := lq_cells s @ [column], lq_max := foldl (\<lambda>m v. if m < v then v else m) (lq_max s) column\<rparr>)"

definition liquidationMap :: "candle list \<Rightarrow> oi_point list \<Rightarrow> nat \<Rightarrow> liq_map option" where
  "liquidationMap candles points rows =
     (if length candles < 2 \<or> length points < 2 then None
      else
        (let lo = foldl math_min PInf (map (to_number \<circ> k_low) candles) * num (9 / 10);
             hi = foldl math_max NInf (map (to_number \<circ> k_high) candles) * num (11 / 10)
         in if \<not> lo < hi \<or> \<not> 0 < lo then None
            else
              (let step = (hi - lo) / num (of_nat rows);
                   prices = map (\<lambda>i. lo + (num (of_nat i) + num (1 / 2)) * step) [0..<rows];
                   s = fold (liq_hour lo step rows prices points) candles
                         \<lparr>lq_longs = replicate rows 0, lq_shorts = replicate rows 0, lq_prevOi = None,
                          lq_cells = [], lq_max = 0\<rparr>
               in Some \<lparr>lm_times = map k_openTime candles, lm_prices = prices, lm_cells = lq_cells s, lm_max = lq_max s,
                        lm_candles = map (\<lambda>c. \<lparr>dc_open = to_number (k_open c), dc_high = to_number (k_high c),
                                               dc_low = to_number (k_low c), dc_close = to_number (k_close c)\<rparr>) candles\<rparr>)))"

section \<open>The value area is found\<close>

lemma grow_area_ends:
  assumes "\<And>i. 0 \<le> i \<Longrightarrow> i < n \<Longrightarrow> 0 \<le> vol i" "0 \<le> low" "low \<le> high" "high < n"
  shows "\<exists>l h added. grow_area vol n target held low high = Some (l, h) \<and> 0 \<le> l \<and> l \<le> low \<and> high \<le> h \<and> h < n \<and>
    mset [l..h] = mset [low..high] + mset added \<and>
    (\<not> foldl (\<lambda>x i. x + vol i) held added < target \<or> l = 0 \<and> h = n - 1)"
  using assms(2-)
proof (induction "nat (low + (n - 1 - high))" arbitrary: held low high rule: less_induct)
  case less
  show ?case
  proof (cases "held < target \<and> (0 < low \<or> high < n - 1)")
    case False
    with less.prems show ?thesis
      by (subst grow_area.simps) (auto intro!: exI [of _ "[]"])
  next
    case True
    let ?below = "if 0 < low then vol (low - 1) else - 1" and ?above = "if high < n - 1 then vol (high + 1) else - 1"
    have nonneg: "0 < low \<Longrightarrow> 0 \<le> vol (low - 1)" "high < n - 1 \<Longrightarrow> 0 \<le> vol (high + 1)"
      using assms(1) less.prems by simp_all
    show ?thesis
    proof (cases "?below \<le> ?above")
      case up: True
      have high: "high < n - 1"
      proof (rule ccontr)
        assume "\<not> high < n - 1"
        with True up nonneg(1) have "0 \<le> (- 1 :: jsnum)" by (auto dest: js_le_trans)
        then show False by (simp add: zero_Fin one_Fin)
      qed
      have step: "grow_area vol n target held low high = grow_area vol n target (held + vol (high + 1)) low (high + 1)"
        using True up by (subst grow_area.simps) (simp add: Let_def)
      obtain l h added where ih: "grow_area vol n target (held + vol (high + 1)) low (high + 1) = Some (l, h)" "0 \<le> l"
        "l \<le> low" "high + 1 \<le> h" "h < n" "mset [l..h] = mset [low..high + 1] + mset added"
        "\<not> foldl (\<lambda>x i. x + vol i) (held + vol (high + 1)) added < target \<or> l = 0 \<and> h = n - 1"
        using less.hyps [of low "high + 1" "held + vol (high + 1)"] less.prems high by auto
      have "mset [low..high + 1] = mset [low..high] + {#high + 1#}"
        using less.prems by (simp add: upto_rec2 [of low "high + 1"])
      with ih step show ?thesis by (auto intro!: exI [of _ "(high + 1) # added"])
    next
      case down: False
      have low: "0 < low"
      proof (rule ccontr)
        assume "\<not> 0 < low"
        with True down nonneg(2) have "\<not> - 1 \<le> vol (high + 1)" "0 \<le> vol (high + 1)" by auto
        moreover have "- 1 \<le> (0 :: jsnum)" by (simp add: zero_Fin one_Fin)
        ultimately show False using js_le_trans by blast
      qed
      have step: "grow_area vol n target held low high = grow_area vol n target (held + vol (low - 1)) (low - 1) high"
        using True down by (subst grow_area.simps) (simp add: Let_def)
      obtain l h added where ih: "grow_area vol n target (held + vol (low - 1)) (low - 1) high = Some (l, h)" "0 \<le> l"
        "l \<le> low - 1" "high \<le> h" "h < n" "mset [l..h] = mset [low - 1..high] + mset added"
        "\<not> foldl (\<lambda>x i. x + vol i) (held + vol (low - 1)) added < target \<or> l = 0 \<and> h = n - 1"
        using less.hyps [of "low - 1" high "held + vol (low - 1)"] less.prems low by auto
      have "mset [low - 1..high] = mset [low..high] + {#low - 1#}"
        using less.prems by (simp add: upto_rec1 [of "low - 1" high])
      with ih step show ?thesis by (auto intro!: exI [of _ "(low - 1) # added"])
    qed
  qed
qed

section \<open>What the profile shows\<close>

definition row_ok :: "profile_row \<Rightarrow> bool" where
  "row_ok r = (0 \<le> vr_up r \<and> 0 \<le> vr_down r)"

lemma js_mult_pos: "0 < x \<Longrightarrow> 0 < y \<Longrightarrow> 0 \<le> x * (y :: jsnum)"
  using num_nonneg [of "sign_rat x * sign_rat y"]
  by (cases x; cases y) (simp_all add: zero_Fin inf_of_def num_nonneg [simplified zero_Fin, OF mult_nonneg_nonneg])

lemma js_div_pos: "0 \<le> x \<Longrightarrow> 0 < y \<Longrightarrow> is_finite y \<Longrightarrow> 0 \<le> x / (y :: jsnum)"
  by (cases x; cases y) (auto simp: zero_Fin num_nonneg [simplified zero_Fin])

lemma add_to_ok: "row_ok r \<Longrightarrow> 0 \<le> amount \<Longrightarrow> row_ok (add_to up amount r)"
  by (simp add: row_ok_def add_to_def js_add_nonneg)

lemma update_at_ok: "list_all P xs \<Longrightarrow> (\<And>x. P x \<Longrightarrow> P (f x)) \<Longrightarrow> list_all P (update_at i f xs)"
  by (auto simp: update_at_def list_all_length nth_list_update)

lemma length_update_at [simp]: "length (update_at i f xs) = length xs"
  by (simp add: update_at_def)

lemma share_row_ok:
  assumes "row_ok r" "0 < volume" "0 < br_high b - br_low b" "is_finite (br_high b - br_low b)"
  shows "row_ok (share_row b volume up r)"
  using assms by (simp add: share_row_def Let_def add_to_ok js_div_pos js_mult_pos)

lemma add_bar_ok:
  assumes "list_all row_ok rows"
    "is_finite (br_low b) \<Longrightarrow> is_finite (br_high b) \<Longrightarrow> 0 < br_high b - br_low b \<Longrightarrow> is_finite (br_high b - br_low b)"
  shows "list_all row_ok (fst (add_bar lo step n b (rows, whole))) \<and>
    length (fst (add_bar lo step n b (rows, whole))) = length rows"
proof -
  let ?v = "case br_volume b of Some v \<Rightarrow> v | None \<Rightarrow> 0"
  have one: "list_all row_ok (update_at i (add_to up ?v) rows)" if "0 < ?v" for i up
    using assms(1) that by (intro update_at_ok) (auto intro: add_to_ok js_less_imp_le)
  have many: "list_all row_ok (fold (\<lambda>k. update_at k (share_row b ?v up)) ks rows) \<and>
      length (fold (\<lambda>k. update_at k (share_row b ?v up)) ks rows) = length rows"
    if "0 < ?v" "is_finite (br_low b)" "is_finite (br_high b)" "\<not> br_high b - br_low b \<le> 0" for ks up
  proof -
    have "br_high b - br_low b \<noteq> NaN"
      using that by (cases "br_high b"; cases "br_low b") (simp_all add: minus_jsnum_def)
    with that have pos: "0 < br_high b - br_low b"
      by (cases "br_high b - br_low b") (simp_all add: zero_Fin)
    then have fin: "is_finite (br_high b - br_low b)" using assms(2) that by simp
    show ?thesis using assms(1)
      by (induction ks arbitrary: rows) (simp_all add: update_at_ok share_row_ok that(1) pos fin)
  qed
  show ?thesis
    using assms(1) one many by (auto simp: add_bar_def Let_def simp del: upt_Suc split: option.split)
qed

lemma empty_rows_ok: "list_all row_ok (empty_rows lo hi step n) \<and> length (empty_rows lo hi step n) = n"
  by (simp add: empty_rows_def list_all_iff row_ok_def zero_Fin)

text \<open>The extent of the bars holds every bar, so no bar's own extent is too large for a number if theirs is not.\<close>

lemma finite_not_NaN: "is_finite x \<Longrightarrow> x \<noteq> NaN"
  by auto

lemma widen_holds:
  assumes "fst e \<noteq> NaN" "snd e \<noteq> NaN"
  shows "fst (fold widen bars e) \<le> fst e \<and> snd e \<le> snd (fold widen bars e) \<and>
    (\<forall>b \<in> set bars. is_finite (br_low b) \<longrightarrow> is_finite (br_high b) \<longrightarrow>
       fst (fold widen bars e) \<le> br_low b \<and> br_high b \<le> snd (fold widen bars e))"
  using assms
proof (induction bars arbitrary: e)
  case (Cons b bars)
  let ?e = "widen b e"
  have e: "fst ?e \<le> fst e" "snd e \<le> snd ?e" "fst ?e \<noteq> NaN" "snd ?e \<noteq> NaN"
    using Cons.prems math_min_le [of "fst e" "br_low b"] math_max_ge [of "snd e" "br_high b"]
    by (auto simp: widen_def math_min_not_NaN math_max_not_NaN dest: finite_not_NaN)
  have b: "fst ?e \<le> br_low b \<and> br_high b \<le> snd ?e" if "is_finite (br_low b)" "is_finite (br_high b)"
  proof -
    from that have "br_low b \<noteq> NaN" "br_high b \<noteq> NaN" by auto
    with that Cons.prems show ?thesis
      using math_min_le [of "fst e" "br_low b"] math_max_ge [of "snd e" "br_high b"] by (simp add: widen_def)
  qed
  note IH = Cons.IH [OF e(3,4)]
  have "fst (fold widen bars ?e) \<le> fst e" "snd e \<le> snd (fold widen bars ?e)"
    using IH e(1,2) js_le_trans by blast+
  moreover have "fst (fold widen bars ?e) \<le> br_low b \<and> br_high b \<le> snd (fold widen bars ?e)"
    if "is_finite (br_low b)" "is_finite (br_high b)"
    using IH b [OF that] js_le_trans by blast
  ultimately show ?case using IH by simp
qed simp

lemma bar_extent_finite:
  assumes "is_finite (snd (price_span bars) - fst (price_span bars))" "b \<in> set bars"
    "is_finite (br_low b)" "is_finite (br_high b)" "0 < br_high b - br_low b"
  shows "is_finite (br_high b - br_low b)"
proof -
  obtain l h where b: "br_low b = Fin l" "br_high b = Fin h"
    using assms(3,4) by (cases "br_low b"; cases "br_high b") simp_all
  have "fst (price_span bars) \<le> br_low b" "br_high b \<le> snd (price_span bars)"
    using widen_holds [of "(PInf, NInf)" bars] assms(2-4) by (simp_all add: price_span_def)
  with assms(1) b obtain lo hi where lo: "fst (price_span bars) = Fin lo" "snd (price_span bars) = Fin hi" "lo \<le> l" "h \<le> hi"
    by (cases "fst (price_span bars)"; cases "snd (price_span bars)") (simp_all add: minus_jsnum_def)
  have "num (h - l) \<le> num (hi - lo)" using lo by (intro num_mono) simp
  then show ?thesis using assms(1,5) lo b
    by (cases "num (h - l)"; cases "num (hi - lo)") (simp_all add: minus_jsnum_def zero_Fin)
qed

lemma add_bars_ok:
  assumes "is_finite (snd (price_span bars) - fst (price_span bars))" "set bs \<subseteq> set bars" "list_all row_ok (fst acc)"
  shows "list_all row_ok (fst (fold (add_bar lo step n) bs acc)) \<and> length (fst (fold (add_bar lo step n) bs acc)) = length (fst acc)"
  using assms(2,3)
proof (induction bs arbitrary: acc)
  case (Cons b bs)
  have "list_all row_ok (fst (add_bar lo step n b acc)) \<and> length (fst (add_bar lo step n b acc)) = length (fst acc)"
    using add_bar_ok [of "fst acc" b lo step n "snd acc"] bar_extent_finite [OF assms(1)] Cons.prems by auto
  with Cons.IH [of "add_bar lo step n b acc"] Cons.prems show ?case by simp
qed simp

lemma busiest_max:
  assumes "\<And>i. row_size rows i \<noteq> NaN" "i < n"
  shows "busiest rows n < n \<and> row_size rows (int i) \<le> row_size rows (int (busiest rows n))"
proof -
  define f where "f i poc = (if row_size rows (int poc) < row_size rows (int i) then i else poc)" for i poc
  define F where "F m = fold f [1..<Suc m] 0" for m
  have F: "F 0 = 0" "F (Suc m) = f (Suc m) (F m)" for m
    by (simp_all add: F_def)
  have "F m \<le> m \<and> (\<forall>i \<le> m. row_size rows (int i) \<le> row_size rows (int (F m)))" for m
  proof (induction m)
    case (Suc m)
    have ge: "row_size rows (int (F m)) \<le> row_size rows (int (f (Suc m) (F m)))"
      using assms(1) by (auto simp: f_def js_less_imp_le simp del: of_nat_Suc)
    have "row_size rows (int (Suc m)) \<le> row_size rows (int (f (Suc m) (F m)))"
      using assms(1) js_not_less [of "row_size rows (int (F m))" "row_size rows (int (Suc m))"]
      by (auto simp: f_def simp del: of_nat_Suc)
    then have "row_size rows (int i) \<le> row_size rows (int (f (Suc m) (F m)))" if "i \<le> Suc m" for i
      using that Suc js_le_trans [OF _ ge] by (cases "i = Suc m") (auto simp del: of_nat_Suc)
    then show ?case using Suc by (auto simp: F f_def)
  qed (simp add: F assms(1))
  moreover have "busiest rows n = F (n - 1)"
    using assms(2) by (simp add: busiest_def F_def f_def [abs_def])
  ultimately show ?thesis using assms(2) by (metis Suc_pred' less_Suc_eq_le less_nat_zero_code neq0_conv)
qed

lemma row_size_ok: "list_all row_ok rows \<Longrightarrow> 0 \<le> row_size rows i"
  by (auto simp: row_size_def row_ok_def list_all_length nat_less_iff zero_Fin intro: js_add_nonneg [unfolded zero_Fin])

lemma row_count_pos: "is_finite rowCount \<Longrightarrow> 0 < row_count rowCount"
proof (cases rowCount)
  case (Fin q)
  define r :: rat where "r = max 1 (of_int \<lfloor>q + 1 / 2\<rfloor>)"
  have "1 \<le> \<lfloor>r\<rfloor>" by (simp only: le_floor_iff of_int_1 r_def max.cobounded1)
  moreover have "math_max 1 (Fin x) = Fin (max 1 x)" for x
    by (simp add: math_max_def one_Fin max_def)
  then have "math_max 1 (math_round rowCount) = Fin r"
    unfolding r_def Fin math_round.simps .
  ultimately show ?thesis by (simp add: row_count_def)
qed simp_all

text \<open>No row holds more than the point of control.\<close>

lemma rows_below_poc:
  assumes "list_all row_ok rows" "\<And>i. row_size rows i \<noteq> NaN"
  shows "list_all (\<lambda>r. 0 \<le> vr_up r \<and> 0 \<le> vr_down r \<and>
      vr_up r + vr_down r \<le> row_size rows (int (busiest rows (length rows)))) rows"
  unfolding list_all_length
proof (intro allI impI)
  fix i assume i: "i < length rows"
  with assms(1) have "row_ok (rows ! i)" by (simp add: list_all_length)
  moreover have "row_size rows (int i) = vr_up (rows ! i) + vr_down (rows ! i)" using i by (simp add: row_size_def)
  ultimately show "0 \<le> vr_up (rows ! i) \<and> 0 \<le> vr_down (rows ! i) \<and>
      vr_up (rows ! i) + vr_down (rows ! i) \<le> row_size rows (int (busiest rows (length rows)))"
    using busiest_max [OF assms(2) i] by (simp add: row_ok_def)
qed

text \<open>The bars that count have numbers for their lowest and highest price, and of these those with a volume are shared out.\<close>

definition drawn :: "bar \<Rightarrow> bool" where
  "drawn b = (is_finite (br_low b) \<and> is_finite (br_high b))"

definition bar_volume :: "bar \<Rightarrow> jsnum" where
  "bar_volume b = (case br_volume b of Some v \<Rightarrow> v | None \<Rightarrow> 0)"

definition traded_volume :: "bar list \<Rightarrow> jsnum" where
  "traded_volume bars = foldl (\<lambda>t b. if drawn b \<and> 0 < bar_volume b then t + bar_volume b else t) 0 bars"

lemma add_bar_whole:
  "snd (add_bar lo step n b acc) = (if drawn b \<and> 0 < bar_volume b then snd acc + bar_volume b else snd acc)"
  by (auto simp: add_bar_def drawn_def bar_volume_def Let_def split: prod.split)

lemma add_bars_whole:
  "snd (fold (add_bar lo step n) bars acc) =
   foldl (\<lambda>t b. if drawn b \<and> 0 < bar_volume b then t + bar_volume b else t) (snd acc) bars"
  by (induction bars arbitrary: acc) (simp_all add: add_bar_whole)

lemma js_sum_pos: "0 \<le> x \<Longrightarrow> 0 < v \<Longrightarrow> canonical v \<Longrightarrow> 0 < x + (v :: jsnum)"
proof (cases x; cases v)
  fix a b assume x: "0 \<le> x" "x = Fin a" and v: "0 < v" "canonical v" "v = Fin b"
  then have "num b \<le> num (a + b)" by (intro num_mono) (simp add: zero_Fin)
  with x v canonical_fixed [of b] show ?thesis by (auto intro: js_less_le_trans)
qed (auto simp: zero_Fin)

lemma traded_volume_pos:
  assumes "\<forall>b \<in> set bars. canonical (bar_volume b)"
  shows "\<not> traded_volume bars \<le> 0 \<longleftrightarrow> (\<exists>b \<in> set bars. drawn b \<and> 0 < bar_volume b)"
proof -
  let ?f = "\<lambda>t b. if drawn b \<and> 0 < bar_volume b then t + bar_volume b else t"
  have "0 \<le> foldl ?f t bars \<and> (0 < foldl ?f t bars \<longleftrightarrow> 0 < t \<or> (\<exists>b \<in> set bars. drawn b \<and> 0 < bar_volume b))"
    if "0 \<le> t" for t
    using assms that
  proof (induction bars arbitrary: t)
    case (Cons b bars)
    have pos: "0 \<le> ?f t b" "drawn b \<Longrightarrow> 0 < bar_volume b \<Longrightarrow> 0 < ?f t b"
      using Cons.prems js_sum_pos [of t "bar_volume b"] by (auto intro: js_less_imp_le)
    with Cons.IH [of "?f t b"] Cons.prems show ?case by (auto split: if_splits)
  qed simp
  moreover have "0 \<le> (0 :: jsnum)" by (simp add: zero_Fin)
  ultimately have "0 \<le> traded_volume bars"
      and iff: "0 < traded_volume bars \<longleftrightarrow> (\<exists>b \<in> set bars. drawn b \<and> 0 < bar_volume b)"
    unfolding traded_volume_def by simp_all
  from this(1) have "\<not> traded_volume bars \<le> 0 \<longleftrightarrow> 0 < traded_volume bars"
    by (intro js_not_le) (auto simp: zero_Fin)
  with iff show ?thesis by simp
qed

text \<open>The extent goes from the lowest price of a bar to the highest of one.\<close>

lemma widen_attained:
  "(fst (fold widen bars e) = fst e \<or> (\<exists>b \<in> set bars. drawn b \<and> fst (fold widen bars e) = br_low b)) \<and>
   (snd (fold widen bars e) = snd e \<or> (\<exists>b \<in> set bars. drawn b \<and> snd (fold widen bars e) = br_high b))"
  if "fst e \<noteq> NaN" "snd e \<noteq> NaN"
  using that
proof (induction bars arbitrary: e)
  case (Cons b bars)
  have e: "fst (widen b e) \<noteq> NaN" "snd (widen b e) \<noteq> NaN"
    using Cons.prems by (auto simp: widen_def math_min_not_NaN math_max_not_NaN dest: finite_not_NaN)
  have w: "fst (widen b e) = fst e \<or> drawn b \<and> fst (widen b e) = br_low b"
    "snd (widen b e) = snd e \<or> drawn b \<and> snd (widen b e) = br_high b"
    using Cons.prems by (auto simp: widen_def drawn_def math_min_def math_max_def dest: finite_not_NaN)
  note IH = Cons.IH [OF e]
  show ?case
  proof
    show "fst (fold widen (b # bars) e) = fst e \<or> (\<exists>c \<in> set (b # bars). drawn c \<and> fst (fold widen (b # bars) e) = br_low c)"
      using IH [THEN conjunct1] w(1) by auto
    show "snd (fold widen (b # bars) e) = snd e \<or> (\<exists>c \<in> set (b # bars). drawn c \<and> snd (fold widen (b # bars) e) = br_high c)"
      using IH [THEN conjunct2] w(2) by auto
  qed
qed simp

lemma wide_ends: "x < (y :: jsnum) \<Longrightarrow> x \<noteq> PInf \<and> y \<noteq> NInf"
  by (cases x; cases y) simp_all

lemma price_span_wide:
  "fst (price_span bars) < snd (price_span bars) \<longleftrightarrow>
   (\<exists>b \<in> set bars. \<exists>c \<in> set bars. drawn b \<and> drawn c \<and> br_low b < br_high c)"
proof
  assume w: "fst (price_span bars) < snd (price_span bars)"
  note ends = wide_ends [OF w]
  obtain b c where "b \<in> set bars" "drawn b" "fst (price_span bars) = br_low b" "c \<in> set bars" "drawn c"
      "snd (price_span bars) = br_high c"
    using widen_attained [of "(PInf, NInf)" bars] ends by (auto simp: price_span_def)
  with w show "\<exists>b \<in> set bars. \<exists>c \<in> set bars. drawn b \<and> drawn c \<and> br_low b < br_high c" by metis
next
  assume "\<exists>b \<in> set bars. \<exists>c \<in> set bars. drawn b \<and> drawn c \<and> br_low b < br_high c"
  then obtain b c where b: "b \<in> set bars" "drawn b" and c: "c \<in> set bars" "drawn c" and lt: "br_low b < br_high c" by blast
  have "fst (price_span bars) \<le> br_low b" "br_high c \<le> snd (price_span bars)"
    using widen_holds [of "(PInf, NInf)" bars] b c by (simp_all add: price_span_def drawn_def)
  with lt show "fst (price_span bars) < snd (price_span bars)" by (metis js_le_less_trans js_less_le_trans)
qed

lemma price_span_finite:
  assumes "\<forall>b \<in> set bars. \<forall>c \<in> set bars. drawn b \<and> drawn c \<longrightarrow> is_finite (br_high c - br_low b)"
    "fst (price_span bars) < snd (price_span bars)"
  shows "is_finite (snd (price_span bars) - fst (price_span bars))"
proof -
  note ends = wide_ends [OF assms(2)]
  obtain b c where "b \<in> set bars" "drawn b" "fst (price_span bars) = br_low b" "c \<in> set bars" "drawn c"
      "snd (price_span bars) = br_high c"
    using widen_attained [of "(PInf, NInf)" bars] ends by (auto simp: price_span_def)
  with assms(1) show ?thesis by metis
qed

text \<open>The value area: the point of control and rows added around it until their volumes come to the target, or all the
  rows.\<close>

definition area_holds :: "profile_row list \<Rightarrow> jsnum \<Rightarrow> int \<Rightarrow> int \<Rightarrow> int \<Rightarrow> bool" where
  "area_holds rows target poc l h =
     (0 \<le> l \<and> l \<le> poc \<and> poc \<le> h \<and> h < int (length rows) \<and>
      (\<exists>added. mset [l..h] = {#poc#} + mset added \<and>
         (\<not> foldl (\<lambda>x i. x + row_size rows i) (row_size rows poc) added < target \<or> l = 0 \<and> h = int (length rows) - 1)))"

definition profile_ok :: "jsnum \<Rightarrow> nat \<Rightarrow> volume_profile \<Rightarrow> bool" where
  "profile_ok target n p =
     (length (vp_rows p) = n \<and> vp_poc p < n \<and> vp_max p = row_size (vp_rows p) (int (vp_poc p)) \<and>
      list_all (\<lambda>r. 0 \<le> vr_up r \<and> 0 \<le> vr_down r \<and> vr_up r + vr_down r \<le> vp_max p) (vp_rows p) \<and>
      area_holds (vp_rows p) target (int (vp_poc p)) (vp_valueLow p) (vp_valueHigh p))"

text \<open>C35: A volume profile is found exactly where the bars have a range and a volume; else it is undefined, as the code says.
  It has as many rows as asked for, no row holds a negative volume or more than the point of control, and the value area
  is a run of rows around it that grows until it holds the asked share of the volume traded, or is all of them. Supposed
  are volumes that are numbers a program can hold and prices whose differences are finite.\<close>

theorem volume_profile_found:
  assumes "\<forall>b \<in> set bars. \<forall>c \<in> set bars. drawn b \<and> drawn c \<longrightarrow> is_finite (br_high c - br_low b)"
    "\<forall>b \<in> set bars. canonical (bar_volume b)" "is_finite rowCount"
  shows "if (\<exists>b \<in> set bars. \<exists>c \<in> set bars. drawn b \<and> drawn c \<and> br_low b < br_high c) \<and>
            (\<exists>b \<in> set bars. drawn b \<and> 0 < bar_volume b)
    then \<exists>p. volumeProfile bars rowCount valueArea = Some (Some p) \<and>
           profile_ok (traded_volume bars * math_min 1 (math_max 0 valueArea)) (row_count rowCount) p
    else volumeProfile bars rowCount valueArea = Some None"
proof -
  obtain lo hi where e: "price_span bars = (lo, hi)" by fastforce
  define n where "n = row_count rowCount"
  define step where "step = (hi - lo) / num (of_nat n)"
  obtain rows whole where r: "fold (add_bar lo step n) bars (empty_rows lo hi step n, 0) = (rows, whole)" by fastforce
  have whole: "whole = traded_volume bars"
    using add_bars_whole [of lo step n bars "(empty_rows lo hi step n, 0)"] r by (simp add: traded_volume_def)
  note holds = price_span_wide [of bars] traded_volume_pos [OF assms(2)]
  show ?thesis
  proof (cases "lo < hi \<and> \<not> whole \<le> 0")
    case False
    then have "volumeProfile bars rowCount valueArea = Some None"
      by (cases "lo < hi") (simp_all add: volumeProfile_def e r Let_def flip: n_def step_def)
    with False show ?thesis unfolding holds [symmetric] whole [symmetric] using e by auto
  next
    case True
    then have "is_finite (snd (price_span bars) - fst (price_span bars))"
      using price_span_finite [OF assms(1)] e by simp
    from add_bars_ok [OF this subset_refl, of "(empty_rows lo hi step n, 0)" lo step n]
    have ok: "list_all row_ok rows" "length rows = n" using empty_rows_ok r by simp_all
    have n: "0 < n" using row_count_pos assms(3) by (simp add: n_def)
    have size: "0 \<le> row_size rows i" for i using ok(1) by (rule row_size_ok)
    then have not_NaN: "row_size rows i \<noteq> NaN" for i using js_le_not_NaN by blast
    note poc = busiest_max [of rows, OF not_NaN, of 0, OF n, THEN conjunct1]
    let ?poc = "int (busiest rows n)" and ?target = "whole * math_min 1 (math_max 0 valueArea)"
    obtain l h where area: "grow_area (row_size rows) (int n) ?target (row_size rows ?poc) ?poc ?poc = Some (l, h)"
      "area_holds rows ?target ?poc l h"
      using grow_area_ends [of "int n" "row_size rows" ?poc ?poc ?target "row_size rows ?poc"] size poc
      by (auto simp: area_holds_def ok(2))
    have "list_all (\<lambda>r. 0 \<le> vr_up r \<and> 0 \<le> vr_down r \<and> vr_up r + vr_down r \<le> row_size rows ?poc) rows"
      using rows_below_poc [OF ok(1)] not_NaN ok(2) by simp
    with area ok(2) poc have "\<exists>p. volumeProfile bars rowCount valueArea = Some (Some p) \<and> profile_ok ?target n p"
      using True by (simp add: volumeProfile_def profile_ok_def e r Let_def flip: n_def step_def)
    with True show ?thesis unfolding holds [symmetric] whole [symmetric] n_def [symmetric] using e by simp
  qed
qed

definition one_bar :: bar where
  "one_bar = \<lparr>br_open = 0, br_high = Fin 10, br_low = 0, br_close = 1, br_volume = Some (Fin 5)\<rparr>"

theorem volume_profile_found_witness:
  "\<exists>p. volumeProfile [one_bar] (Fin 4) 1 = Some (Some p) \<and> length (vp_rows p) = row_count (Fin 4)"
proof -
  have "num 5 = Fin 5" using num_of_int [of 5] by simp
  then have "canonical (Fin 5)" by (metis canonical_num)
  then show ?thesis
    using volume_profile_found [of "[one_bar]" "Fin 4" 1]
    by (auto simp: one_bar_def drawn_def bar_volume_def minus_jsnum_def zero_Fin profile_ok_def)
qed

section \<open>Levels the price has passed\<close>

lemma length_add_at [simp]: "length (add_at i amount xs) = length xs"
  by (simp add: add_at_def split: option.split)

definition liq_shape :: "nat \<Rightarrow> liq_state \<Rightarrow> bool" where
  "liq_shape rows s = (length (lq_longs s) = rows \<and> length (lq_shorts s) = rows)"

lemma open_lots_shape:
  "liq_shape rows s \<Longrightarrow> liq_shape rows (fold (open_lot lo step n typical notional) mix s) \<and>
    lq_cells (fold (open_lot lo step n typical notional) mix s) = lq_cells s"
  by (induction mix arbitrary: s) (simp_all add: liq_shape_def open_lot_def split_def)

lemma open_positions_shape:
  "liq_shape rows s \<Longrightarrow>
   liq_shape rows (open_positions lo step n c oi s) \<and> lq_cells (open_positions lo step n c oi s) = lq_cells s"
  using open_lots_shape [of rows s]
  by (auto simp: open_positions_def Let_def liq_shape_def split: option.split)

text \<open>The rows of a column whose price the candle reached hold nothing.\<close>

definition reached_empty :: "jsnum list \<Rightarrow> candle \<Rightarrow> jsnum list \<Rightarrow> bool" where
  "reached_empty prices c column =
     (length column = length prices \<and>
      list_all (\<lambda>(price, cell). cell = 0)
        (filter (\<lambda>(price, cell). to_number (k_low c) \<le> price \<and> price \<le> to_number (k_high c)) (zip prices column)))"

lemma cleared_column:
  assumes "length longs = length prices" "length shorts = length prices"
  shows "reached_empty prices c
    (map2 (+) (map2 (\<lambda>price v. if to_number (k_low c) \<le> price then 0 else v) prices longs)
              (map2 (\<lambda>price v. if price \<le> to_number (k_high c) then 0 else v) prices shorts))"
proof -
  have "length prices = length longs" "length longs = length shorts" using assms by simp_all
  then show ?thesis
    by (induction prices longs shorts rule: list_induct3) (auto simp: reached_empty_def zero_Fin)
qed

lemma liq_hour_step:
  assumes "liq_shape (length prices) s"
  shows "liq_shape (length prices) (liq_hour lo step n prices points c s) \<and>
    (\<exists>column. lq_cells (liq_hour lo step n prices points c s) = lq_cells s @ [column] \<and> reached_empty prices c column)"
  using open_positions_shape [OF assms, of lo step n c] cleared_column [of _ prices _ c]
  by (simp add: liq_hour_def Let_def clear_reached_def liq_shape_def split: option.split)

lemma liq_hours:
  "liq_shape (length prices) s \<Longrightarrow>
   \<exists>columns. lq_cells (fold (liq_hour lo step n prices points) cs s) = lq_cells s @ columns \<and>
     list_all2 (reached_empty prices) cs columns"
proof (induction cs arbitrary: s)
  case (Cons c cs)
  with liq_hour_step [OF Cons.prems, of lo step n points c] obtain column where
    "lq_cells (liq_hour lo step n prices points c s) = lq_cells s @ [column]" "reached_empty prices c column"
    "liq_shape (length prices) (liq_hour lo step n prices points c s)" by blast
  moreover from Cons.IH [OF this(3)] obtain columns where
    "lq_cells (fold (liq_hour lo step n prices points) cs (liq_hour lo step n prices points c s)) =
       lq_cells (liq_hour lo step n prices points c s) @ columns" "list_all2 (reached_empty prices) cs columns" by blast
  ultimately show ?case by (intro exI [of _ "column # columns"]) simp
qed simp

text \<open>C36: A liquidation map has a column for every candle and in it a cell for every price, and the cells whose price the
  candle reached are empty: what would have been liquidated there is gone.\<close>

theorem reached_levels_are_empty:
  "case liquidationMap candles points rows of None \<Rightarrow> True
   | Some m \<Rightarrow> length (lm_prices m) = rows \<and> list_all2 (reached_empty (lm_prices m)) candles (lm_cells m)"
proof (cases "liquidationMap candles points rows")
  case (Some m)
  define prices where "prices = lm_prices m"
  from Some obtain lo step where m: "length prices = rows"
    "lm_cells m = lq_cells (fold (liq_hour lo step rows prices points) candles
        \<lparr>lq_longs = replicate rows 0, lq_shorts = replicate rows 0, lq_prevOi = None, lq_cells = [], lq_max = 0\<rparr>)"
    by (auto simp: liquidationMap_def Let_def prices_def split: if_splits)
  with liq_hours [of prices "\<lparr>lq_longs = replicate rows 0, lq_shorts = replicate rows 0, lq_prevOi = None, lq_cells = [],
      lq_max = 0\<rparr>" lo step rows points candles] show ?thesis
    by (auto simp: Some liq_shape_def simp flip: prices_def)
qed simp

end
