(* ===== verification/Journal.thy ===== *)
theory Journal
  imports Accounts
begin

text \<open>
  The trader's plan, playbooks, days and trade notes as they are read back, the first half of
  \<^verbatim>\<open>apps/desktop/src/lib/journal.ts\<close>. A record another version wrote, or a hand, reads as a
  whole one. What is stored is the value \<open>JSON.stringify\<close> makes of a record: a field that is
  undefined is left out. A key of an object is taken as one of its own.
\<close>

section \<open>Reading\<close>

text \<open>A field of \<open>obj(raw)\<close>: of an object that is not an array, else nothing.\<close>

definition jfield :: "json option \<Rightarrow> string \<Rightarrow> json option" where
  "jfield raw k = (case raw of Some (JObj m) \<Rightarrow> obj_get m k | _ \<Rightarrow> None)"

definition read_str :: "nat \<Rightarrow> json option \<Rightarrow> string" where
  "read_str most raw = (case as_str raw of Some s \<Rightarrow> take most s | None \<Rightarrow> [])"

definition read_num :: "jsnum \<Rightarrow> jsnum \<Rightarrow> json option \<Rightarrow> jsnum option" where
  "read_num least most raw =
     (case as_num raw of Some n \<Rightarrow> if is_finite n \<and> least \<le> n \<and> n \<le> most then Some n else None | None \<Rightarrow> None)"

definition NUM_MAX :: jsnum where
  "NUM_MAX = Fin 1000000000000000"

definition read_strs :: "nat \<Rightarrow> nat \<Rightarrow> json option \<Rightarrow> string list" where
  "read_strs most each raw = map (take each) (take most (List.map_filter (\<lambda>x. as_str (Some x)) (arr_or_nil raw)))"

definition one_of :: "(string \<times> 'a) list \<Rightarrow> 'a \<Rightarrow> json option \<Rightarrow> 'a" where
  "one_of names fallback raw = or_else (name_in names raw) fallback"

definition read_some :: "(string \<times> 'a) list \<Rightarrow> json option \<Rightarrow> 'a list" where
  "read_some names raw = List.map_filter (obj_get names) (read_strs 200 400 raw)"

definition read_time :: "json option \<Rightarrow> jsnum option" where
  "read_time raw = read_num 0 (Fin 100000000000000) raw"

definition is_true :: "json option \<Rightarrow> bool" where
  "is_true raw = (raw = Some (JBool True))"

text \<open>\<open>/^([01]\d|2[0-3]):[0-5]\d$/\<close>\<close>

definition is_hhmm :: "string \<Rightarrow> bool" where
  "is_hhmm s =
     (case s of
        [a, b, c, d, e] \<Rightarrow>
          (a \<in> {CHR ''0'', CHR ''1''} \<and> is_digit b \<or> a = CHR ''2'' \<and> b \<in> set ''0123'') \<and>
          c = CHR '':'' \<and> d \<in> set ''012345'' \<and> is_digit e
      | _ \<Rightarrow> False)"

definition read_hhmm :: "string \<Rightarrow> json option \<Rightarrow> string" where
  "read_hhmm fallback raw = (case as_str raw of Some s \<Rightarrow> if is_hhmm s then s else fallback | None \<Rightarrow> fallback)"

text \<open>What is stored of an object: the fields that are there.\<close>

definition obj_of :: "(string \<times> json option) list \<Rightarrow> json" where
  "obj_of kvs = JObj (List.map_filter (\<lambda>kv. map_option (Pair (fst kv)) (snd kv)) kvs)"

definition flag :: "bool \<Rightarrow> json option" where
  "flag b = (if b then Some (JBool True) else None)"

definition jnum :: "jsnum option \<Rightarrow> json option" where
  "jnum v = map_option JNum v"

definition jstrs :: "string list \<Rightarrow> json option" where
  "jstrs xs = Some (JArr (map JStr xs))"

section \<open>Markets and rules\<close>

definition ALL_MARKETS :: string where
  "ALL_MARKETS = ''all:*''"

definition allOf :: "string \<Rightarrow> string" where
  "allOf quot = ''all:'' @ quot"

definition isMarketRule :: "string \<Rightarrow> bool" where
  "isMarketRule i = starts_with i ''all:''"

definition ruleQuote :: "string \<Rightarrow> string" where
  "ruleQuote i = drop 4 i"

definition ends_with :: "'a list \<Rightarrow> 'a list \<Rightarrow> bool" where
  "ends_with s e = (length e \<le> length s \<and> drop (length s - length e) s = e)"

text \<open>\<open>id.replace(/-?PERP$/, "USDC")\<close>\<close>

definition perp_as_usdc :: "string \<Rightarrow> string" where
  "perp_as_usdc i =
     (if ends_with i ''-PERP'' then take (length i - 5) i @ ''USDC''
      else if ends_with i ''PERP'' then take (length i - 4) i @ ''USDC'' else i)"

definition repairCut :: "string list \<Rightarrow> nat \<Rightarrow> string list" where
  "repairCut ids most =
     (if length ids \<noteq> most \<or> list_ex isMarketRule ids then ids
      else (case uniq (map (\<lambda>i. if ends_with (perp_as_usdc i) ''USDT'' then ''USDT'' else ''USDC'') ids) of
              [quot] \<Rightarrow> [allOf quot]
            | _ \<Rightarrow> ids))"

definition allMarketsRule :: "string list \<Rightarrow> string list" where
  "allMarketsRule ids =
     (if list_ex isMarketRule ids then ALL_MARKETS # filter (\<lambda>i. \<not> isMarketRule i) ids else ids)"

definition read_markets :: "nat \<Rightarrow> json option \<Rightarrow> string list" where
  "read_markets most raw = allMarketsRule (repairCut (read_strs 1000 80 raw) most)"

section \<open>The plan\<close>

record version_note =
  vn_version :: jsnum
  vn_at :: jsnum
  vn_note :: string

record if_then =
  it_when :: string
  it_action :: string

record plan =
  pl_name :: string
  pl_goal :: string
  pl_target :: jsnum
  pl_startBalance :: jsnum
  pl_riskPct :: jsnum
  pl_maxTradesPerDay :: jsnum
  pl_dailyStop :: jsnum
  pl_maxLossesInRow :: jsnum
  pl_days :: "bool list"
  pl_start :: string
  pl_end :: string
  pl_markets :: "string list"
  pl_playbookIds :: "string list"
  pl_before :: "string list"
  pl_after :: "string list"
  pl_creed :: string
  pl_ifThens :: "if_then list"
  pl_version :: jsnum
  pl_changes :: "version_note list"

definition newPlan :: plan where
  "newPlan = \<lparr>pl_name = [], pl_goal = [], pl_target = 0, pl_startBalance = 0, pl_riskPct = num (1 / 2),
     pl_maxTradesPerDay = Fin 4, pl_dailyStop = 0, pl_maxLossesInRow = Fin 2,
     pl_days = [True, True, True, True, True, False, False], pl_start = ''12:00'', pl_end = ''16:00'',
     pl_markets = [], pl_playbookIds = [], pl_before = [], pl_after = [], pl_creed = [], pl_ifThens = [],
     pl_version = 1, pl_changes = []\<rparr>"

definition read_version :: "json \<Rightarrow> version_note" where
  "read_version v =
     \<lparr>vn_version = or_else (read_num 1 (Fin 1000000) (jfield (Some v) ''version'')) 1,
      vn_at = or_else (read_time (jfield (Some v) ''at'')) 0, vn_note = read_str 500 (jfield (Some v) ''note'')\<rparr>"

definition read_versions :: "json option \<Rightarrow> version_note list" where
  "read_versions raw = map read_version (take 100 (arr_or_nil raw))"

definition read_if_then :: "json \<Rightarrow> if_then" where
  "read_if_then v = \<lparr>it_when = read_str 300 (jfield (Some v) ''when''), it_action = read_str 300 (jfield (Some v) ''action'')\<rparr>"

definition read_days :: "json option \<Rightarrow> bool list" where
  "read_days raw =
     (case raw of Some (JArr xs) \<Rightarrow> if length xs = 7 then map truthy xs else pl_days newPlan | _ \<Rightarrow> pl_days newPlan)"

definition normalizePlan :: "json option \<Rightarrow> plan" where
  "normalizePlan raw =
     (let sessions = jfield raw ''sessions''; routine = jfield raw ''routine'' in
      \<lparr>pl_name = read_str 120 (jfield raw ''name''),
       pl_goal = read_str 500 (jfield raw ''goal''),
       pl_target = or_else (read_num 0 NUM_MAX (jfield raw ''target'')) 0,
       pl_startBalance = or_else (read_num 0 NUM_MAX (jfield raw ''startBalance'')) 0,
       pl_riskPct = or_else (read_num 0 (Fin 100) (jfield raw ''riskPct'')) (pl_riskPct newPlan),
       pl_maxTradesPerDay = or_else (read_num 0 (Fin 1000) (jfield raw ''maxTradesPerDay'')) (pl_maxTradesPerDay newPlan),
       pl_dailyStop = or_else (read_num 0 NUM_MAX (jfield raw ''dailyStop'')) 0,
       pl_maxLossesInRow = or_else (read_num 0 (Fin 100) (jfield raw ''maxLossesInRow'')) (pl_maxLossesInRow newPlan),
       pl_days = read_days (jfield sessions ''days''),
       pl_start = read_hhmm (pl_start newPlan) (jfield sessions ''start''),
       pl_end = read_hhmm (pl_end newPlan) (jfield sessions ''end''),
       pl_markets = read_markets 100 (jfield raw ''markets''),
       pl_playbookIds = read_strs 100 40 (jfield raw ''playbookIds''),
       pl_before = read_strs 30 400 (jfield routine ''before''),
       pl_after = read_strs 30 400 (jfield routine ''after''),
       pl_creed = read_str 1000 (jfield raw ''creed''),
       pl_ifThens = map read_if_then (take 20 (arr_or_nil (jfield raw ''ifThens''))),
       pl_version = or_else (read_num 1 (Fin 1000000) (jfield raw ''version'')) 1,
       pl_changes = read_versions (jfield raw ''changes'')\<rparr>)"

definition version_json :: "version_note \<Rightarrow> json" where
  "version_json v = JObj [(''version'', JNum (vn_version v)), (''at'', JNum (vn_at v)), (''note'', JStr (vn_note v))]"

definition if_then_json :: "if_then \<Rightarrow> json" where
  "if_then_json v = JObj [(''when'', JStr (it_when v)), (''action'', JStr (it_action v))]"

definition plan_json :: "plan \<Rightarrow> json" where
  "plan_json p = JObj
     [(''name'', JStr (pl_name p)), (''goal'', JStr (pl_goal p)), (''target'', JNum (pl_target p)),
      (''startBalance'', JNum (pl_startBalance p)), (''riskPct'', JNum (pl_riskPct p)),
      (''maxTradesPerDay'', JNum (pl_maxTradesPerDay p)), (''dailyStop'', JNum (pl_dailyStop p)),
      (''maxLossesInRow'', JNum (pl_maxLossesInRow p)),
      (''sessions'', JObj [(''days'', JArr (map JBool (pl_days p))), (''start'', JStr (pl_start p)), (''end'', JStr (pl_end p))]),
      (''markets'', JArr (map JStr (pl_markets p))), (''playbookIds'', JArr (map JStr (pl_playbookIds p))),
      (''routine'', JObj [(''before'', JArr (map JStr (pl_before p))), (''after'', JArr (map JStr (pl_after p)))]),
      (''creed'', JStr (pl_creed p)), (''ifThens'', JArr (map if_then_json (pl_ifThens p))),
      (''version'', JNum (pl_version p)), (''changes'', JArr (map version_json (pl_changes p)))]"

section \<open>Playbooks\<close>

record check_item =
  ck_id :: string
  ck_text :: string
  ck_required :: bool

datatype playbook_status = ActiveBook | DraftBook | RetiredBook

definition PLAYBOOK_STATUSES :: "(string \<times> playbook_status) list" where
  "PLAYBOOK_STATUSES = [(''active'', ActiveBook), (''draft'', DraftBook), (''retired'', RetiredBook)]"

datatype direction = LongOnly | ShortOnly | BothWays

definition DIRECTIONS :: "(string \<times> direction) list" where
  "DIRECTIONS = [(''long'', LongOnly), (''short'', ShortOnly), (''both'', BothWays)]"

record playbook =
  pb_name :: string
  pb_status :: playbook_status
  pb_direction :: direction
  pb_timeframe :: string
  pb_markets :: "string list"
  pb_thesis :: string
  pb_context :: "string list"
  pb_trigger :: string
  pb_invalidIf :: string
  pb_cancelAfter :: jsnum
  pb_checklist :: "check_item list"
  pb_stop :: string
  pb_target :: string
  pb_riskPct :: jsnum
  pb_minRR :: jsnum
  pb_management :: "string list"
  pb_version :: jsnum
  pb_versions :: "version_note list"

definition newPlaybook :: playbook where
  "newPlaybook = \<lparr>pb_name = [], pb_status = DraftBook, pb_direction = LongOnly, pb_timeframe = ''1h'', pb_markets = [],
     pb_thesis = [], pb_context = [], pb_trigger = [], pb_invalidIf = [], pb_cancelAfter = Fin 3, pb_checklist = [],
     pb_stop = [], pb_target = [], pb_riskPct = num (1 / 2), pb_minRR = Fin 2, pb_management = [], pb_version = 1,
     pb_versions = []\<rparr>"

text \<open>\<open>s || t\<close>\<close>

definition or_text :: "string \<Rightarrow> string \<Rightarrow> string" where
  "or_text s t = (if s = [] then t else s)"

definition read_item :: "nat \<Rightarrow> json \<Rightarrow> check_item" where
  "read_item i c =
     \<lparr>ck_id = or_text (read_str 40 (jfield (Some c) ''id'')) (CHR ''c'' # int_str (int i)),
      ck_text = read_str 300 (jfield (Some c) ''text''), ck_required = (jfield (Some c) ''required'' \<noteq> Some (JBool False))\<rparr>"

definition read_checklist :: "json option \<Rightarrow> check_item list" where
  "read_checklist raw = map (\<lambda>(i, c). read_item i c) (enumerate 0 (take 30 (arr_or_nil raw)))"

definition normalizePlaybook :: "json option \<Rightarrow> playbook" where
  "normalizePlaybook raw =
     \<lparr>pb_name = read_str 120 (jfield raw ''name''),
      pb_status = one_of PLAYBOOK_STATUSES DraftBook (jfield raw ''status''),
      pb_direction = one_of DIRECTIONS LongOnly (jfield raw ''direction''),
      pb_timeframe = or_text (read_str 60 (jfield raw ''timeframe'')) (pb_timeframe newPlaybook),
      pb_markets = read_markets 50 (jfield raw ''markets''),
      pb_thesis = read_str 2000 (jfield raw ''thesis''),
      pb_context = read_strs 20 300 (jfield raw ''context''),
      pb_trigger = read_str 1000 (jfield raw ''trigger''),
      pb_invalidIf = read_str 500 (jfield raw ''invalidIf''),
      pb_cancelAfter = or_else (read_num 0 (Fin 1000) (jfield raw ''cancelAfter'')) (pb_cancelAfter newPlaybook),
      pb_checklist = read_checklist (jfield raw ''checklist''),
      pb_stop = read_str 300 (jfield raw ''stop''),
      pb_target = read_str 300 (jfield raw ''target''),
      pb_riskPct = or_else (read_num 0 (Fin 100) (jfield raw ''riskPct'')) (pb_riskPct newPlaybook),
      pb_minRR = or_else (read_num 0 (Fin 100) (jfield raw ''minRR'')) (pb_minRR newPlaybook),
      pb_management = read_strs 20 300 (jfield raw ''management''),
      pb_version = or_else (read_num 1 (Fin 1000000) (jfield raw ''version'')) 1,
      pb_versions = read_versions (jfield raw ''versions'')\<rparr>"

definition item_json :: "check_item \<Rightarrow> json" where
  "item_json c = JObj [(''id'', JStr (ck_id c)), (''text'', JStr (ck_text c)), (''required'', JBool (ck_required c))]"

definition playbook_json :: "playbook \<Rightarrow> json" where
  "playbook_json p = JObj
     [(''name'', JStr (pb_name p)), (''status'', JStr (name_of PLAYBOOK_STATUSES (pb_status p))),
      (''direction'', JStr (name_of DIRECTIONS (pb_direction p))), (''timeframe'', JStr (pb_timeframe p)),
      (''markets'', JArr (map JStr (pb_markets p))), (''thesis'', JStr (pb_thesis p)),
      (''context'', JArr (map JStr (pb_context p))), (''trigger'', JStr (pb_trigger p)),
      (''invalidIf'', JStr (pb_invalidIf p)), (''cancelAfter'', JNum (pb_cancelAfter p)),
      (''checklist'', JArr (map item_json (pb_checklist p))), (''stop'', JStr (pb_stop p)),
      (''target'', JStr (pb_target p)), (''riskPct'', JNum (pb_riskPct p)), (''minRR'', JNum (pb_minRR p)),
      (''management'', JArr (map JStr (pb_management p))), (''version'', JNum (pb_version p)),
      (''versions'', JArr (map version_json (pb_versions p)))]"

end
