(* ===== verification/Journal_Days.thy ===== *)
theory Journal_Days
  imports Journal
begin

text \<open>
  The days and the trade notes of the journal, \<^verbatim>\<open>apps/desktop/src/lib/journal.ts\<close>: their
  shapes, how they are read back, and what is stored of them.
\<close>

datatype mood =
  Calm | Focused | Patient | Confident | Excited | Impatient | Anxious | Tired | Frustrated | Fomo | Satisfied

definition MOODS :: "(string \<times> mood) list" where
  "MOODS = [(''calm'', Calm), (''focused'', Focused), (''patient'', Patient), (''confident'', Confident),
     (''excited'', Excited), (''impatient'', Impatient), (''anxious'', Anxious), (''tired'', Tired),
     (''frustrated'', Frustrated), (''fomo'', Fomo), (''satisfied'', Satisfied)]"

datatype rule_break = NoPlaybook | OutsideSession | PastMaxTrades | OffPlanMarket | SizeOver | MovedStop

definition BREAKS :: "(string \<times> rule_break) list" where
  "BREAKS = [(''noPlaybook'', NoPlaybook), (''outsideSession'', OutsideSession), (''pastMaxTrades'', PastMaxTrades),
     (''offPlanMarket'', OffPlanMarket), (''sizeOver'', SizeOver), (''movedStop'', MovedStop)]"

datatype day_bias_way = BiasLong | BiasNeutral | BiasShort

definition BIASES :: "(string \<times> day_bias_way) list" where
  "BIASES = [(''long'', BiasLong), (''neutral'', BiasNeutral), (''short'', BiasShort)]"

datatype level_kind = Support | Resistance | EntryLevel | TargetLevel | StopLevel | PlainLevel

definition LEVEL_KINDS :: "(string \<times> level_kind) list" where
  "LEVEL_KINDS = [(''support'', Support), (''resistance'', Resistance), (''entry'', EntryLevel),
     (''target'', TargetLevel), (''stop'', StopLevel), (''level'', PlainLevel)]"

section \<open>A day\<close>

record day_level =
  lvl_kind :: level_kind
  lvl_label :: string
  lvl_price :: string
  lvl_note :: string

record day_bias =
  dbi_bias :: day_bias_way
  dbi_note :: string
  dbi_levels :: string
  dbi_levelList :: "day_level list"
  dbi_addedAt :: "jsnum option"
  dbi_conviction :: "jsnum option"
  dbi_riskPct :: "jsnum option"
  dbi_maxTrades :: "jsnum option"

record day_intent =
  int_bias :: "day_bias_way option"
  int_conviction :: "jsnum option"
  int_riskCap :: "jsnum option"
  int_maxTrades :: "jsnum option"

record timed_note =
  tmn_at :: jsnum
  tmn_text :: string
  tmn_mood :: "mood option"

record checkin =
  chk_planRead :: "jsnum option"
  chk_newsChecked :: bool
  chk_levelsMarked :: bool
  chk_sleep :: "jsnum option"
  chk_focus :: "jsnum option"
  chk_energy :: "jsnum option"
  chk_mind :: string
  chk_moods :: "mood list"

record day_review =
  rvw_adherence :: "jsnum option"
  rvw_process :: "jsnum option"
  rvw_outcome :: "jsnum option"
  rvw_right :: string
  rvw_wrong :: string
  rvw_lesson :: string
  rvw_tomorrow :: string
  rvw_tags :: "string list"
  rvw_tilt :: "jsnum option"
  rvw_confidence :: "jsnum option"
  rvw_energyLeft :: "jsnum option"
  rvw_savedAt :: "jsnum option"

record journal_day =
  jd_checkin :: checkin
  jd_markets :: "day_bias obj"
  jd_intent :: day_intent
  jd_plan :: string
  jd_noTrade :: "string list"
  jd_startedAt :: "jsnum option"
  jd_addenda :: "timed_note list"
  jd_notes :: "timed_note list"
  jd_review :: day_review
  jd_finalizedAt :: "jsnum option"
  jd_pinned :: bool
  jd_attachments :: "string list"
  jd_clearedAt :: "jsnum option"

text \<open>A label that is not there and an empty one read alike; so do no levels and an empty list of them.\<close>

definition read_level :: "json \<Rightarrow> day_level" where
  "read_level x =
     (let l = Some x in
      \<lparr>lvl_kind = one_of LEVEL_KINDS PlainLevel (jfield l ''kind''), lvl_label = js_trim (read_str 40 (jfield l ''label'')),
       lvl_price = read_str 40 (jfield l ''price''), lvl_note = read_str 120 (jfield l ''note'')\<rparr>)"

definition dayLevels :: "json option \<Rightarrow> day_level list" where
  "dayLevels raw = map read_level (take 12 (arr_or_nil raw))"

definition read_bias :: "json option \<Rightarrow> day_bias" where
  "read_bias m =
     \<lparr>dbi_bias = one_of BIASES BiasNeutral (jfield m ''bias''), dbi_note = read_str 2000 (jfield m ''note''),
      dbi_levels = read_str 300 (jfield m ''levels''), dbi_levelList = dayLevels (jfield m ''levelList''),
      dbi_addedAt = read_time (jfield m ''addedAt''), dbi_conviction = read_num 1 (Fin 5) (jfield m ''conviction''),
      dbi_riskPct = read_num 0 (Fin 100) (jfield m ''riskPct''), dbi_maxTrades = read_num 0 (Fin 1000) (jfield m ''maxTrades'')\<rparr>"

definition read_bias_of :: "string \<times> json \<Rightarrow> day_bias obj \<Rightarrow> day_bias obj" where
  "read_bias_of kv m = obj_set m (take 80 (fst kv)) (read_bias (Some (snd kv)))"

definition read_biases :: "json option \<Rightarrow> day_bias obj" where
  "read_biases raw = fold read_bias_of (take 30 (case raw of Some (JObj m) \<Rightarrow> m | _ \<Rightarrow> [])) []"

definition read_timed :: "json \<Rightarrow> timed_note" where
  "read_timed x =
     (let n = Some x in
      \<lparr>tmn_at = or_else (read_time (jfield n ''at'')) 0, tmn_text = read_str 4000 (jfield n ''text''),
       tmn_mood = name_in MOODS (jfield n ''mood'')\<rparr>)"

definition timed :: "json option \<Rightarrow> timed_note list" where
  "timed raw = map read_timed (take 200 (arr_or_nil raw))"

definition read_checkin :: "json option \<Rightarrow> checkin" where
  "read_checkin c =
     \<lparr>chk_planRead = read_time (jfield c ''planRead''), chk_newsChecked = is_true (jfield c ''newsChecked''),
      chk_levelsMarked = is_true (jfield c ''levelsMarked''), chk_sleep = read_num 0 (Fin 24) (jfield c ''sleep''),
      chk_focus = read_num 1 (Fin 5) (jfield c ''focus''), chk_energy = read_num 1 (Fin 10) (jfield c ''energy''),
      chk_mind = read_str 500 (jfield c ''mind''), chk_moods = read_some MOODS (jfield c ''moods'')\<rparr>"

definition read_intent :: "json option \<Rightarrow> day_intent" where
  "read_intent i =
     \<lparr>int_bias = (case jfield i ''bias'' of None \<Rightarrow> None | Some v \<Rightarrow> Some (one_of BIASES BiasNeutral (Some v))),
      int_conviction = read_num 1 (Fin 5) (jfield i ''conviction''), int_riskCap = read_num 0 (Fin 100) (jfield i ''riskCap''),
      int_maxTrades = read_num 0 (Fin 1000) (jfield i ''maxTrades'')\<rparr>"

definition read_review :: "json option \<Rightarrow> day_review" where
  "read_review r =
     \<lparr>rvw_adherence = read_num 0 (Fin 100) (jfield r ''adherence''), rvw_process = read_num 0 (Fin 10) (jfield r ''process''),
      rvw_outcome = read_num 0 (Fin 10) (jfield r ''outcome''), rvw_right = read_str 4000 (jfield r ''right''),
      rvw_wrong = read_str 4000 (jfield r ''wrong''), rvw_lesson = read_str 500 (jfield r ''lesson''),
      rvw_tomorrow = read_str 4000 (jfield r ''tomorrow''), rvw_tags = read_strs 30 60 (jfield r ''tags''),
      rvw_tilt = read_num 0 (Fin 10) (jfield r ''tilt''), rvw_confidence = read_num 0 (Fin 10) (jfield r ''confidence''),
      rvw_energyLeft = read_num 0 (Fin 10) (jfield r ''energyLeft''), rvw_savedAt = read_time (jfield r ''savedAt'')\<rparr>"

definition normalizeDay :: "json option \<Rightarrow> journal_day" where
  "normalizeDay o' =
     \<lparr>jd_checkin = read_checkin (jfield o' ''checkin''), jd_markets = read_biases (jfield o' ''markets''),
      jd_intent = read_intent (jfield o' ''intent''), jd_plan = read_str 4000 (jfield o' ''plan''),
      jd_noTrade = read_strs 20 200 (jfield o' ''noTrade''), jd_startedAt = read_time (jfield o' ''startedAt''),
      jd_addenda = timed (jfield o' ''addenda''), jd_notes = timed (jfield o' ''notes''),
      jd_review = read_review (jfield o' ''review''), jd_finalizedAt = read_time (jfield o' ''finalizedAt''),
      jd_pinned = is_true (jfield o' ''pinned''), jd_attachments = read_strs 20 120 (jfield o' ''attachments''),
      jd_clearedAt = read_time (jfield o' ''clearedAt'')\<rparr>"

text \<open>A cleared day nothing has been written in since.\<close>

definition isBlankDay :: "journal_day \<Rightarrow> bool" where
  "isBlankDay d =
     (jd_clearedAt d \<noteq> None \<and> jd_startedAt d = None \<and> jd_finalizedAt d = None \<and> rvw_savedAt (jd_review d) = None \<and>
      chk_planRead (jd_checkin d) = None \<and> chk_sleep (jd_checkin d) = None \<and> chk_moods (jd_checkin d) = [] \<and>
      jd_markets d = [] \<and> jd_notes d = [] \<and> jd_addenda d = [] \<and> jd_plan d = [] \<and> rvw_lesson (jd_review d) = [] \<and>
      jd_attachments d = [])"

definition newDay :: journal_day where
  "newDay =
     \<lparr>jd_checkin = \<lparr>chk_planRead = None, chk_newsChecked = False, chk_levelsMarked = False, chk_sleep = None,
        chk_focus = None, chk_energy = None, chk_mind = [], chk_moods = []\<rparr>,
      jd_markets = [], jd_intent = \<lparr>int_bias = None, int_conviction = None, int_riskCap = None, int_maxTrades = None\<rparr>,
      jd_plan = [], jd_noTrade = [], jd_startedAt = None, jd_addenda = [], jd_notes = [],
      jd_review = \<lparr>rvw_adherence = None, rvw_process = None, rvw_outcome = None, rvw_right = [], rvw_wrong = [],
        rvw_lesson = [], rvw_tomorrow = [], rvw_tags = [], rvw_tilt = None, rvw_confidence = None,
        rvw_energyLeft = None, rvw_savedAt = None\<rparr>,
      jd_finalizedAt = None, jd_pinned = False, jd_attachments = [], jd_clearedAt = None\<rparr>"

text \<open>A level's price as typed, where it is one.\<close>

definition levelPrice :: "string \<Rightarrow> jsnum option" where
  "levelPrice s =
     (let n = to_number (filter (\<lambda>c. c \<noteq> CHR '','' \<and> \<not> is_space c) s) in if is_finite n \<and> 0 < n then Some n else None)"

text \<open>The levels as one line, with a middle dot between them; levels with no price are left out.\<close>

definition level_text :: "(level_kind \<Rightarrow> string) \<Rightarrow> day_level \<Rightarrow> string" where
  "level_text label l =
     or_text (js_trim (lvl_label l)) (label (lvl_kind l)) @ '' '' @ js_trim (lvl_price l) @
     (if js_trim (lvl_note l) \<noteq> [] then '' ('' @ js_trim (lvl_note l) @ '')'' else [])"

fun joined :: "string \<Rightarrow> string list \<Rightarrow> string" where
  "joined sep [] = []"
| "joined sep [s] = s"
| "joined sep (s # t # ts) = s @ sep @ joined sep (t # ts)"

definition levelsText :: "day_level list \<Rightarrow> (level_kind \<Rightarrow> string) \<Rightarrow> string" where
  "levelsText levels label =
     take 300 (joined ('' '' @ [CHR 0xB7] @ '' '') (map (level_text label) (filter (\<lambda>l. js_trim (lvl_price l) \<noteq> []) levels)))"

section \<open>A trade note\<close>

record trade_figures =
  tf_venue :: string
  tf_market :: string
  tf_side :: position_side
  tf_size :: jsnum
  tf_entryPrice :: jsnum
  tf_exitPrice :: jsnum
  tf_pnl :: jsnum
  tf_entryValue :: jsnum
  tf_leverage :: "jsnum option"
  tf_openedAt :: "jsnum option"
  tf_closedAt :: jsnum
  tf_fees :: "jsnum option"
  tf_funding :: "jsnum option"
  tf_best :: "jsnum option"
  tf_worst :: "jsnum option"

record ticked_item =
  tki_item :: check_item
  tki_checked :: bool

record reflection =
  rfl_right :: string
  rfl_wrong :: string
  rfl_lesson :: string
  rfl_adherence :: "jsnum option"
  rfl_process :: "jsnum option"
  rfl_outcome :: "jsnum option"
  rfl_savedAt :: "jsnum option"

record trade_note =
  tn_trade :: trade_figures
  tn_playbookId :: "string option"
  tn_playbookVersion :: "jsnum option"
  tn_plannedEntry :: "jsnum option"
  tn_plannedStop :: "jsnum option"
  tn_plannedTarget :: "jsnum option"
  tn_riskAmount :: "jsnum option"
  tn_thesis :: string
  tn_invalidIf :: string
  tn_checklist :: "ticked_item list"
  tn_conviction :: "jsnum option"
  tn_sleep :: "jsnum option"
  tn_energy :: "jsnum option"
  tn_focus :: "jsnum option"
  tn_moods :: "mood list"
  tn_tags :: "string list"
  tn_breaks :: "rule_break list"
  tn_intended :: "rule_break list"
  tn_notes :: string
  tn_attachments :: "string list"
  tn_reflection :: reflection

definition newNote :: "trade_figures \<Rightarrow> trade_note" where
  "newNote t = \<lparr>tn_trade = t, tn_playbookId = None, tn_playbookVersion = None, tn_plannedEntry = None,
     tn_plannedStop = None, tn_plannedTarget = None, tn_riskAmount = None, tn_thesis = [], tn_invalidIf = [],
     tn_checklist = [], tn_conviction = None, tn_sleep = None, tn_energy = None, tn_focus = None, tn_moods = [],
     tn_tags = [], tn_breaks = [], tn_intended = [], tn_notes = [], tn_attachments = [],
     tn_reflection = \<lparr>rfl_right = [], rfl_wrong = [], rfl_lesson = [], rfl_adherence = None, rfl_process = None,
       rfl_outcome = None, rfl_savedAt = None\<rparr>\<rparr>"

definition read_figures :: "json option \<Rightarrow> jsnum \<Rightarrow> jsnum \<Rightarrow> trade_figures" where
  "read_figures t sz closedAt =
     \<lparr>tf_venue = read_str 30 (jfield t ''venue''), tf_market = read_str 80 (jfield t ''market''),
      tf_side = (if jfield t ''side'' = Some (JStr ''short'') then Short else Long), tf_size = sz,
      tf_entryPrice = or_else (read_num 0 NUM_MAX (jfield t ''entryPrice'')) 0,
      tf_exitPrice = or_else (read_num 0 NUM_MAX (jfield t ''exitPrice'')) 0,
      tf_pnl = or_else (read_num (- NUM_MAX) NUM_MAX (jfield t ''pnl'')) 0,
      tf_entryValue = or_else (read_num 0 NUM_MAX (jfield t ''entryValue'')) 0,
      tf_leverage = read_num 0 (Fin 1000) (jfield t ''leverage''), tf_openedAt = read_time (jfield t ''openedAt''),
      tf_closedAt = closedAt, tf_fees = read_num (- NUM_MAX) NUM_MAX (jfield t ''fees''),
      tf_funding = read_num (- NUM_MAX) NUM_MAX (jfield t ''funding''),
      tf_best = read_num 0 NUM_MAX (jfield t ''best''), tf_worst = read_num 0 NUM_MAX (jfield t ''worst'')\<rparr>"

definition read_reflection :: "json option \<Rightarrow> reflection" where
  "read_reflection r =
     \<lparr>rfl_right = read_str 4000 (jfield r ''right''), rfl_wrong = read_str 4000 (jfield r ''wrong''),
      rfl_lesson = read_str 500 (jfield r ''lesson''), rfl_adherence = read_num 0 (Fin 100) (jfield r ''adherence''),
      rfl_process = read_num 0 (Fin 10) (jfield r ''process''), rfl_outcome = read_num 0 (Fin 10) (jfield r ''outcome''),
      rfl_savedAt = read_time (jfield r ''savedAt'')\<rparr>"

definition read_ticked :: "json option \<Rightarrow> ticked_item list" where
  "read_ticked raw =
     (let items = take 30 (arr_or_nil raw)
      in map (\<lambda>(c, item). \<lparr>tki_item = c, tki_checked = is_true (jfield (Some item) ''checked'')\<rparr>)
           (zip (read_checklist (Some (JArr items))) items))"

definition normalizeNote :: "json option \<Rightarrow> trade_note option" where
  "normalizeNote o' =
     (let t = jfield o' ''trade''
      in case (read_time (jfield t ''closedAt''), read_num 0 NUM_MAX (jfield t ''size''), as_str (jfield t ''market'')) of
           (Some closedAt, Some sz, Some _) \<Rightarrow> Some
             \<lparr>tn_trade = read_figures t sz closedAt,
              tn_playbookId = map_option (take 40) (as_str (jfield o' ''playbookId'')),
              tn_playbookVersion = read_num 1 (Fin 1000000) (jfield o' ''playbookVersion''),
              tn_plannedEntry = read_num 0 NUM_MAX (jfield o' ''plannedEntry''),
              tn_plannedStop = read_num 0 NUM_MAX (jfield o' ''plannedStop''),
              tn_plannedTarget = read_num 0 NUM_MAX (jfield o' ''plannedTarget''),
              tn_riskAmount = read_num 0 NUM_MAX (jfield o' ''riskAmount''),
              tn_thesis = read_str 2000 (jfield o' ''thesis''), tn_invalidIf = read_str 500 (jfield o' ''invalidIf''),
              tn_checklist = read_ticked (jfield o' ''checklist''),
              tn_conviction = read_num 1 (Fin 5) (jfield o' ''conviction''), tn_sleep = read_num 0 (Fin 24) (jfield o' ''sleep''),
              tn_energy = read_num 1 (Fin 10) (jfield o' ''energy''), tn_focus = read_num 1 (Fin 10) (jfield o' ''focus''),
              tn_moods = read_some MOODS (jfield o' ''moods''), tn_tags = read_strs 30 60 (jfield o' ''tags''),
              tn_breaks = read_some BREAKS (jfield o' ''breaks''), tn_intended = read_some BREAKS (jfield o' ''intended''),
              tn_notes = read_str 20000 (jfield o' ''notes''), tn_attachments = read_strs 20 120 (jfield o' ''attachments''),
              tn_reflection = read_reflection (jfield o' ''reflection'')\<rparr>
         | _ \<Rightarrow> None)"

section \<open>What is stored\<close>

definition level_json :: "day_level \<Rightarrow> json" where
  "level_json l = obj_of
     [(''kind'', Some (JStr (name_of LEVEL_KINDS (lvl_kind l)))),
      (''label'', if lvl_label l = [] then None else Some (JStr (lvl_label l))),
      (''price'', Some (JStr (lvl_price l))), (''note'', Some (JStr (lvl_note l)))]"

definition bias_json :: "day_bias \<Rightarrow> json" where
  "bias_json b = obj_of
     [(''bias'', Some (JStr (name_of BIASES (dbi_bias b)))), (''note'', Some (JStr (dbi_note b))),
      (''levels'', Some (JStr (dbi_levels b))),
      (''levelList'', if dbi_levelList b = [] then None else Some (JArr (map level_json (dbi_levelList b)))),
      (''addedAt'', jnum (dbi_addedAt b)), (''conviction'', jnum (dbi_conviction b)),
      (''riskPct'', jnum (dbi_riskPct b)), (''maxTrades'', jnum (dbi_maxTrades b))]"

definition timed_json :: "timed_note \<Rightarrow> json" where
  "timed_json n = obj_of
     [(''at'', Some (JNum (tmn_at n))), (''text'', Some (JStr (tmn_text n))),
      (''mood'', map_option (\<lambda>m. JStr (name_of MOODS m)) (tmn_mood n))]"

definition checkin_json :: "checkin \<Rightarrow> json" where
  "checkin_json c = obj_of
     [(''planRead'', jnum (chk_planRead c)), (''newsChecked'', flag (chk_newsChecked c)),
      (''levelsMarked'', flag (chk_levelsMarked c)), (''sleep'', jnum (chk_sleep c)), (''focus'', jnum (chk_focus c)),
      (''energy'', jnum (chk_energy c)), (''mind'', Some (JStr (chk_mind c))),
      (''moods'', jstrs (map (name_of MOODS) (chk_moods c)))]"

definition intent_json :: "day_intent \<Rightarrow> json" where
  "intent_json i = obj_of
     [(''bias'', map_option (\<lambda>b. JStr (name_of BIASES b)) (int_bias i)), (''conviction'', jnum (int_conviction i)),
      (''riskCap'', jnum (int_riskCap i)), (''maxTrades'', jnum (int_maxTrades i))]"

definition review_json :: "day_review \<Rightarrow> json" where
  "review_json r = obj_of
     [(''adherence'', jnum (rvw_adherence r)), (''process'', jnum (rvw_process r)), (''outcome'', jnum (rvw_outcome r)),
      (''right'', Some (JStr (rvw_right r))), (''wrong'', Some (JStr (rvw_wrong r))),
      (''lesson'', Some (JStr (rvw_lesson r))), (''tomorrow'', Some (JStr (rvw_tomorrow r))),
      (''tags'', jstrs (rvw_tags r)), (''tilt'', jnum (rvw_tilt r)), (''confidence'', jnum (rvw_confidence r)),
      (''energyLeft'', jnum (rvw_energyLeft r)), (''savedAt'', jnum (rvw_savedAt r))]"

definition day_json :: "journal_day \<Rightarrow> json" where
  "day_json d = obj_of
     [(''checkin'', Some (checkin_json (jd_checkin d))),
      (''markets'', Some (JObj (map (\<lambda>(k, b). (k, bias_json b)) (jd_markets d)))),
      (''intent'', Some (intent_json (jd_intent d))), (''plan'', Some (JStr (jd_plan d))),
      (''noTrade'', jstrs (jd_noTrade d)), (''startedAt'', jnum (jd_startedAt d)),
      (''addenda'', Some (JArr (map timed_json (jd_addenda d)))), (''notes'', Some (JArr (map timed_json (jd_notes d)))),
      (''review'', Some (review_json (jd_review d))), (''finalizedAt'', jnum (jd_finalizedAt d)),
      (''pinned'', flag (jd_pinned d)), (''attachments'', jstrs (jd_attachments d)), (''clearedAt'', jnum (jd_clearedAt d))]"

definition figures_json :: "trade_figures \<Rightarrow> json" where
  "figures_json t = obj_of
     [(''venue'', Some (JStr (tf_venue t))), (''market'', Some (JStr (tf_market t))),
      (''side'', Some (JStr (case tf_side t of Long \<Rightarrow> ''long'' | Short \<Rightarrow> ''short''))), (''size'', Some (JNum (tf_size t))),
      (''entryPrice'', Some (JNum (tf_entryPrice t))), (''exitPrice'', Some (JNum (tf_exitPrice t))),
      (''pnl'', Some (JNum (tf_pnl t))), (''entryValue'', Some (JNum (tf_entryValue t))),
      (''leverage'', jnum (tf_leverage t)), (''openedAt'', jnum (tf_openedAt t)), (''closedAt'', Some (JNum (tf_closedAt t))),
      (''fees'', jnum (tf_fees t)), (''funding'', jnum (tf_funding t)), (''best'', jnum (tf_best t)),
      (''worst'', jnum (tf_worst t))]"

definition ticked_json :: "ticked_item \<Rightarrow> json" where
  "ticked_json i = JObj
     [(''id'', JStr (ck_id (tki_item i))), (''text'', JStr (ck_text (tki_item i))),
      (''required'', JBool (ck_required (tki_item i))), (''checked'', JBool (tki_checked i))]"

definition reflection_json :: "reflection \<Rightarrow> json" where
  "reflection_json r = obj_of
     [(''right'', Some (JStr (rfl_right r))), (''wrong'', Some (JStr (rfl_wrong r))), (''lesson'', Some (JStr (rfl_lesson r))),
      (''adherence'', jnum (rfl_adherence r)), (''process'', jnum (rfl_process r)), (''outcome'', jnum (rfl_outcome r)),
      (''savedAt'', jnum (rfl_savedAt r))]"

definition note_json :: "trade_note \<Rightarrow> json" where
  "note_json n = obj_of
     [(''trade'', Some (figures_json (tn_trade n))), (''playbookId'', map_option JStr (tn_playbookId n)),
      (''playbookVersion'', jnum (tn_playbookVersion n)), (''plannedEntry'', jnum (tn_plannedEntry n)),
      (''plannedStop'', jnum (tn_plannedStop n)), (''plannedTarget'', jnum (tn_plannedTarget n)),
      (''riskAmount'', jnum (tn_riskAmount n)), (''thesis'', Some (JStr (tn_thesis n))),
      (''invalidIf'', Some (JStr (tn_invalidIf n))), (''checklist'', Some (JArr (map ticked_json (tn_checklist n)))),
      (''conviction'', jnum (tn_conviction n)), (''sleep'', jnum (tn_sleep n)), (''energy'', jnum (tn_energy n)),
      (''focus'', jnum (tn_focus n)), (''moods'', jstrs (map (name_of MOODS) (tn_moods n))), (''tags'', jstrs (tn_tags n)),
      (''breaks'', jstrs (map (name_of BREAKS) (tn_breaks n))), (''intended'', jstrs (map (name_of BREAKS) (tn_intended n))),
      (''notes'', Some (JStr (tn_notes n))), (''attachments'', jstrs (tn_attachments n)),
      (''reflection'', Some (reflection_json (tn_reflection n)))]"

end
