(* ===== verification/Journal_Stored.thy ===== *)
theory Journal_Stored
  imports Journal_Days
begin

text \<open>
  What is stored of the journal's records reads back as they were: every record read, whatever it was
  read from, is the same after it is stored and read again.
\<close>

section \<open>One value\<close>

lemma jfield_obj [simp]: "jfield (Some (JObj m)) k = obj_get m k"
  by (simp add: jfield_def)

lemma jfield_obj_of:
  "distinct (map fst kvs) \<Longrightarrow>
   jfield (Some (obj_of kvs)) k = (case obj_get kvs k of Some v \<Rightarrow> v | None \<Rightarrow> None)"
proof (induction kvs)
  case (Cons kv kvs)
  obtain k' v where kv: "kv = (k', v)" by (cases kv)
  show ?case
  proof (cases "k = k'")
    case True
    with Cons.prems kv have "obj_get kvs k = None" by (simp add: obj_get_None)
    with Cons True kv show ?thesis by (auto simp: obj_of_def List.map_filter_simps split: option.split)
  next
    case False
    with Cons kv show ?thesis by (auto simp: obj_of_def List.map_filter_simps split: option.split)
  qed
qed (simp add: obj_of_def List.map_filter_simps)

lemma read_str_back [simp]: "read_str n (Some (JStr (read_str n v))) = read_str n v"
  by (simp add: read_str_def split: option.split)

lemma read_num_back [simp]:
  "read_num a b (jnum (read_num a b v)) = read_num a b v"
  by (auto simp: read_num_def jnum_def split: option.split)

lemma read_num_or [simp]:
  "read_num a b (Some (JNum d)) = Some d \<Longrightarrow>
   or_else (read_num a b (Some (JNum (or_else (read_num a b v) d)))) d = or_else (read_num a b v) d"
  by (auto simp: read_num_def or_else_def split: option.split)

lemma read_time_back [simp]: "read_time (jnum (read_time v)) = read_time v"
  by (simp add: read_time_def)

lemma read_some_number [simp]: "read_num a b (Some (JNum x)) = Some x \<Longrightarrow> or_else (read_num a b (Some (JNum x))) d = x"
  by (simp add: or_else_def)

lemma strs_of [simp]: "List.map_filter (\<lambda>x. as_str (Some x)) (map JStr xs) = xs"
  by (rule map_filter_Some) simp

lemma strs_of_comp [simp]: "List.map_filter (\<lambda>x. as_str (Some x)) (map (JStr \<circ> f) xs) = map f xs"
  using strs_of [of "map f xs"] by (simp del: strs_of)

lemma read_strs_back [simp]: "read_strs n each (jstrs (read_strs n each v)) = read_strs n each v"
  by (simp add: read_strs_def jstrs_def take_map)

lemma one_of_back [simp]:
  "names_ok names \<Longrightarrow> d \<in> snd ` set names \<Longrightarrow>
   one_of names d (Some (JStr (name_of names (one_of names d v)))) = one_of names d v"
proof -
  assume a: "names_ok names" "d \<in> snd ` set names"
  have "one_of names d v \<in> snd ` set names"
    using a(2) name_in_member [of names v] by (auto simp: one_of_def or_else_def split: option.split)
  from name_in_of [OF a(1) this] show ?thesis by (simp add: one_of_def or_else_def)
qed

lemma is_true_back [simp]: "is_true (flag b) = b"
  by (simp add: is_true_def flag_def)

lemma read_hhmm_back [simp]: "is_hhmm d \<Longrightarrow> read_hhmm d (Some (JStr (read_hhmm d v))) = read_hhmm d v"
  by (simp add: read_hhmm_def split: option.split)

lemma read_some_back:
  assumes "names_ok names" "list_all (\<lambda>kv. length (fst kv) \<le> 400) names"
  shows "read_some names (jstrs (map (name_of names) (read_some names v))) = read_some names v"
proof -
  have known: "x \<in> snd ` set names" if "x \<in> set (read_some names v)" for x
  proof -
    from that obtain k where "obj_get names k = Some x"
      by (auto simp: read_some_def List.map_filter_def)
    then have "name_in names (Some (JStr k)) = Some x" by (simp add: name_in_def)
    then show ?thesis by (rule name_in_member)
  qed
  have short: "length (name_of names x) \<le> 400" for x
    using assms(2) by (auto simp: name_of_def list_all_iff split: option.split dest!: find_SomeD)
  have "length (read_some names v) \<le> 200"
    by (simp add: read_some_def List.map_filter_def read_strs_def le_trans [OF length_filter_le])
  moreover have "obj_get names (take 400 (name_of names x)) = Some x" if "x \<in> set (read_some names v)" for x
    using name_in_of [OF assms(1) known [OF that]] short by (simp add: name_in_def)
  moreover have "read_strs 200 400 (jstrs (map f xs)) = map (\<lambda>x. take 400 (f x)) xs"
    if "length xs \<le> 200" for f and xs :: "'a list"
    using that strs_of [of "map f xs"] by (simp add: read_strs_def jstrs_def o_def del: strs_of)
  ultimately show ?thesis
    by (subst read_some_def) (auto intro: map_filter_back)
qed

lemma truthy_bool [simp]: "truthy (JBool b) = b"
  by (simp add: truthy_def)

lemma read_days_back [simp]: "read_days (Some (JArr (map JBool (read_days v)))) = read_days v"
  by (auto simp: read_days_def newPlan_def o_def split: option.splits json.splits)

lemma markets_rule_back: "allMarketsRule (repairCut (allMarketsRule (repairCut xs n)) n) = allMarketsRule (repairCut xs n)"
proof -
  let ?ys = "repairCut xs n"
  have all: "isMarketRule ALL_MARKETS" by (simp add: isMarketRule_def starts_with_def ALL_MARKETS_def)
  show ?thesis
  proof (cases "list_ex isMarketRule ?ys")
    case True
    then have ys: "allMarketsRule ?ys = ALL_MARKETS # filter (\<lambda>i. \<not> isMarketRule i) ?ys"
      by (simp add: allMarketsRule_def)
    then have "repairCut (allMarketsRule ?ys) n = allMarketsRule ?ys"
      by (simp add: repairCut_def all)
    then show ?thesis using all by (simp add: ys allMarketsRule_def)
  next
    case False
    then have ys: "?ys = xs"
      by (auto simp: repairCut_def isMarketRule_def starts_with_def allOf_def split: list.splits if_splits)
    with False show ?thesis by (simp add: allMarketsRule_def)
  qed
qed

section \<open>Plans and playbooks\<close>

lemma or_else_simps [simp]: "or_else (Some x) d = x" "or_else None d = d"
  by (simp_all add: or_else_def)

lemma num_bounds [simp]:
  "0 \<le> NUM_MAX" "(0 :: jsnum) \<le> 0" "(1 :: jsnum) \<le> 1" "is_finite 0" "is_finite 1"
  by (simp_all add: NUM_MAX_def zero_Fin one_Fin)

lemma version_back [simp]: "read_version (version_json (read_version v)) = read_version v"
  by (simp add: read_version_def version_json_def read_time_def)
     (simp add: read_num_def zero_Fin one_Fin or_else_def split: option.split)

lemma versions_back [simp]: "read_versions (Some (JArr (map version_json (read_versions v)))) = read_versions v"
  by (simp add: read_versions_def take_map o_def)

lemma if_then_back [simp]: "read_if_then (if_then_json (read_if_then v)) = read_if_then v"
  by (simp add: read_if_then_def if_then_json_def)

lemma defaults_read [simp]:
  "read_num 0 (Fin 100) (Some (JNum (num (1 / 2)))) = Some (num (1 / 2))"
  "read_num 0 NUM_MAX (Some (JNum 0)) = Some 0" "read_num 1 (Fin 1000000) (Some (JNum 1)) = Some 1"
  "read_num 0 (Fin 1000) (Some (JNum (Fin 4))) = Some (Fin 4)" "read_num 0 (Fin 100) (Some (JNum (Fin 2))) = Some (Fin 2)"
  "read_num 0 (Fin 1000) (Some (JNum (Fin 3))) = Some (Fin 3)"
  "is_hhmm ''12:00''" "is_hhmm ''16:00''"
  by code_simp+

lemma short_strs: "length xs \<le> n \<Longrightarrow> list_all (\<lambda>s. length s \<le> each) xs \<Longrightarrow> read_strs n each (Some (JArr (map JStr xs))) = xs"
  by (simp add: read_strs_def map_idI list_all_iff)

lemma read_strs_short: "length (read_strs n each v) \<le> n \<and> list_all (\<lambda>s. length s \<le> each) (read_strs n each v)"
  by (simp add: read_strs_def list_all_iff)

lemma repairCut_short:
  "length xs \<le> k \<Longrightarrow> 0 < k \<Longrightarrow> list_all (\<lambda>s. length s \<le> 80) xs \<Longrightarrow>
   length (repairCut xs n) \<le> k \<and> list_all (\<lambda>s. length s \<le> 80) (repairCut xs n)"
proof -
  assume a: "length xs \<le> k" "0 < k" "list_all (\<lambda>s. length s \<le> 80) xs"
  let ?f = "\<lambda>i. if ends_with (perp_as_usdc i) ''USDT'' then ''USDT'' else ''USDC''"
  have q: "length q = 4" if "q \<in> set (uniq (map ?f xs))" for q
    using that by (auto split: if_splits)
  show ?thesis
  proof (cases "\<exists>q. uniq (map ?f xs) = [q]")
    case True
    then obtain q' where q': "uniq (map ?f xs) = [q']" by blast
    with q [of q'] a show ?thesis by (simp add: repairCut_def allOf_def)
  next
    case False
    then have "repairCut xs n = xs" by (auto simp: repairCut_def split: list.split)
    with a show ?thesis by simp
  qed
qed

lemma allMarketsRule_short:
  "length xs \<le> k \<Longrightarrow> list_all (\<lambda>s. length s \<le> 80) xs \<Longrightarrow>
   length (allMarketsRule xs) \<le> k \<and> list_all (\<lambda>s. length s \<le> 80) (allMarketsRule xs)"
proof (cases "list_ex isMarketRule xs")
  case True
  then have "length (filter (\<lambda>i. \<not> isMarketRule i) xs) < length xs"
    by (induction xs) (auto simp: less_Suc_eq_le)
  moreover assume "length xs \<le> k" "list_all (\<lambda>s. length s \<le> 80) xs"
  ultimately show ?thesis using True by (auto simp: allMarketsRule_def ALL_MARKETS_def list_all_iff)
qed (simp add: allMarketsRule_def)

lemma markets_back [simp]: "read_markets n (Some (JArr (map JStr (read_markets n v)))) = read_markets n v"
proof -
  let ?xs = "repairCut (read_strs 1000 80 v) n"
  have "length ?xs \<le> 1000 \<and> list_all (\<lambda>s. length s \<le> 80) ?xs"
    using read_strs_short [of 1000 80 v] by (intro repairCut_short) simp_all
  then have "length (read_markets n v) \<le> 1000 \<and> list_all (\<lambda>s. length s \<le> 80) (read_markets n v)"
    unfolding read_markets_def by (intro allMarketsRule_short) simp_all
  then have "read_strs 1000 80 (Some (JArr (map JStr (read_markets n v)))) = read_markets n v"
    by (intro short_strs) simp_all
  then show ?thesis by (subst read_markets_def) (simp add: markets_rule_back read_markets_def)
qed

lemma strs_back_arr [simp]: "read_strs n each (Some (JArr (map JStr (read_strs n each v)))) = read_strs n each v"
  using read_strs_back [of n each v] by (simp only: jstrs_def)

lemma plan_back: "normalizePlan (Some (plan_json (normalizePlan raw))) = normalizePlan raw"
  by (simp add: normalizePlan_def plan_json_def newPlan_def Let_def)

lemma short_number: "i < 100 \<Longrightarrow> length (int_str (int i)) \<le> 2"
  by (subst int_str.simps; subst int_str.simps) (auto simp: zdiv_int)

lemma or_text_back:
  "t \<noteq> [] \<Longrightarrow> length t \<le> n \<Longrightarrow> or_text (read_str n (Some (JStr (or_text (read_str n v) t)))) t = or_text (read_str n v) t"
  by (auto simp: or_text_def read_str_def split: option.split)

lemma item_back: "i < 100 \<Longrightarrow> read_item i (item_json (read_item i c)) = read_item i c"
  using short_number [of i] by (simp add: read_item_def item_json_def or_text_back)

lemma read_checklist_length: "length (read_checklist v) \<le> 30"
  by (simp add: read_checklist_def)

lemma read_checklist_nth:
  "i < length (read_checklist v) \<Longrightarrow> read_checklist v ! i = read_item i (take 30 (arr_or_nil v) ! i)"
  by (simp add: read_checklist_def nth_enumerate_eq)

lemma checklist_back [simp]: "read_checklist (Some (JArr (map item_json (read_checklist v)))) = read_checklist v"
proof (rule nth_equalityI)
  let ?w = "Some (JArr (map item_json (read_checklist v)))"
  show len: "length (read_checklist ?w) = length (read_checklist v)"
    using read_checklist_length [of v] by (simp add: read_checklist_def [of ?w])
  fix i assume i: "i < length (read_checklist ?w)"
  then have "i < 30" "i < length (read_checklist v)" using read_checklist_length [of ?w] len by simp_all
  with i show "read_checklist ?w ! i = read_checklist v ! i"
    by (simp add: read_checklist_nth item_back read_checklist_nth [of i v])
qed

lemma book_names [simp]:
  "names_ok PLAYBOOK_STATUSES" "names_ok DIRECTIONS"
  "DraftBook \<in> snd ` set PLAYBOOK_STATUSES" "LongOnly \<in> snd ` set DIRECTIONS"
  by (simp_all add: names_ok_def PLAYBOOK_STATUSES_def DIRECTIONS_def)

lemma playbook_back: "normalizePlaybook (Some (playbook_json (normalizePlaybook raw))) = normalizePlaybook raw"
  by (simp add: normalizePlaybook_def playbook_json_def newPlaybook_def or_text_back)

section \<open>Days\<close>

lemma day_names [simp]:
  "names_ok MOODS" "names_ok BREAKS" "names_ok BIASES" "names_ok LEVEL_KINDS"
  "BiasNeutral \<in> snd ` set BIASES" "PlainLevel \<in> snd ` set LEVEL_KINDS"
  by (simp_all add: names_ok_def MOODS_def BREAKS_def BIASES_def LEVEL_KINDS_def)

lemma marks_back [simp]:
  "read_some MOODS (jstrs (map (name_of MOODS) (read_some MOODS v))) = read_some MOODS v"
  "read_some BREAKS (jstrs (map (name_of BREAKS) (read_some BREAKS v))) = read_some BREAKS v"
  by (rule read_some_back; simp add: MOODS_def BREAKS_def names_ok_def)+

lemma trim_dropped: "js_trim (js_trim s) = js_trim s"
proof -
  define t where "t = dropWhile is_space s"
  define u where "u = dropWhile is_space (rev t)"
  have hd_u: "u = [] \<or> \<not> is_space (hd u)" using hd_dropWhile [of is_space "rev t"] by (auto simp: u_def simp del: dropWhile_eq_Nil_conv)
  have "dropWhile is_space (rev u) = rev u"
  proof (cases "u = []")
    case False
    have "\<exists>p. rev t = p @ u" by (metis takeWhile_dropWhile_id u_def)
    then obtain p where "t = rev u @ rev p" by (metis rev_append rev_rev_ident)
    with False have "hd (rev u) = hd t" "t \<noteq> []" by (auto simp: hd_append)
    then have "\<not> is_space (hd (rev u))" unfolding t_def using hd_dropWhile [of is_space s] by metis
    with False show ?thesis by (cases "rev u") auto
  qed simp
  moreover have "dropWhile is_space u = u" using hd_u by (cases u) auto
  ultimately show ?thesis by (simp add: js_trim_def flip: t_def u_def)
qed

lemma length_trim: "length (js_trim s) \<le> length s"
  unfolding js_trim_def by (simp, metis length_dropWhile_le length_rev order_trans)

lemma label_back:
  "js_trim (read_str 40 None) = []"
  "js_trim (read_str 40 (Some (JStr (js_trim (read_str 40 w))))) = js_trim (read_str 40 w)"
proof -
  have "length (js_trim (read_str 40 w)) \<le> 40"
    using length_trim [of "read_str 40 w"] by (rule order_trans) (simp add: read_str_def split: option.split)
  then show "js_trim (read_str 40 (Some (JStr (js_trim (read_str 40 w))))) = js_trim (read_str 40 w)"
    by (subst (1) read_str_def) (simp add: trim_dropped)
qed (simp add: read_str_def js_trim_def)

lemma level_back [simp]: "read_level (level_json (read_level v)) = read_level v"
  by (simp add: read_level_def level_json_def Let_def jfield_obj_of label_back)

lemma levels_back [simp]:
  "dayLevels None = []" "dayLevels (Some (JArr (map level_json (dayLevels v)))) = dayLevels v"
  by (simp_all add: dayLevels_def take_map o_def)

lemma bias_back [simp]: "read_bias (Some (bias_json (read_bias v))) = read_bias v"
  by (simp add: read_bias_def bias_json_def jfield_obj_of)

lemma obj_set_new: "k \<notin> fst ` set m \<Longrightarrow> obj_set m k v = m @ [(k, v)]"
  by (induction m k v rule: obj_set.induct) auto

text \<open>The markets of a day as they stand after they were read.\<close>

definition biases_ok :: "day_bias obj \<Rightarrow> bool" where
  "biases_ok m =
     (distinct (map fst m) \<and> (\<forall>(k, b) \<in> set m. length k \<le> 80 \<and> read_bias (Some (bias_json b)) = b))"

lemma biases_ok_set:
  "biases_ok m \<Longrightarrow> length k \<le> 80 \<Longrightarrow> read_bias (Some (bias_json b)) = b \<Longrightarrow>
   biases_ok (obj_set m k b) \<and> length (obj_set m k b) \<le> Suc (length m)"
proof -
  have "set (obj_set m k b) \<subseteq> insert (k, b) (set m) \<and> length (obj_set m k b) \<le> Suc (length m)"
    by (induction m k b rule: obj_set.induct) auto
  then show "biases_ok m \<Longrightarrow> length k \<le> 80 \<Longrightarrow> read_bias (Some (bias_json b)) = b \<Longrightarrow> ?thesis"
    by (auto simp: biases_ok_def obj_distinct_set dest!: subsetD)
qed

lemma read_biases_ok: "biases_ok (read_biases v) \<and> length (read_biases v) \<le> 30"
proof -
  have "biases_ok (fold read_bias_of kvs m) \<and> length (fold read_bias_of kvs m) \<le> length m + length kvs"
    if "biases_ok m" for kvs m
    using that
  proof (induction kvs arbitrary: m)
    case (Cons kv kvs)
    have "biases_ok (read_bias_of kv m) \<and> length (read_bias_of kv m) \<le> Suc (length m)"
      unfolding read_bias_of_def using Cons.prems by (intro biases_ok_set) simp_all
    with Cons.IH [of "read_bias_of kv m"] show ?case by fastforce
  qed simp
  from this [of "[]" "take 30 (case v of Some (JObj m) \<Rightarrow> m | _ \<Rightarrow> [])"] show ?thesis
    unfolding read_biases_def by (simp add: biases_ok_def)
qed

lemma biases_fold_back:
  "biases_ok (m @ kvs) \<Longrightarrow> fold read_bias_of (map (\<lambda>(k, b). (k, bias_json b)) kvs) m = m @ kvs"
proof (induction kvs arbitrary: m)
  case (Cons kv kvs)
  obtain k b where kv: "kv = (k, b)" by (cases kv)
  have "read_bias_of (k, bias_json b) m = m @ [(k, b)]"
    using Cons.prems by (simp add: read_bias_of_def kv biases_ok_def obj_set_new)
  then show ?case using Cons.prems Cons.IH [of "m @ [(k, b)]"] by (simp add: kv)
qed simp

lemma biases_back [simp]:
  "read_biases (Some (JObj (map (\<lambda>(k, b). (k, bias_json b)) (read_biases v)))) = read_biases v"
  using read_biases_ok [of v] biases_fold_back [of "[]" "read_biases v"]
  by (subst read_biases_def) simp

lemma mood_back: "names_ok names \<Longrightarrow> name_in names (map_option (\<lambda>m. JStr (name_of names m)) (name_in names v)) = name_in names v"
  using name_in_member [of names v] name_in_of [of names]
  by (cases "name_in names v") (auto simp: name_in_def)

lemma time_or_back [simp]: "or_else (read_time (Some (JNum (or_else (read_time v) 0)))) 0 = or_else (read_time v) 0"
  unfolding read_time_def by (rule read_num_or) (simp add: read_num_def zero_Fin)

lemma timed_back [simp]: "timed (Some (JArr (map timed_json (timed v)))) = timed v"
proof -
  have "read_timed (timed_json (read_timed x)) = read_timed x" for x
    by (simp add: read_timed_def timed_json_def Let_def jfield_obj_of mood_back)
  then show ?thesis by (simp add: timed_def take_map o_def)
qed

lemma checkin_back [simp]: "read_checkin (Some (checkin_json (read_checkin v))) = read_checkin v"
  by (simp add: read_checkin_def checkin_json_def jfield_obj_of)

lemma intent_back [simp]: "read_intent (Some (intent_json (read_intent v))) = read_intent v"
  by (simp add: read_intent_def intent_json_def jfield_obj_of split: option.split)

lemma review_back [simp]: "read_review (Some (review_json (read_review v))) = read_review v"
  by (simp add: read_review_def review_json_def jfield_obj_of)

lemma day_back: "normalizeDay (Some (day_json (normalizeDay raw))) = normalizeDay raw"
  by (simp add: normalizeDay_def day_json_def jfield_obj_of)

section \<open>Notes\<close>

lemma number_back [simp]:
  "read_num a b v = Some x \<Longrightarrow> read_num a b (Some (JNum x)) = Some x"
  "read_time v = Some x \<Longrightarrow> read_time (Some (JNum x)) = Some x"
  by (auto simp: read_time_def read_num_def split: option.splits if_splits)

lemma pnl_read [simp]: "read_num (- NUM_MAX) NUM_MAX (Some (JNum 0)) = Some 0"
  by code_simp

lemma figures_back:
  assumes "read_time v = Some closedAt" "read_num 0 NUM_MAX w = Some sz"
  shows "read_figures (Some (figures_json (read_figures t sz closedAt))) sz closedAt = read_figures t sz closedAt"
    "jfield (Some (figures_json (read_figures t sz closedAt))) ''closedAt'' = Some (JNum closedAt)"
    "jfield (Some (figures_json (read_figures t sz closedAt))) ''size'' = Some (JNum sz)"
    "jfield (Some (figures_json (read_figures t sz closedAt))) ''market'' = Some (JStr (read_str 80 (jfield t ''market'')))"
  using assms by (simp_all add: read_figures_def figures_json_def jfield_obj_of)

lemma ticked_back [simp]: "read_ticked (Some (JArr (map ticked_json (read_ticked v)))) = read_ticked v"
proof (rule nth_equalityI)
  let ?w = "Some (JArr (map ticked_json (read_ticked v)))"
  have short: "length (read_ticked u) \<le> 30" for u
    by (simp add: read_ticked_def Let_def)
  have nth: "read_ticked u ! i = \<lparr>tki_item = read_item i (arr_or_nil u ! i),
      tki_checked = is_true (jfield (Some (arr_or_nil u ! i)) ''checked'')\<rparr>" if "i < length (read_ticked u)" for u i
    using that by (simp add: read_ticked_def Let_def read_checklist_def nth_enumerate_eq)
  show len: "length (read_ticked ?w) = length (read_ticked v)"
    using short [of v] by (simp add: read_ticked_def [of ?w] read_checklist_def Let_def)
  fix i assume i: "i < length (read_ticked ?w)"
  then have v: "i < length (read_ticked v)" "i < 100" using len short [of ?w] by simp_all
  have "read_item i (ticked_json (read_ticked v ! i)) = read_item i (item_json (tki_item (read_ticked v ! i)))"
    by (simp add: read_item_def ticked_json_def item_json_def)
  with i v nth [OF i] nth [OF v(1)] show "read_ticked ?w ! i = read_ticked v ! i"
    by (simp add: item_back ticked_json_def is_true_def)
qed

lemma reflection_back [simp]: "read_reflection (Some (reflection_json (read_reflection v))) = read_reflection v"
  by (simp add: read_reflection_def reflection_json_def jfield_obj_of)

lemma book_id_back [simp]:
  "map_option (take 40) (as_str (map_option JStr (map_option (take 40) (as_str v)))) = map_option (take 40) (as_str v)"
  by (cases "as_str v") simp_all

lemma note_back: "normalizeNote raw = Some n \<Longrightarrow> normalizeNote (Some (note_json n)) = Some n"
proof -
  assume a: "normalizeNote raw = Some n"
  then obtain c sz mk where t: "read_time (jfield (jfield raw ''trade'') ''closedAt'') = Some c"
    "read_num 0 NUM_MAX (jfield (jfield raw ''trade'') ''size'') = Some sz"
    "as_str (jfield (jfield raw ''trade'') ''market'') = Some mk"
    by (auto simp: normalizeNote_def Let_def split: option.splits)
  note f = figures_back [OF t(1,2), of "jfield raw ''trade''"]
  have n: "n = the (normalizeNote raw)" using a by simp
  show ?thesis
    using t unfolding n
    by (simp add: normalizeNote_def Let_def note_json_def jfield_obj_of f number_back(1) [OF t(2)] number_back(2) [OF t(1)])
qed

text \<open>C37: A plan, a playbook, a day or a trade note of the journal, whatever it was read from, is stored so that it reads
  back just as it was.\<close>

theorem journal_reads_back:
  "normalizePlan (Some (plan_json (normalizePlan raw))) = normalizePlan raw \<and>
   normalizePlaybook (Some (playbook_json (normalizePlaybook raw))) = normalizePlaybook raw \<and>
   normalizeDay (Some (day_json (normalizeDay raw))) = normalizeDay raw \<and>
   (case normalizeNote raw of None \<Rightarrow> True | Some n \<Rightarrow> normalizeNote (Some (note_json n)) = Some n)"
  using plan_back playbook_back day_back note_back by (auto split: option.split)

end
