(* ===== verification/Journal_Trades.thy ===== *)
theory Journal_Trades
  imports Journal_Days
begin

text \<open>
  What the journal makes of trades: keys and figures, the second half of
  \<^verbatim>\<open>apps/desktop/src/lib/journal.ts\<close>, and the list of trades with their notes,
  \<^verbatim>\<open>apps/desktop/src/lib/journalTrades.ts\<close>. A time is in milliseconds; a \<open>Date\<close> of
  it drops what is less than one, and has no text where the time is no number or too far off: what asks for it
  throws then, and its result is \<open>None\<close>. A \<open>Map\<close> is an association list in insertion order.
\<close>

section \<open>Days\<close>

text \<open>\<open>new Date(t)\<close>: whole milliseconds, dropping the fraction, or an invalid date.\<close>

definition date_ms :: "jsnum \<Rightarrow> int option" where
  "date_ms t =
     (case t of
        Fin q \<Rightarrow> if 8640000000000000 < \<bar>q\<bar> then None else Some (if 0 \<le> q then \<lfloor>q\<rfloor> else \<lceil>q\<rceil>)
      | _ \<Rightarrow> None)"

definition pad :: "nat \<Rightarrow> int \<Rightarrow> string" where
  "pad n i = (let s = int_str i in replicate (n - length s) (CHR ''0'') @ s)"

text \<open>Year, month and day of a day since 1 January 1970, in the Gregorian calendar: the years are counted from March, in
  eras of 400.\<close>

definition civil_date :: "int \<Rightarrow> int \<times> int \<times> int" where
  "civil_date day =
     (let z = day + 719468; era = z div 146097; doe = z mod 146097;
          yoe = (doe - doe div 1460 + doe div 36524 - doe div 146096) div 365;
          doy = doe - (365 * yoe + yoe div 4 - yoe div 100); mp = (5 * doy + 2) div 153;
          d = doy - (153 * mp + 2) div 5 + 1; m = (if mp < 10 then mp + 3 else mp - 9)
      in (yoe + era * 400 + (if m \<le> 2 then 1 else 0), m, d))"

text \<open>The first ten letters of \<open>toISOString()\<close>, which throws for an invalid date.\<close>

definition iso_year :: "int \<Rightarrow> string" where
  "iso_year y = (if 0 \<le> y \<and> y \<le> 9999 then pad 4 y else (if y < 0 then ''-'' else ''+'') @ pad 6 \<bar>y\<bar>)"

definition utcDay :: "jsnum \<Rightarrow> string option" where
  "utcDay t =
     map_option (\<lambda>ms. case civil_date (ms div 86400000) of (y, m, d) \<Rightarrow>
         take 10 (iso_year y @ ''-'' @ pad 2 m @ ''-'' @ pad 2 d)) (date_ms t)"

definition side_id :: "position_side \<Rightarrow> string" where
  "side_id s = (case s of Long \<Rightarrow> ''long'' | Short \<Rightarrow> ''short'')"


text \<open>A trade the journal hides: closed on a cleared day, by the time it was cleared.\<close>

definition clearedTrade :: "journal_day obj \<Rightarrow> jsnum \<Rightarrow> bool option" where
  "clearedTrade days closedAt =
     map_option (\<lambda>day. case obj_get days day of
         None \<Rightarrow> False | Some d \<Rightarrow> (case jd_clearedAt d of None \<Rightarrow> False | Some t \<Rightarrow> closedAt \<le> t)) (utcDay closedAt)"

section \<open>A trade's figures\<close>




text \<open>1R of the trade: from the planned stop, or the risk written down.\<close>

definition riskOf :: "trade_note \<Rightarrow> jsnum option" where
  "riskOf n =
     (let t = tn_trade n;
          fromStop = (case tn_plannedStop n of
                        Some stop \<Rightarrow> if 0 < stop then Some (\<bar>tf_entryPrice t - stop\<bar> * tf_size t) else None
                      | None \<Rightarrow> None);
          written = (case tn_riskAmount n of Some r \<Rightarrow> if 0 < r then Some r else None | None \<Rightarrow> None)
      in case fromStop of Some r \<Rightarrow> if 0 < r then Some r else written | None \<Rightarrow> written)"

definition rOf :: "trade_note \<Rightarrow> jsnum option" where
  "rOf n = map_option (\<lambda>r. tf_pnl (tn_trade n) / r) (riskOf n)"

definition excursions :: "trade_note \<Rightarrow> jsnum option \<times> jsnum option" where
  "excursions n =
     (case riskOf n of
        None \<Rightarrow> (None, None)
      | Some risk \<Rightarrow>
          (let t = tn_trade n; sgn' = (if tf_side t = Long then 1 else - 1);
               r = map_option (\<lambda>price. sgn' * (price - tf_entryPrice t) * tf_size t / risk)
           in (r (tf_best t), r (tf_worst t))))"

text \<open>A number that is there and neither zero nor NaN.\<close>

definition nonzero :: "jsnum option \<Rightarrow> jsnum option" where
  "nonzero v = (case v of Some n \<Rightarrow> if n = 0 \<or> n = NaN then None else Some n | None \<Rightarrow> None)"

definition plannedRR :: "trade_note \<Rightarrow> jsnum option" where
  "plannedRR n =
     (case (nonzero (tn_plannedStop n), nonzero (tn_plannedTarget n)) of
        (Some stop, Some target) \<Rightarrow>
          (let entry = tf_entryPrice (tn_trade n); risk = \<bar>entry - stop\<bar>
           in if 0 < risk then Some (\<bar>target - entry\<bar> / risk) else None)
      | _ \<Rightarrow> None)"

section \<open>The process\<close>

definition skippedItems :: "trade_note \<Rightarrow> int" where
  "skippedItems n = int (length (filter (\<lambda>c. ck_required (tki_item c) \<and> \<not> tki_checked c) (tn_checklist n)))"

definition byTheBook :: "trade_note \<Rightarrow> bool" where
  "byTheBook n = (tn_playbookId n \<noteq> None \<and> skippedItems n = 0 \<and> tn_breaks n = [])"

text \<open>A playbook is named: there is an id and it is not empty.\<close>

definition has_book :: "trade_note \<Rightarrow> bool" where
  "has_book n = (case tn_playbookId n of Some i \<Rightarrow> i \<noteq> [] | None \<Rightarrow> False)"

datatype grade = GradeA | GradeB | GradeC | GradeD | GradeF

definition gradeOf :: "trade_note \<Rightarrow> grade" where
  "gradeOf n =
     (let points = 4 - skippedItems n - int (length (tn_breaks n)) * 2 - (if has_book n then 0 else 1);
          points = (case rfl_process (tn_reflection n) of Some p \<Rightarrow> if p < Fin 5 then points - 1 else points | None \<Rightarrow> points)
      in if 4 \<le> points then GradeA else if points = 3 then GradeB else if points = 2 then GradeC
         else if points = 1 then GradeD else GradeF)"




definition marketIn :: "string list \<Rightarrow> string \<Rightarrow> string \<Rightarrow> bool" where
  "marketIn ids mk quot =
     list_ex (\<lambda>i. if isMarketRule i then ruleQuote i = ''*'' \<or> ruleQuote i = quot else i = mk) ids"

definition expandMarkets :: "string list \<Rightarrow> (string \<times> string) list \<Rightarrow> string list" where
  "expandMarkets ids markets =
     (let rules = map ruleQuote (filter isMarketRule ids); own = uniq (filter (\<lambda>i. \<not> isMarketRule i) ids)
      in if rules = [] then own
         else (let out = map fst (filter (\<lambda>m. fst m \<in> set own \<or> ''*'' \<in> set rules \<or> snd m \<in> set rules) markets)
               in out @ filter (\<lambda>i. i \<notin> set out) own))"



definition disciplineScore :: "journal_day option \<Rightarrow> trade_note list \<Rightarrow> int" where
  "disciplineScore day notes =
     (let breaks = foldl (\<lambda>n x. n + int (length (tn_breaks x))) 0 notes;
          skipped = foldl (\<lambda>n x. n + skippedItems x) 0 notes;
          reviewed = (case day of None \<Rightarrow> False
                      | Some d \<Rightarrow> (case rvw_savedAt (jd_review d) of Some t \<Rightarrow> t \<noteq> 0 \<and> t \<noteq> NaN | None \<Rightarrow> False));
          unreviewed = (if notes \<noteq> [] \<and> \<not> reviewed then 10 else 0)
      in max 0 (100 - 12 * breaks - 8 * skipped - unreviewed))"

section \<open>The trades of the journal\<close>

record journal_trade =
  jt_key :: string
  jt_closed :: "closed_trade option"
  jt_open :: "position option"
  jt_note :: trade_note
  jt_written :: bool
  jt_adoptedFrom :: "string option"

definition openKey :: "string \<Rightarrow> position_side \<Rightarrow> string" where
  "openKey mk s = ''open:'' @ mk @ '':'' @ side_id s"


definition positionFigures :: "jsnum \<Rightarrow> position \<Rightarrow> jsnum option \<Rightarrow> trade_figures" where
  "positionFigures now p openedAt =
     (let sz = to_number (p_size p); entry = to_number (p_entryPrice p)
      in \<lparr>tf_venue = venue_id (p_venue p), tf_market = p_market p, tf_side = p_side p, tf_size = sz, tf_entryPrice = entry,
          tf_exitPrice = to_number (p_markPrice p), tf_pnl = to_number (p_unrealizedPnl p), tf_entryValue = sz * entry,
          tf_leverage = map_option to_number (p_leverage p), tf_openedAt = openedAt, tf_closedAt = now, tf_fees = None,
          tf_funding = None, tf_best = None, tf_worst = None\<rparr>)"

fun fills_reach :: "jsnum \<Rightarrow> jsnum \<Rightarrow> jsnum \<Rightarrow> fill_record list \<Rightarrow> jsnum option" where
  "fills_reach sz dir held [] = None"
| "fills_reach sz dir held (f # fs) =
     (let held' = held + (if f_side f = Buy then 1 else - 1) * dir * to_number (f_size f)
      in if sz * num (999 / 1000) \<le> held' then Some (f_time f) else fills_reach sz dir held' fs)"

definition openedAtOf :: "position \<Rightarrow> fill_record list \<Rightarrow> jsnum option" where
  "openedAtOf p fills =
     fills_reach (to_number (p_size p)) (if p_side p = Long then 1 else - 1) 0
       (js_sort (\<lambda>a b. f_time b - f_time a < 0) (filter (\<lambda>f. f_market f = p_market p) fills))"

text \<open>\<open>{...stored, ...live}\<close>: live figures over the stored ones, which keep their fees, funding and extremes.\<close>

definition figures_over :: "trade_figures \<Rightarrow> trade_figures \<Rightarrow> trade_figures" where
  "figures_over stored live =
     live\<lparr>tf_fees := tf_fees stored, tf_funding := tf_funding stored, tf_best := tf_best stored, tf_worst := tf_worst stored\<rparr>"

definition open_trade :: "jsnum \<Rightarrow> trade_note obj \<Rightarrow> (position \<Rightarrow> jsnum option) \<Rightarrow> position \<Rightarrow> journal_trade" where
  "open_trade now notes openedAt p =
     (let key = openKey (p_market p) (p_side p); stored = obj_get notes key;
          known = (case stored of Some n \<Rightarrow> tf_openedAt (tn_trade n) | None \<Rightarrow> None);
          live = positionFigures now p (case known of Some t \<Rightarrow> Some t | None \<Rightarrow> openedAt p)
      in \<lparr>jt_key = key, jt_closed = None, jt_open = Some p,
          jt_note = (case stored of Some n \<Rightarrow> n\<lparr>tn_trade := figures_over (tn_trade n) live\<rparr> | None \<Rightarrow> newNote live),
          jt_written = (stored \<noteq> None), jt_adoptedFrom = None\<rparr>)"

definition openTrades :: "jsnum \<Rightarrow> position list \<Rightarrow> trade_note obj \<Rightarrow> (position \<Rightarrow> jsnum option) \<Rightarrow> journal_trade list" where
  "openTrades now positions notes openedAt = map (open_trade now notes openedAt) positions"





definition opened_at :: "journal_trade \<Rightarrow> jsnum" where
  "opened_at t = or_else (tf_openedAt (tn_trade (jt_note t))) (tf_closedAt (tn_trade (jt_note t)))"



text \<open>A trade whose opening is an invalid date: to ask for its day throws.\<close>

definition undated :: "journal_trade \<Rightarrow> bool" where
  "undated t = (utcDay (opened_at t) = None)"


definition nthOfDay :: "journal_trade list \<Rightarrow> string \<Rightarrow> nat option" where
  "nthOfDay trades key =
     (case List.find (\<lambda>t. jt_key t = key) trades of
        None \<Rightarrow> Some 1
      | Some self \<Rightarrow>
          if list_ex undated trades then None
          else Some (length (filter (\<lambda>t. utcDay (opened_at t) = utcDay (opened_at self) \<and> opened_at t \<le> opened_at self) trades)))"

definition tradesTaken :: "journal_trade list \<Rightarrow> journal_trade list \<Rightarrow> string \<Rightarrow> string \<Rightarrow> (nat \<times> nat \<times> nat) option" where
  "tradesTaken ended open' day today =
     (let stillOpen = length (filter (\<lambda>x. case tf_openedAt (tn_trade (jt_note x)) of
                                None \<Rightarrow> day = today | Some t \<Rightarrow> utcDay t = Some day) open');
          done' = length (uniq (map (\<lambda>x. tf_market (tn_trade (jt_note x)) @ '':'' @ side_id (tf_side (tn_trade (jt_note x))) @
                                     '':'' @ num_str (opened_at x))
                          (filter (\<lambda>x. utcDay (opened_at x) = Some day) ended)))
      in if list_ex (\<lambda>x. tf_openedAt (tn_trade (jt_note x)) \<noteq> None \<and> undated x) open' \<or> list_ex undated ended then None
         else Some (done' + stillOpen, stillOpen, done'))"

section \<open>A plan's markets\<close>

definition own_ids :: "string list \<Rightarrow> string set" where
  "own_ids ids = {i \<in> set ids. \<not> isMarketRule i}"

definition taken_in :: "string list \<Rightarrow> string \<Rightarrow> bool" where
  "taken_in ids quot = list_ex (\<lambda>i. isMarketRule i \<and> (ruleQuote i = ''*'' \<or> ruleQuote i = quot)) ids"

lemma expandMarkets_set:
  "set (expandMarkets ids markets) = {mk. \<exists>q. (mk, q) \<in> set markets \<and> taken_in ids q} \<union> own_ids ids"
proof (cases "filter isMarketRule ids = []")
  case True
  then have "\<not> taken_in ids q" for q by (auto simp: taken_in_def list_ex_iff filter_empty_conv)
  with True show ?thesis by (simp add: expandMarkets_def own_ids_def)
next
  case False
  have "''*'' \<in> set (map ruleQuote (filter isMarketRule ids)) \<or> q \<in> set (map ruleQuote (filter isMarketRule ids)) \<longleftrightarrow>
      taken_in ids q" for q
    by (auto simp: taken_in_def list_ex_iff intro: rev_image_eqI)
  with False show ?thesis
    by (auto simp: expandMarkets_def Let_def own_ids_def simp del: set_map set_filter) (auto simp: image_iff)
qed

text \<open>C38: Of the markets a venue lists, a plan's list of ids and rules takes in exactly those it is expanded to; whatever
  else it is expanded to is an id of the list itself.\<close>

theorem market_lists_agree:
  assumes "distinct (map fst markets)" "(mk, quot) \<in> set markets"
  shows "(mk \<in> set (expandMarkets ids markets) \<longleftrightarrow> marketIn ids mk quot) \<and>
    set (expandMarkets ids markets) \<subseteq> fst ` set markets \<union> set ids"
proof
  have "(mk, q) \<in> set markets \<longleftrightarrow> q = quot" for q
    using assms by (metis map_of_is_SomeI option.inject)
  moreover have "marketIn ids mk quot \<longleftrightarrow> mk \<in> own_ids ids \<or> taken_in ids quot"
    by (auto simp: marketIn_def own_ids_def taken_in_def list_ex_iff)
  ultimately show "mk \<in> set (expandMarkets ids markets) \<longleftrightarrow> marketIn ids mk quot"
    by (auto simp: expandMarkets_set)
  show "set (expandMarkets ids markets) \<subseteq> fst ` set markets \<union> set ids"
    by (auto simp: expandMarkets_set own_ids_def image_iff Bex_def)
qed

lemma market_lists_agree_witness:
  "''ETH'' \<in> set (expandMarkets [''all:USDC'', ''BTC''] [(''ETH'', ''USDC''), (''SOL'', ''USDT'')])"
proof -
  have "marketIn [''all:USDC'', ''BTC''] ''ETH'' ''USDC''" by code_simp
  then show ?thesis
    using market_lists_agree [of "[(''ETH'', ''USDC''), (''SOL'', ''USDT'')]" "''ETH''" "''USDC''" "[''all:USDC'', ''BTC'']"]
    by simp
qed

section \<open>No trade and no note is lost\<close>


























end
