(* ===== verification/Spec2Isabelle.thy ===== *)
theory Spec2Isabelle
  imports
    Paper_Effects Paper_Store Replay Preview Tabs Charts_Props Watchlists Alerts_Props Notes_Props Rules_Props Algos
    Pump_Watch Position_Detail Workspace_State Commands_Props Avatars Screener Price_Levels Journal_Stored Journal_Trades
begin

text \<open>
  The trading logic of the pewterdesk desktop terminal.

  The program is a TypeScript page over a Rust core. The page holds the state of one trader: the
  paper account traded without a venue, the order ticket, the pages and charts on screen, the
  alerts, lists, rules and notifications, most of it kept in the browser's storage. This
  development models the functions that decide something; components, translations and the calls
  to Rust are not modelled. Paths are under \<^verbatim>\<open>src/\<close>; \<^verbatim>\<open>lib/\<close> is
  \<^verbatim>\<open>apps/desktop/src/lib/\<close>, \<^verbatim>\<open>ui/\<close> is
  \<^verbatim>\<open>packages/ui/src/lib/\<close>.

  \<^bold>\<open>What everything rests on.\<close>
  \<^theory_text>\<open>Prelude\<close>: objects used as tables, list idioms, the stable sort.
  \<^theory_text>\<open>Interfaces\<close>: the contracts as locales: \<open>machine\<close> (a state moved by events keeps its
  invariant), \<open>bounded_log\<close> (a newest-first list of fixed length), \<open>persisted\<close> (a state saved and
  read back by a reader that trusts nothing). Each is interpreted on the components' own functions:
  \<open>machine\<close> by the paper account, the tabs, the trail, the toasts, the watchlists, the algo list and the connected accounts,
  \<open>bounded_log\<close> by the paper account's records and the notification log, \<open>persisted\<close> by the chart
  setup, the Multi-chart page, the notification settings and the trading rules.
  \<^theory_text>\<open>Js_Num\<close>: JavaScript numbers, each operation rounded to binary64 as IEEE 754 has it, with NaN
  and the infinities; the sign of zero is not kept. Texts of numbers are printed and read by functions
  that compute. \<^theory_text>\<open>Js_Value\<close>: values as \<open>JSON.parse\<close> gives them; a stored text stands as the
  value it parses to. \<^theory_text>\<open>Domain\<close>: the types of
  \<^verbatim>\<open>packages/core/src/generated/domain.ts\<close>.

  \<^bold>\<open>The paper account\<close> (\<^verbatim>\<open>lib/paper.ts\<close>, \<^verbatim>\<open>hooks/usePaper.ts\<close>).
  \<^theory_text>\<open>Paper\<close> has the account, fills and orders, \<^theory_text>\<open>Paper_Tick\<close> what a price brings about.
  \<^theory_text>\<open>Paper_Props\<close> and \<^theory_text>\<open>Paper_Sizes\<close> show the invariant of the account kept by every
  operation; \<^theory_text>\<open>Paper_Net\<close> that fills refine addition of signed sizes;
  \<^theory_text>\<open>Paper_Account\<close> and \<^theory_text>\<open>Paper_Effects\<close> what orders, closes, stops, funding and money
  moved do; \<^theory_text>\<open>Paper_Samples\<close> holds the account the witnesses run on.
  \<^theory_text>\<open>Storage\<close> and \<^theory_text>\<open>Paper_Store\<close> (\<^verbatim>\<open>lib/storageRoom.ts\<close>,
  \<^verbatim>\<open>lib/paperStore.ts\<close>) keep the accounts: a refused write is reported and changes nothing.
  \<^theory_text>\<open>Replay\<close> (\<^verbatim>\<open>lib/replayAccount.ts\<close>) walks the account along past candles: the
  path of a candle meets every price at which an order, a stop-loss or a take-profit waits.
  The browser's quota and the keys it will not remove are parameters of any kind.

  \<^bold>\<open>The ticket\<close> (\<^verbatim>\<open>ui/ticket.ts\<close>, \<^verbatim>\<open>ui/ticketChecks.ts\<close>):
  \<^theory_text>\<open>Ticket\<close>. \<^theory_text>\<open>Preview\<close> joins it to the account: the position it shows, size and entry
  price, is the one the fill leaves, reduce-only or not, for whole sizes up to \<open>2 ^ 52\<close>, where no rounding and no
  tolerance takes part.

  \<^bold>\<open>What is on screen.\<close> \<^theory_text>\<open>Tabs\<close> (\<^verbatim>\<open>lib/tabs.ts\<close>,
  \<^verbatim>\<open>lib/pages.ts\<close>, \<^verbatim>\<open>lib/pageHistory.ts\<close>);
  \<^theory_text>\<open>Indicators\<close> (\<^verbatim>\<open>ui/indicators.ts\<close>, \<^verbatim>\<open>ui/chart.ts\<close>);
  \<^theory_text>\<open>Charts\<close> and \<^theory_text>\<open>Charts_Props\<close> (\<^verbatim>\<open>lib/chartPrefs.ts\<close>,
  \<^verbatim>\<open>lib/multiChart.ts\<close>): round trips through storage, the charts made good against
  the markets. \<^theory_text>\<open>Watchlists\<close> (\<^verbatim>\<open>lib/watchlists.ts\<close>).
  \<^theory_text>\<open>Position_Detail\<close> (\<^verbatim>\<open>ui/positionDetail.ts\<close>, \<^verbatim>\<open>ui/depth.ts\<close>,
  \<^verbatim>\<open>ui/funding.ts\<close>, \<^verbatim>\<open>ui/calculator.ts\<close>): what a position and a book are
  shown with. \<^theory_text>\<open>Pump_Watch\<close> (\<^verbatim>\<open>ui/pumpWatch.ts\<close>): the markets flagged.

  \<^theory_text>\<open>Workspace\<close>, \<^theory_text>\<open>Workspace_Props\<close> and \<^theory_text>\<open>Workspace_State\<close>
  (\<^verbatim>\<open>lib/panels.ts\<close>, \<^verbatim>\<open>lib/workspace.ts\<close>, \<^verbatim>\<open>hooks/useWorkspace.ts\<close>,
  \<^verbatim>\<open>apps/desktop/src/components/layout/WorkspaceGrid.tsx\<close>, and what
  \<^verbatim>\<open>apps/desktop/src/App.tsx\<close> does to them): the panels' layouts. The grid of cells is the code's, and is shown to be the union of the panels; filling the gaps
  ends, keeps panels apart and leaves none that can grow; reading a stored workspace ends in a sound one, unless its layout
  has a panel of a name every object inherits (\<open>odd_current\<close>), which hangs the page; and what the page does to a sound
  one keeps it sound. What the grid library reports of panels dragged and resized is a parameter, held to its documented
  contract (\<open>grid_reports\<close>).

  \<^bold>\<open>What is typed.\<close> \<^theory_text>\<open>Commands\<close>, \<^theory_text>\<open>Cli\<close> and \<^theory_text>\<open>Commands_Props\<close>
  (\<^verbatim>\<open>lib/commands.ts\<close>, \<^verbatim>\<open>lib/cli.ts\<close>, \<^verbatim>\<open>lib/float.ts\<close>): the
  parser of trading lines and the requests they come to; what is understood is about the market named or on screen and about open
  positions, sizes are cut to the market's step, the prices of a scaled order are spread evenly,
  and a closing line sent to the paper account only makes a position smaller. Letters without case or with accents are
  taken as they are.

  \<^bold>\<open>What is watched and told.\<close> \<^theory_text>\<open>Alerts\<close> and \<^theory_text>\<open>Alerts_Props\<close>
  (\<^verbatim>\<open>ui/alerts.ts\<close>, \<^verbatim>\<open>lib/alerts.ts\<close>,
  \<^verbatim>\<open>lib/daemonAlerts.ts\<close>, \<^verbatim>\<open>hooks/useAlerts.ts\<close>): an alert fires on a
  crossing, and then once or after its cooldown. \<^theory_text>\<open>Notes\<close> and \<^theory_text>\<open>Notes_Props\<close>
  (\<^verbatim>\<open>lib/notifications.ts\<close>, \<^verbatim>\<open>ui/toasts.ts\<close>).
  \<^theory_text>\<open>Trading_Rules\<close> and \<^theory_text>\<open>Rules_Props\<close> (\<^verbatim>\<open>lib/tradingRules.ts\<close>):
  the rules within their bounds, the next change of the hours, searched over the minutes of a week,
  which is enough because the hours repeat weekly. \<^theory_text>\<open>Algos\<close>
  (\<^verbatim>\<open>lib/algos.ts\<close>).

  \<^bold>\<open>Accounts.\<close> \<^theory_text>\<open>Accounts\<close> (\<^verbatim>\<open>lib/account.ts\<close>,
  \<^verbatim>\<open>lib/liveTrading.ts\<close>): the connected accounts, each there once, a venue with accounts having one of
  them active; live trading switched for one account at a time. Whether storage works, and what Rust answers, are
  parameters. \<^theory_text>\<open>Avatars\<close> (\<^verbatim>\<open>lib/avatars.ts\<close>): pictures stored and the
  symmetric icon of an account that has none.

  \<^bold>\<open>Markets and prices.\<close> \<^theory_text>\<open>Screener\<close> (\<^verbatim>\<open>ui/screener.ts\<close>,
  \<^verbatim>\<open>ui/movement.ts\<close>): its figures, among them the chart's RSI computed a second way, and signals told
  once. \<^theory_text>\<open>Price_Levels\<close> (\<^verbatim>\<open>ui/volumeProfile.ts\<close>,
  \<^verbatim>\<open>ui/liqModel.ts\<close>): the volume profile and its value area, found exactly where there is a range and a
  volume, and the liquidation map, whose reached levels are empty.

  \<^bold>\<open>The journal.\<close> \<^theory_text>\<open>Journal\<close>, \<^theory_text>\<open>Journal_Days\<close> and
  \<^theory_text>\<open>Journal_Stored\<close> (\<^verbatim>\<open>lib/journal.ts\<close>,
  \<^verbatim>\<open>hooks/useJournal.ts\<close>): plans, playbooks, days and notes, which read back as they were stored.
  \<^theory_text>\<open>Journal_Trades\<close> (\<^verbatim>\<open>lib/journalTrades.ts\<close>): figures, breaks and grades, and
  the list of trades with their notes, which shows all of them. A time that is no date makes the list fail, and then it is
  \<open>None\<close>.

  \<^bold>\<open>Where the code falls short\<close> is proved too: an exit order that outlives its position
  (\<open>exit_order_outlives_position\<close>), a replay that passes trailing stops and liquidation prices between the prices it
  stops at (see \<open>bar_walk_meets_orders\<close>), a chart set's name that is not read back as it was
  saved (\<open>set_name_not_stable\<close>), a list on screen that is not kept (\<open>active_list_dropped\<close>), a refused
  change of the lists that is lost (\<open>refused_change_lost\<close>) and one of the accounts (\<open>refused_account_change_lost\<close>), a stats bar without a width (\<open>bar_lost\<close>), words and ids
  that every object has taken for sides and panels (\<open>odd_side_order\<close>, \<open>inherited_name_hangs\<close>).

  \<^bold>\<open>Loops\<close> are recursions that end: over lists, or with a measure (the charts added up to nine). Three loops may
  not end and are partial functions into options: the growth of a panel, shown to return for every panel with a height
  (\<open>grow_ends\<close>) and to run for ever without one (\<open>grow_endless\<close>); that of a stored panel without sizes, which always runs
  for ever (\<open>grow_unsized_endless\<close>); and the value area of a volume profile, shown to return where no volume is negative
  (\<open>grow_area_ends\<close>). No fuel is used.

  \<^bold>\<open>Not modelled.\<close> Components, styles and translations; the clients of Rust, venues and the cloud;
  React subscriptions and timers around the modelled functions; canvas drawing and the chart
  library; Bollinger Bands, since \<open>Math.sqrt\<close> is not among the number operations; dates in the
  machine's own time zone, which are a parameter where a day is asked for. Fields a reader leaves
  unchecked are read where they have their type. The statistics over closed trades, the market maps and technical
  ratings, and the AI chats and news are not modelled: they show figures and texts and decide nothing the rest depends on.
\<close>

end
